(* ===== verification/Prelude.thy ===== *)
theory Prelude
  imports Main "HOL-Library.Word"
begin

text \<open>
  Shared vocabulary of the development.

  Go's fixed-width integers are words of HOL-Library.Word: \<open>int32\<close> is a
  32-bit word that \<open>sint\<close> reads as a signed value, and so on.  A Go string
  is a sequence of bytes; it is a HOL \<open>string\<close> here (a list of the 256
  characters), so that literals of the source can be written as they are, and
  \<open>str_bytes\<close> and \<open>bytes_str\<close> are the two conversions
  \<open>[]byte(s)\<close> and \<open>string(b)\<close>.  A Go panic is the \<open>Panic\<close>
  case of \<open>outcome\<close>.
\<close>

unbundle bit_operations_syntax

section \<open>Machine types\<close>

type_synonym byte = "8 word"
type_synonym bytes = "byte list"
type_synonym uint16 = "16 word"
type_synonym int32 = "32 word"
type_synonym uint32 = "32 word"
type_synonym int64 = "64 word"

named_theorems go_defs \<open>definitions of the modelled operations that proofs unfold\<close>
named_theorems wire_simps \<open>what a write to an unbounded buffer appends\<close>
named_theorems codec_simps \<open>what a read of an encoded value returns\<close>

section \<open>Strings and bytes\<close>

definition char_byte :: "char \<Rightarrow> byte" where
  "char_byte c = word_of_nat (of_char c)"

definition byte_char :: "byte \<Rightarrow> char" where
  "byte_char b = char_of (unat b)"

definition str_bytes :: "string \<Rightarrow> bytes" where
  "str_bytes s = map char_byte s"

definition bytes_str :: "bytes \<Rightarrow> string" where
  "bytes_str bs = map byte_char bs"

lemma byte_char_inverse [simp]: "byte_char (char_byte c) = c"
proof -
  have "of_char c < (256::nat)" by simp
  then show ?thesis
    by (simp add: byte_char_def char_byte_def unsigned_of_nat take_bit_nat_eq_self)
qed

lemma char_byte_inverse [simp]: "char_byte (byte_char b) = b"
proof -
  have "unat b < 256" using unsigned_less [of b] by simp
  then show ?thesis by (simp add: byte_char_def char_byte_def)
qed

lemma bytes_str_inverse [simp]: "bytes_str (str_bytes s) = s"
  by (simp add: bytes_str_def str_bytes_def comp_def)

lemma str_bytes_inverse [simp]: "str_bytes (bytes_str bs) = bs"
  by (simp add: bytes_str_def str_bytes_def comp_def)

lemma length_str_bytes [simp]: "length (str_bytes s) = length s"
  by (simp add: str_bytes_def)

lemma length_bytes_str [simp]: "length (bytes_str bs) = length bs"
  by (simp add: bytes_str_def)

lemma str_bytes_Nil [simp]: "str_bytes [] = []"
  by (simp add: str_bytes_def)

lemma bytes_str_Nil [simp]: "bytes_str [] = []"
  by (simp add: bytes_str_def)

lemma str_bytes_inject [simp]: "str_bytes s = str_bytes t \<longleftrightarrow> s = t"
  by (metis bytes_str_inverse)

lemma unat_byte_of_nat [simp]: "unat (word_of_nat n :: byte) = n mod 256"
  by (simp add: unat_of_nat)

section \<open>Seven-bit groups of a word\<close>

lemma uint32_and_7f: "unat ((w::uint32) AND 0x7F) = unat w mod 128"
proof -
  have "w AND 0x7F = take_bit 7 w" by (simp add: take_bit_eq_mask mask_eq_exp_minus_1)
  then show ?thesis by (simp only: unsigned_take_bit_eq take_bit_eq_mod) (simp add: unat_mod)
qed

lemma byte_and_7f: "unat ((w::byte) AND 0x7F) = unat w mod 128"
proof -
  have "w AND 0x7F = take_bit 7 w" by (simp add: take_bit_eq_mask mask_eq_exp_minus_1)
  then show ?thesis by (simp only: unsigned_take_bit_eq take_bit_eq_mod) (simp add: unat_mod)
qed

lemma uint32_drop_7: "unat (drop_bit 7 (w::uint32)) = unat w div 128"
  by (simp only: unat_drop_bit_eq drop_bit_eq_div) (simp add: unat_div)

lemma uint32_and_not_7f: "(w::uint32) AND NOT 0x7F = 0 \<longleftrightarrow> unat w < 128"
proof -
  have m: "(0x7F :: uint32) = mask 7" by (simp add: mask_eq_exp_minus_1)
  have "w AND NOT (mask 7) = 0 \<longleftrightarrow> w AND mask 7 = w"
    by (auto simp: bit_eq_iff bit_simps)
  also have "\<dots> \<longleftrightarrow> unat (w AND 0x7F) = unat w"
    unfolding m by (metis unsigned_word_eqI)
  finally show ?thesis unfolding m [symmetric] uint32_and_7f
    by (metis mod_less mod_less_divisor zero_less_numeral)
qed

lemma uint32_and_m128: "(w::uint32) AND - 128 = 0 \<longleftrightarrow> unat w < 128"
  using uint32_and_not_7f [of w] by simp

lemma byte_and_80: "(b::byte) AND 0x80 = 0 \<longleftrightarrow> unat b < 128"
proof -
  have "b AND 0x80 = 0 \<longleftrightarrow> \<not> bit b 7"
    using and_exp_eq_0_iff_not_bit [of b 7] by simp
  also have "bit b 7 \<longleftrightarrow> odd (unat b div 128)"
  proof -
    have "bit b 7 \<longleftrightarrow> bit (unat b) 7" by (simp only: bit_unsigned_iff) simp
    then show ?thesis by (simp only: bit_iff_odd [of "unat b"]) simp
  qed
  also have "\<dots> \<longleftrightarrow> \<not> unat b < 128"
  proof -
    have "unat b < 256" using unsigned_less [of b, where 'a = nat] by simp
    then have "128 \<le> unat b \<Longrightarrow> unat b div 128 = 1" by (intro div_nat_eqI) simp_all
    then show ?thesis by (cases "unat b < 128") (simp_all only: not_less, simp_all)
  qed
  finally show ?thesis by blast
qed

lemma byte_or_80: "unat (b::byte) < 128 \<Longrightarrow> unat (b OR 0x80) = unat b + 128"
proof -
  assume lt: "unat b < 128"
  then have "b AND 0x80 = 0" by (simp only: byte_and_80)
  then have eq: "b OR 0x80 = b + 0x80" by (simp only: disjunctive_add_eq_or)
  show ?thesis unfolding eq using lt by (subst unat_word_ariths) simp
qed

lemma uint32_or_80: "unat (x::uint32) < 128 \<Longrightarrow> unat (x OR 0x80) = unat x + 128"
proof -
  assume lt: "unat x < 128"
  have "bit x 7 \<longleftrightarrow> bit (unat x) 7" by (simp only: bit_unsigned_iff) simp
  also have "\<dots> \<longleftrightarrow> False" using lt by (simp only: bit_iff_odd [of "unat x"]) simp
  finally have "x AND 0x80 = 0" using and_exp_eq_0_iff_not_bit [of x 7] by simp
  then have eq: "x OR 0x80 = x + 0x80" by (simp only: disjunctive_add_eq_or)
  show ?thesis unfolding eq using lt by (subst unat_word_ariths) simp
qed

lemma byte_of_uint32: "(ucast (w::uint32) :: byte) = word_of_nat (unat w)"
  by (simp add: unsigned_ucast_eq)

lemma byte_of_group:
  "(ucast ((w::uint32) AND 0x7F OR 0x80) :: byte) = word_of_nat (unat w mod 128 + 128)"
proof -
  have "unat (w AND 0x7F OR 0x80) = unat w mod 128 + 128"
    using uint32_or_80 [of "w AND 0x7F"] by (simp add: uint32_and_7f)
  then show ?thesis by (simp only: byte_of_uint32)
qed

section \<open>Panics\<close>

datatype 'a outcome = Ret 'a | Panic string

fun obind :: "'a outcome \<Rightarrow> ('a \<Rightarrow> 'b outcome) \<Rightarrow> 'b outcome" where
  "obind (Ret x) k = k x"
| "obind (Panic m) k = Panic m"

lemma obind_Ret_iff: "obind m k = Ret y \<longleftrightarrow> (\<exists>x. m = Ret x \<and> k x = Ret y)"
  by (cases m) auto

lemma obind_Panic_iff:
  "obind m k = Panic e \<longleftrightarrow> m = Panic e \<or> (\<exists>x. m = Ret x \<and> k x = Panic e)"
  by (cases m) auto

lemma obind_cong [fundef_cong]:
  "m = m' \<Longrightarrow> (\<And>x. m' = Ret x \<Longrightarrow> k x = k' x) \<Longrightarrow> obind m k = obind m' k'"
  by (cases m') auto

section \<open>Numbers in messages\<close>

text \<open>\<open>%d\<close> and \<open>%02X\<close> of Go's \<open>fmt\<close>, as far as the source uses them.\<close>

definition digit_char :: "nat \<Rightarrow> char" where
  "digit_char d = ''0123456789ABCDEF'' ! (d mod 16)"

fun nat_str :: "nat \<Rightarrow> nat \<Rightarrow> string" where
  "nat_str base n =
     (if base < 2 \<or> n < base then [digit_char n]
      else nat_str base (n div base) @ [digit_char (n mod base)])"

declare nat_str.simps [simp del]

definition int_str :: "int \<Rightarrow> string" where
  "int_str i = (if i < 0 then CHR ''-'' # nat_str 10 (nat (- i)) else nat_str 10 (nat i))"

definition hex02_str :: "int \<Rightarrow> string" where
  "hex02_str i =
     (if i < 0 then (let s = nat_str 16 (nat (- i)) in CHR ''-'' # s)
      else (let s = nat_str 16 (nat i) in if length s < 2 then CHR ''0'' # s else s))"

end
