(* ===== verification/GoIO.thy ===== *)
theory GoIO
  imports Prelude "HOL-Library.Sublist"
begin

text \<open>
  What the program uses of Go's \<open>io\<close>, \<open>bytes\<close>, \<open>errors\<close> and
  \<open>encoding/binary\<close>.

  A reader is the bytes it still has to deliver and the error it returns once they are
  used up: \<open>EOF\<close> for \<open>bytes.Reader\<close> and for a connection closed by the
  peer, some other error for a connection that broke or a corrupt zlib stream.  A writer
  is what has been written, the room it has left (\<open>None\<close>: an in-memory buffer,
  which never fails) and the error it returns once the room is used up.  A Go function
  \<open>func(r io.Reader) (T, error)\<close> is a value of type \<open>'a rd\<close>: it returns
  both results, since callers of the source sometimes use the value next to an error.
\<close>

section \<open>Errors\<close>

text \<open>
  \<open>Errorf\<close> is \<open>errors.New\<close> or \<open>fmt.Errorf\<close> without a wrapped error;
  \<open>Wrapf s e\<close> is \<open>fmt.Errorf(s + "%w", e)\<close>; \<open>ExtErr\<close> is an error
  value made by code that is not modelled (the network, zlib, \<open>uuid.Parse\<close>).
\<close>

datatype goerr =
    EOF
  | ErrUnexpectedEOF
  | ErrUnknownPacket
  | Errorf string
  | Wrapf string goerr
  | ExtErr string

fun errors_Is :: "goerr \<Rightarrow> goerr \<Rightarrow> bool" where
  "errors_Is (Wrapf s e) target = (Wrapf s e = target \<or> errors_Is e target)"
| "errors_Is e target = (e = target)"

fun err_Error :: "goerr \<Rightarrow> string" where
  "err_Error EOF = ''EOF''"
| "err_Error ErrUnexpectedEOF = ''unexpected EOF''"
| "err_Error ErrUnknownPacket = ''unknown packet''"
| "err_Error (Errorf s) = s"
| "err_Error (Wrapf s e) = s @ err_Error e"
| "err_Error (ExtErr s) = s"

lemma errors_Is_refl [simp]: "errors_Is e e"
  by (cases e) auto

section \<open>Readers\<close>

record reader =
  rd_data :: bytes
  rd_end :: goerr

type_synonym 'a rd = "reader \<Rightarrow> 'a \<times> goerr option \<times> reader"

definition new_reader :: "bytes \<Rightarrow> reader" where
  "new_reader bs = \<lparr>rd_data = bs, rd_end = EOF\<rparr>"

text \<open>\<open>io.ReadFull\<close> into a zeroed buffer of \<open>n\<close> bytes.\<close>

definition ReadFull :: "nat \<Rightarrow> bytes rd" where
  "ReadFull n r =
     (let got = take n (rd_data r); r' = r\<lparr>rd_data := drop n (rd_data r)\<rparr> in
      if length got = n then (got, None, r')
      else (got @ replicate (n - length got) 0,
            Some (if got \<noteq> [] \<and> rd_end r = EOF then ErrUnexpectedEOF else rd_end r), r'))"

text \<open>\<open>io.ReadAll\<close>, \<open>io.Copy(io.Discard, r)\<close> and \<open>io.CopyN(buf, r, n)\<close>
  (a non-positive \<open>n\<close> copies nothing and is no error).\<close>

definition ReadAll :: "bytes rd" where
  "ReadAll r = (rd_data r, (if rd_end r = EOF then None else Some (rd_end r)), r\<lparr>rd_data := []\<rparr>)"

definition CopyDiscard :: "unit rd" where
  "CopyDiscard r = ((), (if rd_end r = EOF then None else Some (rd_end r)), r\<lparr>rd_data := []\<rparr>)"

definition CopyN :: "int \<Rightarrow> bytes rd" where
  "CopyN n r =
     (let k = nat n; got = take k (rd_data r) in
      (got, (if length got = k then None else Some (rd_end r)),
       r\<lparr>rd_data := drop k (rd_data r)\<rparr>))"

text \<open>"if x, err = m(r); err != nil { return d, err }", then the rest \<open>k\<close>.\<close>

definition rtry :: "'a rd \<Rightarrow> 'b \<Rightarrow> ('a \<Rightarrow> 'b rd) \<Rightarrow> 'b rd" where
  "rtry m d k r =
     (case m r of (x, err, r') \<Rightarrow>
        (case err of Some e \<Rightarrow> (d, Some e, r') | None \<Rightarrow> k x r'))"

text \<open>\<open>binary.Read\<close> of an unsigned big-endian value of \<open>n\<close> bytes: zero on error.\<close>

definition be_val :: "bytes \<Rightarrow> nat" where
  "be_val bs = foldl (\<lambda>a b. a * 256 + unat b) 0 bs"

definition binary_Read :: "nat \<Rightarrow> nat rd" where
  "binary_Read n = rtry (ReadFull n) 0 (\<lambda>bs r. (be_val bs, None, r))"

section \<open>Writers\<close>

record writer =
  wr_out :: bytes
  wr_room :: "nat option"
  wr_fail :: goerr

type_synonym wr = "writer \<Rightarrow> goerr option \<times> writer"

definition new_buffer :: writer where
  "new_buffer = \<lparr>wr_out = [], wr_room = None, wr_fail = EOF\<rparr>"

definition emit :: "bytes \<Rightarrow> writer \<Rightarrow> writer" where
  "emit bs w = w\<lparr>wr_out := wr_out w @ bs\<rparr>"

definition Write :: "bytes \<Rightarrow> wr" where
  "Write bs w =
     (case wr_room w of
        None \<Rightarrow> (None, emit bs w)
      | Some k \<Rightarrow>
          if length bs \<le> k then (None, emit bs (w\<lparr>wr_room := Some (k - length bs)\<rparr>))
          else (Some (wr_fail w), emit (take k bs) (w\<lparr>wr_room := Some 0\<rparr>)))"

text \<open>"if err := f(w); err != nil { return err }; g", "_ = f(w); g" and "return nil".\<close>

definition wtry :: "wr \<Rightarrow> wr \<Rightarrow> wr" where
  "wtry f g w = (case f w of (err, w') \<Rightarrow> (case err of Some e \<Rightarrow> (Some e, w') | None \<Rightarrow> g w'))"

definition wign :: "wr \<Rightarrow> wr \<Rightarrow> wr" where
  "wign f g w = g (snd (f w))"

definition wnil :: wr where
  "wnil w = (None, w)"

fun be_bytes :: "nat \<Rightarrow> nat \<Rightarrow> bytes" where
  "be_bytes 0 v = []"
| "be_bytes (Suc k) v = word_of_nat (v div 256 ^ k) # be_bytes k v"

definition binary_Write :: "nat \<Rightarrow> nat \<Rightarrow> wr" where
  "binary_Write n v = Write (be_bytes n v)"

section \<open>Facts about writers\<close>

definition unbounded :: "writer \<Rightarrow> bool" where
  "unbounded w \<longleftrightarrow> wr_room w = None"

lemma unbounded_new_buffer [simp]: "unbounded new_buffer"
  by (simp add: unbounded_def new_buffer_def)

lemma unbounded_emit [simp]: "unbounded (emit bs w) = unbounded w"
  by (simp add: unbounded_def emit_def)

lemma wr_out_emit [simp]: "wr_out (emit bs w) = wr_out w @ bs"
  by (simp add: emit_def)

lemma wr_out_new_buffer [simp]: "wr_out new_buffer = []"
  by (simp add: new_buffer_def)

lemma emit_emit [simp]: "emit b (emit a w) = emit (a @ b) w"
  by (simp add: emit_def)

lemma emit_Nil [simp]: "emit [] w = w"
  by (simp add: emit_def)

lemma Write_unbounded [wire_simps]: "unbounded w \<Longrightarrow> Write bs w = (None, emit bs w)"
  by (simp add: Write_def unbounded_def)

lemma binary_Write_unbounded [wire_simps]:
  "unbounded w \<Longrightarrow> binary_Write n v w = (None, emit (be_bytes n v) w)"
  by (simp add: binary_Write_def Write_unbounded)

lemma wtry_ok [simp]: "f w = (None, w') \<Longrightarrow> wtry f g w = g w'"
  by (simp add: wtry_def)

lemma wtry_err [simp]: "f w = (Some e, w') \<Longrightarrow> wtry f g w = (Some e, w')"
  by (simp add: wtry_def)

lemma wign_eq [simp]: "f w = (err, w') \<Longrightarrow> wign f g w = g w'"
  by (simp add: wign_def)

lemma wnil_eq [simp]: "wnil w = (None, w)"
  by (simp add: wnil_def)

lemma rtry_ok [simp]: "m r = (x, None, r') \<Longrightarrow> rtry m d k r = k x r'"
  by (simp add: rtry_def)

lemma rtry_err [simp]: "m r = (x, Some e, r') \<Longrightarrow> rtry m d k r = (d, Some e, r')"
  by (simp add: rtry_def)

section \<open>Big-endian numbers\<close>

lemma length_be_bytes [simp]: "length (be_bytes n v) = n"
  by (induction n) auto

lemma be_val_append: "be_val (xs @ [b]) = be_val xs * 256 + unat b"
  by (simp add: be_val_def)

lemma be_val_Cons: "be_val (b # bs) = unat b * 256 ^ length bs + be_val bs"
proof (induction bs rule: rev_induct)
  case Nil
  show ?case by (simp add: be_val_def)
next
  case (snoc x xs)
  have "be_val (b # xs @ [x]) = be_val (b # xs) * 256 + unat x"
    using be_val_append [of "b # xs" x] by simp
  with snoc show ?case by (simp add: be_val_append algebra_simps)
qed

lemma be_val_be_bytes_mod: "be_val (be_bytes n v) = v mod 256 ^ n"
proof (induction n)
  case 0
  show ?case by (simp add: be_val_def)
next
  case (Suc n)
  have eq: "v mod (256 ^ n * 256) = 256 ^ n * (v div 256 ^ n mod 256) + v mod 256 ^ n"
    by (rule mod_mult2_eq)
  have "be_val (be_bytes (Suc n) v) = (v div 256 ^ n mod 256) * 256 ^ n + v mod 256 ^ n"
    unfolding be_bytes.simps be_val_Cons Suc length_be_bytes unat_byte_of_nat ..
  also have "\<dots> = v mod 256 ^ Suc n"
    unfolding power_Suc mult.commute [of 256 "256 ^ n"] eq by (simp only: mult.commute)
  finally show ?case .
qed

lemma be_val_be_bytes: "v < 256 ^ n \<Longrightarrow> be_val (be_bytes n v) = v"
  by (simp add: be_val_be_bytes_mod)

section \<open>Codecs\<close>

text \<open>
  The contract of a reading routine that is the inverse of a writing routine: reading an
  encoded value from any longer stream gives the value back and stops exactly behind it.
  From it follow that encodings are uniquely readable, and that a counted sequence of
  encoded values reads back.
\<close>

locale codec =
  fixes enc :: "'a \<Rightarrow> bytes"
    and dec :: "'a rd"
    and ok :: "'a \<Rightarrow> bool"
  assumes dec_enc:
    "ok x \<Longrightarrow> dec \<lparr>rd_data = enc x @ rest, rd_end = e\<rparr> = (x, None, \<lparr>rd_data = rest, rd_end = e\<rparr>)"
begin

lemma dec_enc_end: "ok x \<Longrightarrow> dec \<lparr>rd_data = enc x, rd_end = e\<rparr> = (x, None, \<lparr>rd_data = [], rd_end = e\<rparr>)"
  using dec_enc [of x "[]"] by simp

lemma uniquely_readable:
  assumes "ok x" "ok y" "enc x @ xs = enc y @ ys"
  shows "x = y \<and> xs = ys"
proof -
  have "(x, None, \<lparr>rd_data = xs, rd_end = EOF\<rparr>) = dec \<lparr>rd_data = enc y @ ys, rd_end = EOF\<rparr>"
    using dec_enc [OF assms(1), of xs EOF] unfolding assms(3) by (rule sym)
  also have "\<dots> = (y, None, \<lparr>rd_data = ys, rd_end = EOF\<rparr>)"
    by (rule dec_enc [OF assms(2)])
  finally show ?thesis by simp
qed

lemma enc_inject: "ok x \<Longrightarrow> ok y \<Longrightarrow> enc x = enc y \<Longrightarrow> x = y"
  using uniquely_readable [of x y "[]" "[]"] by simp

end

end
