(* ===== verification/Wire.thy ===== *)
theory Wire
  imports GoIO
begin

text \<open>
  The primitive encodings of \<open>protocol/protocol.go\<close>: VarInt, length-prefixed strings
  and byte slices, single bytes and booleans, big-endian integers and UUIDs.  Each
  operation follows the source statement by statement over readers and writers of
  \<open>GoIO\<close>.  The second half proves what they compute: a write to a buffer appends
  the bytes of an arithmetic specification (\<open>varint_bytes\<close>, \<open>be_bytes\<close>), a
  read of those bytes gives the value back (the \<open>codec\<close> interpretations), and the
  reads fail exactly where they should.
\<close>

section \<open>The operations\<close>

definition MaxVarIntSize :: nat where "MaxVarIntSize = 5"
definition MaxPacketDataSize :: int where "MaxPacketDataSize = 2097152"

text \<open>A UUID is the Go array \<open>[16]byte\<close>.\<close>

type_synonym uuid = bytes

definition uuid_Nil :: uuid where "uuid_Nil = replicate 16 0"

definition ReadByte :: "byte rd" where
  "ReadByte r =
     (case rd_data r of
        [] \<Rightarrow> (0, Some (rd_end r), r)
      | b # bs \<Rightarrow> (b, None, r\<lparr>rd_data := bs\<rparr>))"

definition WriteByte :: "byte \<Rightarrow> wr" where
  "WriteByte b = Write [b]"

definition ReadUUID :: "uuid rd" where
  "ReadUUID = ReadFull 16"

function WriteVarInt_loop :: "uint32 \<Rightarrow> wr" where
  "WriteVarInt_loop uv w =
     (if uv AND NOT 0x7F = 0 then WriteByte (ucast uv) w
      else case WriteByte (ucast (uv AND 0x7F OR 0x80)) w of
             (Some e, w') \<Rightarrow> (Some e, w')
           | (None, w') \<Rightarrow> WriteVarInt_loop (drop_bit 7 uv) w')"
  by pat_completeness auto
termination
  by (relation "measure (\<lambda>(uv, w). unat uv)")
    (auto simp: uint32_drop_7 uint32_and_m128)

declare WriteVarInt_loop.simps [simp del]

definition WriteVarInt :: "int32 \<Rightarrow> wr" where
  "WriteVarInt value = WriteVarInt_loop value"

fun ReadVarInt_loop :: "nat \<Rightarrow> uint32 \<Rightarrow> nat \<Rightarrow> int32 rd" where
  "ReadVarInt_loop 0 val pos r = (0, Some (Errorf ''varint is too big''), r)"
| "ReadVarInt_loop (Suc i) val pos r =
     (case ReadByte r of
        (b, Some e, r') \<Rightarrow> (0, Some e, r')
      | (b, None, r') \<Rightarrow>
          (let val' = val OR push_bit pos (ucast (b AND 0x7F)) in
           if b AND 0x80 = 0 then (val', None, r')
           else ReadVarInt_loop i val' (pos + 7) r'))"

definition ReadVarInt :: "int32 rd" where
  "ReadVarInt = ReadVarInt_loop MaxVarIntSize 0 0"

definition WriteByteSlice :: "bytes \<Rightarrow> wr" where
  "WriteByteSlice data = wtry (WriteVarInt (word_of_nat (length data))) (Write data)"

definition WriteString :: "string \<Rightarrow> wr" where
  "WriteString value = WriteByteSlice (str_bytes value)"

definition ReadBytes :: "bytes rd" where
  "ReadBytes r =
     (case ReadVarInt r of
        (len, Some e, r') \<Rightarrow> ([], Some (Wrapf ''read byte array length: '' e), r')
      | (len, None, r') \<Rightarrow>
          if sint len < 0
          then ([], Some (Errorf (''byte array length is negative: '' @ int_str (sint len))), r')
          else if sint len > MaxPacketDataSize
          then ([], Some (Errorf (''byte array length '' @ int_str (sint len) @ '' exceeds max size'')), r')
          else ReadFull (nat (sint len)) r')"

definition ReadString :: "string rd" where
  "ReadString = rtry ReadBytes '''' (\<lambda>data r. (bytes_str data, None, r))"

text \<open>\<open>uuid.Parse\<close> belongs to \<open>github.com/google/uuid\<close>: it is the parameter
  \<open>parse\<close>, which returns the UUID and the error.\<close>

definition dash_uuid :: "string \<Rightarrow> string" where
  "dash_uuid s =
     (if length s = 32
      then take 8 s @ ''-'' @ take 4 (drop 8 s) @ ''-'' @ take 4 (drop 12 s) @ ''-''
             @ take 4 (drop 16 s) @ ''-'' @ drop 20 s
      else s)"

definition ReadStringUUID :: "(string \<Rightarrow> uuid \<times> goerr option) \<Rightarrow> uuid rd" where
  "ReadStringUUID parse =
     rtry ReadString uuid_Nil
       (\<lambda>s r. case parse (dash_uuid s) of (u, err) \<Rightarrow> (u, err, r))"

definition ReadLong :: "int64 rd" where
  "ReadLong r = (case binary_Read 8 r of (v, err, r') \<Rightarrow> (word_of_nat v, err, r'))"

definition WriteLong :: "int64 \<Rightarrow> wr" where
  "WriteLong v = binary_Write 8 (unat v)"

definition ReadUShort :: "uint16 rd" where
  "ReadUShort r = (case binary_Read 2 r of (v, err, r') \<Rightarrow> (word_of_nat v, err, r'))"

definition WriteUShort :: "uint16 \<Rightarrow> wr" where
  "WriteUShort v = binary_Write 2 (unat v)"

definition ReadBool :: "bool rd" where
  "ReadBool r = (case ReadByte r of (b, err, r') \<Rightarrow> (b \<noteq> 0, err, r'))"

definition WriteBool :: "bool \<Rightarrow> wr" where
  "WriteBool v = WriteByte (if v then 1 else 0)"


section \<open>VarInt: the arithmetic specification\<close>

text \<open>Groups of seven bits, least significant first, with the high bit of a byte set
  on every group but the last.\<close>

fun varint_nat :: "nat \<Rightarrow> bytes" where
  "varint_nat n =
     (if n < 128 then [word_of_nat n] else word_of_nat (n mod 128 + 128) # varint_nat (n div 128))"

declare varint_nat.simps [simp del]

definition varint_bytes :: "int32 \<Rightarrow> bytes" where
  "varint_bytes v = varint_nat (unat v)"

fun varint_val :: "bytes \<Rightarrow> nat" where
  "varint_val [] = 0"
| "varint_val (b # bs) = unat b mod 128 + 128 * varint_val bs"

lemma WriteByte_unbounded [wire_simps]: "unbounded w \<Longrightarrow> WriteByte b w = (None, emit [b] w)"
  by (simp add: WriteByte_def Write_unbounded)

lemma WriteVarInt_loop_last: "unat uv < 128 \<Longrightarrow> WriteVarInt_loop uv w = WriteByte (ucast uv) w"
  by (simp add: WriteVarInt_loop.simps [of uv w] uint32_and_m128)

lemma WriteVarInt_loop_more:
  "\<not> unat uv < 128 \<Longrightarrow> WriteVarInt_loop uv w =
     wtry (WriteByte (ucast (uv AND 0x7F OR 0x80))) (WriteVarInt_loop (drop_bit 7 uv)) w"
  by (simp add: WriteVarInt_loop.simps [of uv w] uint32_and_m128 wtry_def split: prod.split option.split)

lemma varint_nat_last: "unat (uv::uint32) < 128 \<Longrightarrow> varint_nat (unat uv) = [ucast uv]"
  by (simp add: varint_nat.simps [of "unat uv"])

lemma varint_nat_more:
  "\<not> unat (uv::uint32) < 128 \<Longrightarrow>
   varint_nat (unat uv) = ucast (uv AND 0x7F OR 0x80) # varint_nat (unat (drop_bit 7 uv))"
  unfolding byte_of_group uint32_drop_7 by (simp add: varint_nat.simps [of "unat uv"])

lemma WriteVarInt_loop_unbounded:
  "unbounded w \<Longrightarrow> WriteVarInt_loop uv w = (None, emit (varint_nat (unat uv)) w)"
proof (induction "unat uv" arbitrary: uv w rule: less_induct)
  case less
  show ?case
  proof (cases "unat uv < 128")
    case True
    then show ?thesis
      by (simp add: WriteVarInt_loop_last varint_nat_last WriteByte_unbounded less.prems)
  next
    case False
    then have "unat (drop_bit 7 uv) < unat uv" by (simp add: uint32_drop_7)
    from less.hyps [OF this] False show ?thesis
      by (simp add: WriteVarInt_loop_more varint_nat_more WriteByte_unbounded less.prems)
  qed
qed

lemma WriteVarInt_unbounded [wire_simps]:
  "unbounded w \<Longrightarrow> WriteVarInt v w = (None, emit (varint_bytes v) w)"
  by (simp add: WriteVarInt_def varint_bytes_def WriteVarInt_loop_unbounded)

lemma or_push_bit_add:
  assumes "unat (val::uint32) < 2 ^ pos" "pos < 32"
  shows "val OR push_bit pos x = val + x * 2 ^ pos"
proof -
  have "val = take_bit pos val"
    using assms by (metis take_bit_nat_eq_self unsigned_take_bit_eq unsigned_word_eqI)
  then have "val AND push_bit pos x = take_bit pos val AND push_bit pos x" by (rule arg_cong)
  also have "\<dots> = 0"
    by (auto simp: bit_eq_iff bit_simps)
  finally have "val AND push_bit pos x = 0" .
  then show ?thesis
    by (simp add: push_bit_eq_mult flip: disjunctive_add_eq_or)
qed

lemma uint32_of_group: "(ucast ((b::byte) AND 0x7F) :: uint32) = word_of_nat (unat b mod 128)"
proof -
  have "(ucast (b AND 0x7F) :: uint32) = word_of_nat (unat (b AND 0x7F))" by simp
  then show ?thesis unfolding byte_and_7f .
qed

lemma ReadVarInt_group:
  assumes "unat (val::uint32) < 2 ^ pos" "pos < 32"
  shows "val OR push_bit pos (ucast ((b::byte) AND 0x7F)) = val + word_of_nat ((unat b mod 128) * 2 ^ pos)"
  unfolding or_push_bit_add [OF assms] uint32_of_group by simp

lemma ReadVarInt_group_bound:
  assumes "unat (val::uint32) < 2 ^ pos" "pos \<le> 21"
  shows "unat (val + word_of_nat ((unat (b::byte) mod 128) * 2 ^ pos)) < 2 ^ (pos + 7)"
proof -
  have "(unat b mod 128) * 2 ^ pos \<le> 127 * 2 ^ pos"
    by (rule mult_le_mono1) (simp add: less_Suc_eq_le [symmetric])
  moreover have "(2::nat) ^ (pos + 7) = 128 * 2 ^ pos" by (simp add: power_add)
  ultimately have le: "unat val + (unat b mod 128) * 2 ^ pos < 2 ^ (pos + 7)"
    using assms(1) by linarith
  moreover have "unat (val + word_of_nat k) \<le> unat val + k" for k
  proof -
    have "unat (word_of_nat k :: uint32) \<le> k" unfolding unat_of_nat by (rule mod_less_eq_dividend)
    moreover have "unat (val + word_of_nat k) \<le> unat val + unat (word_of_nat k :: uint32)"
      unfolding unat_word_ariths by (rule mod_less_eq_dividend)
    ultimately show ?thesis by linarith
  qed
  ultimately show ?thesis by (meson le_less_trans)
qed

lemma ReadByte_Cons [simp]:
  "ReadByte \<lparr>rd_data = b # bs, rd_end = e\<rparr> = (b, None, \<lparr>rd_data = bs, rd_end = e\<rparr>)"
  by (simp add: ReadByte_def)

lemma ReadByte_Nil [simp]:
  "ReadByte \<lparr>rd_data = [], rd_end = e\<rparr> = (0, Some e, \<lparr>rd_data = [], rd_end = e\<rparr>)"
  by (simp add: ReadByte_def)

definition cont :: "byte \<Rightarrow> bool" where
  "cont b \<longleftrightarrow> 128 \<le> unat b"

lemma ReadVarInt_loop_complete:
  assumes "\<forall>b \<in> set cs. cont b" "\<not> cont c" "length cs < i" "pos + 7 * i = 35" "unat val < 2 ^ pos"
  shows "ReadVarInt_loop i val pos \<lparr>rd_data = cs @ c # rest, rd_end = e\<rparr> =
     (val + word_of_nat (2 ^ pos * varint_val (cs @ [c])), None, \<lparr>rd_data = rest, rd_end = e\<rparr>)"
  using assms
proof (induction cs arbitrary: i val pos)
  case Nil
  then obtain j where "i = Suc j" by (cases i) auto
  with Nil show ?case
    by (simp add: cont_def byte_and_80 ReadVarInt_group mult.commute)
next
  case (Cons b cs)
  then obtain j where i: "i = Suc j" and j: "0 < j" by (cases i) auto
  let ?v = "val + word_of_nat ((unat b mod 128) * 2 ^ pos)"
  have "unat ?v < 2 ^ (pos + 7)"
    using Cons.prems i j by (intro ReadVarInt_group_bound) auto
  then have IH: "ReadVarInt_loop j ?v (pos + 7) \<lparr>rd_data = cs @ c # rest, rd_end = e\<rparr> =
     (?v + word_of_nat (2 ^ (pos + 7) * varint_val (cs @ [c])), None, \<lparr>rd_data = rest, rd_end = e\<rparr>)"
    using Cons.prems i by (intro Cons.IH) auto
  have v: "val OR push_bit pos (ucast (b AND 0x7F)) = ?v"
    using Cons.prems i j by (intro ReadVarInt_group) auto
  have b: "b AND 0x80 \<noteq> 0" using Cons.prems(1) by (simp add: cont_def byte_and_80)
  have "ReadVarInt_loop i val pos \<lparr>rd_data = (b # cs) @ c # rest, rd_end = e\<rparr> =
     ReadVarInt_loop j ?v (pos + 7) \<lparr>rd_data = cs @ c # rest, rd_end = e\<rparr>"
    unfolding i using b v by (simp add: Let_def)
  then show ?case unfolding IH by (simp add: power_add algebra_simps)
qed


lemma ReadVarInt_loop_truncated:
  assumes "\<forall>b \<in> set cs. cont b" "length cs < i"
  shows "ReadVarInt_loop i val pos \<lparr>rd_data = cs, rd_end = e\<rparr> = (0, Some e, \<lparr>rd_data = [], rd_end = e\<rparr>)"
  using assms
proof (induction cs arbitrary: i val pos)
  case Nil
  then show ?case by (cases i) auto
next
  case (Cons b cs)
  then show ?case by (cases i) (auto simp: cont_def byte_and_80 Let_def)
qed

lemma ReadVarInt_loop_too_big:
  assumes "\<forall>b \<in> set cs. cont b"
  shows "ReadVarInt_loop (length cs) val pos \<lparr>rd_data = cs @ rest, rd_end = e\<rparr> =
    (0, Some (Errorf ''varint is too big''), \<lparr>rd_data = rest, rd_end = e\<rparr>)"
  using assms
proof (induction cs arbitrary: val pos)
  case (Cons b cs)
  then show ?case by (auto simp: cont_def byte_and_80 Let_def)
qed simp

text \<open>The three outcomes of a VarInt read.\<close>

lemma ReadVarInt_complete:
  assumes "\<forall>b \<in> set cs. cont b" "\<not> cont c" "length cs < 5"
  shows "ReadVarInt \<lparr>rd_data = cs @ c # rest, rd_end = e\<rparr> =
     (word_of_nat (varint_val (cs @ [c])), None, \<lparr>rd_data = rest, rd_end = e\<rparr>)"
  using ReadVarInt_loop_complete [OF assms, of 0 0 rest e]
  by (simp add: ReadVarInt_def MaxVarIntSize_def)

lemma ReadVarInt_truncated:
  assumes "\<forall>b \<in> set cs. cont b" "length cs < 5"
  shows "ReadVarInt \<lparr>rd_data = cs, rd_end = e\<rparr> = (0, Some e, \<lparr>rd_data = [], rd_end = e\<rparr>)"
  using ReadVarInt_loop_truncated [OF assms] by (simp add: ReadVarInt_def MaxVarIntSize_def)

lemma ReadVarInt_too_big:
  assumes "\<forall>b \<in> set cs. cont b" "length cs = 5"
  shows "ReadVarInt \<lparr>rd_data = cs @ rest, rd_end = e\<rparr> =
    (0, Some (Errorf ''varint is too big''), \<lparr>rd_data = rest, rd_end = e\<rparr>)"
  using ReadVarInt_loop_too_big [OF assms(1), of 0 0 rest e] assms(2)
  by (simp add: ReadVarInt_def MaxVarIntSize_def)

lemma ReadVarInt_cases:
  obtains (complete) cs c rest where "rd_data r = cs @ c # rest"
      "\<forall>b \<in> set cs. cont b" "\<not> cont c" "length cs < 5"
      "ReadVarInt r = (word_of_nat (varint_val (cs @ [c])), None, r\<lparr>rd_data := rest\<rparr>)"
  | (truncated) "\<forall>b \<in> set (rd_data r). cont b" "length (rd_data r) < 5"
      "ReadVarInt r = (0, Some (rd_end r), r\<lparr>rd_data := []\<rparr>)"
  | (too_big) cs rest where "rd_data r = cs @ rest" "\<forall>b \<in> set cs. cont b" "length cs = 5"
      "ReadVarInt r = (0, Some (Errorf ''varint is too big''), r\<lparr>rd_data := rest\<rparr>)"
proof -
  obtain d e where r: "r = \<lparr>rd_data = d, rd_end = e\<rparr>" by (cases r) auto
  let ?cs = "takeWhile cont d"
  have all: "\<forall>b \<in> set ?cs. cont b" by (blast dest: set_takeWhileD)
  show thesis
  proof (cases "5 \<le> length ?cs")
    case True
    have "d = take 5 ?cs @ drop 5 d"
      using True by (metis append_take_drop_id takeWhile_eq_take take_take min_def)
    moreover have "\<forall>b \<in> set (take 5 ?cs). cont b" using all by (blast dest: in_set_takeD)
    moreover have "length (take 5 ?cs) = 5" using True by simp
    ultimately show ?thesis
      using too_big [of "take 5 ?cs" "drop 5 d"] ReadVarInt_too_big [of "take 5 ?cs" "drop 5 d" e] r
      by simp
  next
    case short: False
    show ?thesis
    proof (cases "dropWhile cont d")
      case Nil
      then have d: "?cs = d" by (metis append_Nil2 takeWhile_dropWhile_id)
      then have "\<forall>b \<in> set d. cont b" "length d < 5" using all short unfolding d by auto
      then show ?thesis using truncated ReadVarInt_truncated [of d e] r by simp
    next
      case (Cons c rest)
      then have "d = ?cs @ c # rest" by (metis takeWhile_dropWhile_id)
      moreover have "\<not> cont c" using Cons by (metis dropWhile_eq_Cons_conv)
      ultimately show ?thesis
        using complete [of ?cs c rest] ReadVarInt_complete [OF all, of c rest e] short all r by simp
    qed
  qed
qed

section \<open>VarInt round trip\<close>

lemma varint_nat_shape:
  "\<exists>cs c. varint_nat n = cs @ [c] \<and> (\<forall>b \<in> set cs. cont b) \<and> \<not> cont c \<and> varint_val (cs @ [c]) = n"
proof (induction n rule: varint_nat.induct)
  case (1 n)
  show ?case
  proof (cases "n < 128")
    case True
    then show ?thesis
      by (intro exI [of _ "[]"] exI [of _ "word_of_nat n"]) (simp add: varint_nat.simps [of n] cont_def)
  next
    case False
    with 1 obtain cs c where IH: "varint_nat (n div 128) = cs @ [c]" "\<forall>b \<in> set cs. cont b"
      "\<not> cont c" "varint_val (cs @ [c]) = n div 128" by blast
    define x :: byte where "x = word_of_nat (n mod 128 + 128)"
    have "n mod 128 + 128 < 256" by simp
    then have b: "unat x = n mod 128 + 128" by (simp only: x_def unat_byte_of_nat mod_less)
    have "varint_val ((x # cs) @ [c]) = n"
      using IH(4) by (simp add: b)
    moreover have "varint_nat n = (x # cs) @ [c]"
      using False IH(1) by (simp add: varint_nat.simps [of n] x_def)
    moreover have "\<forall>y \<in> set (x # cs). cont y" using IH(2) by (simp add: cont_def b)
    ultimately show ?thesis using IH(3) by blast
  qed
qed

lemma length_varint_nat: "n < 128 ^ Suc k \<Longrightarrow> length (varint_nat n) \<le> Suc k"
proof (induction k arbitrary: n)
  case 0
  then show ?case by (simp add: varint_nat.simps [of n])
next
  case (Suc k)
  then have "n div 128 < 128 ^ Suc k" by (simp add: less_mult_imp_div_less mult.commute)
  from Suc.IH [OF this] show ?case by (simp add: varint_nat.simps [of n])
qed

lemma length_varint_bytes: "1 \<le> length (varint_bytes v) \<and> length (varint_bytes v) \<le> 5"
proof -
  have "unat v < 2 ^ 32" using unsigned_less [of v, where 'a = nat] by simp
  then have "unat v < 128 ^ Suc 4" by simp
  from length_varint_nat [OF this] show ?thesis
    by (simp add: varint_bytes_def varint_nat.simps [of "unat v"])
qed

lemma ReadVarInt_varint_bytes:
  "ReadVarInt \<lparr>rd_data = varint_bytes v @ rest, rd_end = e\<rparr> = (v, None, \<lparr>rd_data = rest, rd_end = e\<rparr>)"
proof -
  obtain cs c where v: "varint_bytes v = cs @ [c]" "\<forall>b \<in> set cs. cont b" "\<not> cont c"
      "varint_val (cs @ [c]) = unat v"
    using varint_nat_shape [of "unat v"] unfolding varint_bytes_def by blast
  then have "length cs < 5" using length_varint_bytes [of v] by simp
  from ReadVarInt_complete [OF v(2,3) this, of rest e] v show ?thesis by simp
qed

interpretation varint: codec varint_bytes ReadVarInt "\<lambda>_. True"
  by unfold_locales (rule ReadVarInt_varint_bytes)


section \<open>The other primitives\<close>

lemma ReadFull_exact:
  "length bs = n \<Longrightarrow> ReadFull n \<lparr>rd_data = bs @ rest, rd_end = e\<rparr> = (bs, None, \<lparr>rd_data = rest, rd_end = e\<rparr>)"
  by (simp add: ReadFull_def Let_def)

lemma ReadFull_short:
  "length (rd_data r) < n \<Longrightarrow> ReadFull n r =
     (rd_data r @ replicate (n - length (rd_data r)) 0,
      Some (if rd_data r \<noteq> [] \<and> rd_end r = EOF then ErrUnexpectedEOF else rd_end r), r\<lparr>rd_data := []\<rparr>)"
  by (simp add: ReadFull_def Let_def)

lemma binary_Read_be_bytes:
  "v < 256 ^ n \<Longrightarrow> binary_Read n \<lparr>rd_data = be_bytes n v @ rest, rd_end = e\<rparr> =
     (v, None, \<lparr>rd_data = rest, rd_end = e\<rparr>)"
  by (simp add: binary_Read_def ReadFull_exact be_val_be_bytes)

definition bool_bytes :: "bool \<Rightarrow> bytes" where
  "bool_bytes b = [if b then 1 else 0]"

definition slice_bytes :: "bytes \<Rightarrow> bytes" where
  "slice_bytes bs = varint_bytes (word_of_nat (length bs)) @ bs"

definition string_bytes :: "string \<Rightarrow> bytes" where
  "string_bytes s = slice_bytes (str_bytes s)"

definition sized :: "'a list \<Rightarrow> bool" where
  "sized xs \<longleftrightarrow> int (length xs) \<le> MaxPacketDataSize"

lemma WriteBool_unbounded [wire_simps]: "unbounded w \<Longrightarrow> WriteBool b w = (None, emit (bool_bytes b) w)"
  by (simp add: WriteBool_def bool_bytes_def WriteByte_unbounded)

lemma WriteByteSlice_unbounded [wire_simps]:
  "unbounded w \<Longrightarrow> WriteByteSlice bs w = (None, emit (slice_bytes bs) w)"
  by (simp add: WriteByteSlice_def slice_bytes_def WriteVarInt_unbounded Write_unbounded)

lemma WriteString_unbounded [wire_simps]:
  "unbounded w \<Longrightarrow> WriteString s w = (None, emit (string_bytes s) w)"
  by (simp add: WriteString_def string_bytes_def WriteByteSlice_unbounded)

lemma WriteLong_unbounded [wire_simps]:
  "unbounded w \<Longrightarrow> WriteLong v w = (None, emit (be_bytes 8 (unat v)) w)"
  by (simp add: WriteLong_def binary_Write_unbounded)

lemma WriteUShort_unbounded [wire_simps]:
  "unbounded w \<Longrightarrow> WriteUShort v w = (None, emit (be_bytes 2 (unat v)) w)"
  by (simp add: WriteUShort_def binary_Write_unbounded)

interpretation bool: codec bool_bytes ReadBool "\<lambda>_. True"
  by unfold_locales (simp add: bool_bytes_def ReadBool_def)

interpretation long: codec "\<lambda>v. be_bytes 8 (unat v)" ReadLong "\<lambda>_. True"
proof
  fix x :: int64 and rest e
  have "unat x < 2 ^ 64" using unsigned_less [of x, where 'a = nat] by simp
  then show "ReadLong \<lparr>rd_data = be_bytes 8 (unat x) @ rest, rd_end = e\<rparr> =
      (x, None, \<lparr>rd_data = rest, rd_end = e\<rparr>)"
    by (simp add: ReadLong_def binary_Read_be_bytes del: be_bytes.simps)
qed

interpretation ushort: codec "\<lambda>v. be_bytes 2 (unat v)" ReadUShort "\<lambda>_. True"
proof
  fix x :: uint16 and rest e
  have "unat x < 2 ^ 16" using unsigned_less [of x, where 'a = nat] by simp
  then show "ReadUShort \<lparr>rd_data = be_bytes 2 (unat x) @ rest, rd_end = e\<rparr> =
      (x, None, \<lparr>rd_data = rest, rd_end = e\<rparr>)"
    by (simp add: ReadUShort_def binary_Read_be_bytes del: be_bytes.simps)
qed

lemma sint_length_word:
  "int n < 2 ^ 31 \<Longrightarrow> sint (word_of_nat n :: int32) = int n"
  by (simp add: signed_of_nat signed_take_bit_int_eq_self)

interpretation slice: codec slice_bytes ReadBytes sized
proof
  fix x :: bytes and rest e assume "sized x"
  then have n: "sint (word_of_nat (length x) :: int32) = int (length x)" "int (length x) \<le> MaxPacketDataSize"
    by (simp_all add: sized_def MaxPacketDataSize_def sint_length_word)
  show "ReadBytes \<lparr>rd_data = slice_bytes x @ rest, rd_end = e\<rparr> = (x, None, \<lparr>rd_data = rest, rd_end = e\<rparr>)"
    by (simp add: ReadBytes_def slice_bytes_def varint.dec_enc n leD [OF n(2)] ReadFull_exact)
qed

interpretation string: codec string_bytes ReadString sized
  by unfold_locales
    (simp add: ReadString_def string_bytes_def slice.dec_enc sized_def)

interpretation uuid: codec "\<lambda>u. u" ReadUUID "\<lambda>u. length u = 16"
  by unfold_locales (simp add: ReadUUID_def ReadFull_exact)

end
