(* ===== verification/Protocol.thy ===== *)
theory Protocol
  imports Wire
begin

text \<open>
  \<open>protocol/types.go\<close>: connection states, packet directions and the small data
  types of the protocol package, and \<open>protocol/generated_versions.go\<close>: the version
  numbers.  Go declares \<open>State\<close> and \<open>Version\<close> as \<open>int\<close> and
  \<open>Direction\<close> as \<open>bool\<close>, and values outside the declared constants do occur
  (a state is read from the wire, a version may be newer than the newest known one), so
  they are integers and booleans here too.
\<close>

section \<open>States and directions\<close>

type_synonym State = int

abbreviation (input) StateHandshaking :: State where "StateHandshaking \<equiv> 0"
abbreviation (input) StateStatus :: State where "StateStatus \<equiv> 1"
abbreviation (input) StateLogin :: State where "StateLogin \<equiv> 2"
abbreviation (input) StatePlay :: State where "StatePlay \<equiv> 3"
abbreviation (input) StateConfiguration :: State where "StateConfiguration \<equiv> 4"

definition State_String :: "State \<Rightarrow> string" where
  "State_String s =
     (if s = StateHandshaking then ''Handshake''
      else if s = StateStatus then ''Status''
      else if s = StateLogin then ''Login''
      else if s = StateConfiguration then ''Configuration''
      else if s = StatePlay then ''Play''
      else ''Unknown'')"

type_synonym Direction = bool

abbreviation (input) DirectionServerbound :: Direction where "DirectionServerbound \<equiv> True"
abbreviation (input) DirectionClientbound :: Direction where "DirectionClientbound \<equiv> False"

section \<open>Data\<close>

record ClientSettings =
  Locale :: string
  View :: byte
  ChatMode :: int32
  ChatColors :: bool
  SkinParts :: byte
  MainHand :: int32

record KnownPack =
  kp_Namespace :: string
  kp_ID :: string
  kp_Version :: string

text \<open>Floating-point fields are the 64 and 32 bits of their IEEE 754 representation: the
  program only stores and transmits them.\<close>

type_synonym float64 = "64 word"
type_synonym float32 = "32 word"

record PlayerPosition =
  pos_X :: float64
  pos_Y :: float64
  pos_Z :: float64
  pos_Yaw :: float32
  pos_HeadYaw :: float32
  pos_Pitch :: float32
  pos_OnGround :: bool

definition PlayerPosition_Update ::
  "float64 \<Rightarrow> float64 \<Rightarrow> float64 \<Rightarrow> float32 \<Rightarrow> float32 \<Rightarrow> float32 \<Rightarrow> bool
   \<Rightarrow> PlayerPosition \<Rightarrow> PlayerPosition" where
  "PlayerPosition_Update x y z yaw headYaw pitch ground p =
     p\<lparr>pos_X := x, pos_Y := y, pos_Z := z, pos_Yaw := yaw, pos_HeadYaw := headYaw,
       pos_Pitch := pitch, pos_OnGround := ground\<rparr>"

end
