(* ===== verification/Versions.thy ===== *)
theory Versions
  imports Protocol
begin

text \<open>
  \<open>protocol/generated_versions.go\<close>: the version constants, numbered from 0 by
  \<open>iota\<close>, and the tables between version strings and versions.  A Go map is an
  association list here; the source iterates over it in an unspecified order, which is
  an argument of the operations that do so.
\<close>

section \<open>Version numbers\<close>

type_synonym Version = int

abbreviation (input) V1_7 :: Version where "V1_7 \<equiv> 0"
abbreviation (input) V1_8 :: Version where "V1_8 \<equiv> 1"
abbreviation (input) V1_9 :: Version where "V1_9 \<equiv> 2"
abbreviation (input) V1_9_2 :: Version where "V1_9_2 \<equiv> 3"
abbreviation (input) V1_9_4 :: Version where "V1_9_4 \<equiv> 4"
abbreviation (input) V1_10 :: Version where "V1_10 \<equiv> 5"
abbreviation (input) V1_11 :: Version where "V1_11 \<equiv> 6"
abbreviation (input) V1_12 :: Version where "V1_12 \<equiv> 7"
abbreviation (input) V1_12_1 :: Version where "V1_12_1 \<equiv> 8"
abbreviation (input) V1_12_2 :: Version where "V1_12_2 \<equiv> 9"
abbreviation (input) V1_13 :: Version where "V1_13 \<equiv> 10"
abbreviation (input) V1_13_1 :: Version where "V1_13_1 \<equiv> 11"
abbreviation (input) V1_13_2 :: Version where "V1_13_2 \<equiv> 12"
abbreviation (input) V1_14 :: Version where "V1_14 \<equiv> 13"
abbreviation (input) V1_14_1 :: Version where "V1_14_1 \<equiv> 14"
abbreviation (input) V1_14_3 :: Version where "V1_14_3 \<equiv> 15"
abbreviation (input) V1_14_4 :: Version where "V1_14_4 \<equiv> 16"
abbreviation (input) V1_15 :: Version where "V1_15 \<equiv> 17"
abbreviation (input) V1_15_1 :: Version where "V1_15_1 \<equiv> 18"
abbreviation (input) V1_15_2 :: Version where "V1_15_2 \<equiv> 19"
abbreviation (input) V1_16 :: Version where "V1_16 \<equiv> 20"
abbreviation (input) V1_16_1 :: Version where "V1_16_1 \<equiv> 21"
abbreviation (input) V1_16_2 :: Version where "V1_16_2 \<equiv> 22"
abbreviation (input) V1_17 :: Version where "V1_17 \<equiv> 23"
abbreviation (input) V1_17_1 :: Version where "V1_17_1 \<equiv> 24"
abbreviation (input) V1_18 :: Version where "V1_18 \<equiv> 25"
abbreviation (input) V1_18_2 :: Version where "V1_18_2 \<equiv> 26"
abbreviation (input) V1_19 :: Version where "V1_19 \<equiv> 27"
abbreviation (input) V1_19_2 :: Version where "V1_19_2 \<equiv> 28"
abbreviation (input) V1_19_3 :: Version where "V1_19_3 \<equiv> 29"
abbreviation (input) V1_19_4 :: Version where "V1_19_4 \<equiv> 30"
abbreviation (input) V1_20 :: Version where "V1_20 \<equiv> 31"
abbreviation (input) V1_20_2 :: Version where "V1_20_2 \<equiv> 32"
abbreviation (input) V1_20_3 :: Version where "V1_20_3 \<equiv> 33"
abbreviation (input) V1_20_5 :: Version where "V1_20_5 \<equiv> 34"
abbreviation (input) V1_21_1 :: Version where "V1_21_1 \<equiv> 35"
abbreviation (input) V1_21_3 :: Version where "V1_21_3 \<equiv> 36"
abbreviation (input) V1_21_4 :: Version where "V1_21_4 \<equiv> 37"
abbreviation (input) V1_21_5 :: Version where "V1_21_5 \<equiv> 38"
abbreviation (input) V1_21_6 :: Version where "V1_21_6 \<equiv> 39"
abbreviation (input) V1_21_8 :: Version where "V1_21_8 \<equiv> 40"
abbreviation (input) V1_21_9 :: Version where "V1_21_9 \<equiv> 41"
abbreviation (input) V1_21_11 :: Version where "V1_21_11 \<equiv> 42"

abbreviation (input) First :: Version where "First \<equiv> V1_7"
abbreviation (input) Latest :: Version where "Latest \<equiv> V1_21_11"

section \<open>Version strings\<close>

definition stringToVersion :: "(string \<times> Version) list" where
  "stringToVersion = [
    (''1.7'', V1_7),
    (''1.8'', V1_8),
    (''1.9'', V1_9),
    (''1.9.2'', V1_9_2),
    (''1.9.4'', V1_9_4),
    (''1.10'', V1_10),
    (''1.11'', V1_11),
    (''1.12'', V1_12),
    (''1.12.1'', V1_12_1),
    (''1.12.2'', V1_12_2),
    (''1.13'', V1_13),
    (''1.13.1'', V1_13_1),
    (''1.13.2'', V1_13_2),
    (''1.14'', V1_14),
    (''1.14.1'', V1_14_1),
    (''1.14.3'', V1_14_3),
    (''1.14.4'', V1_14_4),
    (''1.15'', V1_15),
    (''1.15.1'', V1_15_1),
    (''1.15.2'', V1_15_2),
    (''1.16'', V1_16),
    (''1.16.1'', V1_16_1),
    (''1.16.2'', V1_16_2),
    (''1.17'', V1_17),
    (''1.17.1'', V1_17_1),
    (''1.18'', V1_18),
    (''1.18.2'', V1_18_2),
    (''1.19'', V1_19),
    (''1.19.2'', V1_19_2),
    (''1.19.3'', V1_19_3),
    (''1.19.4'', V1_19_4),
    (''1.20'', V1_20),
    (''1.20.2'', V1_20_2),
    (''1.20.3'', V1_20_3),
    (''1.20.5'', V1_20_5),
    (''1.21.1'', V1_21_1),
    (''1.21.3'', V1_21_3),
    (''1.21.4'', V1_21_4),
    (''1.21.5'', V1_21_5),
    (''1.21.6'', V1_21_6),
    (''1.21.8'', V1_21_8),
    (''1.21.9'', V1_21_9),
    (''1.21.11'', V1_21_11)]"

definition versionToString :: "(Version \<times> string) list" where
  "versionToString = map (\<lambda>(s, v). (v, s)) stringToVersion"

text \<open>Go fills \<open>Versions\<close> in the order in which it visits the map; nothing in the program
  depends on the order, which is that of the table here.\<close>

definition Versions :: "Version list" where
  "Versions = map snd stringToVersion"

definition Version_String :: "Version \<Rightarrow> string" where
  "Version_String v = (case map_of versionToString v of Some s \<Rightarrow> s | None \<Rightarrow> ''Unknown'')"

end
