(* ===== verification/Registry_Old.thy ===== *)
theory Registry_Old
  imports Versions
begin

text \<open>
  The packet tables of \<open>protocol/generated_registry.go\<close>, one \<open>Definition\<close>
  (\<open>protocol/registry.go\<close>) per registered version: 1.7 to 1.16.1.
  Every Go map literal is an association list in the order of the source.
\<close>

record Definition =
  ProtocolVersion :: int32
  PacketNames :: "(State \<times> (Direction \<times> (int32 \<times> string) list) list) list"
  PacketIDs :: "(State \<times> (Direction \<times> (string \<times> int32) list) list) list"

definition def_V1_7 :: Definition where
  "def_V1_7 = \<lparr>
    ProtocolVersion = 3,
    PacketNames = [
      (StateHandshaking, [
        (DirectionServerbound, [
          (0, ''ServerboundHandshake'')])]),
      (StateLogin, [
        (DirectionClientbound, [
          (0, ''ClientboundDisconnect''), (2, ''ClientboundLoginSuccess'')]),
        (DirectionServerbound, [
          (0, ''ServerboundLoginStart'')])]),
      (StatePlay, [
        (DirectionClientbound, [
          (0, ''ClientboundKeepAlive''), (1, ''ClientboundJoinGame''),
          (2, ''ServerboundChatMessage''), (63, ''ClientboundCustomPayload''),
          (64, ''ClientboundDisconnect'')]),
        (DirectionServerbound, [
          (0, ''ServerboundKeepAlive''), (1, ''ServerboundChatMessage''),
          (21, ''ServerboundClientSettings''), (23, ''ServerboundCustomPayload'')])]),
      (StateStatus, [
        (DirectionClientbound, [
          (0, ''ClientboundStatusResponse''), (1, ''ClientboundPong'')]),
        (DirectionServerbound, [
          (0, ''ServerboundStatusRequest''), (1, ''ServerboundPing'')])])],
    PacketIDs = [
      (StateHandshaking, [
        (DirectionServerbound, [
          (''ServerboundHandshake'', 0)])]),
      (StateLogin, [
        (DirectionClientbound, [
          (''ClientboundDisconnect'', 0), (''ClientboundLoginSuccess'', 2)]),
        (DirectionServerbound, [
          (''ServerboundLoginStart'', 0)])]),
      (StatePlay, [
        (DirectionClientbound, [
          (''ClientboundCustomPayload'', 63), (''ClientboundDisconnect'', 64),
          (''ClientboundJoinGame'', 1), (''ClientboundKeepAlive'', 0),
          (''ServerboundChatMessage'', 2)]),
        (DirectionServerbound, [
          (''ServerboundChatMessage'', 1), (''ServerboundClientSettings'', 21),
          (''ServerboundCustomPayload'', 23), (''ServerboundKeepAlive'', 0)])]),
      (StateStatus, [
        (DirectionClientbound, [
          (''ClientboundPong'', 1), (''ClientboundStatusResponse'', 0)]),
        (DirectionServerbound, [
          (''ServerboundPing'', 1), (''ServerboundStatusRequest'', 0)])])]\<rparr>"

definition def_V1_8 :: Definition where
  "def_V1_8 = \<lparr>
    ProtocolVersion = 47,
    PacketNames = [
      (StateHandshaking, [
        (DirectionServerbound, [
          (0, ''ServerboundHandshake'')])]),
      (StateLogin, [
        (DirectionClientbound, [
          (0, ''ClientboundDisconnect''), (2, ''ClientboundLoginSuccess''),
          (3, ''ClientboundSetCompression'')]),
        (DirectionServerbound, [
          (0, ''ServerboundLoginStart'')])]),
      (StatePlay, [
        (DirectionClientbound, [
          (0, ''ClientboundKeepAlive''), (1, ''ClientboundJoinGame''),
          (2, ''ServerboundChatMessage''), (63, ''ClientboundCustomPayload''),
          (64, ''ClientboundDisconnect'')]),
        (DirectionServerbound, [
          (0, ''ServerboundKeepAlive''), (1, ''ServerboundChatMessage''),
          (21, ''ServerboundClientSettings''), (23, ''ServerboundCustomPayload'')])]),
      (StateStatus, [
        (DirectionClientbound, [
          (0, ''ClientboundStatusResponse''), (1, ''ClientboundPong'')]),
        (DirectionServerbound, [
          (0, ''ServerboundStatusRequest''), (1, ''ServerboundPing'')])])],
    PacketIDs = [
      (StateHandshaking, [
        (DirectionServerbound, [
          (''ServerboundHandshake'', 0)])]),
      (StateLogin, [
        (DirectionClientbound, [
          (''ClientboundDisconnect'', 0), (''ClientboundLoginSuccess'', 2),
          (''ClientboundSetCompression'', 3)]),
        (DirectionServerbound, [
          (''ServerboundLoginStart'', 0)])]),
      (StatePlay, [
        (DirectionClientbound, [
          (''ClientboundCustomPayload'', 63), (''ClientboundDisconnect'', 64),
          (''ClientboundJoinGame'', 1), (''ClientboundKeepAlive'', 0),
          (''ServerboundChatMessage'', 2)]),
        (DirectionServerbound, [
          (''ServerboundChatMessage'', 1), (''ServerboundClientSettings'', 21),
          (''ServerboundCustomPayload'', 23), (''ServerboundKeepAlive'', 0)])]),
      (StateStatus, [
        (DirectionClientbound, [
          (''ClientboundPong'', 1), (''ClientboundStatusResponse'', 0)]),
        (DirectionServerbound, [
          (''ServerboundPing'', 1), (''ServerboundStatusRequest'', 0)])])]\<rparr>"

definition def_V1_9 :: Definition where
  "def_V1_9 = \<lparr>
    ProtocolVersion = 107,
    PacketNames = [
      (StateHandshaking, [
        (DirectionServerbound, [
          (0, ''ServerboundHandshake'')])]),
      (StateLogin, [
        (DirectionClientbound, [
          (0, ''ClientboundDisconnect''), (2, ''ClientboundLoginSuccess''),
          (3, ''ClientboundSetCompression'')]),
        (DirectionServerbound, [
          (0, ''ServerboundLoginStart'')])]),
      (StatePlay, [
        (DirectionClientbound, [
          (15, ''ServerboundChatMessage''), (24, ''ClientboundCustomPayload''),
          (26, ''ClientboundDisconnect''), (31, ''ClientboundKeepAlive''),
          (35, ''ClientboundJoinGame'')]),
        (DirectionServerbound, [
          (2, ''ServerboundChatMessage''), (4, ''ServerboundClientSettings''),
          (9, ''ServerboundCustomPayload''), (11, ''ServerboundKeepAlive'')])]),
      (StateStatus, [
        (DirectionClientbound, [
          (0, ''ClientboundStatusResponse''), (1, ''ClientboundPong'')]),
        (DirectionServerbound, [
          (0, ''ServerboundStatusRequest''), (1, ''ServerboundPing'')])])],
    PacketIDs = [
      (StateHandshaking, [
        (DirectionServerbound, [
          (''ServerboundHandshake'', 0)])]),
      (StateLogin, [
        (DirectionClientbound, [
          (''ClientboundDisconnect'', 0), (''ClientboundLoginSuccess'', 2),
          (''ClientboundSetCompression'', 3)]),
        (DirectionServerbound, [
          (''ServerboundLoginStart'', 0)])]),
      (StatePlay, [
        (DirectionClientbound, [
          (''ClientboundCustomPayload'', 24), (''ClientboundDisconnect'', 26),
          (''ClientboundJoinGame'', 35), (''ClientboundKeepAlive'', 31),
          (''ServerboundChatMessage'', 15)]),
        (DirectionServerbound, [
          (''ServerboundChatMessage'', 2), (''ServerboundClientSettings'', 4),
          (''ServerboundCustomPayload'', 9), (''ServerboundKeepAlive'', 11)])]),
      (StateStatus, [
        (DirectionClientbound, [
          (''ClientboundPong'', 1), (''ClientboundStatusResponse'', 0)]),
        (DirectionServerbound, [
          (''ServerboundPing'', 1), (''ServerboundStatusRequest'', 0)])])]\<rparr>"

definition def_V1_9_2 :: Definition where
  "def_V1_9_2 = \<lparr>
    ProtocolVersion = 109,
    PacketNames = [
      (StateHandshaking, [
        (DirectionServerbound, [
          (0, ''ServerboundHandshake'')])]),
      (StateLogin, [
        (DirectionClientbound, [
          (0, ''ClientboundDisconnect''), (2, ''ClientboundLoginSuccess''),
          (3, ''ClientboundSetCompression'')]),
        (DirectionServerbound, [
          (0, ''ServerboundLoginStart'')])]),
      (StatePlay, [
        (DirectionClientbound, [
          (15, ''ServerboundChatMessage''), (24, ''ClientboundCustomPayload''),
          (26, ''ClientboundDisconnect''), (31, ''ClientboundKeepAlive''),
          (35, ''ClientboundJoinGame'')]),
        (DirectionServerbound, [
          (2, ''ServerboundChatMessage''), (4, ''ServerboundClientSettings''),
          (9, ''ServerboundCustomPayload''), (11, ''ServerboundKeepAlive'')])]),
      (StateStatus, [
        (DirectionClientbound, [
          (0, ''ClientboundStatusResponse''), (1, ''ClientboundPong'')]),
        (DirectionServerbound, [
          (0, ''ServerboundStatusRequest''), (1, ''ServerboundPing'')])])],
    PacketIDs = [
      (StateHandshaking, [
        (DirectionServerbound, [
          (''ServerboundHandshake'', 0)])]),
      (StateLogin, [
        (DirectionClientbound, [
          (''ClientboundDisconnect'', 0), (''ClientboundLoginSuccess'', 2),
          (''ClientboundSetCompression'', 3)]),
        (DirectionServerbound, [
          (''ServerboundLoginStart'', 0)])]),
      (StatePlay, [
        (DirectionClientbound, [
          (''ClientboundCustomPayload'', 24), (''ClientboundDisconnect'', 26),
          (''ClientboundJoinGame'', 35), (''ClientboundKeepAlive'', 31),
          (''ServerboundChatMessage'', 15)]),
        (DirectionServerbound, [
          (''ServerboundChatMessage'', 2), (''ServerboundClientSettings'', 4),
          (''ServerboundCustomPayload'', 9), (''ServerboundKeepAlive'', 11)])]),
      (StateStatus, [
        (DirectionClientbound, [
          (''ClientboundPong'', 1), (''ClientboundStatusResponse'', 0)]),
        (DirectionServerbound, [
          (''ServerboundPing'', 1), (''ServerboundStatusRequest'', 0)])])]\<rparr>"

definition def_V1_9_4 :: Definition where
  "def_V1_9_4 = \<lparr>
    ProtocolVersion = 110,
    PacketNames = [
      (StateHandshaking, [
        (DirectionServerbound, [
          (0, ''ServerboundHandshake'')])]),
      (StateLogin, [
        (DirectionClientbound, [
          (0, ''ClientboundDisconnect''), (2, ''ClientboundLoginSuccess''),
          (3, ''ClientboundSetCompression'')]),
        (DirectionServerbound, [
          (0, ''ServerboundLoginStart'')])]),
      (StatePlay, [
        (DirectionClientbound, [
          (15, ''ServerboundChatMessage''), (24, ''ClientboundCustomPayload''),
          (26, ''ClientboundDisconnect''), (31, ''ClientboundKeepAlive''),
          (35, ''ClientboundJoinGame'')]),
        (DirectionServerbound, [
          (2, ''ServerboundChatMessage''), (4, ''ServerboundClientSettings''),
          (9, ''ServerboundCustomPayload''), (11, ''ServerboundKeepAlive'')])]),
      (StateStatus, [
        (DirectionClientbound, [
          (0, ''ClientboundStatusResponse''), (1, ''ClientboundPong'')]),
        (DirectionServerbound, [
          (0, ''ServerboundStatusRequest''), (1, ''ServerboundPing'')])])],
    PacketIDs = [
      (StateHandshaking, [
        (DirectionServerbound, [
          (''ServerboundHandshake'', 0)])]),
      (StateLogin, [
        (DirectionClientbound, [
          (''ClientboundDisconnect'', 0), (''ClientboundLoginSuccess'', 2),
          (''ClientboundSetCompression'', 3)]),
        (DirectionServerbound, [
          (''ServerboundLoginStart'', 0)])]),
      (StatePlay, [
        (DirectionClientbound, [
          (''ClientboundCustomPayload'', 24), (''ClientboundDisconnect'', 26),
          (''ClientboundJoinGame'', 35), (''ClientboundKeepAlive'', 31),
          (''ServerboundChatMessage'', 15)]),
        (DirectionServerbound, [
          (''ServerboundChatMessage'', 2), (''ServerboundClientSettings'', 4),
          (''ServerboundCustomPayload'', 9), (''ServerboundKeepAlive'', 11)])]),
      (StateStatus, [
        (DirectionClientbound, [
          (''ClientboundPong'', 1), (''ClientboundStatusResponse'', 0)]),
        (DirectionServerbound, [
          (''ServerboundPing'', 1), (''ServerboundStatusRequest'', 0)])])]\<rparr>"

definition def_V1_10 :: Definition where
  "def_V1_10 = \<lparr>
    ProtocolVersion = 210,
    PacketNames = [
      (StateHandshaking, [
        (DirectionServerbound, [
          (0, ''ServerboundHandshake'')])]),
      (StateLogin, [
        (DirectionClientbound, [
          (0, ''ClientboundDisconnect''), (2, ''ClientboundLoginSuccess''),
          (3, ''ClientboundSetCompression'')]),
        (DirectionServerbound, [
          (0, ''ServerboundLoginStart'')])]),
      (StatePlay, [
        (DirectionClientbound, [
          (15, ''ServerboundChatMessage''), (24, ''ClientboundCustomPayload''),
          (26, ''ClientboundDisconnect''), (31, ''ClientboundKeepAlive''),
          (35, ''ClientboundJoinGame'')]),
        (DirectionServerbound, [
          (2, ''ServerboundChatMessage''), (4, ''ServerboundClientSettings''),
          (9, ''ServerboundCustomPayload''), (11, ''ServerboundKeepAlive'')])]),
      (StateStatus, [
        (DirectionClientbound, [
          (0, ''ClientboundStatusResponse''), (1, ''ClientboundPong'')]),
        (DirectionServerbound, [
          (0, ''ServerboundStatusRequest''), (1, ''ServerboundPing'')])])],
    PacketIDs = [
      (StateHandshaking, [
        (DirectionServerbound, [
          (''ServerboundHandshake'', 0)])]),
      (StateLogin, [
        (DirectionClientbound, [
          (''ClientboundDisconnect'', 0), (''ClientboundLoginSuccess'', 2),
          (''ClientboundSetCompression'', 3)]),
        (DirectionServerbound, [
          (''ServerboundLoginStart'', 0)])]),
      (StatePlay, [
        (DirectionClientbound, [
          (''ClientboundCustomPayload'', 24), (''ClientboundDisconnect'', 26),
          (''ClientboundJoinGame'', 35), (''ClientboundKeepAlive'', 31),
          (''ServerboundChatMessage'', 15)]),
        (DirectionServerbound, [
          (''ServerboundChatMessage'', 2), (''ServerboundClientSettings'', 4),
          (''ServerboundCustomPayload'', 9), (''ServerboundKeepAlive'', 11)])]),
      (StateStatus, [
        (DirectionClientbound, [
          (''ClientboundPong'', 1), (''ClientboundStatusResponse'', 0)]),
        (DirectionServerbound, [
          (''ServerboundPing'', 1), (''ServerboundStatusRequest'', 0)])])]\<rparr>"

definition def_V1_11 :: Definition where
  "def_V1_11 = \<lparr>
    ProtocolVersion = 315,
    PacketNames = [
      (StateHandshaking, [
        (DirectionServerbound, [
          (0, ''ServerboundHandshake'')])]),
      (StateLogin, [
        (DirectionClientbound, [
          (0, ''ClientboundDisconnect''), (2, ''ClientboundLoginSuccess''),
          (3, ''ClientboundSetCompression'')]),
        (DirectionServerbound, [
          (0, ''ServerboundLoginStart'')])]),
      (StatePlay, [
        (DirectionClientbound, [
          (15, ''ServerboundChatMessage''), (24, ''ClientboundCustomPayload''),
          (26, ''ClientboundDisconnect''), (31, ''ClientboundKeepAlive''),
          (35, ''ClientboundJoinGame'')]),
        (DirectionServerbound, [
          (2, ''ServerboundChatMessage''), (4, ''ServerboundClientSettings''),
          (9, ''ServerboundCustomPayload''), (11, ''ServerboundKeepAlive'')])]),
      (StateStatus, [
        (DirectionClientbound, [
          (0, ''ClientboundStatusResponse''), (1, ''ClientboundPong'')]),
        (DirectionServerbound, [
          (0, ''ServerboundStatusRequest''), (1, ''ServerboundPing'')])])],
    PacketIDs = [
      (StateHandshaking, [
        (DirectionServerbound, [
          (''ServerboundHandshake'', 0)])]),
      (StateLogin, [
        (DirectionClientbound, [
          (''ClientboundDisconnect'', 0), (''ClientboundLoginSuccess'', 2),
          (''ClientboundSetCompression'', 3)]),
        (DirectionServerbound, [
          (''ServerboundLoginStart'', 0)])]),
      (StatePlay, [
        (DirectionClientbound, [
          (''ClientboundCustomPayload'', 24), (''ClientboundDisconnect'', 26),
          (''ClientboundJoinGame'', 35), (''ClientboundKeepAlive'', 31),
          (''ServerboundChatMessage'', 15)]),
        (DirectionServerbound, [
          (''ServerboundChatMessage'', 2), (''ServerboundClientSettings'', 4),
          (''ServerboundCustomPayload'', 9), (''ServerboundKeepAlive'', 11)])]),
      (StateStatus, [
        (DirectionClientbound, [
          (''ClientboundPong'', 1), (''ClientboundStatusResponse'', 0)]),
        (DirectionServerbound, [
          (''ServerboundPing'', 1), (''ServerboundStatusRequest'', 0)])])]\<rparr>"

definition def_V1_12 :: Definition where
  "def_V1_12 = \<lparr>
    ProtocolVersion = 335,
    PacketNames = [
      (StateHandshaking, [
        (DirectionServerbound, [
          (0, ''ServerboundHandshake'')])]),
      (StateLogin, [
        (DirectionClientbound, [
          (0, ''ClientboundDisconnect''), (2, ''ClientboundLoginSuccess''),
          (3, ''ClientboundSetCompression'')]),
        (DirectionServerbound, [
          (0, ''ServerboundLoginStart'')])]),
      (StatePlay, [
        (DirectionClientbound, [
          (15, ''ServerboundChatMessage''), (24, ''ClientboundCustomPayload''),
          (26, ''ClientboundDisconnect''), (31, ''ClientboundKeepAlive''),
          (35, ''ClientboundJoinGame'')]),
        (DirectionServerbound, [
          (3, ''ServerboundChatMessage''), (5, ''ServerboundClientSettings''),
          (10, ''ServerboundCustomPayload''), (12, ''ServerboundKeepAlive'')])]),
      (StateStatus, [
        (DirectionClientbound, [
          (0, ''ClientboundStatusResponse''), (1, ''ClientboundPong'')]),
        (DirectionServerbound, [
          (0, ''ServerboundStatusRequest''), (1, ''ServerboundPing'')])])],
    PacketIDs = [
      (StateHandshaking, [
        (DirectionServerbound, [
          (''ServerboundHandshake'', 0)])]),
      (StateLogin, [
        (DirectionClientbound, [
          (''ClientboundDisconnect'', 0), (''ClientboundLoginSuccess'', 2),
          (''ClientboundSetCompression'', 3)]),
        (DirectionServerbound, [
          (''ServerboundLoginStart'', 0)])]),
      (StatePlay, [
        (DirectionClientbound, [
          (''ClientboundCustomPayload'', 24), (''ClientboundDisconnect'', 26),
          (''ClientboundJoinGame'', 35), (''ClientboundKeepAlive'', 31),
          (''ServerboundChatMessage'', 15)]),
        (DirectionServerbound, [
          (''ServerboundChatMessage'', 3), (''ServerboundClientSettings'', 5),
          (''ServerboundCustomPayload'', 10), (''ServerboundKeepAlive'', 12)])]),
      (StateStatus, [
        (DirectionClientbound, [
          (''ClientboundPong'', 1), (''ClientboundStatusResponse'', 0)]),
        (DirectionServerbound, [
          (''ServerboundPing'', 1), (''ServerboundStatusRequest'', 0)])])]\<rparr>"

definition def_V1_12_1 :: Definition where
  "def_V1_12_1 = \<lparr>
    ProtocolVersion = 338,
    PacketNames = [
      (StateHandshaking, [
        (DirectionServerbound, [
          (0, ''ServerboundHandshake'')])]),
      (StateLogin, [
        (DirectionClientbound, [
          (0, ''ClientboundDisconnect''), (2, ''ClientboundLoginSuccess''),
          (3, ''ClientboundSetCompression'')]),
        (DirectionServerbound, [
          (0, ''ServerboundLoginStart'')])]),
      (StatePlay, [
        (DirectionClientbound, [
          (15, ''ServerboundChatMessage''), (24, ''ClientboundCustomPayload''),
          (26, ''ClientboundDisconnect''), (31, ''ClientboundKeepAlive''),
          (35, ''ClientboundJoinGame'')]),
        (DirectionServerbound, [
          (2, ''ServerboundChatMessage''), (4, ''ServerboundClientSettings''),
          (9, ''ServerboundCustomPayload''), (11, ''ServerboundKeepAlive'')])]),
      (StateStatus, [
        (DirectionClientbound, [
          (0, ''ClientboundStatusResponse''), (1, ''ClientboundPong'')]),
        (DirectionServerbound, [
          (0, ''ServerboundStatusRequest''), (1, ''ServerboundPing'')])])],
    PacketIDs = [
      (StateHandshaking, [
        (DirectionServerbound, [
          (''ServerboundHandshake'', 0)])]),
      (StateLogin, [
        (DirectionClientbound, [
          (''ClientboundDisconnect'', 0), (''ClientboundLoginSuccess'', 2),
          (''ClientboundSetCompression'', 3)]),
        (DirectionServerbound, [
          (''ServerboundLoginStart'', 0)])]),
      (StatePlay, [
        (DirectionClientbound, [
          (''ClientboundCustomPayload'', 24), (''ClientboundDisconnect'', 26),
          (''ClientboundJoinGame'', 35), (''ClientboundKeepAlive'', 31),
          (''ServerboundChatMessage'', 15)]),
        (DirectionServerbound, [
          (''ServerboundChatMessage'', 2), (''ServerboundClientSettings'', 4),
          (''ServerboundCustomPayload'', 9), (''ServerboundKeepAlive'', 11)])]),
      (StateStatus, [
        (DirectionClientbound, [
          (''ClientboundPong'', 1), (''ClientboundStatusResponse'', 0)]),
        (DirectionServerbound, [
          (''ServerboundPing'', 1), (''ServerboundStatusRequest'', 0)])])]\<rparr>"

definition def_V1_12_2 :: Definition where
  "def_V1_12_2 = \<lparr>
    ProtocolVersion = 340,
    PacketNames = [
      (StateHandshaking, [
        (DirectionServerbound, [
          (0, ''ServerboundHandshake'')])]),
      (StateLogin, [
        (DirectionClientbound, [
          (0, ''ClientboundDisconnect''), (2, ''ClientboundLoginSuccess''),
          (3, ''ClientboundSetCompression'')]),
        (DirectionServerbound, [
          (0, ''ServerboundLoginStart'')])]),
      (StatePlay, [
        (DirectionClientbound, [
          (15, ''ServerboundChatMessage''), (24, ''ClientboundCustomPayload''),
          (26, ''ClientboundDisconnect''), (31, ''ClientboundKeepAlive''),
          (35, ''ClientboundJoinGame'')]),
        (DirectionServerbound, [
          (2, ''ServerboundChatMessage''), (4, ''ServerboundClientSettings''),
          (9, ''ServerboundCustomPayload''), (11, ''ServerboundKeepAlive'')])]),
      (StateStatus, [
        (DirectionClientbound, [
          (0, ''ClientboundStatusResponse''), (1, ''ClientboundPong'')]),
        (DirectionServerbound, [
          (0, ''ServerboundStatusRequest''), (1, ''ServerboundPing'')])])],
    PacketIDs = [
      (StateHandshaking, [
        (DirectionServerbound, [
          (''ServerboundHandshake'', 0)])]),
      (StateLogin, [
        (DirectionClientbound, [
          (''ClientboundDisconnect'', 0), (''ClientboundLoginSuccess'', 2),
          (''ClientboundSetCompression'', 3)]),
        (DirectionServerbound, [
          (''ServerboundLoginStart'', 0)])]),
      (StatePlay, [
        (DirectionClientbound, [
          (''ClientboundCustomPayload'', 24), (''ClientboundDisconnect'', 26),
          (''ClientboundJoinGame'', 35), (''ClientboundKeepAlive'', 31),
          (''ServerboundChatMessage'', 15)]),
        (DirectionServerbound, [
          (''ServerboundChatMessage'', 2), (''ServerboundClientSettings'', 4),
          (''ServerboundCustomPayload'', 9), (''ServerboundKeepAlive'', 11)])]),
      (StateStatus, [
        (DirectionClientbound, [
          (''ClientboundPong'', 1), (''ClientboundStatusResponse'', 0)]),
        (DirectionServerbound, [
          (''ServerboundPing'', 1), (''ServerboundStatusRequest'', 0)])])]\<rparr>"

definition def_V1_13 :: Definition where
  "def_V1_13 = \<lparr>
    ProtocolVersion = 393,
    PacketNames = [
      (StateHandshaking, [
        (DirectionServerbound, [
          (0, ''ServerboundHandshake'')])]),
      (StateLogin, [
        (DirectionClientbound, [
          (0, ''ClientboundDisconnect''), (2, ''ClientboundLoginSuccess''),
          (3, ''ClientboundSetCompression'')]),
        (DirectionServerbound, [
          (0, ''ServerboundLoginStart'')])]),
      (StatePlay, [
        (DirectionClientbound, [
          (14, ''ServerboundChatMessage''), (25, ''ClientboundCustomPayload''),
          (27, ''ClientboundDisconnect''), (33, ''ClientboundKeepAlive''),
          (37, ''ClientboundJoinGame'')]),
        (DirectionServerbound, [
          (2, ''ServerboundChatMessage''), (4, ''ServerboundClientSettings''),
          (10, ''ServerboundCustomPayload''), (14, ''ServerboundKeepAlive'')])]),
      (StateStatus, [
        (DirectionClientbound, [
          (0, ''ClientboundStatusResponse''), (1, ''ClientboundPong'')]),
        (DirectionServerbound, [
          (0, ''ServerboundStatusRequest''), (1, ''ServerboundPing'')])])],
    PacketIDs = [
      (StateHandshaking, [
        (DirectionServerbound, [
          (''ServerboundHandshake'', 0)])]),
      (StateLogin, [
        (DirectionClientbound, [
          (''ClientboundDisconnect'', 0), (''ClientboundLoginSuccess'', 2),
          (''ClientboundSetCompression'', 3)]),
        (DirectionServerbound, [
          (''ServerboundLoginStart'', 0)])]),
      (StatePlay, [
        (DirectionClientbound, [
          (''ClientboundCustomPayload'', 25), (''ClientboundDisconnect'', 27),
          (''ClientboundJoinGame'', 37), (''ClientboundKeepAlive'', 33),
          (''ServerboundChatMessage'', 14)]),
        (DirectionServerbound, [
          (''ServerboundChatMessage'', 2), (''ServerboundClientSettings'', 4),
          (''ServerboundCustomPayload'', 10), (''ServerboundKeepAlive'', 14)])]),
      (StateStatus, [
        (DirectionClientbound, [
          (''ClientboundPong'', 1), (''ClientboundStatusResponse'', 0)]),
        (DirectionServerbound, [
          (''ServerboundPing'', 1), (''ServerboundStatusRequest'', 0)])])]\<rparr>"

definition def_V1_13_1 :: Definition where
  "def_V1_13_1 = \<lparr>
    ProtocolVersion = 401,
    PacketNames = [
      (StateHandshaking, [
        (DirectionServerbound, [
          (0, ''ServerboundHandshake'')])]),
      (StateLogin, [
        (DirectionClientbound, [
          (0, ''ClientboundDisconnect''), (2, ''ClientboundLoginSuccess''),
          (3, ''ClientboundSetCompression'')]),
        (DirectionServerbound, [
          (0, ''ServerboundLoginStart'')])]),
      (StatePlay, [
        (DirectionClientbound, [
          (14, ''ServerboundChatMessage''), (25, ''ClientboundCustomPayload''),
          (27, ''ClientboundDisconnect''), (33, ''ClientboundKeepAlive''),
          (37, ''ClientboundJoinGame'')]),
        (DirectionServerbound, [
          (2, ''ServerboundChatMessage''), (4, ''ServerboundClientSettings''),
          (10, ''ServerboundCustomPayload''), (14, ''ServerboundKeepAlive'')])]),
      (StateStatus, [
        (DirectionClientbound, [
          (0, ''ClientboundStatusResponse''), (1, ''ClientboundPong'')]),
        (DirectionServerbound, [
          (0, ''ServerboundStatusRequest''), (1, ''ServerboundPing'')])])],
    PacketIDs = [
      (StateHandshaking, [
        (DirectionServerbound, [
          (''ServerboundHandshake'', 0)])]),
      (StateLogin, [
        (DirectionClientbound, [
          (''ClientboundDisconnect'', 0), (''ClientboundLoginSuccess'', 2),
          (''ClientboundSetCompression'', 3)]),
        (DirectionServerbound, [
          (''ServerboundLoginStart'', 0)])]),
      (StatePlay, [
        (DirectionClientbound, [
          (''ClientboundCustomPayload'', 25), (''ClientboundDisconnect'', 27),
          (''ClientboundJoinGame'', 37), (''ClientboundKeepAlive'', 33),
          (''ServerboundChatMessage'', 14)]),
        (DirectionServerbound, [
          (''ServerboundChatMessage'', 2), (''ServerboundClientSettings'', 4),
          (''ServerboundCustomPayload'', 10), (''ServerboundKeepAlive'', 14)])]),
      (StateStatus, [
        (DirectionClientbound, [
          (''ClientboundPong'', 1), (''ClientboundStatusResponse'', 0)]),
        (DirectionServerbound, [
          (''ServerboundPing'', 1), (''ServerboundStatusRequest'', 0)])])]\<rparr>"

definition def_V1_13_2 :: Definition where
  "def_V1_13_2 = \<lparr>
    ProtocolVersion = 404,
    PacketNames = [
      (StateHandshaking, [
        (DirectionServerbound, [
          (0, ''ServerboundHandshake'')])]),
      (StateLogin, [
        (DirectionClientbound, [
          (0, ''ClientboundDisconnect''), (2, ''ClientboundLoginSuccess''),
          (3, ''ClientboundSetCompression'')]),
        (DirectionServerbound, [
          (0, ''ServerboundLoginStart'')])]),
      (StatePlay, [
        (DirectionClientbound, [
          (14, ''ServerboundChatMessage''), (25, ''ClientboundCustomPayload''),
          (27, ''ClientboundDisconnect''), (33, ''ClientboundKeepAlive''),
          (37, ''ClientboundJoinGame'')]),
        (DirectionServerbound, [
          (2, ''ServerboundChatMessage''), (4, ''ServerboundClientSettings''),
          (10, ''ServerboundCustomPayload''), (14, ''ServerboundKeepAlive'')])]),
      (StateStatus, [
        (DirectionClientbound, [
          (0, ''ClientboundStatusResponse''), (1, ''ClientboundPong'')]),
        (DirectionServerbound, [
          (0, ''ServerboundStatusRequest''), (1, ''ServerboundPing'')])])],
    PacketIDs = [
      (StateHandshaking, [
        (DirectionServerbound, [
          (''ServerboundHandshake'', 0)])]),
      (StateLogin, [
        (DirectionClientbound, [
          (''ClientboundDisconnect'', 0), (''ClientboundLoginSuccess'', 2),
          (''ClientboundSetCompression'', 3)]),
        (DirectionServerbound, [
          (''ServerboundLoginStart'', 0)])]),
      (StatePlay, [
        (DirectionClientbound, [
          (''ClientboundCustomPayload'', 25), (''ClientboundDisconnect'', 27),
          (''ClientboundJoinGame'', 37), (''ClientboundKeepAlive'', 33),
          (''ServerboundChatMessage'', 14)]),
        (DirectionServerbound, [
          (''ServerboundChatMessage'', 2), (''ServerboundClientSettings'', 4),
          (''ServerboundCustomPayload'', 10), (''ServerboundKeepAlive'', 14)])]),
      (StateStatus, [
        (DirectionClientbound, [
          (''ClientboundPong'', 1), (''ClientboundStatusResponse'', 0)]),
        (DirectionServerbound, [
          (''ServerboundPing'', 1), (''ServerboundStatusRequest'', 0)])])]\<rparr>"

definition def_V1_14 :: Definition where
  "def_V1_14 = \<lparr>
    ProtocolVersion = 477,
    PacketNames = [
      (StateHandshaking, [
        (DirectionServerbound, [
          (0, ''ServerboundHandshake'')])]),
      (StateLogin, [
        (DirectionClientbound, [
          (0, ''ClientboundDisconnect''), (2, ''ClientboundLoginSuccess''),
          (3, ''ClientboundSetCompression'')]),
        (DirectionServerbound, [
          (0, ''ServerboundLoginStart'')])]),
      (StatePlay, [
        (DirectionClientbound, [
          (14, ''ServerboundChatMessage''), (24, ''ClientboundCustomPayload''),
          (26, ''ClientboundDisconnect''), (32, ''ClientboundKeepAlive''),
          (37, ''ClientboundJoinGame'')]),
        (DirectionServerbound, [
          (3, ''ServerboundChatMessage''), (5, ''ServerboundClientSettings''),
          (11, ''ServerboundCustomPayload''), (15, ''ServerboundKeepAlive'')])]),
      (StateStatus, [
        (DirectionClientbound, [
          (0, ''ClientboundStatusResponse''), (1, ''ClientboundPong'')]),
        (DirectionServerbound, [
          (0, ''ServerboundStatusRequest''), (1, ''ServerboundPing'')])])],
    PacketIDs = [
      (StateHandshaking, [
        (DirectionServerbound, [
          (''ServerboundHandshake'', 0)])]),
      (StateLogin, [
        (DirectionClientbound, [
          (''ClientboundDisconnect'', 0), (''ClientboundLoginSuccess'', 2),
          (''ClientboundSetCompression'', 3)]),
        (DirectionServerbound, [
          (''ServerboundLoginStart'', 0)])]),
      (StatePlay, [
        (DirectionClientbound, [
          (''ClientboundCustomPayload'', 24), (''ClientboundDisconnect'', 26),
          (''ClientboundJoinGame'', 37), (''ClientboundKeepAlive'', 32),
          (''ServerboundChatMessage'', 14)]),
        (DirectionServerbound, [
          (''ServerboundChatMessage'', 3), (''ServerboundClientSettings'', 5),
          (''ServerboundCustomPayload'', 11), (''ServerboundKeepAlive'', 15)])]),
      (StateStatus, [
        (DirectionClientbound, [
          (''ClientboundPong'', 1), (''ClientboundStatusResponse'', 0)]),
        (DirectionServerbound, [
          (''ServerboundPing'', 1), (''ServerboundStatusRequest'', 0)])])]\<rparr>"

definition def_V1_14_1 :: Definition where
  "def_V1_14_1 = \<lparr>
    ProtocolVersion = 480,
    PacketNames = [
      (StateHandshaking, [
        (DirectionServerbound, [
          (0, ''ServerboundHandshake'')])]),
      (StateLogin, [
        (DirectionClientbound, [
          (0, ''ClientboundDisconnect''), (2, ''ClientboundLoginSuccess''),
          (3, ''ClientboundSetCompression'')]),
        (DirectionServerbound, [
          (0, ''ServerboundLoginStart'')])]),
      (StatePlay, [
        (DirectionClientbound, [
          (14, ''ServerboundChatMessage''), (24, ''ClientboundCustomPayload''),
          (26, ''ClientboundDisconnect''), (32, ''ClientboundKeepAlive''),
          (37, ''ClientboundJoinGame'')]),
        (DirectionServerbound, [
          (3, ''ServerboundChatMessage''), (5, ''ServerboundClientSettings''),
          (11, ''ServerboundCustomPayload''), (15, ''ServerboundKeepAlive'')])]),
      (StateStatus, [
        (DirectionClientbound, [
          (0, ''ClientboundStatusResponse''), (1, ''ClientboundPong'')]),
        (DirectionServerbound, [
          (0, ''ServerboundStatusRequest''), (1, ''ServerboundPing'')])])],
    PacketIDs = [
      (StateHandshaking, [
        (DirectionServerbound, [
          (''ServerboundHandshake'', 0)])]),
      (StateLogin, [
        (DirectionClientbound, [
          (''ClientboundDisconnect'', 0), (''ClientboundLoginSuccess'', 2),
          (''ClientboundSetCompression'', 3)]),
        (DirectionServerbound, [
          (''ServerboundLoginStart'', 0)])]),
      (StatePlay, [
        (DirectionClientbound, [
          (''ClientboundCustomPayload'', 24), (''ClientboundDisconnect'', 26),
          (''ClientboundJoinGame'', 37), (''ClientboundKeepAlive'', 32),
          (''ServerboundChatMessage'', 14)]),
        (DirectionServerbound, [
          (''ServerboundChatMessage'', 3), (''ServerboundClientSettings'', 5),
          (''ServerboundCustomPayload'', 11), (''ServerboundKeepAlive'', 15)])]),
      (StateStatus, [
        (DirectionClientbound, [
          (''ClientboundPong'', 1), (''ClientboundStatusResponse'', 0)]),
        (DirectionServerbound, [
          (''ServerboundPing'', 1), (''ServerboundStatusRequest'', 0)])])]\<rparr>"

definition def_V1_14_3 :: Definition where
  "def_V1_14_3 = \<lparr>
    ProtocolVersion = 490,
    PacketNames = [
      (StateHandshaking, [
        (DirectionServerbound, [
          (0, ''ServerboundHandshake'')])]),
      (StateLogin, [
        (DirectionClientbound, [
          (0, ''ClientboundDisconnect''), (2, ''ClientboundLoginSuccess''),
          (3, ''ClientboundSetCompression'')]),
        (DirectionServerbound, [
          (0, ''ServerboundLoginStart'')])]),
      (StatePlay, [
        (DirectionClientbound, [
          (14, ''ServerboundChatMessage''), (24, ''ClientboundCustomPayload''),
          (26, ''ClientboundDisconnect''), (32, ''ClientboundKeepAlive''),
          (37, ''ClientboundJoinGame'')]),
        (DirectionServerbound, [
          (3, ''ServerboundChatMessage''), (5, ''ServerboundClientSettings''),
          (11, ''ServerboundCustomPayload''), (15, ''ServerboundKeepAlive'')])]),
      (StateStatus, [
        (DirectionClientbound, [
          (0, ''ClientboundStatusResponse''), (1, ''ClientboundPong'')]),
        (DirectionServerbound, [
          (0, ''ServerboundStatusRequest''), (1, ''ServerboundPing'')])])],
    PacketIDs = [
      (StateHandshaking, [
        (DirectionServerbound, [
          (''ServerboundHandshake'', 0)])]),
      (StateLogin, [
        (DirectionClientbound, [
          (''ClientboundDisconnect'', 0), (''ClientboundLoginSuccess'', 2),
          (''ClientboundSetCompression'', 3)]),
        (DirectionServerbound, [
          (''ServerboundLoginStart'', 0)])]),
      (StatePlay, [
        (DirectionClientbound, [
          (''ClientboundCustomPayload'', 24), (''ClientboundDisconnect'', 26),
          (''ClientboundJoinGame'', 37), (''ClientboundKeepAlive'', 32),
          (''ServerboundChatMessage'', 14)]),
        (DirectionServerbound, [
          (''ServerboundChatMessage'', 3), (''ServerboundClientSettings'', 5),
          (''ServerboundCustomPayload'', 11), (''ServerboundKeepAlive'', 15)])]),
      (StateStatus, [
        (DirectionClientbound, [
          (''ClientboundPong'', 1), (''ClientboundStatusResponse'', 0)]),
        (DirectionServerbound, [
          (''ServerboundPing'', 1), (''ServerboundStatusRequest'', 0)])])]\<rparr>"

definition def_V1_14_4 :: Definition where
  "def_V1_14_4 = \<lparr>
    ProtocolVersion = 498,
    PacketNames = [
      (StateHandshaking, [
        (DirectionServerbound, [
          (0, ''ServerboundHandshake'')])]),
      (StateLogin, [
        (DirectionClientbound, [
          (0, ''ClientboundDisconnect''), (2, ''ClientboundLoginSuccess''),
          (3, ''ClientboundSetCompression'')]),
        (DirectionServerbound, [
          (0, ''ServerboundLoginStart'')])]),
      (StatePlay, [
        (DirectionClientbound, [
          (14, ''ServerboundChatMessage''), (24, ''ClientboundCustomPayload''),
          (26, ''ClientboundDisconnect''), (32, ''ClientboundKeepAlive''),
          (37, ''ClientboundJoinGame'')]),
        (DirectionServerbound, [
          (3, ''ServerboundChatMessage''), (5, ''ServerboundClientSettings''),
          (11, ''ServerboundCustomPayload''), (15, ''ServerboundKeepAlive'')])]),
      (StateStatus, [
        (DirectionClientbound, [
          (0, ''ClientboundStatusResponse''), (1, ''ClientboundPong'')]),
        (DirectionServerbound, [
          (0, ''ServerboundStatusRequest''), (1, ''ServerboundPing'')])])],
    PacketIDs = [
      (StateHandshaking, [
        (DirectionServerbound, [
          (''ServerboundHandshake'', 0)])]),
      (StateLogin, [
        (DirectionClientbound, [
          (''ClientboundDisconnect'', 0), (''ClientboundLoginSuccess'', 2),
          (''ClientboundSetCompression'', 3)]),
        (DirectionServerbound, [
          (''ServerboundLoginStart'', 0)])]),
      (StatePlay, [
        (DirectionClientbound, [
          (''ClientboundCustomPayload'', 24), (''ClientboundDisconnect'', 26),
          (''ClientboundJoinGame'', 37), (''ClientboundKeepAlive'', 32),
          (''ServerboundChatMessage'', 14)]),
        (DirectionServerbound, [
          (''ServerboundChatMessage'', 3), (''ServerboundClientSettings'', 5),
          (''ServerboundCustomPayload'', 11), (''ServerboundKeepAlive'', 15)])]),
      (StateStatus, [
        (DirectionClientbound, [
          (''ClientboundPong'', 1), (''ClientboundStatusResponse'', 0)]),
        (DirectionServerbound, [
          (''ServerboundPing'', 1), (''ServerboundStatusRequest'', 0)])])]\<rparr>"

definition def_V1_15 :: Definition where
  "def_V1_15 = \<lparr>
    ProtocolVersion = 573,
    PacketNames = [
      (StateHandshaking, [
        (DirectionServerbound, [
          (0, ''ServerboundHandshake'')])]),
      (StateLogin, [
        (DirectionClientbound, [
          (0, ''ClientboundDisconnect''), (2, ''ClientboundLoginSuccess''),
          (3, ''ClientboundSetCompression'')]),
        (DirectionServerbound, [
          (0, ''ServerboundLoginStart'')])]),
      (StatePlay, [
        (DirectionClientbound, [
          (15, ''ServerboundChatMessage''), (25, ''ClientboundCustomPayload''),
          (27, ''ClientboundDisconnect''), (33, ''ClientboundKeepAlive''),
          (38, ''ClientboundJoinGame'')]),
        (DirectionServerbound, [
          (3, ''ServerboundChatMessage''), (5, ''ServerboundClientSettings''),
          (11, ''ServerboundCustomPayload''), (15, ''ServerboundKeepAlive'')])]),
      (StateStatus, [
        (DirectionClientbound, [
          (0, ''ClientboundStatusResponse''), (1, ''ClientboundPong'')]),
        (DirectionServerbound, [
          (0, ''ServerboundStatusRequest''), (1, ''ServerboundPing'')])])],
    PacketIDs = [
      (StateHandshaking, [
        (DirectionServerbound, [
          (''ServerboundHandshake'', 0)])]),
      (StateLogin, [
        (DirectionClientbound, [
          (''ClientboundDisconnect'', 0), (''ClientboundLoginSuccess'', 2),
          (''ClientboundSetCompression'', 3)]),
        (DirectionServerbound, [
          (''ServerboundLoginStart'', 0)])]),
      (StatePlay, [
        (DirectionClientbound, [
          (''ClientboundCustomPayload'', 25), (''ClientboundDisconnect'', 27),
          (''ClientboundJoinGame'', 38), (''ClientboundKeepAlive'', 33),
          (''ServerboundChatMessage'', 15)]),
        (DirectionServerbound, [
          (''ServerboundChatMessage'', 3), (''ServerboundClientSettings'', 5),
          (''ServerboundCustomPayload'', 11), (''ServerboundKeepAlive'', 15)])]),
      (StateStatus, [
        (DirectionClientbound, [
          (''ClientboundPong'', 1), (''ClientboundStatusResponse'', 0)]),
        (DirectionServerbound, [
          (''ServerboundPing'', 1), (''ServerboundStatusRequest'', 0)])])]\<rparr>"

definition def_V1_15_1 :: Definition where
  "def_V1_15_1 = \<lparr>
    ProtocolVersion = 575,
    PacketNames = [
      (StateHandshaking, [
        (DirectionServerbound, [
          (0, ''ServerboundHandshake'')])]),
      (StateLogin, [
        (DirectionClientbound, [
          (0, ''ClientboundDisconnect''), (2, ''ClientboundLoginSuccess''),
          (3, ''ClientboundSetCompression'')]),
        (DirectionServerbound, [
          (0, ''ServerboundLoginStart'')])]),
      (StatePlay, [
        (DirectionClientbound, [
          (15, ''ServerboundChatMessage''), (25, ''ClientboundCustomPayload''),
          (27, ''ClientboundDisconnect''), (33, ''ClientboundKeepAlive''),
          (38, ''ClientboundJoinGame'')]),
        (DirectionServerbound, [
          (3, ''ServerboundChatMessage''), (5, ''ServerboundClientSettings''),
          (11, ''ServerboundCustomPayload''), (15, ''ServerboundKeepAlive'')])]),
      (StateStatus, [
        (DirectionClientbound, [
          (0, ''ClientboundStatusResponse''), (1, ''ClientboundPong'')]),
        (DirectionServerbound, [
          (0, ''ServerboundStatusRequest''), (1, ''ServerboundPing'')])])],
    PacketIDs = [
      (StateHandshaking, [
        (DirectionServerbound, [
          (''ServerboundHandshake'', 0)])]),
      (StateLogin, [
        (DirectionClientbound, [
          (''ClientboundDisconnect'', 0), (''ClientboundLoginSuccess'', 2),
          (''ClientboundSetCompression'', 3)]),
        (DirectionServerbound, [
          (''ServerboundLoginStart'', 0)])]),
      (StatePlay, [
        (DirectionClientbound, [
          (''ClientboundCustomPayload'', 25), (''ClientboundDisconnect'', 27),
          (''ClientboundJoinGame'', 38), (''ClientboundKeepAlive'', 33),
          (''ServerboundChatMessage'', 15)]),
        (DirectionServerbound, [
          (''ServerboundChatMessage'', 3), (''ServerboundClientSettings'', 5),
          (''ServerboundCustomPayload'', 11), (''ServerboundKeepAlive'', 15)])]),
      (StateStatus, [
        (DirectionClientbound, [
          (''ClientboundPong'', 1), (''ClientboundStatusResponse'', 0)]),
        (DirectionServerbound, [
          (''ServerboundPing'', 1), (''ServerboundStatusRequest'', 0)])])]\<rparr>"

definition def_V1_15_2 :: Definition where
  "def_V1_15_2 = \<lparr>
    ProtocolVersion = 578,
    PacketNames = [
      (StateHandshaking, [
        (DirectionServerbound, [
          (0, ''ServerboundHandshake'')])]),
      (StateLogin, [
        (DirectionClientbound, [
          (0, ''ClientboundDisconnect''), (2, ''ClientboundLoginSuccess''),
          (3, ''ClientboundSetCompression'')]),
        (DirectionServerbound, [
          (0, ''ServerboundLoginStart'')])]),
      (StatePlay, [
        (DirectionClientbound, [
          (15, ''ServerboundChatMessage''), (25, ''ClientboundCustomPayload''),
          (27, ''ClientboundDisconnect''), (33, ''ClientboundKeepAlive''),
          (38, ''ClientboundJoinGame'')]),
        (DirectionServerbound, [
          (3, ''ServerboundChatMessage''), (5, ''ServerboundClientSettings''),
          (11, ''ServerboundCustomPayload''), (15, ''ServerboundKeepAlive'')])]),
      (StateStatus, [
        (DirectionClientbound, [
          (0, ''ClientboundStatusResponse''), (1, ''ClientboundPong'')]),
        (DirectionServerbound, [
          (0, ''ServerboundStatusRequest''), (1, ''ServerboundPing'')])])],
    PacketIDs = [
      (StateHandshaking, [
        (DirectionServerbound, [
          (''ServerboundHandshake'', 0)])]),
      (StateLogin, [
        (DirectionClientbound, [
          (''ClientboundDisconnect'', 0), (''ClientboundLoginSuccess'', 2),
          (''ClientboundSetCompression'', 3)]),
        (DirectionServerbound, [
          (''ServerboundLoginStart'', 0)])]),
      (StatePlay, [
        (DirectionClientbound, [
          (''ClientboundCustomPayload'', 25), (''ClientboundDisconnect'', 27),
          (''ClientboundJoinGame'', 38), (''ClientboundKeepAlive'', 33),
          (''ServerboundChatMessage'', 15)]),
        (DirectionServerbound, [
          (''ServerboundChatMessage'', 3), (''ServerboundClientSettings'', 5),
          (''ServerboundCustomPayload'', 11), (''ServerboundKeepAlive'', 15)])]),
      (StateStatus, [
        (DirectionClientbound, [
          (''ClientboundPong'', 1), (''ClientboundStatusResponse'', 0)]),
        (DirectionServerbound, [
          (''ServerboundPing'', 1), (''ServerboundStatusRequest'', 0)])])]\<rparr>"

definition def_V1_16 :: Definition where
  "def_V1_16 = \<lparr>
    ProtocolVersion = 735,
    PacketNames = [
      (StateHandshaking, [
        (DirectionServerbound, [
          (0, ''ServerboundHandshake'')])]),
      (StateLogin, [
        (DirectionClientbound, [
          (0, ''ClientboundDisconnect''), (2, ''ClientboundLoginSuccess''),
          (3, ''ClientboundSetCompression'')]),
        (DirectionServerbound, [
          (0, ''ServerboundLoginStart'')])]),
      (StatePlay, [
        (DirectionClientbound, [
          (14, ''ServerboundChatMessage''), (24, ''ClientboundCustomPayload''),
          (26, ''ClientboundDisconnect''), (32, ''ClientboundKeepAlive''),
          (37, ''ClientboundJoinGame'')]),
        (DirectionServerbound, [
          (3, ''ServerboundChatMessage''), (5, ''ServerboundClientSettings''),
          (11, ''ServerboundCustomPayload''), (16, ''ServerboundKeepAlive'')])]),
      (StateStatus, [
        (DirectionClientbound, [
          (0, ''ClientboundStatusResponse''), (1, ''ClientboundPong'')]),
        (DirectionServerbound, [
          (0, ''ServerboundStatusRequest''), (1, ''ServerboundPing'')])])],
    PacketIDs = [
      (StateHandshaking, [
        (DirectionServerbound, [
          (''ServerboundHandshake'', 0)])]),
      (StateLogin, [
        (DirectionClientbound, [
          (''ClientboundDisconnect'', 0), (''ClientboundLoginSuccess'', 2),
          (''ClientboundSetCompression'', 3)]),
        (DirectionServerbound, [
          (''ServerboundLoginStart'', 0)])]),
      (StatePlay, [
        (DirectionClientbound, [
          (''ClientboundCustomPayload'', 24), (''ClientboundDisconnect'', 26),
          (''ClientboundJoinGame'', 37), (''ClientboundKeepAlive'', 32),
          (''ServerboundChatMessage'', 14)]),
        (DirectionServerbound, [
          (''ServerboundChatMessage'', 3), (''ServerboundClientSettings'', 5),
          (''ServerboundCustomPayload'', 11), (''ServerboundKeepAlive'', 16)])]),
      (StateStatus, [
        (DirectionClientbound, [
          (''ClientboundPong'', 1), (''ClientboundStatusResponse'', 0)]),
        (DirectionServerbound, [
          (''ServerboundPing'', 1), (''ServerboundStatusRequest'', 0)])])]\<rparr>"

definition def_V1_16_1 :: Definition where
  "def_V1_16_1 = \<lparr>
    ProtocolVersion = 736,
    PacketNames = [
      (StateHandshaking, [
        (DirectionServerbound, [
          (0, ''ServerboundHandshake'')])]),
      (StateLogin, [
        (DirectionClientbound, [
          (0, ''ClientboundDisconnect''), (2, ''ClientboundLoginSuccess''),
          (3, ''ClientboundSetCompression'')]),
        (DirectionServerbound, [
          (0, ''ServerboundLoginStart'')])]),
      (StatePlay, [
        (DirectionClientbound, [
          (14, ''ServerboundChatMessage''), (24, ''ClientboundCustomPayload''),
          (26, ''ClientboundDisconnect''), (32, ''ClientboundKeepAlive''),
          (37, ''ClientboundJoinGame'')]),
        (DirectionServerbound, [
          (3, ''ServerboundChatMessage''), (5, ''ServerboundClientSettings''),
          (11, ''ServerboundCustomPayload''), (16, ''ServerboundKeepAlive'')])]),
      (StateStatus, [
        (DirectionClientbound, [
          (0, ''ClientboundStatusResponse''), (1, ''ClientboundPong'')]),
        (DirectionServerbound, [
          (0, ''ServerboundStatusRequest''), (1, ''ServerboundPing'')])])],
    PacketIDs = [
      (StateHandshaking, [
        (DirectionServerbound, [
          (''ServerboundHandshake'', 0)])]),
      (StateLogin, [
        (DirectionClientbound, [
          (''ClientboundDisconnect'', 0), (''ClientboundLoginSuccess'', 2),
          (''ClientboundSetCompression'', 3)]),
        (DirectionServerbound, [
          (''ServerboundLoginStart'', 0)])]),
      (StatePlay, [
        (DirectionClientbound, [
          (''ClientboundCustomPayload'', 24), (''ClientboundDisconnect'', 26),
          (''ClientboundJoinGame'', 37), (''ClientboundKeepAlive'', 32),
          (''ServerboundChatMessage'', 14)]),
        (DirectionServerbound, [
          (''ServerboundChatMessage'', 3), (''ServerboundClientSettings'', 5),
          (''ServerboundCustomPayload'', 11), (''ServerboundKeepAlive'', 16)])]),
      (StateStatus, [
        (DirectionClientbound, [
          (''ClientboundPong'', 1), (''ClientboundStatusResponse'', 0)]),
        (DirectionServerbound, [
          (''ServerboundPing'', 1), (''ServerboundStatusRequest'', 0)])])]\<rparr>"

end
