(* ===== verification/Registry_Data.thy ===== *)
theory Registry_Data
  imports Registry_Old
begin

text \<open>
  The packet tables of \<open>protocol/generated_registry.go\<close>, one \<open>Definition\<close>
  (\<open>protocol/registry.go\<close>) per registered version: 1.16.2 to 1.21.11, and the registry of all of them.
  Every Go map literal is an association list in the order of the source.
\<close>

definition def_V1_16_2 :: Definition where
  "def_V1_16_2 = \<lparr>
    ProtocolVersion = 751,
    PacketNames = [
      (StateHandshaking, [
        (DirectionServerbound, [
          (0, ''ServerboundHandshake'')])]),
      (StateLogin, [
        (DirectionClientbound, [
          (0, ''ClientboundDisconnect''), (2, ''ClientboundLoginSuccess''),
          (3, ''ClientboundSetCompression'')]),
        (DirectionServerbound, [
          (0, ''ServerboundLoginStart'')])]),
      (StatePlay, [
        (DirectionClientbound, [
          (14, ''ServerboundChatMessage''), (23, ''ClientboundCustomPayload''),
          (25, ''ClientboundDisconnect''), (31, ''ClientboundKeepAlive''),
          (36, ''ClientboundJoinGame'')]),
        (DirectionServerbound, [
          (3, ''ServerboundChatMessage''), (5, ''ServerboundClientSettings''),
          (11, ''ServerboundCustomPayload''), (16, ''ServerboundKeepAlive'')])]),
      (StateStatus, [
        (DirectionClientbound, [
          (0, ''ClientboundStatusResponse''), (1, ''ClientboundPong'')]),
        (DirectionServerbound, [
          (0, ''ServerboundStatusRequest''), (1, ''ServerboundPing'')])])],
    PacketIDs = [
      (StateHandshaking, [
        (DirectionServerbound, [
          (''ServerboundHandshake'', 0)])]),
      (StateLogin, [
        (DirectionClientbound, [
          (''ClientboundDisconnect'', 0), (''ClientboundLoginSuccess'', 2),
          (''ClientboundSetCompression'', 3)]),
        (DirectionServerbound, [
          (''ServerboundLoginStart'', 0)])]),
      (StatePlay, [
        (DirectionClientbound, [
          (''ClientboundCustomPayload'', 23), (''ClientboundDisconnect'', 25),
          (''ClientboundJoinGame'', 36), (''ClientboundKeepAlive'', 31),
          (''ServerboundChatMessage'', 14)]),
        (DirectionServerbound, [
          (''ServerboundChatMessage'', 3), (''ServerboundClientSettings'', 5),
          (''ServerboundCustomPayload'', 11), (''ServerboundKeepAlive'', 16)])]),
      (StateStatus, [
        (DirectionClientbound, [
          (''ClientboundPong'', 1), (''ClientboundStatusResponse'', 0)]),
        (DirectionServerbound, [
          (''ServerboundPing'', 1), (''ServerboundStatusRequest'', 0)])])]\<rparr>"

definition def_V1_17 :: Definition where
  "def_V1_17 = \<lparr>
    ProtocolVersion = 755,
    PacketNames = [
      (StateHandshaking, [
        (DirectionServerbound, [
          (0, ''ServerboundHandshake'')])]),
      (StateLogin, [
        (DirectionClientbound, [
          (0, ''ClientboundDisconnect''), (2, ''ClientboundLoginSuccess''),
          (3, ''ClientboundSetCompression'')]),
        (DirectionServerbound, [
          (0, ''ServerboundLoginStart'')])]),
      (StatePlay, [
        (DirectionClientbound, [
          (15, ''ServerboundChatMessage''), (24, ''ClientboundCustomPayload''),
          (26, ''ClientboundDisconnect''), (33, ''ClientboundKeepAlive''),
          (38, ''ClientboundJoinGame''), (48, ''ClientboundPong'')]),
        (DirectionServerbound, [
          (3, ''ServerboundChatMessage''), (5, ''ServerboundClientSettings''),
          (10, ''ServerboundCustomPayload''), (15, ''ServerboundKeepAlive'')])]),
      (StateStatus, [
        (DirectionClientbound, [
          (0, ''ClientboundStatusResponse''), (1, ''ClientboundPong'')]),
        (DirectionServerbound, [
          (0, ''ServerboundStatusRequest''), (1, ''ServerboundPing'')])])],
    PacketIDs = [
      (StateHandshaking, [
        (DirectionServerbound, [
          (''ServerboundHandshake'', 0)])]),
      (StateLogin, [
        (DirectionClientbound, [
          (''ClientboundDisconnect'', 0), (''ClientboundLoginSuccess'', 2),
          (''ClientboundSetCompression'', 3)]),
        (DirectionServerbound, [
          (''ServerboundLoginStart'', 0)])]),
      (StatePlay, [
        (DirectionClientbound, [
          (''ClientboundCustomPayload'', 24), (''ClientboundDisconnect'', 26),
          (''ClientboundJoinGame'', 38), (''ClientboundKeepAlive'', 33),
          (''ClientboundPong'', 48), (''ServerboundChatMessage'', 15)]),
        (DirectionServerbound, [
          (''ServerboundChatMessage'', 3), (''ServerboundClientSettings'', 5),
          (''ServerboundCustomPayload'', 10), (''ServerboundKeepAlive'', 15)])]),
      (StateStatus, [
        (DirectionClientbound, [
          (''ClientboundPong'', 1), (''ClientboundStatusResponse'', 0)]),
        (DirectionServerbound, [
          (''ServerboundPing'', 1), (''ServerboundStatusRequest'', 0)])])]\<rparr>"

definition def_V1_17_1 :: Definition where
  "def_V1_17_1 = \<lparr>
    ProtocolVersion = 756,
    PacketNames = [
      (StateHandshaking, [
        (DirectionServerbound, [
          (0, ''ServerboundHandshake'')])]),
      (StateLogin, [
        (DirectionClientbound, [
          (0, ''ClientboundDisconnect''), (2, ''ClientboundLoginSuccess''),
          (3, ''ClientboundSetCompression'')]),
        (DirectionServerbound, [
          (0, ''ServerboundLoginStart'')])]),
      (StatePlay, [
        (DirectionClientbound, [
          (15, ''ServerboundChatMessage''), (24, ''ClientboundCustomPayload''),
          (26, ''ClientboundDisconnect''), (33, ''ClientboundKeepAlive''),
          (38, ''ClientboundJoinGame''), (48, ''ClientboundPong'')]),
        (DirectionServerbound, [
          (3, ''ServerboundChatMessage''), (5, ''ServerboundClientSettings''),
          (10, ''ServerboundCustomPayload''), (15, ''ServerboundKeepAlive'')])]),
      (StateStatus, [
        (DirectionClientbound, [
          (0, ''ClientboundStatusResponse''), (1, ''ClientboundPong'')]),
        (DirectionServerbound, [
          (0, ''ServerboundStatusRequest''), (1, ''ServerboundPing'')])])],
    PacketIDs = [
      (StateHandshaking, [
        (DirectionServerbound, [
          (''ServerboundHandshake'', 0)])]),
      (StateLogin, [
        (DirectionClientbound, [
          (''ClientboundDisconnect'', 0), (''ClientboundLoginSuccess'', 2),
          (''ClientboundSetCompression'', 3)]),
        (DirectionServerbound, [
          (''ServerboundLoginStart'', 0)])]),
      (StatePlay, [
        (DirectionClientbound, [
          (''ClientboundCustomPayload'', 24), (''ClientboundDisconnect'', 26),
          (''ClientboundJoinGame'', 38), (''ClientboundKeepAlive'', 33),
          (''ClientboundPong'', 48), (''ServerboundChatMessage'', 15)]),
        (DirectionServerbound, [
          (''ServerboundChatMessage'', 3), (''ServerboundClientSettings'', 5),
          (''ServerboundCustomPayload'', 10), (''ServerboundKeepAlive'', 15)])]),
      (StateStatus, [
        (DirectionClientbound, [
          (''ClientboundPong'', 1), (''ClientboundStatusResponse'', 0)]),
        (DirectionServerbound, [
          (''ServerboundPing'', 1), (''ServerboundStatusRequest'', 0)])])]\<rparr>"

definition def_V1_18 :: Definition where
  "def_V1_18 = \<lparr>
    ProtocolVersion = 757,
    PacketNames = [
      (StateHandshaking, [
        (DirectionServerbound, [
          (0, ''ServerboundHandshake'')])]),
      (StateLogin, [
        (DirectionClientbound, [
          (0, ''ClientboundDisconnect''), (2, ''ClientboundLoginSuccess''),
          (3, ''ClientboundSetCompression'')]),
        (DirectionServerbound, [
          (0, ''ServerboundLoginStart'')])]),
      (StatePlay, [
        (DirectionClientbound, [
          (15, ''ServerboundChatMessage''), (24, ''ClientboundCustomPayload''),
          (26, ''ClientboundDisconnect''), (33, ''ClientboundKeepAlive''),
          (38, ''ClientboundJoinGame''), (48, ''ClientboundPong'')]),
        (DirectionServerbound, [
          (3, ''ServerboundChatMessage''), (5, ''ServerboundClientSettings''),
          (10, ''ServerboundCustomPayload''), (15, ''ServerboundKeepAlive'')])]),
      (StateStatus, [
        (DirectionClientbound, [
          (0, ''ClientboundStatusResponse''), (1, ''ClientboundPong'')]),
        (DirectionServerbound, [
          (0, ''ServerboundStatusRequest''), (1, ''ServerboundPing'')])])],
    PacketIDs = [
      (StateHandshaking, [
        (DirectionServerbound, [
          (''ServerboundHandshake'', 0)])]),
      (StateLogin, [
        (DirectionClientbound, [
          (''ClientboundDisconnect'', 0), (''ClientboundLoginSuccess'', 2),
          (''ClientboundSetCompression'', 3)]),
        (DirectionServerbound, [
          (''ServerboundLoginStart'', 0)])]),
      (StatePlay, [
        (DirectionClientbound, [
          (''ClientboundCustomPayload'', 24), (''ClientboundDisconnect'', 26),
          (''ClientboundJoinGame'', 38), (''ClientboundKeepAlive'', 33),
          (''ClientboundPong'', 48), (''ServerboundChatMessage'', 15)]),
        (DirectionServerbound, [
          (''ServerboundChatMessage'', 3), (''ServerboundClientSettings'', 5),
          (''ServerboundCustomPayload'', 10), (''ServerboundKeepAlive'', 15)])]),
      (StateStatus, [
        (DirectionClientbound, [
          (''ClientboundPong'', 1), (''ClientboundStatusResponse'', 0)]),
        (DirectionServerbound, [
          (''ServerboundPing'', 1), (''ServerboundStatusRequest'', 0)])])]\<rparr>"

definition def_V1_18_2 :: Definition where
  "def_V1_18_2 = \<lparr>
    ProtocolVersion = 758,
    PacketNames = [
      (StateHandshaking, [
        (DirectionServerbound, [
          (0, ''ServerboundHandshake'')])]),
      (StateLogin, [
        (DirectionClientbound, [
          (0, ''ClientboundDisconnect''), (2, ''ClientboundLoginSuccess''),
          (3, ''ClientboundSetCompression'')]),
        (DirectionServerbound, [
          (0, ''ServerboundLoginStart'')])]),
      (StatePlay, [
        (DirectionClientbound, [
          (15, ''ServerboundChatMessage''), (24, ''ClientboundCustomPayload''),
          (26, ''ClientboundDisconnect''), (33, ''ClientboundKeepAlive''),
          (38, ''ClientboundJoinGame''), (48, ''ClientboundPong'')]),
        (DirectionServerbound, [
          (3, ''ServerboundChatMessage''), (5, ''ServerboundClientSettings''),
          (10, ''ServerboundCustomPayload''), (15, ''ServerboundKeepAlive'')])]),
      (StateStatus, [
        (DirectionClientbound, [
          (0, ''ClientboundStatusResponse''), (1, ''ClientboundPong'')]),
        (DirectionServerbound, [
          (0, ''ServerboundStatusRequest''), (1, ''ServerboundPing'')])])],
    PacketIDs = [
      (StateHandshaking, [
        (DirectionServerbound, [
          (''ServerboundHandshake'', 0)])]),
      (StateLogin, [
        (DirectionClientbound, [
          (''ClientboundDisconnect'', 0), (''ClientboundLoginSuccess'', 2),
          (''ClientboundSetCompression'', 3)]),
        (DirectionServerbound, [
          (''ServerboundLoginStart'', 0)])]),
      (StatePlay, [
        (DirectionClientbound, [
          (''ClientboundCustomPayload'', 24), (''ClientboundDisconnect'', 26),
          (''ClientboundJoinGame'', 38), (''ClientboundKeepAlive'', 33),
          (''ClientboundPong'', 48), (''ServerboundChatMessage'', 15)]),
        (DirectionServerbound, [
          (''ServerboundChatMessage'', 3), (''ServerboundClientSettings'', 5),
          (''ServerboundCustomPayload'', 10), (''ServerboundKeepAlive'', 15)])]),
      (StateStatus, [
        (DirectionClientbound, [
          (''ClientboundPong'', 1), (''ClientboundStatusResponse'', 0)]),
        (DirectionServerbound, [
          (''ServerboundPing'', 1), (''ServerboundStatusRequest'', 0)])])]\<rparr>"

definition def_V1_19 :: Definition where
  "def_V1_19 = \<lparr>
    ProtocolVersion = 759,
    PacketNames = [
      (StateHandshaking, [
        (DirectionServerbound, [
          (0, ''ServerboundHandshake'')])]),
      (StateLogin, [
        (DirectionClientbound, [
          (0, ''ClientboundDisconnect''), (2, ''ClientboundLoginSuccess''),
          (3, ''ClientboundSetCompression'')]),
        (DirectionServerbound, [
          (0, ''ServerboundLoginStart'')])]),
      (StatePlay, [
        (DirectionClientbound, [
          (21, ''ClientboundCustomPayload''), (23, ''ClientboundDisconnect''),
          (30, ''ClientboundKeepAlive''), (35, ''ClientboundJoinGame''),
          (45, ''ClientboundPong'')]),
        (DirectionServerbound, [
          (4, ''ServerboundChatMessage''), (7, ''ServerboundClientSettings''),
          (12, ''ServerboundCustomPayload''), (17, ''ServerboundKeepAlive'')])]),
      (StateStatus, [
        (DirectionClientbound, [
          (0, ''ClientboundStatusResponse''), (1, ''ClientboundPong'')]),
        (DirectionServerbound, [
          (0, ''ServerboundStatusRequest''), (1, ''ServerboundPing'')])])],
    PacketIDs = [
      (StateHandshaking, [
        (DirectionServerbound, [
          (''ServerboundHandshake'', 0)])]),
      (StateLogin, [
        (DirectionClientbound, [
          (''ClientboundDisconnect'', 0), (''ClientboundLoginSuccess'', 2),
          (''ClientboundSetCompression'', 3)]),
        (DirectionServerbound, [
          (''ServerboundLoginStart'', 0)])]),
      (StatePlay, [
        (DirectionClientbound, [
          (''ClientboundCustomPayload'', 21), (''ClientboundDisconnect'', 23),
          (''ClientboundJoinGame'', 35), (''ClientboundKeepAlive'', 30),
          (''ClientboundPong'', 45)]),
        (DirectionServerbound, [
          (''ServerboundChatMessage'', 4), (''ServerboundClientSettings'', 7),
          (''ServerboundCustomPayload'', 12), (''ServerboundKeepAlive'', 17)])]),
      (StateStatus, [
        (DirectionClientbound, [
          (''ClientboundPong'', 1), (''ClientboundStatusResponse'', 0)]),
        (DirectionServerbound, [
          (''ServerboundPing'', 1), (''ServerboundStatusRequest'', 0)])])]\<rparr>"

definition def_V1_19_2 :: Definition where
  "def_V1_19_2 = \<lparr>
    ProtocolVersion = 760,
    PacketNames = [
      (StateHandshaking, [
        (DirectionServerbound, [
          (0, ''ServerboundHandshake'')])]),
      (StateLogin, [
        (DirectionClientbound, [
          (0, ''ClientboundDisconnect''), (2, ''ClientboundLoginSuccess''),
          (3, ''ClientboundSetCompression'')]),
        (DirectionServerbound, [
          (0, ''ServerboundLoginStart'')])]),
      (StatePlay, [
        (DirectionClientbound, [
          (22, ''ClientboundCustomPayload''), (25, ''ClientboundDisconnect''),
          (32, ''ClientboundKeepAlive''), (37, ''ClientboundJoinGame''),
          (47, ''ClientboundPong'')]),
        (DirectionServerbound, [
          (5, ''ServerboundChatMessage''), (8, ''ServerboundClientSettings''),
          (13, ''ServerboundCustomPayload''), (18, ''ServerboundKeepAlive'')])]),
      (StateStatus, [
        (DirectionClientbound, [
          (0, ''ClientboundStatusResponse''), (1, ''ClientboundPong'')]),
        (DirectionServerbound, [
          (0, ''ServerboundStatusRequest''), (1, ''ServerboundPing'')])])],
    PacketIDs = [
      (StateHandshaking, [
        (DirectionServerbound, [
          (''ServerboundHandshake'', 0)])]),
      (StateLogin, [
        (DirectionClientbound, [
          (''ClientboundDisconnect'', 0), (''ClientboundLoginSuccess'', 2),
          (''ClientboundSetCompression'', 3)]),
        (DirectionServerbound, [
          (''ServerboundLoginStart'', 0)])]),
      (StatePlay, [
        (DirectionClientbound, [
          (''ClientboundCustomPayload'', 22), (''ClientboundDisconnect'', 25),
          (''ClientboundJoinGame'', 37), (''ClientboundKeepAlive'', 32),
          (''ClientboundPong'', 47)]),
        (DirectionServerbound, [
          (''ServerboundChatMessage'', 5), (''ServerboundClientSettings'', 8),
          (''ServerboundCustomPayload'', 13), (''ServerboundKeepAlive'', 18)])]),
      (StateStatus, [
        (DirectionClientbound, [
          (''ClientboundPong'', 1), (''ClientboundStatusResponse'', 0)]),
        (DirectionServerbound, [
          (''ServerboundPing'', 1), (''ServerboundStatusRequest'', 0)])])]\<rparr>"

definition def_V1_19_3 :: Definition where
  "def_V1_19_3 = \<lparr>
    ProtocolVersion = 761,
    PacketNames = [
      (StateHandshaking, [
        (DirectionServerbound, [
          (0, ''ServerboundHandshake'')])]),
      (StateLogin, [
        (DirectionClientbound, [
          (0, ''ClientboundDisconnect''), (2, ''ClientboundLoginSuccess''),
          (3, ''ClientboundSetCompression'')]),
        (DirectionServerbound, [
          (0, ''ServerboundLoginStart'')])]),
      (StatePlay, [
        (DirectionClientbound, [
          (21, ''ClientboundCustomPayload''), (23, ''ClientboundDisconnect''),
          (31, ''ClientboundKeepAlive''), (36, ''ClientboundJoinGame''),
          (46, ''ClientboundPong''), (103, ''ClientboundFeatureFlags'')]),
        (DirectionServerbound, [
          (5, ''ServerboundChatMessage''), (7, ''ServerboundClientSettings''),
          (12, ''ServerboundCustomPayload''), (17, ''ServerboundKeepAlive'')])]),
      (StateStatus, [
        (DirectionClientbound, [
          (0, ''ClientboundStatusResponse''), (1, ''ClientboundPong'')]),
        (DirectionServerbound, [
          (0, ''ServerboundStatusRequest''), (1, ''ServerboundPing'')])])],
    PacketIDs = [
      (StateHandshaking, [
        (DirectionServerbound, [
          (''ServerboundHandshake'', 0)])]),
      (StateLogin, [
        (DirectionClientbound, [
          (''ClientboundDisconnect'', 0), (''ClientboundLoginSuccess'', 2),
          (''ClientboundSetCompression'', 3)]),
        (DirectionServerbound, [
          (''ServerboundLoginStart'', 0)])]),
      (StatePlay, [
        (DirectionClientbound, [
          (''ClientboundCustomPayload'', 21), (''ClientboundDisconnect'', 23),
          (''ClientboundFeatureFlags'', 103), (''ClientboundJoinGame'', 36),
          (''ClientboundKeepAlive'', 31), (''ClientboundPong'', 46)]),
        (DirectionServerbound, [
          (''ServerboundChatMessage'', 5), (''ServerboundClientSettings'', 7),
          (''ServerboundCustomPayload'', 12), (''ServerboundKeepAlive'', 17)])]),
      (StateStatus, [
        (DirectionClientbound, [
          (''ClientboundPong'', 1), (''ClientboundStatusResponse'', 0)]),
        (DirectionServerbound, [
          (''ServerboundPing'', 1), (''ServerboundStatusRequest'', 0)])])]\<rparr>"

definition def_V1_19_4 :: Definition where
  "def_V1_19_4 = \<lparr>
    ProtocolVersion = 762,
    PacketNames = [
      (StateHandshaking, [
        (DirectionServerbound, [
          (0, ''ServerboundHandshake'')])]),
      (StateLogin, [
        (DirectionClientbound, [
          (0, ''ClientboundDisconnect''), (2, ''ClientboundLoginSuccess''),
          (3, ''ClientboundSetCompression'')]),
        (DirectionServerbound, [
          (0, ''ServerboundLoginStart'')])]),
      (StatePlay, [
        (DirectionClientbound, [
          (23, ''ClientboundCustomPayload''), (26, ''ClientboundDisconnect''),
          (35, ''ClientboundKeepAlive''), (40, ''ClientboundJoinGame''),
          (50, ''ClientboundPong''), (107, ''ClientboundFeatureFlags'')]),
        (DirectionServerbound, [
          (5, ''ServerboundChatMessage''), (8, ''ServerboundClientSettings''),
          (13, ''ServerboundCustomPayload''), (18, ''ServerboundKeepAlive'')])]),
      (StateStatus, [
        (DirectionClientbound, [
          (0, ''ClientboundStatusResponse''), (1, ''ClientboundPong'')]),
        (DirectionServerbound, [
          (0, ''ServerboundStatusRequest''), (1, ''ServerboundPing'')])])],
    PacketIDs = [
      (StateHandshaking, [
        (DirectionServerbound, [
          (''ServerboundHandshake'', 0)])]),
      (StateLogin, [
        (DirectionClientbound, [
          (''ClientboundDisconnect'', 0), (''ClientboundLoginSuccess'', 2),
          (''ClientboundSetCompression'', 3)]),
        (DirectionServerbound, [
          (''ServerboundLoginStart'', 0)])]),
      (StatePlay, [
        (DirectionClientbound, [
          (''ClientboundCustomPayload'', 23), (''ClientboundDisconnect'', 26),
          (''ClientboundFeatureFlags'', 107), (''ClientboundJoinGame'', 40),
          (''ClientboundKeepAlive'', 35), (''ClientboundPong'', 50)]),
        (DirectionServerbound, [
          (''ServerboundChatMessage'', 5), (''ServerboundClientSettings'', 8),
          (''ServerboundCustomPayload'', 13), (''ServerboundKeepAlive'', 18)])]),
      (StateStatus, [
        (DirectionClientbound, [
          (''ClientboundPong'', 1), (''ClientboundStatusResponse'', 0)]),
        (DirectionServerbound, [
          (''ServerboundPing'', 1), (''ServerboundStatusRequest'', 0)])])]\<rparr>"

definition def_V1_20 :: Definition where
  "def_V1_20 = \<lparr>
    ProtocolVersion = 763,
    PacketNames = [
      (StateHandshaking, [
        (DirectionServerbound, [
          (0, ''ServerboundHandshake'')])]),
      (StateLogin, [
        (DirectionClientbound, [
          (0, ''ClientboundDisconnect''), (2, ''ClientboundLoginSuccess''),
          (3, ''ClientboundSetCompression'')]),
        (DirectionServerbound, [
          (0, ''ServerboundLoginStart'')])]),
      (StatePlay, [
        (DirectionClientbound, [
          (23, ''ClientboundCustomPayload''), (26, ''ClientboundDisconnect''),
          (35, ''ClientboundKeepAlive''), (40, ''ClientboundJoinGame''),
          (50, ''ClientboundPong''), (107, ''ClientboundFeatureFlags'')]),
        (DirectionServerbound, [
          (5, ''ServerboundChatMessage''), (8, ''ServerboundClientSettings''),
          (13, ''ServerboundCustomPayload''), (18, ''ServerboundKeepAlive'')])]),
      (StateStatus, [
        (DirectionClientbound, [
          (0, ''ClientboundStatusResponse''), (1, ''ClientboundPong'')]),
        (DirectionServerbound, [
          (0, ''ServerboundStatusRequest''), (1, ''ServerboundPing'')])])],
    PacketIDs = [
      (StateHandshaking, [
        (DirectionServerbound, [
          (''ServerboundHandshake'', 0)])]),
      (StateLogin, [
        (DirectionClientbound, [
          (''ClientboundDisconnect'', 0), (''ClientboundLoginSuccess'', 2),
          (''ClientboundSetCompression'', 3)]),
        (DirectionServerbound, [
          (''ServerboundLoginStart'', 0)])]),
      (StatePlay, [
        (DirectionClientbound, [
          (''ClientboundCustomPayload'', 23), (''ClientboundDisconnect'', 26),
          (''ClientboundFeatureFlags'', 107), (''ClientboundJoinGame'', 40),
          (''ClientboundKeepAlive'', 35), (''ClientboundPong'', 50)]),
        (DirectionServerbound, [
          (''ServerboundChatMessage'', 5), (''ServerboundClientSettings'', 8),
          (''ServerboundCustomPayload'', 13), (''ServerboundKeepAlive'', 18)])]),
      (StateStatus, [
        (DirectionClientbound, [
          (''ClientboundPong'', 1), (''ClientboundStatusResponse'', 0)]),
        (DirectionServerbound, [
          (''ServerboundPing'', 1), (''ServerboundStatusRequest'', 0)])])]\<rparr>"

definition def_V1_20_2 :: Definition where
  "def_V1_20_2 = \<lparr>
    ProtocolVersion = 764,
    PacketNames = [
      (StateConfiguration, [
        (DirectionClientbound, [
          (0, ''ClientboundCustomPayload''), (1, ''ClientboundDisconnect''),
          (2, ''ClientboundFinishConfiguration''), (3, ''ClientboundConfigKeepAlive''),
          (4, ''ClientboundConfigPing''), (5, ''ClientboundRegistryData''),
          (7, ''ClientboundFeatureFlags'')]),
        (DirectionServerbound, [
          (0, ''ServerboundClientSettings''), (1, ''ServerboundCustomPayload''),
          (2, ''ServerboundFinishConfiguration''), (3, ''ServerboundConfigKeepAlive''),
          (4, ''ServerboundConfigPong'')])]),
      (StateHandshaking, [
        (DirectionServerbound, [
          (0, ''ServerboundHandshake'')])]),
      (StateLogin, [
        (DirectionClientbound, [
          (0, ''ClientboundDisconnect''), (2, ''ClientboundLoginSuccess''),
          (3, ''ClientboundSetCompression'')]),
        (DirectionServerbound, [
          (0, ''ServerboundLoginStart''), (3, ''ServerboundLoginAcknowledged'')])]),
      (StatePlay, [
        (DirectionClientbound, [
          (24, ''ClientboundCustomPayload''), (27, ''ClientboundDisconnect''),
          (36, ''ClientboundKeepAlive''), (41, ''ClientboundJoinGame''),
          (51, ''ClientboundPong'')]),
        (DirectionServerbound, [
          (5, ''ServerboundChatMessage''), (9, ''ServerboundClientSettings''),
          (15, ''ServerboundCustomPayload''), (20, ''ServerboundKeepAlive'')])]),
      (StateStatus, [
        (DirectionClientbound, [
          (0, ''ClientboundStatusResponse''), (1, ''ClientboundPong'')]),
        (DirectionServerbound, [
          (0, ''ServerboundStatusRequest''), (1, ''ServerboundPing'')])])],
    PacketIDs = [
      (StateConfiguration, [
        (DirectionClientbound, [
          (''ClientboundConfigKeepAlive'', 3), (''ClientboundConfigPing'', 4),
          (''ClientboundCustomPayload'', 0), (''ClientboundDisconnect'', 1),
          (''ClientboundFeatureFlags'', 7), (''ClientboundFinishConfiguration'', 2),
          (''ClientboundRegistryData'', 5)]),
        (DirectionServerbound, [
          (''ServerboundClientSettings'', 0), (''ServerboundConfigKeepAlive'', 3),
          (''ServerboundConfigPong'', 4), (''ServerboundCustomPayload'', 1),
          (''ServerboundFinishConfiguration'', 2)])]),
      (StateHandshaking, [
        (DirectionServerbound, [
          (''ServerboundHandshake'', 0)])]),
      (StateLogin, [
        (DirectionClientbound, [
          (''ClientboundDisconnect'', 0), (''ClientboundLoginSuccess'', 2),
          (''ClientboundSetCompression'', 3)]),
        (DirectionServerbound, [
          (''ServerboundLoginAcknowledged'', 3), (''ServerboundLoginStart'', 0)])]),
      (StatePlay, [
        (DirectionClientbound, [
          (''ClientboundCustomPayload'', 24), (''ClientboundDisconnect'', 27),
          (''ClientboundJoinGame'', 41), (''ClientboundKeepAlive'', 36),
          (''ClientboundPong'', 51)]),
        (DirectionServerbound, [
          (''ServerboundChatMessage'', 5), (''ServerboundClientSettings'', 9),
          (''ServerboundCustomPayload'', 15), (''ServerboundKeepAlive'', 20)])]),
      (StateStatus, [
        (DirectionClientbound, [
          (''ClientboundPong'', 1), (''ClientboundStatusResponse'', 0)]),
        (DirectionServerbound, [
          (''ServerboundPing'', 1), (''ServerboundStatusRequest'', 0)])])]\<rparr>"

definition def_V1_20_3 :: Definition where
  "def_V1_20_3 = \<lparr>
    ProtocolVersion = 765,
    PacketNames = [
      (StateConfiguration, [
        (DirectionClientbound, [
          (0, ''ClientboundCustomPayload''), (1, ''ClientboundDisconnect''),
          (2, ''ClientboundFinishConfiguration''), (3, ''ClientboundConfigKeepAlive''),
          (4, ''ClientboundConfigPing''), (5, ''ClientboundRegistryData''),
          (8, ''ClientboundFeatureFlags'')]),
        (DirectionServerbound, [
          (0, ''ServerboundClientSettings''), (1, ''ServerboundCustomPayload''),
          (2, ''ServerboundFinishConfiguration''), (3, ''ServerboundConfigKeepAlive''),
          (4, ''ServerboundConfigPong'')])]),
      (StateHandshaking, [
        (DirectionServerbound, [
          (0, ''ServerboundHandshake'')])]),
      (StateLogin, [
        (DirectionClientbound, [
          (0, ''ClientboundDisconnect''), (2, ''ClientboundLoginSuccess''),
          (3, ''ClientboundSetCompression'')]),
        (DirectionServerbound, [
          (0, ''ServerboundLoginStart''), (3, ''ServerboundLoginAcknowledged'')])]),
      (StatePlay, [
        (DirectionClientbound, [
          (24, ''ClientboundCustomPayload''), (27, ''ClientboundDisconnect''),
          (36, ''ClientboundKeepAlive''), (41, ''ClientboundJoinGame''),
          (51, ''ClientboundPong'')]),
        (DirectionServerbound, [
          (5, ''ServerboundChatMessage''), (9, ''ServerboundClientSettings''),
          (16, ''ServerboundCustomPayload''), (21, ''ServerboundKeepAlive'')])]),
      (StateStatus, [
        (DirectionClientbound, [
          (0, ''ClientboundStatusResponse''), (1, ''ClientboundPong'')]),
        (DirectionServerbound, [
          (0, ''ServerboundStatusRequest''), (1, ''ServerboundPing'')])])],
    PacketIDs = [
      (StateConfiguration, [
        (DirectionClientbound, [
          (''ClientboundConfigKeepAlive'', 3), (''ClientboundConfigPing'', 4),
          (''ClientboundCustomPayload'', 0), (''ClientboundDisconnect'', 1),
          (''ClientboundFeatureFlags'', 8), (''ClientboundFinishConfiguration'', 2),
          (''ClientboundRegistryData'', 5)]),
        (DirectionServerbound, [
          (''ServerboundClientSettings'', 0), (''ServerboundConfigKeepAlive'', 3),
          (''ServerboundConfigPong'', 4), (''ServerboundCustomPayload'', 1),
          (''ServerboundFinishConfiguration'', 2)])]),
      (StateHandshaking, [
        (DirectionServerbound, [
          (''ServerboundHandshake'', 0)])]),
      (StateLogin, [
        (DirectionClientbound, [
          (''ClientboundDisconnect'', 0), (''ClientboundLoginSuccess'', 2),
          (''ClientboundSetCompression'', 3)]),
        (DirectionServerbound, [
          (''ServerboundLoginAcknowledged'', 3), (''ServerboundLoginStart'', 0)])]),
      (StatePlay, [
        (DirectionClientbound, [
          (''ClientboundCustomPayload'', 24), (''ClientboundDisconnect'', 27),
          (''ClientboundJoinGame'', 41), (''ClientboundKeepAlive'', 36),
          (''ClientboundPong'', 51)]),
        (DirectionServerbound, [
          (''ServerboundChatMessage'', 5), (''ServerboundClientSettings'', 9),
          (''ServerboundCustomPayload'', 16), (''ServerboundKeepAlive'', 21)])]),
      (StateStatus, [
        (DirectionClientbound, [
          (''ClientboundPong'', 1), (''ClientboundStatusResponse'', 0)]),
        (DirectionServerbound, [
          (''ServerboundPing'', 1), (''ServerboundStatusRequest'', 0)])])]\<rparr>"

definition def_V1_20_5 :: Definition where
  "def_V1_20_5 = \<lparr>
    ProtocolVersion = 766,
    PacketNames = [
      (StateConfiguration, [
        (DirectionClientbound, [
          (0, ''ClientboundCookieRequest''), (1, ''ClientboundCustomPayload''),
          (2, ''ClientboundDisconnect''), (3, ''ClientboundFinishConfiguration''),
          (4, ''ClientboundConfigKeepAlive''), (5, ''ClientboundConfigPing''),
          (7, ''ClientboundRegistryData''), (12, ''ClientboundFeatureFlags''),
          (14, ''ClientboundSelectKnownPacks'')]),
        (DirectionServerbound, [
          (0, ''ServerboundClientSettings''), (1, ''ServerboundCookieResponse''),
          (2, ''ServerboundCustomPayload''), (3, ''ServerboundFinishConfiguration''),
          (4, ''ServerboundConfigKeepAlive''), (5, ''ServerboundConfigPong''),
          (7, ''ServerboundSelectKnownPacks'')])]),
      (StateHandshaking, [
        (DirectionServerbound, [
          (0, ''ServerboundHandshake'')])]),
      (StateLogin, [
        (DirectionClientbound, [
          (0, ''ClientboundDisconnect''), (2, ''ClientboundLoginSuccess''),
          (3, ''ClientboundSetCompression''), (5, ''ClientboundCookieRequest'')]),
        (DirectionServerbound, [
          (0, ''ServerboundLoginStart''), (3, ''ServerboundLoginAcknowledged''),
          (4, ''ServerboundCookieResponse'')])]),
      (StatePlay, [
        (DirectionClientbound, [
          (22, ''ClientboundCookieRequest''), (25, ''ClientboundCustomPayload''),
          (29, ''ClientboundDisconnect''), (38, ''ClientboundKeepAlive''),
          (43, ''ClientboundJoinGame''), (53, ''ClientboundPong'')]),
        (DirectionServerbound, [
          (6, ''ServerboundChatMessage''), (10, ''ServerboundClientSettings''),
          (17, ''ServerboundCookieResponse''), (18, ''ServerboundCustomPayload''),
          (24, ''ServerboundKeepAlive'')])]),
      (StateStatus, [
        (DirectionClientbound, [
          (0, ''ClientboundStatusResponse''), (1, ''ClientboundPong'')]),
        (DirectionServerbound, [
          (0, ''ServerboundStatusRequest''), (1, ''ServerboundPing'')])])],
    PacketIDs = [
      (StateConfiguration, [
        (DirectionClientbound, [
          (''ClientboundConfigKeepAlive'', 4), (''ClientboundConfigPing'', 5),
          (''ClientboundCookieRequest'', 0), (''ClientboundCustomPayload'', 1),
          (''ClientboundDisconnect'', 2), (''ClientboundFeatureFlags'', 12),
          (''ClientboundFinishConfiguration'', 3), (''ClientboundRegistryData'', 7),
          (''ClientboundSelectKnownPacks'', 14)]),
        (DirectionServerbound, [
          (''ServerboundClientSettings'', 0), (''ServerboundConfigKeepAlive'', 4),
          (''ServerboundConfigPong'', 5), (''ServerboundCookieResponse'', 1),
          (''ServerboundCustomPayload'', 2), (''ServerboundFinishConfiguration'', 3),
          (''ServerboundSelectKnownPacks'', 7)])]),
      (StateHandshaking, [
        (DirectionServerbound, [
          (''ServerboundHandshake'', 0)])]),
      (StateLogin, [
        (DirectionClientbound, [
          (''ClientboundCookieRequest'', 5), (''ClientboundDisconnect'', 0),
          (''ClientboundLoginSuccess'', 2), (''ClientboundSetCompression'', 3)]),
        (DirectionServerbound, [
          (''ServerboundCookieResponse'', 4), (''ServerboundLoginAcknowledged'', 3),
          (''ServerboundLoginStart'', 0)])]),
      (StatePlay, [
        (DirectionClientbound, [
          (''ClientboundCookieRequest'', 22), (''ClientboundCustomPayload'', 25),
          (''ClientboundDisconnect'', 29), (''ClientboundJoinGame'', 43),
          (''ClientboundKeepAlive'', 38), (''ClientboundPong'', 53)]),
        (DirectionServerbound, [
          (''ServerboundChatMessage'', 6), (''ServerboundClientSettings'', 10),
          (''ServerboundCookieResponse'', 17), (''ServerboundCustomPayload'', 18),
          (''ServerboundKeepAlive'', 24)])]),
      (StateStatus, [
        (DirectionClientbound, [
          (''ClientboundPong'', 1), (''ClientboundStatusResponse'', 0)]),
        (DirectionServerbound, [
          (''ServerboundPing'', 1), (''ServerboundStatusRequest'', 0)])])]\<rparr>"

definition def_V1_21_1 :: Definition where
  "def_V1_21_1 = \<lparr>
    ProtocolVersion = 767,
    PacketNames = [
      (StateConfiguration, [
        (DirectionClientbound, [
          (0, ''ClientboundCookieRequest''), (1, ''ClientboundCustomPayload''),
          (2, ''ClientboundDisconnect''), (3, ''ClientboundFinishConfiguration''),
          (4, ''ClientboundConfigKeepAlive''), (5, ''ClientboundConfigPing''),
          (7, ''ClientboundRegistryData''), (12, ''ClientboundFeatureFlags''),
          (14, ''ClientboundSelectKnownPacks'')]),
        (DirectionServerbound, [
          (0, ''ServerboundClientSettings''), (1, ''ServerboundCookieResponse''),
          (2, ''ServerboundCustomPayload''), (3, ''ServerboundFinishConfiguration''),
          (4, ''ServerboundConfigKeepAlive''), (5, ''ServerboundConfigPong''),
          (7, ''ServerboundSelectKnownPacks'')])]),
      (StateHandshaking, [
        (DirectionServerbound, [
          (0, ''ServerboundHandshake'')])]),
      (StateLogin, [
        (DirectionClientbound, [
          (0, ''ClientboundDisconnect''), (2, ''ClientboundLoginSuccess''),
          (3, ''ClientboundSetCompression''), (5, ''ClientboundCookieRequest'')]),
        (DirectionServerbound, [
          (0, ''ServerboundLoginStart''), (3, ''ServerboundLoginAcknowledged''),
          (4, ''ServerboundCookieResponse'')])]),
      (StatePlay, [
        (DirectionClientbound, [
          (22, ''ClientboundCookieRequest''), (25, ''ClientboundCustomPayload''),
          (29, ''ClientboundDisconnect''), (38, ''ClientboundKeepAlive''),
          (43, ''ClientboundJoinGame''), (53, ''ClientboundPong'')]),
        (DirectionServerbound, [
          (6, ''ServerboundChatMessage''), (10, ''ServerboundClientSettings''),
          (17, ''ServerboundCookieResponse''), (18, ''ServerboundCustomPayload''),
          (24, ''ServerboundKeepAlive'')])]),
      (StateStatus, [
        (DirectionClientbound, [
          (0, ''ClientboundStatusResponse''), (1, ''ClientboundPong'')]),
        (DirectionServerbound, [
          (0, ''ServerboundStatusRequest''), (1, ''ServerboundPing'')])])],
    PacketIDs = [
      (StateConfiguration, [
        (DirectionClientbound, [
          (''ClientboundConfigKeepAlive'', 4), (''ClientboundConfigPing'', 5),
          (''ClientboundCookieRequest'', 0), (''ClientboundCustomPayload'', 1),
          (''ClientboundDisconnect'', 2), (''ClientboundFeatureFlags'', 12),
          (''ClientboundFinishConfiguration'', 3), (''ClientboundRegistryData'', 7),
          (''ClientboundSelectKnownPacks'', 14)]),
        (DirectionServerbound, [
          (''ServerboundClientSettings'', 0), (''ServerboundConfigKeepAlive'', 4),
          (''ServerboundConfigPong'', 5), (''ServerboundCookieResponse'', 1),
          (''ServerboundCustomPayload'', 2), (''ServerboundFinishConfiguration'', 3),
          (''ServerboundSelectKnownPacks'', 7)])]),
      (StateHandshaking, [
        (DirectionServerbound, [
          (''ServerboundHandshake'', 0)])]),
      (StateLogin, [
        (DirectionClientbound, [
          (''ClientboundCookieRequest'', 5), (''ClientboundDisconnect'', 0),
          (''ClientboundLoginSuccess'', 2), (''ClientboundSetCompression'', 3)]),
        (DirectionServerbound, [
          (''ServerboundCookieResponse'', 4), (''ServerboundLoginAcknowledged'', 3),
          (''ServerboundLoginStart'', 0)])]),
      (StatePlay, [
        (DirectionClientbound, [
          (''ClientboundCookieRequest'', 22), (''ClientboundCustomPayload'', 25),
          (''ClientboundDisconnect'', 29), (''ClientboundJoinGame'', 43),
          (''ClientboundKeepAlive'', 38), (''ClientboundPong'', 53)]),
        (DirectionServerbound, [
          (''ServerboundChatMessage'', 6), (''ServerboundClientSettings'', 10),
          (''ServerboundCookieResponse'', 17), (''ServerboundCustomPayload'', 18),
          (''ServerboundKeepAlive'', 24)])]),
      (StateStatus, [
        (DirectionClientbound, [
          (''ClientboundPong'', 1), (''ClientboundStatusResponse'', 0)]),
        (DirectionServerbound, [
          (''ServerboundPing'', 1), (''ServerboundStatusRequest'', 0)])])]\<rparr>"

definition def_V1_21_3 :: Definition where
  "def_V1_21_3 = \<lparr>
    ProtocolVersion = 768,
    PacketNames = [
      (StateConfiguration, [
        (DirectionClientbound, [
          (0, ''ClientboundCookieRequest''), (1, ''ClientboundCustomPayload''),
          (2, ''ClientboundDisconnect''), (3, ''ClientboundFinishConfiguration''),
          (4, ''ClientboundConfigKeepAlive''), (5, ''ClientboundConfigPing''),
          (7, ''ClientboundRegistryData''), (12, ''ClientboundFeatureFlags''),
          (14, ''ClientboundSelectKnownPacks'')]),
        (DirectionServerbound, [
          (0, ''ServerboundClientSettings''), (1, ''ServerboundCookieResponse''),
          (2, ''ServerboundCustomPayload''), (3, ''ServerboundFinishConfiguration''),
          (4, ''ServerboundConfigKeepAlive''), (5, ''ServerboundConfigPong''),
          (7, ''ServerboundSelectKnownPacks'')])]),
      (StateHandshaking, [
        (DirectionServerbound, [
          (0, ''ServerboundHandshake'')])]),
      (StateLogin, [
        (DirectionClientbound, [
          (0, ''ClientboundDisconnect''), (2, ''ClientboundLoginSuccess''),
          (3, ''ClientboundSetCompression''), (5, ''ClientboundCookieRequest'')]),
        (DirectionServerbound, [
          (0, ''ServerboundLoginStart''), (3, ''ServerboundLoginAcknowledged''),
          (4, ''ServerboundCookieResponse'')])]),
      (StatePlay, [
        (DirectionClientbound, [
          (22, ''ClientboundCookieRequest''), (25, ''ClientboundCustomPayload''),
          (29, ''ClientboundDisconnect''), (39, ''ClientboundKeepAlive''),
          (44, ''ClientboundJoinGame''), (55, ''ClientboundPong'')]),
        (DirectionServerbound, [
          (7, ''ServerboundChatMessage''), (12, ''ServerboundClientSettings''),
          (19, ''ServerboundCookieResponse''), (20, ''ServerboundCustomPayload''),
          (26, ''ServerboundKeepAlive'')])]),
      (StateStatus, [
        (DirectionClientbound, [
          (0, ''ClientboundStatusResponse''), (1, ''ClientboundPong'')]),
        (DirectionServerbound, [
          (0, ''ServerboundStatusRequest''), (1, ''ServerboundPing'')])])],
    PacketIDs = [
      (StateConfiguration, [
        (DirectionClientbound, [
          (''ClientboundConfigKeepAlive'', 4), (''ClientboundConfigPing'', 5),
          (''ClientboundCookieRequest'', 0), (''ClientboundCustomPayload'', 1),
          (''ClientboundDisconnect'', 2), (''ClientboundFeatureFlags'', 12),
          (''ClientboundFinishConfiguration'', 3), (''ClientboundRegistryData'', 7),
          (''ClientboundSelectKnownPacks'', 14)]),
        (DirectionServerbound, [
          (''ServerboundClientSettings'', 0), (''ServerboundConfigKeepAlive'', 4),
          (''ServerboundConfigPong'', 5), (''ServerboundCookieResponse'', 1),
          (''ServerboundCustomPayload'', 2), (''ServerboundFinishConfiguration'', 3),
          (''ServerboundSelectKnownPacks'', 7)])]),
      (StateHandshaking, [
        (DirectionServerbound, [
          (''ServerboundHandshake'', 0)])]),
      (StateLogin, [
        (DirectionClientbound, [
          (''ClientboundCookieRequest'', 5), (''ClientboundDisconnect'', 0),
          (''ClientboundLoginSuccess'', 2), (''ClientboundSetCompression'', 3)]),
        (DirectionServerbound, [
          (''ServerboundCookieResponse'', 4), (''ServerboundLoginAcknowledged'', 3),
          (''ServerboundLoginStart'', 0)])]),
      (StatePlay, [
        (DirectionClientbound, [
          (''ClientboundCookieRequest'', 22), (''ClientboundCustomPayload'', 25),
          (''ClientboundDisconnect'', 29), (''ClientboundJoinGame'', 44),
          (''ClientboundKeepAlive'', 39), (''ClientboundPong'', 55)]),
        (DirectionServerbound, [
          (''ServerboundChatMessage'', 7), (''ServerboundClientSettings'', 12),
          (''ServerboundCookieResponse'', 19), (''ServerboundCustomPayload'', 20),
          (''ServerboundKeepAlive'', 26)])]),
      (StateStatus, [
        (DirectionClientbound, [
          (''ClientboundPong'', 1), (''ClientboundStatusResponse'', 0)]),
        (DirectionServerbound, [
          (''ServerboundPing'', 1), (''ServerboundStatusRequest'', 0)])])]\<rparr>"

definition def_V1_21_4 :: Definition where
  "def_V1_21_4 = \<lparr>
    ProtocolVersion = 769,
    PacketNames = [
      (StateConfiguration, [
        (DirectionClientbound, [
          (0, ''ClientboundCookieRequest''), (1, ''ClientboundCustomPayload''),
          (2, ''ClientboundDisconnect''), (3, ''ClientboundFinishConfiguration''),
          (4, ''ClientboundConfigKeepAlive''), (5, ''ClientboundConfigPing''),
          (7, ''ClientboundRegistryData''), (12, ''ClientboundFeatureFlags''),
          (14, ''ClientboundSelectKnownPacks'')]),
        (DirectionServerbound, [
          (0, ''ServerboundClientSettings''), (1, ''ServerboundCookieResponse''),
          (2, ''ServerboundCustomPayload''), (3, ''ServerboundFinishConfiguration''),
          (4, ''ServerboundConfigKeepAlive''), (5, ''ServerboundConfigPong''),
          (7, ''ServerboundSelectKnownPacks'')])]),
      (StateHandshaking, [
        (DirectionServerbound, [
          (0, ''ServerboundHandshake'')])]),
      (StateLogin, [
        (DirectionClientbound, [
          (0, ''ClientboundDisconnect''), (2, ''ClientboundLoginSuccess''),
          (3, ''ClientboundSetCompression''), (5, ''ClientboundCookieRequest'')]),
        (DirectionServerbound, [
          (0, ''ServerboundLoginStart''), (3, ''ServerboundLoginAcknowledged''),
          (4, ''ServerboundCookieResponse'')])]),
      (StatePlay, [
        (DirectionClientbound, [
          (22, ''ClientboundCookieRequest''), (25, ''ClientboundCustomPayload''),
          (29, ''ClientboundDisconnect''), (39, ''ClientboundKeepAlive''),
          (44, ''ClientboundJoinGame''), (55, ''ClientboundPong'')]),
        (DirectionServerbound, [
          (7, ''ServerboundChatMessage''), (12, ''ServerboundClientSettings''),
          (19, ''ServerboundCookieResponse''), (20, ''ServerboundCustomPayload''),
          (26, ''ServerboundKeepAlive'')])]),
      (StateStatus, [
        (DirectionClientbound, [
          (0, ''ClientboundStatusResponse''), (1, ''ClientboundPong'')]),
        (DirectionServerbound, [
          (0, ''ServerboundStatusRequest''), (1, ''ServerboundPing'')])])],
    PacketIDs = [
      (StateConfiguration, [
        (DirectionClientbound, [
          (''ClientboundConfigKeepAlive'', 4), (''ClientboundConfigPing'', 5),
          (''ClientboundCookieRequest'', 0), (''ClientboundCustomPayload'', 1),
          (''ClientboundDisconnect'', 2), (''ClientboundFeatureFlags'', 12),
          (''ClientboundFinishConfiguration'', 3), (''ClientboundRegistryData'', 7),
          (''ClientboundSelectKnownPacks'', 14)]),
        (DirectionServerbound, [
          (''ServerboundClientSettings'', 0), (''ServerboundConfigKeepAlive'', 4),
          (''ServerboundConfigPong'', 5), (''ServerboundCookieResponse'', 1),
          (''ServerboundCustomPayload'', 2), (''ServerboundFinishConfiguration'', 3),
          (''ServerboundSelectKnownPacks'', 7)])]),
      (StateHandshaking, [
        (DirectionServerbound, [
          (''ServerboundHandshake'', 0)])]),
      (StateLogin, [
        (DirectionClientbound, [
          (''ClientboundCookieRequest'', 5), (''ClientboundDisconnect'', 0),
          (''ClientboundLoginSuccess'', 2), (''ClientboundSetCompression'', 3)]),
        (DirectionServerbound, [
          (''ServerboundCookieResponse'', 4), (''ServerboundLoginAcknowledged'', 3),
          (''ServerboundLoginStart'', 0)])]),
      (StatePlay, [
        (DirectionClientbound, [
          (''ClientboundCookieRequest'', 22), (''ClientboundCustomPayload'', 25),
          (''ClientboundDisconnect'', 29), (''ClientboundJoinGame'', 44),
          (''ClientboundKeepAlive'', 39), (''ClientboundPong'', 55)]),
        (DirectionServerbound, [
          (''ServerboundChatMessage'', 7), (''ServerboundClientSettings'', 12),
          (''ServerboundCookieResponse'', 19), (''ServerboundCustomPayload'', 20),
          (''ServerboundKeepAlive'', 26)])]),
      (StateStatus, [
        (DirectionClientbound, [
          (''ClientboundPong'', 1), (''ClientboundStatusResponse'', 0)]),
        (DirectionServerbound, [
          (''ServerboundPing'', 1), (''ServerboundStatusRequest'', 0)])])]\<rparr>"

definition def_V1_21_5 :: Definition where
  "def_V1_21_5 = \<lparr>
    ProtocolVersion = 770,
    PacketNames = [
      (StateConfiguration, [
        (DirectionClientbound, [
          (0, ''ClientboundCookieRequest''), (1, ''ClientboundCustomPayload''),
          (2, ''ClientboundDisconnect''), (3, ''ClientboundFinishConfiguration''),
          (4, ''ClientboundConfigKeepAlive''), (5, ''ClientboundConfigPing''),
          (7, ''ClientboundRegistryData''), (12, ''ClientboundFeatureFlags''),
          (14, ''ClientboundSelectKnownPacks'')]),
        (DirectionServerbound, [
          (0, ''ServerboundClientSettings''), (1, ''ServerboundCookieResponse''),
          (2, ''ServerboundCustomPayload''), (3, ''ServerboundFinishConfiguration''),
          (4, ''ServerboundConfigKeepAlive''), (5, ''ServerboundConfigPong''),
          (7, ''ServerboundSelectKnownPacks'')])]),
      (StateHandshaking, [
        (DirectionServerbound, [
          (0, ''ServerboundHandshake'')])]),
      (StateLogin, [
        (DirectionClientbound, [
          (0, ''ClientboundDisconnect''), (2, ''ClientboundLoginSuccess''),
          (3, ''ClientboundSetCompression''), (5, ''ClientboundCookieRequest'')]),
        (DirectionServerbound, [
          (0, ''ServerboundLoginStart''), (3, ''ServerboundLoginAcknowledged''),
          (4, ''ServerboundCookieResponse'')])]),
      (StatePlay, [
        (DirectionClientbound, [
          (21, ''ClientboundCookieRequest''), (24, ''ClientboundCustomPayload''),
          (28, ''ClientboundDisconnect''), (38, ''ClientboundKeepAlive''),
          (43, ''ClientboundJoinGame''), (54, ''ClientboundPong'')]),
        (DirectionServerbound, [
          (7, ''ServerboundChatMessage''), (12, ''ServerboundClientSettings''),
          (19, ''ServerboundCookieResponse''), (20, ''ServerboundCustomPayload''),
          (26, ''ServerboundKeepAlive'')])]),
      (StateStatus, [
        (DirectionClientbound, [
          (0, ''ClientboundStatusResponse''), (1, ''ClientboundPong'')]),
        (DirectionServerbound, [
          (0, ''ServerboundStatusRequest''), (1, ''ServerboundPing'')])])],
    PacketIDs = [
      (StateConfiguration, [
        (DirectionClientbound, [
          (''ClientboundConfigKeepAlive'', 4), (''ClientboundConfigPing'', 5),
          (''ClientboundCookieRequest'', 0), (''ClientboundCustomPayload'', 1),
          (''ClientboundDisconnect'', 2), (''ClientboundFeatureFlags'', 12),
          (''ClientboundFinishConfiguration'', 3), (''ClientboundRegistryData'', 7),
          (''ClientboundSelectKnownPacks'', 14)]),
        (DirectionServerbound, [
          (''ServerboundClientSettings'', 0), (''ServerboundConfigKeepAlive'', 4),
          (''ServerboundConfigPong'', 5), (''ServerboundCookieResponse'', 1),
          (''ServerboundCustomPayload'', 2), (''ServerboundFinishConfiguration'', 3),
          (''ServerboundSelectKnownPacks'', 7)])]),
      (StateHandshaking, [
        (DirectionServerbound, [
          (''ServerboundHandshake'', 0)])]),
      (StateLogin, [
        (DirectionClientbound, [
          (''ClientboundCookieRequest'', 5), (''ClientboundDisconnect'', 0),
          (''ClientboundLoginSuccess'', 2), (''ClientboundSetCompression'', 3)]),
        (DirectionServerbound, [
          (''ServerboundCookieResponse'', 4), (''ServerboundLoginAcknowledged'', 3),
          (''ServerboundLoginStart'', 0)])]),
      (StatePlay, [
        (DirectionClientbound, [
          (''ClientboundCookieRequest'', 21), (''ClientboundCustomPayload'', 24),
          (''ClientboundDisconnect'', 28), (''ClientboundJoinGame'', 43),
          (''ClientboundKeepAlive'', 38), (''ClientboundPong'', 54)]),
        (DirectionServerbound, [
          (''ServerboundChatMessage'', 7), (''ServerboundClientSettings'', 12),
          (''ServerboundCookieResponse'', 19), (''ServerboundCustomPayload'', 20),
          (''ServerboundKeepAlive'', 26)])]),
      (StateStatus, [
        (DirectionClientbound, [
          (''ClientboundPong'', 1), (''ClientboundStatusResponse'', 0)]),
        (DirectionServerbound, [
          (''ServerboundPing'', 1), (''ServerboundStatusRequest'', 0)])])]\<rparr>"

definition def_V1_21_6 :: Definition where
  "def_V1_21_6 = \<lparr>
    ProtocolVersion = 771,
    PacketNames = [
      (StateConfiguration, [
        (DirectionClientbound, [
          (0, ''ClientboundCookieRequest''), (1, ''ClientboundCustomPayload''),
          (2, ''ClientboundDisconnect''), (3, ''ClientboundFinishConfiguration''),
          (4, ''ClientboundConfigKeepAlive''), (5, ''ClientboundConfigPing''),
          (7, ''ClientboundRegistryData''), (12, ''ClientboundFeatureFlags''),
          (14, ''ClientboundSelectKnownPacks'')]),
        (DirectionServerbound, [
          (0, ''ServerboundClientSettings''), (1, ''ServerboundCookieResponse''),
          (2, ''ServerboundCustomPayload''), (3, ''ServerboundFinishConfiguration''),
          (4, ''ServerboundConfigKeepAlive''), (5, ''ServerboundConfigPong''),
          (7, ''ServerboundSelectKnownPacks'')])]),
      (StateHandshaking, [
        (DirectionServerbound, [
          (0, ''ServerboundHandshake'')])]),
      (StateLogin, [
        (DirectionClientbound, [
          (0, ''ClientboundDisconnect''), (2, ''ClientboundLoginSuccess''),
          (3, ''ClientboundSetCompression''), (5, ''ClientboundCookieRequest'')]),
        (DirectionServerbound, [
          (0, ''ServerboundLoginStart''), (3, ''ServerboundLoginAcknowledged''),
          (4, ''ServerboundCookieResponse'')])]),
      (StatePlay, [
        (DirectionClientbound, [
          (21, ''ClientboundCookieRequest''), (24, ''ClientboundCustomPayload''),
          (28, ''ClientboundDisconnect''), (38, ''ClientboundKeepAlive''),
          (43, ''ClientboundJoinGame''), (54, ''ClientboundPong'')]),
        (DirectionServerbound, [
          (8, ''ServerboundChatMessage''), (13, ''ServerboundClientSettings''),
          (20, ''ServerboundCookieResponse''), (21, ''ServerboundCustomPayload''),
          (27, ''ServerboundKeepAlive'')])]),
      (StateStatus, [
        (DirectionClientbound, [
          (0, ''ClientboundStatusResponse''), (1, ''ClientboundPong'')]),
        (DirectionServerbound, [
          (0, ''ServerboundStatusRequest''), (1, ''ServerboundPing'')])])],
    PacketIDs = [
      (StateConfiguration, [
        (DirectionClientbound, [
          (''ClientboundConfigKeepAlive'', 4), (''ClientboundConfigPing'', 5),
          (''ClientboundCookieRequest'', 0), (''ClientboundCustomPayload'', 1),
          (''ClientboundDisconnect'', 2), (''ClientboundFeatureFlags'', 12),
          (''ClientboundFinishConfiguration'', 3), (''ClientboundRegistryData'', 7),
          (''ClientboundSelectKnownPacks'', 14)]),
        (DirectionServerbound, [
          (''ServerboundClientSettings'', 0), (''ServerboundConfigKeepAlive'', 4),
          (''ServerboundConfigPong'', 5), (''ServerboundCookieResponse'', 1),
          (''ServerboundCustomPayload'', 2), (''ServerboundFinishConfiguration'', 3),
          (''ServerboundSelectKnownPacks'', 7)])]),
      (StateHandshaking, [
        (DirectionServerbound, [
          (''ServerboundHandshake'', 0)])]),
      (StateLogin, [
        (DirectionClientbound, [
          (''ClientboundCookieRequest'', 5), (''ClientboundDisconnect'', 0),
          (''ClientboundLoginSuccess'', 2), (''ClientboundSetCompression'', 3)]),
        (DirectionServerbound, [
          (''ServerboundCookieResponse'', 4), (''ServerboundLoginAcknowledged'', 3),
          (''ServerboundLoginStart'', 0)])]),
      (StatePlay, [
        (DirectionClientbound, [
          (''ClientboundCookieRequest'', 21), (''ClientboundCustomPayload'', 24),
          (''ClientboundDisconnect'', 28), (''ClientboundJoinGame'', 43),
          (''ClientboundKeepAlive'', 38), (''ClientboundPong'', 54)]),
        (DirectionServerbound, [
          (''ServerboundChatMessage'', 8), (''ServerboundClientSettings'', 13),
          (''ServerboundCookieResponse'', 20), (''ServerboundCustomPayload'', 21),
          (''ServerboundKeepAlive'', 27)])]),
      (StateStatus, [
        (DirectionClientbound, [
          (''ClientboundPong'', 1), (''ClientboundStatusResponse'', 0)]),
        (DirectionServerbound, [
          (''ServerboundPing'', 1), (''ServerboundStatusRequest'', 0)])])]\<rparr>"

definition def_V1_21_8 :: Definition where
  "def_V1_21_8 = \<lparr>
    ProtocolVersion = 772,
    PacketNames = [
      (StateConfiguration, [
        (DirectionClientbound, [
          (0, ''ClientboundCookieRequest''), (1, ''ClientboundCustomPayload''),
          (2, ''ClientboundDisconnect''), (3, ''ClientboundFinishConfiguration''),
          (4, ''ClientboundConfigKeepAlive''), (5, ''ClientboundConfigPing''),
          (7, ''ClientboundRegistryData''), (12, ''ClientboundFeatureFlags''),
          (14, ''ClientboundSelectKnownPacks'')]),
        (DirectionServerbound, [
          (0, ''ServerboundClientSettings''), (1, ''ServerboundCookieResponse''),
          (2, ''ServerboundCustomPayload''), (3, ''ServerboundFinishConfiguration''),
          (4, ''ServerboundConfigKeepAlive''), (5, ''ServerboundConfigPong''),
          (7, ''ServerboundSelectKnownPacks'')])]),
      (StateHandshaking, [
        (DirectionServerbound, [
          (0, ''ServerboundHandshake'')])]),
      (StateLogin, [
        (DirectionClientbound, [
          (0, ''ClientboundDisconnect''), (2, ''ClientboundLoginSuccess''),
          (3, ''ClientboundSetCompression''), (5, ''ClientboundCookieRequest'')]),
        (DirectionServerbound, [
          (0, ''ServerboundLoginStart''), (3, ''ServerboundLoginAcknowledged''),
          (4, ''ServerboundCookieResponse'')])]),
      (StatePlay, [
        (DirectionClientbound, [
          (21, ''ClientboundCookieRequest''), (24, ''ClientboundCustomPayload''),
          (28, ''ClientboundDisconnect''), (38, ''ClientboundKeepAlive''),
          (43, ''ClientboundJoinGame''), (54, ''ClientboundPong'')]),
        (DirectionServerbound, [
          (8, ''ServerboundChatMessage''), (13, ''ServerboundClientSettings''),
          (20, ''ServerboundCookieResponse''), (21, ''ServerboundCustomPayload''),
          (27, ''ServerboundKeepAlive'')])]),
      (StateStatus, [
        (DirectionClientbound, [
          (0, ''ClientboundStatusResponse''), (1, ''ClientboundPong'')]),
        (DirectionServerbound, [
          (0, ''ServerboundStatusRequest''), (1, ''ServerboundPing'')])])],
    PacketIDs = [
      (StateConfiguration, [
        (DirectionClientbound, [
          (''ClientboundConfigKeepAlive'', 4), (''ClientboundConfigPing'', 5),
          (''ClientboundCookieRequest'', 0), (''ClientboundCustomPayload'', 1),
          (''ClientboundDisconnect'', 2), (''ClientboundFeatureFlags'', 12),
          (''ClientboundFinishConfiguration'', 3), (''ClientboundRegistryData'', 7),
          (''ClientboundSelectKnownPacks'', 14)]),
        (DirectionServerbound, [
          (''ServerboundClientSettings'', 0), (''ServerboundConfigKeepAlive'', 4),
          (''ServerboundConfigPong'', 5), (''ServerboundCookieResponse'', 1),
          (''ServerboundCustomPayload'', 2), (''ServerboundFinishConfiguration'', 3),
          (''ServerboundSelectKnownPacks'', 7)])]),
      (StateHandshaking, [
        (DirectionServerbound, [
          (''ServerboundHandshake'', 0)])]),
      (StateLogin, [
        (DirectionClientbound, [
          (''ClientboundCookieRequest'', 5), (''ClientboundDisconnect'', 0),
          (''ClientboundLoginSuccess'', 2), (''ClientboundSetCompression'', 3)]),
        (DirectionServerbound, [
          (''ServerboundCookieResponse'', 4), (''ServerboundLoginAcknowledged'', 3),
          (''ServerboundLoginStart'', 0)])]),
      (StatePlay, [
        (DirectionClientbound, [
          (''ClientboundCookieRequest'', 21), (''ClientboundCustomPayload'', 24),
          (''ClientboundDisconnect'', 28), (''ClientboundJoinGame'', 43),
          (''ClientboundKeepAlive'', 38), (''ClientboundPong'', 54)]),
        (DirectionServerbound, [
          (''ServerboundChatMessage'', 8), (''ServerboundClientSettings'', 13),
          (''ServerboundCookieResponse'', 20), (''ServerboundCustomPayload'', 21),
          (''ServerboundKeepAlive'', 27)])]),
      (StateStatus, [
        (DirectionClientbound, [
          (''ClientboundPong'', 1), (''ClientboundStatusResponse'', 0)]),
        (DirectionServerbound, [
          (''ServerboundPing'', 1), (''ServerboundStatusRequest'', 0)])])]\<rparr>"

definition def_V1_21_9 :: Definition where
  "def_V1_21_9 = \<lparr>
    ProtocolVersion = 773,
    PacketNames = [
      (StateConfiguration, [
        (DirectionClientbound, [
          (0, ''ClientboundCookieRequest''), (1, ''ClientboundCustomPayload''),
          (2, ''ClientboundDisconnect''), (3, ''ClientboundFinishConfiguration''),
          (4, ''ClientboundConfigKeepAlive''), (5, ''ClientboundConfigPing''),
          (7, ''ClientboundRegistryData''), (12, ''ClientboundFeatureFlags''),
          (14, ''ClientboundSelectKnownPacks'')]),
        (DirectionServerbound, [
          (0, ''ServerboundClientSettings''), (1, ''ServerboundCookieResponse''),
          (2, ''ServerboundCustomPayload''), (3, ''ServerboundFinishConfiguration''),
          (4, ''ServerboundConfigKeepAlive''), (5, ''ServerboundConfigPong''),
          (7, ''ServerboundSelectKnownPacks'')])]),
      (StateHandshaking, [
        (DirectionServerbound, [
          (0, ''ServerboundHandshake'')])]),
      (StateLogin, [
        (DirectionClientbound, [
          (0, ''ClientboundDisconnect''), (2, ''ClientboundLoginSuccess''),
          (3, ''ClientboundSetCompression''), (5, ''ClientboundCookieRequest'')]),
        (DirectionServerbound, [
          (0, ''ServerboundLoginStart''), (3, ''ServerboundLoginAcknowledged''),
          (4, ''ServerboundCookieResponse'')])]),
      (StatePlay, [
        (DirectionClientbound, [
          (21, ''ClientboundCookieRequest''), (24, ''ClientboundCustomPayload''),
          (32, ''ClientboundDisconnect''), (43, ''ClientboundKeepAlive''),
          (48, ''ClientboundJoinGame''), (59, ''ClientboundPong'')]),
        (DirectionServerbound, [
          (8, ''ServerboundChatMessage''), (13, ''ServerboundClientSettings''),
          (20, ''ServerboundCookieResponse''), (21, ''ServerboundCustomPayload''),
          (27, ''ServerboundKeepAlive'')])]),
      (StateStatus, [
        (DirectionClientbound, [
          (0, ''ClientboundStatusResponse''), (1, ''ClientboundPong'')]),
        (DirectionServerbound, [
          (0, ''ServerboundStatusRequest''), (1, ''ServerboundPing'')])])],
    PacketIDs = [
      (StateConfiguration, [
        (DirectionClientbound, [
          (''ClientboundConfigKeepAlive'', 4), (''ClientboundConfigPing'', 5),
          (''ClientboundCookieRequest'', 0), (''ClientboundCustomPayload'', 1),
          (''ClientboundDisconnect'', 2), (''ClientboundFeatureFlags'', 12),
          (''ClientboundFinishConfiguration'', 3), (''ClientboundRegistryData'', 7),
          (''ClientboundSelectKnownPacks'', 14)]),
        (DirectionServerbound, [
          (''ServerboundClientSettings'', 0), (''ServerboundConfigKeepAlive'', 4),
          (''ServerboundConfigPong'', 5), (''ServerboundCookieResponse'', 1),
          (''ServerboundCustomPayload'', 2), (''ServerboundFinishConfiguration'', 3),
          (''ServerboundSelectKnownPacks'', 7)])]),
      (StateHandshaking, [
        (DirectionServerbound, [
          (''ServerboundHandshake'', 0)])]),
      (StateLogin, [
        (DirectionClientbound, [
          (''ClientboundCookieRequest'', 5), (''ClientboundDisconnect'', 0),
          (''ClientboundLoginSuccess'', 2), (''ClientboundSetCompression'', 3)]),
        (DirectionServerbound, [
          (''ServerboundCookieResponse'', 4), (''ServerboundLoginAcknowledged'', 3),
          (''ServerboundLoginStart'', 0)])]),
      (StatePlay, [
        (DirectionClientbound, [
          (''ClientboundCookieRequest'', 21), (''ClientboundCustomPayload'', 24),
          (''ClientboundDisconnect'', 32), (''ClientboundJoinGame'', 48),
          (''ClientboundKeepAlive'', 43), (''ClientboundPong'', 59)]),
        (DirectionServerbound, [
          (''ServerboundChatMessage'', 8), (''ServerboundClientSettings'', 13),
          (''ServerboundCookieResponse'', 20), (''ServerboundCustomPayload'', 21),
          (''ServerboundKeepAlive'', 27)])]),
      (StateStatus, [
        (DirectionClientbound, [
          (''ClientboundPong'', 1), (''ClientboundStatusResponse'', 0)]),
        (DirectionServerbound, [
          (''ServerboundPing'', 1), (''ServerboundStatusRequest'', 0)])])]\<rparr>"

definition def_V1_21_11 :: Definition where
  "def_V1_21_11 = \<lparr>
    ProtocolVersion = 774,
    PacketNames = [
      (StateConfiguration, [
        (DirectionClientbound, [
          (0, ''ClientboundCookieRequest''), (1, ''ClientboundCustomPayload''),
          (2, ''ClientboundDisconnect''), (3, ''ClientboundFinishConfiguration''),
          (4, ''ClientboundConfigKeepAlive''), (5, ''ClientboundConfigPing''),
          (7, ''ClientboundRegistryData''), (12, ''ClientboundFeatureFlags''),
          (14, ''ClientboundSelectKnownPacks'')]),
        (DirectionServerbound, [
          (0, ''ServerboundClientSettings''), (1, ''ServerboundCookieResponse''),
          (2, ''ServerboundCustomPayload''), (3, ''ServerboundFinishConfiguration''),
          (4, ''ServerboundConfigKeepAlive''), (5, ''ServerboundConfigPong''),
          (7, ''ServerboundSelectKnownPacks'')])]),
      (StateHandshaking, [
        (DirectionServerbound, [
          (0, ''ServerboundHandshake'')])]),
      (StateLogin, [
        (DirectionClientbound, [
          (0, ''ClientboundDisconnect''), (2, ''ClientboundLoginSuccess''),
          (3, ''ClientboundSetCompression''), (5, ''ClientboundCookieRequest'')]),
        (DirectionServerbound, [
          (0, ''ServerboundLoginStart''), (3, ''ServerboundLoginAcknowledged''),
          (4, ''ServerboundCookieResponse'')])]),
      (StatePlay, [
        (DirectionClientbound, [
          (21, ''ClientboundCookieRequest''), (24, ''ClientboundCustomPayload''),
          (32, ''ClientboundDisconnect''), (43, ''ClientboundKeepAlive''),
          (48, ''ClientboundJoinGame''), (59, ''ClientboundPong'')]),
        (DirectionServerbound, [
          (8, ''ServerboundChatMessage''), (13, ''ServerboundClientSettings''),
          (20, ''ServerboundCookieResponse''), (21, ''ServerboundCustomPayload''),
          (27, ''ServerboundKeepAlive'')])]),
      (StateStatus, [
        (DirectionClientbound, [
          (0, ''ClientboundStatusResponse''), (1, ''ClientboundPong'')]),
        (DirectionServerbound, [
          (0, ''ServerboundStatusRequest''), (1, ''ServerboundPing'')])])],
    PacketIDs = [
      (StateConfiguration, [
        (DirectionClientbound, [
          (''ClientboundConfigKeepAlive'', 4), (''ClientboundConfigPing'', 5),
          (''ClientboundCookieRequest'', 0), (''ClientboundCustomPayload'', 1),
          (''ClientboundDisconnect'', 2), (''ClientboundFeatureFlags'', 12),
          (''ClientboundFinishConfiguration'', 3), (''ClientboundRegistryData'', 7),
          (''ClientboundSelectKnownPacks'', 14)]),
        (DirectionServerbound, [
          (''ServerboundClientSettings'', 0), (''ServerboundConfigKeepAlive'', 4),
          (''ServerboundConfigPong'', 5), (''ServerboundCookieResponse'', 1),
          (''ServerboundCustomPayload'', 2), (''ServerboundFinishConfiguration'', 3),
          (''ServerboundSelectKnownPacks'', 7)])]),
      (StateHandshaking, [
        (DirectionServerbound, [
          (''ServerboundHandshake'', 0)])]),
      (StateLogin, [
        (DirectionClientbound, [
          (''ClientboundCookieRequest'', 5), (''ClientboundDisconnect'', 0),
          (''ClientboundLoginSuccess'', 2), (''ClientboundSetCompression'', 3)]),
        (DirectionServerbound, [
          (''ServerboundCookieResponse'', 4), (''ServerboundLoginAcknowledged'', 3),
          (''ServerboundLoginStart'', 0)])]),
      (StatePlay, [
        (DirectionClientbound, [
          (''ClientboundCookieRequest'', 21), (''ClientboundCustomPayload'', 24),
          (''ClientboundDisconnect'', 32), (''ClientboundJoinGame'', 48),
          (''ClientboundKeepAlive'', 43), (''ClientboundPong'', 59)]),
        (DirectionServerbound, [
          (''ServerboundChatMessage'', 8), (''ServerboundClientSettings'', 13),
          (''ServerboundCookieResponse'', 20), (''ServerboundCustomPayload'', 21),
          (''ServerboundKeepAlive'', 27)])]),
      (StateStatus, [
        (DirectionClientbound, [
          (''ClientboundPong'', 1), (''ClientboundStatusResponse'', 0)]),
        (DirectionServerbound, [
          (''ServerboundPing'', 1), (''ServerboundStatusRequest'', 0)])])]\<rparr>"

definition initialRegistry :: "(Version \<times> Definition) list" where
  "initialRegistry = [
    (V1_7, def_V1_7),
    (V1_8, def_V1_8),
    (V1_9, def_V1_9),
    (V1_9_2, def_V1_9_2),
    (V1_9_4, def_V1_9_4),
    (V1_10, def_V1_10),
    (V1_11, def_V1_11),
    (V1_12, def_V1_12),
    (V1_12_1, def_V1_12_1),
    (V1_12_2, def_V1_12_2),
    (V1_13, def_V1_13),
    (V1_13_1, def_V1_13_1),
    (V1_13_2, def_V1_13_2),
    (V1_14, def_V1_14),
    (V1_14_1, def_V1_14_1),
    (V1_14_3, def_V1_14_3),
    (V1_14_4, def_V1_14_4),
    (V1_15, def_V1_15),
    (V1_15_1, def_V1_15_1),
    (V1_15_2, def_V1_15_2),
    (V1_16, def_V1_16),
    (V1_16_1, def_V1_16_1),
    (V1_16_2, def_V1_16_2),
    (V1_17, def_V1_17),
    (V1_17_1, def_V1_17_1),
    (V1_18, def_V1_18),
    (V1_18_2, def_V1_18_2),
    (V1_19, def_V1_19),
    (V1_19_2, def_V1_19_2),
    (V1_19_3, def_V1_19_3),
    (V1_19_4, def_V1_19_4),
    (V1_20, def_V1_20),
    (V1_20_2, def_V1_20_2),
    (V1_20_3, def_V1_20_3),
    (V1_20_5, def_V1_20_5),
    (V1_21_1, def_V1_21_1),
    (V1_21_3, def_V1_21_3),
    (V1_21_4, def_V1_21_4),
    (V1_21_5, def_V1_21_5),
    (V1_21_6, def_V1_21_6),
    (V1_21_8, def_V1_21_8),
    (V1_21_9, def_V1_21_9),
    (V1_21_11, def_V1_21_11)]"

end
