(* ===== verification/Component.thy ===== *)
theory Component
  imports GoIO
begin

text \<open>
  \<open>component/component.go\<close>: chat components, their plain text (\<open>String\<close>) and
  their JSON decoding (\<open>UnmarshalJSON\<close>).

  \<open>UnmarshalJSON\<close> is modelled on the parsed JSON value: what \<open>encoding/json\<close>
  does with it is written out as far as this code depends on it.  Struct keys match
  exactly or up to case folding; a value of the wrong type is an error that does not stop
  the decoding of the other keys; a JSON \<open>null\<close> leaves a string alone and empties a
  slice; and \<open>null\<close> as the whole document sets the pointer \<open>aux\<close> to nil, so that
  the following \<open>aux.With\<close> dereferences nil.
\<close>

datatype ChatComponent =
  ChatComponent (cc_Text: string) (cc_With: "ChatComponent list")
    (cc_Translate: string) (cc_Extra: "ChatComponent list")

definition zero_component :: ChatComponent where
  "zero_component = ChatComponent [] [] [] []"

fun ChatComponent_String :: "ChatComponent \<Rightarrow> string" where
  "ChatComponent_String (ChatComponent text withs translate extra) =
     text @ concat (map ChatComponent_String withs) @ concat (map ChatComponent_String extra)"

section \<open>JSON values and struct keys\<close>

datatype json =
    JNull
  | JBool bool
  | JNum string
  | JStr string
  | JArr "json list"
  | JObj "(string \<times> json) list"

text \<open>Case folding of object keys: ASCII letters, and the two other code points that fold
  to an ASCII letter (U+017F to S, U+212A to K), in UTF-8.\<close>

definition upper_char :: "char \<Rightarrow> char" where
  "upper_char c =
     (let n = of_char c :: nat in if 97 \<le> n \<and> n \<le> 122 then char_of (n - 32) else c)"

fun fold_name :: "string \<Rightarrow> string" where
  "fold_name [] = []"
| "fold_name (c # s) =
     (if c = CHR 0xC5 \<and> take 1 s = [CHR 0xBF] then CHR ''S'' # fold_name (drop 1 s)
      else if c = CHR 0xE2 \<and> take 2 s = [CHR 0x84, CHR 0xAA] then CHR ''K'' # fold_name (drop 2 s)
      else upper_char c # fold_name s)"

definition key_is :: "string \<Rightarrow> string \<Rightarrow> bool" where
  "key_is field k \<longleftrightarrow> k = field \<or> fold_name k = fold_name field"

section \<open>Decoding into the struct \<open>aux\<close>\<close>

record aux =
  aux_With :: "json list"
  aux_Extra :: "json list"
  aux_Text :: string
  aux_Translate :: string
  aux_err :: "goerr option"

definition type_error :: goerr where
  "type_error = ExtErr ''json: cannot unmarshal value into Go struct field''"

definition aux_fail :: "aux \<Rightarrow> aux" where
  "aux_fail a = (if aux_err a = None then a\<lparr>aux_err := Some type_error\<rparr> else a)"

definition set_string :: "json \<Rightarrow> ((string \<Rightarrow> string) \<Rightarrow> aux \<Rightarrow> aux) \<Rightarrow> aux \<Rightarrow> aux" where
  "set_string j upd a =
     (case j of JStr s \<Rightarrow> upd (\<lambda>_. s) a | JNull \<Rightarrow> a | _ \<Rightarrow> aux_fail a)"

definition set_raws :: "json \<Rightarrow> ((json list \<Rightarrow> json list) \<Rightarrow> aux \<Rightarrow> aux) \<Rightarrow> aux \<Rightarrow> aux" where
  "set_raws j upd a =
     (case j of JArr js \<Rightarrow> upd (\<lambda>_. js) a | JNull \<Rightarrow> upd (\<lambda>_. []) a | _ \<Rightarrow> aux_fail a)"

fun decode_member :: "string \<times> json \<Rightarrow> aux \<Rightarrow> aux" where
  "decode_member (k, j) a =
     (if key_is ''with'' k then set_raws j aux_With_update a
      else if key_is ''extra'' k then set_raws j aux_Extra_update a
      else if key_is ''text'' k then set_string j aux_Text_update a
      else if key_is ''translate'' k then set_string j aux_Translate_update a
      else a)"

definition decode_aux :: "ChatComponent \<Rightarrow> (string \<times> json) list \<Rightarrow> aux" where
  "decode_aux c ms =
     fold decode_member ms
       \<lparr>aux_With = [], aux_Extra = [], aux_Text = cc_Text c, aux_Translate = cc_Translate c,
        aux_err = None\<rparr>"

text \<open>The raw messages a member can contribute are elements of arrays of the object, so
  the recursion of \<open>UnmarshalJSON\<close> terminates.\<close>

fun json_size :: "json \<Rightarrow> nat" where
  "json_size (JArr js) = Suc (sum_list (map json_size js))"
| "json_size (JObj ms) = Suc (sum_list (map (\<lambda>m. json_size (snd m)) ms))"
| "json_size j = 1"

definition jsons_size :: "json list \<Rightarrow> nat" where
  "jsons_size js = sum_list (map json_size js)"

lemma json_size_pos: "0 < json_size j"
  by (cases j) auto

lemma fold_decode_member_size:
  "jsons_size (aux_With (fold decode_member ms a)) \<le>
     jsons_size (aux_With a) + sum_list (map (\<lambda>m. json_size (snd m)) ms)
   \<and> jsons_size (aux_Extra (fold decode_member ms a)) \<le>
     jsons_size (aux_Extra a) + sum_list (map (\<lambda>m. json_size (snd m)) ms)"
proof (induction ms arbitrary: a)
  case Nil
  show ?case by simp
next
  case (Cons m ms)
  obtain k j where m: "m = (k, j)" by (cases m)
  have "jsons_size (aux_With (decode_member m a)) \<le> jsons_size (aux_With a) + json_size j
      \<and> jsons_size (aux_Extra (decode_member m a)) \<le> jsons_size (aux_Extra a) + json_size j"
    by (auto simp: m set_raws_def set_string_def aux_fail_def jsons_size_def split: json.split)
  with Cons.IH [of "decode_member m a"] show ?case by (simp add: m)
qed

lemma decode_aux_size:
  "2 * sum_list (map json_size (aux_With (decode_aux c ms)))
     < Suc (2 * sum_list (map (\<lambda>m. json_size (snd m)) ms))"
  "2 * sum_list (map json_size (aux_Extra (decode_aux c ms)))
     < Suc (2 * sum_list (map (\<lambda>m. json_size (snd m)) ms))"
  using fold_decode_member_size [of ms
    "\<lparr>aux_With = [], aux_Extra = [], aux_Text = cc_Text c, aux_Translate = cc_Translate c, aux_err = None\<rparr>"]
  by (simp_all add: decode_aux_def jsons_size_def)

section \<open>UnmarshalJSON\<close>

definition nil_panic :: string where
  "nil_panic = ''runtime error: invalid memory address or nil pointer dereference''"

text \<open>\<open>append_with\<close> and \<open>append_extra\<close> are the two loops over the raw messages;
  \<open>json.Unmarshal(raw, &comp)\<close> calls \<open>UnmarshalJSON\<close> of a zero component.\<close>

function (sequential) UnmarshalJSON ::
    "ChatComponent \<Rightarrow> json \<Rightarrow> (ChatComponent \<times> goerr option) outcome"
  and append_with :: "ChatComponent list \<Rightarrow> json list \<Rightarrow> ChatComponent list outcome"
  and append_extra :: "ChatComponent list \<Rightarrow> json list \<Rightarrow> ChatComponent list outcome" where
  "UnmarshalJSON c JNull = Panic nil_panic"
| "UnmarshalJSON c (JObj ms) =
     (let a = decode_aux c ms;
          c' = ChatComponent (aux_Text a) (cc_With c) (aux_Translate a) (cc_Extra c) in
      case aux_err a of
        Some e \<Rightarrow> Ret (c', Some e)
      | None \<Rightarrow>
          obind (append_with (cc_With c) (aux_With a)) (\<lambda>withs.
          obind (append_extra (cc_Extra c) (aux_Extra a)) (\<lambda>extra.
            Ret (ChatComponent (aux_Text a) withs (aux_Translate a) extra, None))))"
| "UnmarshalJSON c j = Ret (c, Some type_error)"
| "append_with acc [] = Ret acc"
| "append_with acc (raw # raws) =
     obind (UnmarshalJSON zero_component raw) (\<lambda>(comp, err).
       if err = None then append_with (acc @ [comp]) raws
       else case raw of
              JStr s \<Rightarrow> append_with (acc @ [ChatComponent s [] [] []]) raws
            | _ \<Rightarrow> append_with acc raws)"
| "append_extra acc [] = Ret acc"
| "append_extra acc (raw # raws) =
     obind (UnmarshalJSON zero_component raw) (\<lambda>(comp, err).
       if err = None then append_extra (acc @ [comp]) raws else append_extra acc raws)"
  by pat_completeness auto
termination
  by (relation "measure (\<lambda>x. case x of
        Inl (c, j) \<Rightarrow> 2 * json_size j
      | Inr (Inl (acc, raws)) \<Rightarrow> 2 * jsons_size raws + 1
      | Inr (Inr (acc, raws)) \<Rightarrow> 2 * jsons_size raws + 1)")
    (auto simp: jsons_size_def json_size_pos decode_aux_size)

end
