(* ===== verification/Sha.thy ===== *)
theory Sha
  imports GoIO
begin

text \<open>
  The two hash functions the program calls, from Go's standard library:
  \<open>crypto/sha1\<close> (\<open>OfflineUUID\<close>) and \<open>crypto/sha256\<close>
  (\<open>signMessage\<close>), as FIPS 180-4 defines them, over byte lists.
\<close>

section \<open>Shared parts\<close>

definition rotl :: "nat \<Rightarrow> uint32 \<Rightarrow> uint32" where
  "rotl n x = push_bit n x OR drop_bit (32 - n) x"

definition rotr :: "nat \<Rightarrow> uint32 \<Rightarrow> uint32" where
  "rotr n x = drop_bit n x OR push_bit (32 - n) x"

definition pad_message :: "bytes \<Rightarrow> bytes" where
  "pad_message msg =
     msg @ [0x80] @ replicate ((119 - length msg mod 64) mod 64) 0 @ be_bytes 8 (8 * length msg)"

text \<open>The blocks of 16 big-endian 32-bit words.\<close>

fun be_words :: "bytes \<Rightarrow> uint32 list" where
  "be_words (a # b # c # d # rest) = word_of_nat (be_val [a, b, c, d]) # be_words rest"
| "be_words _ = []"

fun blocks16 :: "nat \<Rightarrow> uint32 list \<Rightarrow> uint32 list list" where
  "blocks16 0 ws = []"
| "blocks16 (Suc n) ws = take 16 ws # blocks16 n (drop 16 ws)"

definition message_blocks :: "bytes \<Rightarrow> uint32 list list" where
  "message_blocks msg =
     (let ws = be_words (pad_message msg) in blocks16 (length ws div 16) ws)"

definition words_bytes :: "uint32 list \<Rightarrow> bytes" where
  "words_bytes ws = concat (map (\<lambda>w. be_bytes 4 (unat w)) ws)"

section \<open>SHA-1\<close>

text \<open>The message schedule is built newest word first.\<close>

fun sha1_schedule :: "nat \<Rightarrow> uint32 list \<Rightarrow> uint32 list" where
  "sha1_schedule 0 ws = ws"
| "sha1_schedule (Suc n) ws =
     sha1_schedule n (rotl 1 (ws ! 2 XOR ws ! 7 XOR ws ! 13 XOR ws ! 15) # ws)"

type_synonym sha1_state = "uint32 \<times> uint32 \<times> uint32 \<times> uint32 \<times> uint32"

fun sha1_round :: "nat \<Rightarrow> uint32 \<Rightarrow> sha1_state \<Rightarrow> sha1_state" where
  "sha1_round t w (a, b, c, d, e) =
     (let (f, k) =
        (if t < 20 then ((b AND c) OR (NOT b AND d), 0x5A827999)
         else if t < 40 then (b XOR c XOR d, 0x6ED9EBA1)
         else if t < 60 then ((b AND c) OR (b AND d) OR (c AND d), 0x8F1BBCDC)
         else (b XOR c XOR d, 0xCA62C1D6))
      in (rotl 5 a + f + e + k + w, a, rotl 30 b, c, d))"

fun sha1_rounds :: "nat \<Rightarrow> uint32 list \<Rightarrow> sha1_state \<Rightarrow> sha1_state" where
  "sha1_rounds t [] s = s"
| "sha1_rounds t (w # ws) s = sha1_rounds (Suc t) ws (sha1_round t w s)"

fun sha1_block :: "uint32 list \<Rightarrow> sha1_state \<Rightarrow> sha1_state" where
  "sha1_block blk (h0, h1, h2, h3, h4) =
     (case sha1_rounds 0 (rev (sha1_schedule 64 (rev blk))) (h0, h1, h2, h3, h4) of
        (a, b, c, d, e) \<Rightarrow> (h0 + a, h1 + b, h2 + c, h3 + d, h4 + e))"

definition sha1 :: "bytes \<Rightarrow> bytes" where
  "sha1 msg =
     (case fold sha1_block (message_blocks msg)
             (0x67452301, 0xEFCDAB89, 0x98BADCFE, 0x10325476, 0xC3D2E1F0) of
        (a, b, c, d, e) \<Rightarrow> words_bytes [a, b, c, d, e])"

section \<open>SHA-256\<close>

definition sha256_K :: "uint32 list" where
  "sha256_K = [
    1116352408, 1899447441, 3049323471, 3921009573, 961987163, 1508970993, 2453635748, 2870763221,
    3624381080, 310598401, 607225278, 1426881987, 1925078388, 2162078206, 2614888103, 3248222580,
    3835390401, 4022224774, 264347078, 604807628, 770255983, 1249150122, 1555081692, 1996064986,
    2554220882, 2821834349, 2952996808, 3210313671, 3336571891, 3584528711, 113926993, 338241895,
    666307205, 773529912, 1294757372, 1396182291, 1695183700, 1986661051, 2177026350, 2456956037,
    2730485921, 2820302411, 3259730800, 3345764771, 3516065817, 3600352804, 4094571909, 275423344,
    430227734, 506948616, 659060556, 883997877, 958139571, 1322822218, 1537002063, 1747873779,
    1955562222, 2024104815, 2227730452, 2361852424, 2428436474, 2756734187, 3204031479, 3329325298]"

fun sha256_schedule :: "nat \<Rightarrow> uint32 list \<Rightarrow> uint32 list" where
  "sha256_schedule 0 ws = ws"
| "sha256_schedule (Suc n) ws =
     (let s0 = rotr 7 (ws ! 14) XOR rotr 18 (ws ! 14) XOR drop_bit 3 (ws ! 14);
          s1 = rotr 17 (ws ! 1) XOR rotr 19 (ws ! 1) XOR drop_bit 10 (ws ! 1)
      in sha256_schedule n ((ws ! 15 + s0 + ws ! 6 + s1) # ws))"

type_synonym sha256_state = "uint32 list"

definition sha256_round :: "uint32 \<times> uint32 \<Rightarrow> sha256_state \<Rightarrow> sha256_state" where
  "sha256_round kw s =
     (let a = s ! 0; b = s ! 1; c = s ! 2; d = s ! 3; e = s ! 4; f = s ! 5; g = s ! 6; h = s ! 7;
          t1 = h + (rotr 6 e XOR rotr 11 e XOR rotr 25 e) + ((e AND f) XOR (NOT e AND g)) + fst kw + snd kw;
          t2 = (rotr 2 a XOR rotr 13 a XOR rotr 22 a) + ((a AND b) XOR (a AND c) XOR (b AND c))
      in [t1 + t2, a, b, c, d + t1, e, f, g])"

definition sha256_block :: "uint32 list \<Rightarrow> sha256_state \<Rightarrow> sha256_state" where
  "sha256_block blk s =
     map2 (+) s (fold sha256_round (zip sha256_K (rev (sha256_schedule 48 (rev blk)))) s)"

definition sha256 :: "bytes \<Rightarrow> bytes" where
  "sha256 msg =
     words_bytes (fold sha256_block (message_blocks msg)
       [0x6a09e667, 0xbb67ae85, 0x3c6ef372, 0xa54ff53a, 0x510e527f, 0x9b05688c, 0x1f83d9ab, 0x5be0cd19])"

section \<open>Lengths\<close>

lemma length_sha1 [simp]: "length (sha1 msg) = 20"
  by (simp add: sha1_def words_bytes_def split: prod.split)

end
