(* ===== verification/Packets.thy ===== *)
theory Packets
  imports Versions Component Sha
begin

text \<open>
  \<open>protocol/packets.go\<close>: the packet structs and their \<open>Encode\<close> and
  \<open>Decode\<close> methods.  A struct with several fields is a record; the interface
  \<open>Packet\<close> is the datatype of all structs that implement it.

  \<open>Encode\<close> takes what the Go code gets from outside the package through \<open>env\<close>:
  the clock, the random salt, \<open>rsa.SignPKCS1v15\<close>, \<open>uuid.Parse\<close> and zlib.
  \<open>Decode\<close> gets the receiver it overwrites, so that fields that are not assigned before
  an early return keep their value.  A panic (an explicit one, or \<open>make\<close> with a
  negative length) is the outcome \<open>Panic\<close>.
\<close>

section \<open>The environment of the package\<close>

text \<open>A private key is only handed to \<open>rsa.SignPKCS1v15\<close>: an opaque handle.\<close>

type_synonym rsa_key = nat

text \<open>\<open>zlib_NewReader\<close> is what opening a zlib stream over some bytes gives: an error
  (bad header) or a reader with the bytes that can be inflated and the error behind them
  (\<open>EOF\<close> when the stream is sound).  \<open>zlib_compress\<close> is what a zlib writer
  emits for some data until it is closed.\<close>

record env =
  now_UnixMilli :: int64
  rand_salt :: int64
  rsa_SignPKCS1v15 :: "rsa_key \<Rightarrow> bytes \<Rightarrow> goerr + bytes"
  uuid_Parse :: "string \<Rightarrow> uuid \<times> goerr option"
  zlib_NewReader :: "bytes \<Rightarrow> goerr + reader"
  zlib_compress :: "bytes \<Rightarrow> bytes"

section \<open>The structs\<close>

record ServerboundHandshake_t =
  hs_ProtocolVersion :: int32
  hs_ServerAddress :: string
  hs_ServerPort :: uint16
  hs_NextState :: State

record LoginStart_t =
  ls_Username :: string
  ls_UUID :: uuid

record LoginSuccess_t =
  lk_Username :: string
  lk_UUID :: uuid

record CookieResponse_t =
  cr_Key :: string
  cr_HasData :: bool
  cr_Data :: bytes

record ChatMessage_t =
  cm_Message :: string
  cm_PrivateKey :: "rsa_key option"
  cm_UUID :: uuid

record CustomPayloadData =
  cp_Channel :: string
  cp_Data :: bytes

record Tag =
  tag_Name :: string
  tag_Entries :: "int32 list"

record RegistryTag =
  rt_Registry :: string
  rt_Tags :: "Tag list"

record RegistryData_t =
  rg_Registry :: string
  rg_Data :: bytes

record ClientboundChat_t =
  cc_Component :: ChatComponent
  cc_Sender :: string

record PlayerPos_t =
  pp_X :: float64
  pp_Y :: float64
  pp_Z :: float64
  pp_OnGround :: bool

datatype Packet =
    ServerboundHandshake ServerboundHandshake_t
  | ServerboundStatusRequest
  | ClientboundStatusResponse string
  | ServerboundPing int64
  | ClientboundPong int64
  | ServerboundLoginStart LoginStart_t
  | ServerboundLoginAcknowledged
  | ClientboundSetCompression int32
  | ClientboundLoginSuccess LoginSuccess_t
  | ServerboundFinishConfiguration
  | ClientboundFinishConfiguration
  | ClientboundConfigKeepAlive int64
  | ServerboundConfigKeepAlive int64
  | ServerboundSelectKnownPacks "KnownPack list"
  | ClientboundSelectKnownPacks "KnownPack list"
  | ClientboundCookieRequest string
  | ServerboundCookieResponse CookieResponse_t
  | ClientboundConfigPing int32
  | ServerboundConfigPong int32
  | ClientboundJoinGame
  | ClientboundDisconnect string
  | ServerboundChatMessage ChatMessage_t
  | ClientboundKeepAlive int64
  | ServerboundKeepAlive int64
  | ServerboundClientSettings ClientSettings
  | CustomPayload CustomPayloadData
  | ServerboundCustomPayload CustomPayloadData
  | ClientboundCustomPayload CustomPayloadData
  | ClientboundFeatureFlags "string list"
  | ClientboundUpdateTags "RegistryTag list"
  | ClientboundRegistryData RegistryData_t
  | ClientboundChatMessage ClientboundChat_t
  | ServerboundPlayerPosition PlayerPos_t

section \<open>Encoding\<close>

definition ServerboundHandshake_Encode :: "ServerboundHandshake_t \<Rightarrow> wr" where
  "ServerboundHandshake_Encode p =
     wign (WriteVarInt (hs_ProtocolVersion p))
    (wign (WriteString (hs_ServerAddress p))
    (wign (WriteUShort (hs_ServerPort p))
          (WriteVarInt (word_of_int (hs_NextState p)))))"

definition ServerboundLoginStart_Encode :: "LoginStart_t \<Rightarrow> Version \<Rightarrow> wr" where
  "ServerboundLoginStart_Encode p v =
     wtry (WriteString (ls_Username p))
    (wtry (if v \<ge> V1_19 \<and> v \<le> V1_19_2 then WriteBool False else wnil)
    (if v \<ge> V1_20_2 then wtry (Write (ls_UUID p)) wnil
     else if v \<ge> V1_19_2 \<and> ls_UUID p \<noteq> uuid_Nil
     then wtry (WriteBool True) (Write (ls_UUID p))
     else wnil))"

fun write_packs :: "KnownPack list \<Rightarrow> wr" where
  "write_packs [] = wnil"
| "write_packs (pk # pks) =
     wtry (WriteString (kp_Namespace pk))
    (wtry (WriteString (kp_ID pk))
    (wtry (WriteString (kp_Version pk)) (write_packs pks)))"

definition ServerboundSelectKnownPacks_Encode :: "KnownPack list \<Rightarrow> wr" where
  "ServerboundSelectKnownPacks_Encode packs =
     wtry (WriteVarInt (word_of_nat (length packs))) (write_packs packs)"

definition ServerboundCookieResponse_Encode :: "CookieResponse_t \<Rightarrow> wr" where
  "ServerboundCookieResponse_Encode p =
     wign (WriteString (cr_Key p))
    (wign (WriteBool (cr_HasData p))
    (if cr_HasData p then wign (WriteByteSlice (cr_Data p)) wnil else wnil))"

text \<open>\<open>signMessage\<close> returns a nil slice when there is no key.  From 1.19.3 on the
  signature is copied into a buffer of exactly 256 bytes.\<close>

definition sign_buffer :: "ChatMessage_t \<Rightarrow> Version \<Rightarrow> string \<Rightarrow> int64 \<Rightarrow> int64 \<Rightarrow> bytes" where
  "sign_buffer p v message timestamp salt =
     (if v \<ge> V1_19_2
      then be_bytes 8 (unat salt) @ be_bytes 8 (unat timestamp) @ cm_UUID p @ str_bytes message
      else be_bytes 8 (unat timestamp) @ be_bytes 8 (unat salt) @ str_bytes message)"

definition signMessage ::
  "env \<Rightarrow> ChatMessage_t \<Rightarrow> Version \<Rightarrow> string \<Rightarrow> int64 \<Rightarrow> int64 \<Rightarrow> goerr + bytes option" where
  "signMessage E p v message timestamp salt =
     (case cm_PrivateKey p of
        None \<Rightarrow> Inr None
      | Some key \<Rightarrow>
          (case rsa_SignPKCS1v15 E key (sha256 (sign_buffer p v message timestamp salt)) of
             Inl e \<Rightarrow> Inl (Wrapf ''failed to sign chat message: '' e)
           | Inr signature \<Rightarrow>
               if v \<ge> V1_19_3 then Inr (Some (take 256 (signature @ replicate 256 0)))
               else Inr (Some signature)))"

definition ServerboundChatMessage_Encode :: "env \<Rightarrow> ChatMessage_t \<Rightarrow> Version \<Rightarrow> wr" where
  "ServerboundChatMessage_Encode E p v =
     (if v < V1_19 then WriteString (cm_Message p)
      else
        let timestamp = now_UnixMilli E; salt = rand_salt E in
        case signMessage E p v (cm_Message p) timestamp salt of
          Inl e \<Rightarrow> (\<lambda>w. (Some e, w))
        | Inr signature \<Rightarrow>
            wign (WriteString (cm_Message p))
           (wign (WriteLong timestamp)
           (wign (WriteLong salt)
           (if v \<ge> V1_19_3 then
              wign (case signature of
                      Some s \<Rightarrow> wign (WriteBool True) (Write s)
                    | None \<Rightarrow> WriteBool False)
             (wign (WriteVarInt 0)
             (wign (Write [0, 0, 0])
             (wign (if v \<ge> V1_21_5 then WriteByte 0 else wnil) wnil)))
            else if v \<ge> V1_19_2 then
              wign (WriteByteSlice (case signature of Some s \<Rightarrow> s | None \<Rightarrow> []))
             (wign (WriteBool False)
             (wign (WriteVarInt 0)
             (wign (WriteBool False) wnil)))
            else
              wign (WriteByteSlice (case signature of Some s \<Rightarrow> s | None \<Rightarrow> []))
             (wign (WriteBool False) wnil)))))"

definition ServerboundKeepAlive_Encode :: "int64 \<Rightarrow> Version \<Rightarrow> wr" where
  "ServerboundKeepAlive_Encode n v =
     (if v \<ge> V1_12_2 then WriteLong n else WriteVarInt (ucast n))"

definition ServerboundClientSettings_Encode :: "ClientSettings \<Rightarrow> Version \<Rightarrow> wr" where
  "ServerboundClientSettings_Encode p v =
     wtry (WriteString (Locale p))
    (wtry (WriteByte (View p))
    (wtry (if v \<le> V1_7 then WriteByte 0x1
           else if v \<ge> V1_8 then WriteVarInt (ChatMode p) else wnil)
    (wtry (WriteBool (ChatColors p))
    (wtry (if v \<le> V1_7 then wtry (WriteByte (SkinParts p AND 0x01)) (WriteBool True) else wnil)
    (wtry (if v \<ge> V1_8 then WriteByte (SkinParts p) else wnil)
    (wtry (if v \<ge> V1_9 then WriteVarInt (MainHand p) else wnil)
    (wtry (if v \<ge> V1_17_1 then WriteBool False else wnil)
    (wtry (if v \<ge> V1_18 then WriteBool True else wnil)
    (wtry (if v \<ge> V1_21_3 then WriteVarInt 0 else wnil)
          wnil)))))))))"

definition CustomPayload_encode :: "CustomPayloadData \<Rightarrow> wr" where
  "CustomPayload_encode p = wign (WriteString (cp_Channel p)) (Write (cp_Data p))"

definition ServerboundPlayerPosition_Encode :: "PlayerPos_t \<Rightarrow> wr" where
  "ServerboundPlayerPosition_Encode p =
     wign (binary_Write 8 (unat (pp_X p)))
    (wign (binary_Write 8 (unat (pp_Y p)))
    (wign (binary_Write 8 (unat (pp_Z p)))
          (WriteBool (pp_OnGround p))))"

text \<open>Packets of a single field.\<close>

abbreviation (input) ClientboundSetCompression_Encode :: "int32 \<Rightarrow> wr" where
  "ClientboundSetCompression_Encode threshold \<equiv> WriteVarInt threshold"

abbreviation (input) ClientboundCookieRequest_Encode :: "string \<Rightarrow> wr" where
  "ClientboundCookieRequest_Encode key \<equiv> WriteString key"

abbreviation (input) ClientboundConfigPing_Encode :: "int32 \<Rightarrow> wr" where
  "ClientboundConfigPing_Encode i \<equiv> binary_Write 4 (unat i)"

abbreviation (input) ServerboundConfigPong_Encode :: "int32 \<Rightarrow> wr" where
  "ServerboundConfigPong_Encode i \<equiv> binary_Write 4 (unat i)"

abbreviation (input) ClientboundDisconnect_Encode :: "string \<Rightarrow> wr" where
  "ClientboundDisconnect_Encode reason \<equiv> WriteString reason"

abbreviation (input) ClientboundChatMessage_Encode :: wr where
  "ClientboundChatMessage_Encode w \<equiv> (Some (Errorf ''client should not send Clientbound ChatMessage''), w)"

text \<open>The method table: \<open>p.Encode(w, v)\<close>.\<close>

fun Encode :: "env \<Rightarrow> Packet \<Rightarrow> Version \<Rightarrow> writer \<Rightarrow> (goerr option \<times> writer) outcome" where
  "Encode E (ServerboundHandshake p) v w = Ret (ServerboundHandshake_Encode p w)"
| "Encode E ServerboundStatusRequest v w = Ret (None, w)"
| "Encode E (ClientboundStatusResponse s) v w = Ret (WriteString s w)"
| "Encode E (ServerboundPing n) v w = Ret (WriteLong n w)"
| "Encode E (ClientboundPong n) v w = Ret (WriteLong n w)"
| "Encode E (ServerboundLoginStart p) v w = Ret (ServerboundLoginStart_Encode p v w)"
| "Encode E ServerboundLoginAcknowledged v w = Ret (None, w)"
| "Encode E (ClientboundSetCompression n) v w = Ret (ClientboundSetCompression_Encode n w)"
| "Encode E (ClientboundLoginSuccess p) v w = Panic ''client should not send LoginSuccess''"
| "Encode E ServerboundFinishConfiguration v w = Ret (None, w)"
| "Encode E ClientboundFinishConfiguration v w = Ret (None, w)"
| "Encode E (ClientboundConfigKeepAlive n) v w = Ret (WriteLong n w)"
| "Encode E (ServerboundConfigKeepAlive n) v w = Ret (WriteLong n w)"
| "Encode E (ServerboundSelectKnownPacks ps) v w = Ret (ServerboundSelectKnownPacks_Encode ps w)"
| "Encode E (ClientboundSelectKnownPacks ps) v w = Ret (None, w)"
| "Encode E (ClientboundCookieRequest k) v w = Ret (ClientboundCookieRequest_Encode k w)"
| "Encode E (ServerboundCookieResponse p) v w = Ret (ServerboundCookieResponse_Encode p w)"
| "Encode E (ClientboundConfigPing n) v w = Ret (ClientboundConfigPing_Encode n w)"
| "Encode E (ServerboundConfigPong n) v w = Ret (ServerboundConfigPong_Encode n w)"
| "Encode E ClientboundJoinGame v w = Panic ''client should not send JoinGame''"
| "Encode E (ClientboundDisconnect s) v w = Ret (ClientboundDisconnect_Encode s w)"
| "Encode E (ServerboundChatMessage p) v w = Ret (ServerboundChatMessage_Encode E p v w)"
| "Encode E (ClientboundKeepAlive n) v w = Panic ''client should not send ClientboundKeepAlive''"
| "Encode E (ServerboundKeepAlive n) v w = Ret (ServerboundKeepAlive_Encode n v w)"
| "Encode E (ServerboundClientSettings p) v w = Ret (ServerboundClientSettings_Encode p v w)"
| "Encode E (CustomPayload p) v w = Ret (CustomPayload_encode p w)"
| "Encode E (ServerboundCustomPayload p) v w = Ret (CustomPayload_encode p w)"
| "Encode E (ClientboundCustomPayload p) v w = Ret (CustomPayload_encode p w)"
| "Encode E (ClientboundFeatureFlags fs) v w = Panic ''client should not send FeatureFlags''"
| "Encode E (ClientboundUpdateTags ts) v w = Panic ''client should not send UpdateTags''"
| "Encode E (ClientboundRegistryData p) v w = Panic ''client should not send RegistryData''"
| "Encode E (ClientboundChatMessage p) v w = Ret (ClientboundChatMessage_Encode w)"
| "Encode E (ServerboundPlayerPosition p) v w = Ret (ServerboundPlayerPosition_Encode p w)"

section \<open>Decoding\<close>

text \<open>"p.F, err = m(r); if err != nil { return err }", then the rest \<open>k\<close>; and the
  same as the last statement, "p.F, err = m(r); return err".  The assignment is done
  whether or not there is an error.\<close>

type_synonym 'p decoder = "reader \<Rightarrow> 'p \<times> goerr option \<times> reader"

definition dtry :: "'a rd \<Rightarrow> ('a \<Rightarrow> 'p) \<Rightarrow> ('p \<Rightarrow> 'p decoder) \<Rightarrow> 'p decoder" where
  "dtry m upd k r =
     (case m r of (x, err, r') \<Rightarrow>
        (case err of Some e \<Rightarrow> (upd x, Some e, r') | None \<Rightarrow> k (upd x) r'))"

definition dlast :: "'a rd \<Rightarrow> ('a \<Rightarrow> 'p) \<Rightarrow> 'p decoder" where
  "dlast m upd r = (case m r of (x, err, r') \<Rightarrow> (upd x, err, r'))"

definition dign :: "'a rd \<Rightarrow> ('a \<Rightarrow> 'p) \<Rightarrow> ('p \<Rightarrow> 'p decoder) \<Rightarrow> 'p decoder" where
  "dign m upd k r = (case m r of (x, err, r') \<Rightarrow> k (upd x) r')"

lemma dtry_ok [simp]: "m r = (x, None, r') \<Longrightarrow> dtry m upd k r = k (upd x) r'"
  by (simp add: dtry_def)

lemma dtry_err [simp]: "m r = (x, Some e, r') \<Longrightarrow> dtry m upd k r = (upd x, Some e, r')"
  by (simp add: dtry_def)

lemma dlast_eq [simp]: "m r = (x, err, r') \<Longrightarrow> dlast m upd r = (upd x, err, r')"
  by (simp add: dlast_def)

lemma dign_eq [simp]: "m r = (x, err, r') \<Longrightarrow> dign m upd k r = k (upd x) r'"
  by (simp add: dign_def)

definition ServerboundHandshake_Decode :: "ServerboundHandshake_t \<Rightarrow> ServerboundHandshake_t decoder" where
  "ServerboundHandshake_Decode p =
     dign ReadVarInt (\<lambda>x. p\<lparr>hs_ProtocolVersion := x\<rparr>) (\<lambda>p.
     dign ReadString (\<lambda>x. p\<lparr>hs_ServerAddress := x\<rparr>) (\<lambda>p.
     dign ReadUShort (\<lambda>x. p\<lparr>hs_ServerPort := x\<rparr>) (\<lambda>p.
     dlast ReadVarInt (\<lambda>ns. p\<lparr>hs_NextState := sint ns\<rparr>))))"

definition ServerboundLoginStart_Decode :: "LoginStart_t \<Rightarrow> LoginStart_t decoder" where
  "ServerboundLoginStart_Decode p = dlast ReadString (\<lambda>x. p\<lparr>ls_Username := x\<rparr>)"

text \<open>The properties of a login success are read and dropped.\<close>

fun skip_properties :: "nat \<Rightarrow> unit rd" where
  "skip_properties 0 r = ((), None, r)"
| "skip_properties (Suc n) r =
     rtry ReadString () (\<lambda>_.
     rtry ReadString () (\<lambda>_ r.
       case ReadBool r of (hasSig, _, r') \<Rightarrow>
         if hasSig then rtry ReadString () (\<lambda>_. skip_properties n) r'
         else skip_properties n r')) r"

definition ClientboundLoginSuccess_Decode ::
    "env \<Rightarrow> Version \<Rightarrow> LoginSuccess_t \<Rightarrow> LoginSuccess_t decoder" where
  "ClientboundLoginSuccess_Decode E v p =
     dtry (if v \<ge> V1_16 then ReadUUID else ReadStringUUID (uuid_Parse E)) (\<lambda>x. p\<lparr>lk_UUID := x\<rparr>) (\<lambda>p.
     dtry ReadString (\<lambda>x. p\<lparr>lk_Username := x\<rparr>) (\<lambda>p.
     dtry (if v \<ge> V1_19
           then rtry ReadVarInt () (\<lambda>propCount. skip_properties (nat (sint propCount)))
           else (\<lambda>r. ((), None, r))) (\<lambda>_. p) (\<lambda>p.
     dtry (if v \<ge> V1_20_5 \<and> v \<le> V1_21_1
           then rtry ReadBool () (\<lambda>_ r. ((), None, r))
           else (\<lambda>r. ((), None, r))) (\<lambda>_. p) (\<lambda>p r. (p, None, r)))))"

text \<open>"xs := make([]T, count)" and the loop that fills it: a negative count panics; on an
  error the elements read so far, the current one and zero values for the rest remain.\<close>

fun read_each :: "'a \<Rightarrow> (reader \<Rightarrow> ('a \<times> goerr option \<times> reader) outcome) \<Rightarrow> nat \<Rightarrow> reader
    \<Rightarrow> ('a list \<times> goerr option \<times> reader) outcome" where
  "read_each z m 0 r = Ret ([], None, r)"
| "read_each z m (Suc n) r =
     obind (m r) (\<lambda>(x, err, r').
       case err of
         Some e \<Rightarrow> Ret (x # replicate n z, Some e, r')
       | None \<Rightarrow> obind (read_each z m n r') (\<lambda>(xs, err', r''). Ret (x # xs, err', r'')))"

definition makeslice_panic :: string where
  "makeslice_panic = ''runtime error: makeslice: len out of range''"

definition read_slice :: "'a list \<Rightarrow> 'a \<Rightarrow> (reader \<Rightarrow> ('a \<times> goerr option \<times> reader) outcome) \<Rightarrow> reader
    \<Rightarrow> ('a list \<times> goerr option \<times> reader) outcome" where
  "read_slice old z m r =
     (case ReadVarInt r of
        (count, Some e, r') \<Rightarrow> Ret (old, Some e, r')
      | (count, None, r') \<Rightarrow>
          if sint count < 0 then Panic makeslice_panic
          else read_each z m (nat (sint count)) r')"

definition zero_pack :: KnownPack where
  "zero_pack = \<lparr>kp_Namespace = [], kp_ID = [], kp_Version = []\<rparr>"

definition read_pack :: "KnownPack decoder" where
  "read_pack =
     dtry ReadString (\<lambda>x. zero_pack\<lparr>kp_Namespace := x\<rparr>) (\<lambda>p.
     dtry ReadString (\<lambda>x. p\<lparr>kp_ID := x\<rparr>) (\<lambda>p.
     dlast ReadString (\<lambda>x. p\<lparr>kp_Version := x\<rparr>)))"

definition ClientboundSelectKnownPacks_Decode ::
    "KnownPack list \<Rightarrow> reader \<Rightarrow> (KnownPack list \<times> goerr option \<times> reader) outcome" where
  "ClientboundSelectKnownPacks_Decode packs = read_slice packs zero_pack (\<lambda>r. Ret (read_pack r))"

definition ClientboundFeatureFlags_Decode ::
    "string list \<Rightarrow> reader \<Rightarrow> (string list \<times> goerr option \<times> reader) outcome" where
  "ClientboundFeatureFlags_Decode fs = read_slice fs [] (\<lambda>r. Ret (ReadString r))"

definition zero_tag :: Tag where "zero_tag = \<lparr>tag_Name = [], tag_Entries = []\<rparr>"

definition read_tag :: "reader \<Rightarrow> (Tag \<times> goerr option \<times> reader) outcome" where
  "read_tag r =
     (case ReadString r of
        (name, Some e, r') \<Rightarrow> Ret (zero_tag\<lparr>tag_Name := name\<rparr>, Some e, r')
      | (name, None, r') \<Rightarrow>
          obind (read_slice [] 0 (\<lambda>r. Ret (ReadVarInt r)) r') (\<lambda>(es, err, r'').
            Ret (\<lparr>tag_Name = name, tag_Entries = es\<rparr>, err, r'')))"

definition zero_registry_tag :: RegistryTag where
  "zero_registry_tag = \<lparr>rt_Registry = [], rt_Tags = []\<rparr>"

definition read_registry_tag :: "reader \<Rightarrow> (RegistryTag \<times> goerr option \<times> reader) outcome" where
  "read_registry_tag r =
     (case ReadString r of
        (name, Some e, r') \<Rightarrow> Ret (zero_registry_tag\<lparr>rt_Registry := name\<rparr>, Some e, r')
      | (name, None, r') \<Rightarrow>
          obind (read_slice [] zero_tag read_tag r') (\<lambda>(ts, err, r'').
            Ret (\<lparr>rt_Registry = name, rt_Tags = ts\<rparr>, err, r'')))"

definition ClientboundUpdateTags_Decode ::
    "RegistryTag list \<Rightarrow> reader \<Rightarrow> (RegistryTag list \<times> goerr option \<times> reader) outcome" where
  "ClientboundUpdateTags_Decode ts = read_slice ts zero_registry_tag read_registry_tag"

text \<open>\<open>binary.Read\<close> into a field leaves it alone on an error.\<close>

definition ClientboundConfigPing_Decode :: "int32 \<Rightarrow> int32 decoder" where
  "ClientboundConfigPing_Decode n r =
     (case binary_Read 4 r of
        (v, None, r') \<Rightarrow> (word_of_nat v, None, r')
      | (v, Some e, r') \<Rightarrow> (n, Some e, r'))"

definition ClientboundKeepAlive_Decode :: "Version \<Rightarrow> int64 decoder" where
  "ClientboundKeepAlive_Decode v =
     (if v \<ge> V1_12_2 then ReadLong else dlast ReadVarInt (\<lambda>i. scast i))"

definition CustomPayload_decode :: "CustomPayloadData \<Rightarrow> CustomPayloadData decoder" where
  "CustomPayload_decode p =
     dtry ReadString (\<lambda>x. p\<lparr>cp_Channel := x\<rparr>) (\<lambda>p. dlast ReadAll (\<lambda>x. p\<lparr>cp_Data := x\<rparr>))"

definition ClientboundRegistryData_Decode :: "RegistryData_t \<Rightarrow> RegistryData_t decoder" where
  "ClientboundRegistryData_Decode p =
     dign ReadString (\<lambda>x. p\<lparr>rg_Registry := x\<rparr>) (\<lambda>p.
     dign ReadBytes (\<lambda>x. p\<lparr>rg_Data := x\<rparr>) (\<lambda>p r. (p, None, r)))"

definition ServerboundChatMessage_Decode :: "ChatMessage_t \<Rightarrow> ChatMessage_t decoder" where
  "ServerboundChatMessage_Decode p = dlast ReadString (\<lambda>x. p\<lparr>cm_Message := x\<rparr>)"

abbreviation (input) ClientboundSetCompression_Decode :: "int32 decoder" where
  "ClientboundSetCompression_Decode \<equiv> ReadVarInt"

abbreviation (input) ClientboundCookieRequest_Decode :: "string decoder" where
  "ClientboundCookieRequest_Decode \<equiv> ReadString"

abbreviation (input) ClientboundJoinGame_Decode :: "unit decoder" where
  "ClientboundJoinGame_Decode r \<equiv> CopyDiscard r"

abbreviation (input) ClientboundDisconnect_Decode :: "string decoder" where
  "ClientboundDisconnect_Decode \<equiv> ReadString"

definition lift_packet :: "('a \<Rightarrow> Packet) \<Rightarrow> 'a \<times> goerr option \<times> reader \<Rightarrow> Packet \<times> goerr option \<times> reader" where
  "lift_packet c t = (case t of (x, err, r) \<Rightarrow> (c x, err, r))"

text \<open>The method table: \<open>p.Decode(r, v)\<close>.\<close>

fun Decode :: "env \<Rightarrow> Version \<Rightarrow> Packet \<Rightarrow> reader \<Rightarrow> (Packet \<times> goerr option \<times> reader) outcome" where
  "Decode E v (ServerboundHandshake p) r =
     Ret (lift_packet ServerboundHandshake (ServerboundHandshake_Decode p r))"
| "Decode E v (ClientboundStatusResponse s) r = Ret (lift_packet ClientboundStatusResponse (ReadString r))"
| "Decode E v (ServerboundPing n) r = Ret (lift_packet ServerboundPing (ReadLong r))"
| "Decode E v (ClientboundPong n) r = Ret (lift_packet ClientboundPong (ReadLong r))"
| "Decode E v (ServerboundLoginStart p) r =
     Ret (lift_packet ServerboundLoginStart (ServerboundLoginStart_Decode p r))"
| "Decode E v (ClientboundSetCompression n) r = Ret (lift_packet ClientboundSetCompression (ClientboundSetCompression_Decode r))"
| "Decode E v (ClientboundLoginSuccess p) r =
     Ret (lift_packet ClientboundLoginSuccess (ClientboundLoginSuccess_Decode E v p r))"
| "Decode E v (ClientboundConfigKeepAlive n) r = Ret (lift_packet ClientboundConfigKeepAlive (ReadLong r))"
| "Decode E v (ServerboundConfigKeepAlive n) r = Ret (lift_packet ServerboundConfigKeepAlive (ReadLong r))"
| "Decode E v (ClientboundSelectKnownPacks ps) r =
     obind (ClientboundSelectKnownPacks_Decode ps r) (\<lambda>t. Ret (lift_packet ClientboundSelectKnownPacks t))"
| "Decode E v (ClientboundCookieRequest k) r = Ret (lift_packet ClientboundCookieRequest (ClientboundCookieRequest_Decode r))"
| "Decode E v (ClientboundConfigPing n) r =
     Ret (lift_packet ClientboundConfigPing (ClientboundConfigPing_Decode n r))"
| "Decode E v ClientboundJoinGame r =
     (case ClientboundJoinGame_Decode r of (_, err, r') \<Rightarrow> Ret (ClientboundJoinGame, err, r'))"
| "Decode E v (ClientboundDisconnect s) r = Ret (lift_packet ClientboundDisconnect (ClientboundDisconnect_Decode r))"
| "Decode E v (ServerboundChatMessage p) r =
     Ret (lift_packet ServerboundChatMessage (ServerboundChatMessage_Decode p r))"
| "Decode E v (ClientboundKeepAlive n) r =
     Ret (lift_packet ClientboundKeepAlive (ClientboundKeepAlive_Decode v r))"
| "Decode E v (ServerboundKeepAlive n) r = Panic ''server should not decode ServerboundKeepAlive''"
| "Decode E v (CustomPayload p) r = Ret (lift_packet CustomPayload (CustomPayload_decode p r))"
| "Decode E v (ServerboundCustomPayload p) r =
     Ret (lift_packet ServerboundCustomPayload (CustomPayload_decode p r))"
| "Decode E v (ClientboundCustomPayload p) r =
     Ret (lift_packet ClientboundCustomPayload (CustomPayload_decode p r))"
| "Decode E v (ClientboundFeatureFlags fs) r =
     obind (ClientboundFeatureFlags_Decode fs r) (\<lambda>t. Ret (lift_packet ClientboundFeatureFlags t))"
| "Decode E v (ClientboundUpdateTags ts) r =
     obind (ClientboundUpdateTags_Decode ts r) (\<lambda>t. Ret (lift_packet ClientboundUpdateTags t))"
| "Decode E v (ClientboundRegistryData p) r =
     Ret (lift_packet ClientboundRegistryData (ClientboundRegistryData_Decode p r))"
| "Decode E v (ServerboundPlayerPosition p) r =
     Ret (ServerboundPlayerPosition p,
          Some (Errorf ''server should not receive ServerboundPlayerPosition''), r)"
| "Decode E v ServerboundStatusRequest r = Ret (ServerboundStatusRequest, None, r)"
| "Decode E v ServerboundLoginAcknowledged r = Ret (ServerboundLoginAcknowledged, None, r)"
| "Decode E v ServerboundFinishConfiguration r = Ret (ServerboundFinishConfiguration, None, r)"
| "Decode E v ClientboundFinishConfiguration r = Ret (ClientboundFinishConfiguration, None, r)"
| "Decode E v (ServerboundSelectKnownPacks ps) r = Ret (ServerboundSelectKnownPacks ps, None, r)"
| "Decode E v (ServerboundCookieResponse p) r = Ret (ServerboundCookieResponse p, None, r)"
| "Decode E v (ServerboundConfigPong n) r = Ret (ServerboundConfigPong n, None, r)"
| "Decode E v (ServerboundClientSettings p) r = Ret (ServerboundClientSettings p, None, r)"
| "Decode E v (ClientboundChatMessage p) r = Ret (ClientboundChatMessage p, None, r)"

end
