(* ===== verification/Registry.thy ===== *)
theory Registry
  imports Registry_Data Packets
begin

text \<open>
  \<open>protocol/registry.go\<close> and \<open>protocol/constructors.go\<close>: the packet
  constructors, the registry of protocol definitions and the lookups in it, and the parser
  of version strings.

  The package variable \<open>protocolRegistry\<close> is written by \<open>GetDefinition\<close>, so it
  is a state that the lookups take and return.  A Go type (\<open>reflect.TypeOf\<close>) is its
  name as \<open>%T\<close> prints it.
\<close>

section \<open>Packet constructors\<close>

definition zero_settings :: ClientSettings where
  "zero_settings = \<lparr>Locale = [], View = 0, ChatMode = 0, ChatColors = False, SkinParts = 0, MainHand = 0\<rparr>"

definition zero_payload :: CustomPayloadData where
  "zero_payload = \<lparr>cp_Channel = [], cp_Data = []\<rparr>"

definition packetConstructors :: "(string \<times> Packet) list" where
  "packetConstructors = [
    (''ServerboundHandshake'', ServerboundHandshake
       \<lparr>hs_ProtocolVersion = 0, hs_ServerAddress = [], hs_ServerPort = 0, hs_NextState = 0\<rparr>),
    (''ClientboundDisconnect'', ClientboundDisconnect []),

    (''ServerboundStatusRequest'', ServerboundStatusRequest),
    (''ClientboundStatusResponse'', ClientboundStatusResponse []),
    (''ServerboundPing'', ServerboundPing 0),
    (''ClientboundPong'', ClientboundPong 0),

    (''ServerboundLoginStart'', ServerboundLoginStart \<lparr>ls_Username = [], ls_UUID = uuid_Nil\<rparr>),
    (''ClientboundLoginSuccess'', ClientboundLoginSuccess \<lparr>lk_Username = [], lk_UUID = uuid_Nil\<rparr>),
    (''ClientboundSetCompression'', ClientboundSetCompression 0),
    (''ServerboundLoginAcknowledged'', ServerboundLoginAcknowledged),

    (''ServerboundFinishConfiguration'', ServerboundFinishConfiguration),
    (''ClientboundFinishConfiguration'', ClientboundFinishConfiguration),
    (''ServerboundConfigKeepAlive'', ServerboundConfigKeepAlive 0),
    (''ClientboundConfigKeepAlive'', ClientboundConfigKeepAlive 0),
    (''ServerboundSelectKnownPacks'', ServerboundSelectKnownPacks []),
    (''ClientboundSelectKnownPacks'', ClientboundSelectKnownPacks []),
    (''ClientboundCookieRequest'', ClientboundCookieRequest []),
    (''ServerboundCookieResponse'', ServerboundCookieResponse
       \<lparr>cr_Key = [], cr_HasData = False, cr_Data = []\<rparr>),
    (''ClientboundConfigPing'', ClientboundConfigPing 0),
    (''ServerboundConfigPong'', ServerboundConfigPong 0),

    (''ServerboundChatMessage'', ServerboundChatMessage
       \<lparr>cm_Message = [], cm_PrivateKey = None, cm_UUID = uuid_Nil\<rparr>),
    (''ClientboundKeepAlive'', ClientboundKeepAlive 0),
    (''ServerboundKeepAlive'', ServerboundKeepAlive 0),
    (''ClientboundJoinGame'', ClientboundJoinGame),

    (''ServerboundClientSettings'', ServerboundClientSettings zero_settings),
    (''ServerboundCustomPayload'', ServerboundCustomPayload zero_payload),
    (''ClientboundCustomPayload'', ClientboundCustomPayload zero_payload),
    (''ClientboundFeatureFlags'', ClientboundFeatureFlags []),
    (''ClientboundUpdateTags'', ClientboundUpdateTags []),
    (''ClientboundRegistryData'', ClientboundRegistryData \<lparr>rg_Registry = [], rg_Data = []\<rparr>)]"

fun reflect_TypeOf :: "Packet \<Rightarrow> string" where
  "reflect_TypeOf (ServerboundHandshake _) = ''*protocol.ServerboundHandshake''"
| "reflect_TypeOf ServerboundStatusRequest = ''*protocol.ServerboundStatusRequest''"
| "reflect_TypeOf (ClientboundStatusResponse _) = ''*protocol.ClientboundStatusResponse''"
| "reflect_TypeOf (ServerboundPing _) = ''*protocol.ServerboundPing''"
| "reflect_TypeOf (ClientboundPong _) = ''*protocol.ClientboundPong''"
| "reflect_TypeOf (ServerboundLoginStart _) = ''*protocol.ServerboundLoginStart''"
| "reflect_TypeOf ServerboundLoginAcknowledged = ''*protocol.ServerboundLoginAcknowledged''"
| "reflect_TypeOf (ClientboundSetCompression _) = ''*protocol.ClientboundSetCompression''"
| "reflect_TypeOf (ClientboundLoginSuccess _) = ''*protocol.ClientboundLoginSuccess''"
| "reflect_TypeOf ServerboundFinishConfiguration = ''*protocol.ServerboundFinishConfiguration''"
| "reflect_TypeOf ClientboundFinishConfiguration = ''*protocol.ClientboundFinishConfiguration''"
| "reflect_TypeOf (ClientboundConfigKeepAlive _) = ''*protocol.ClientboundConfigKeepAlive''"
| "reflect_TypeOf (ServerboundConfigKeepAlive _) = ''*protocol.ServerboundConfigKeepAlive''"
| "reflect_TypeOf (ServerboundSelectKnownPacks _) = ''*protocol.ServerboundSelectKnownPacks''"
| "reflect_TypeOf (ClientboundSelectKnownPacks _) = ''*protocol.ClientboundSelectKnownPacks''"
| "reflect_TypeOf (ClientboundCookieRequest _) = ''*protocol.ClientboundCookieRequest''"
| "reflect_TypeOf (ServerboundCookieResponse _) = ''*protocol.ServerboundCookieResponse''"
| "reflect_TypeOf (ClientboundConfigPing _) = ''*protocol.ClientboundConfigPing''"
| "reflect_TypeOf (ServerboundConfigPong _) = ''*protocol.ServerboundConfigPong''"
| "reflect_TypeOf ClientboundJoinGame = ''*protocol.ClientboundJoinGame''"
| "reflect_TypeOf (ClientboundDisconnect _) = ''*protocol.ClientboundDisconnect''"
| "reflect_TypeOf (ServerboundChatMessage _) = ''*protocol.ServerboundChatMessage''"
| "reflect_TypeOf (ClientboundKeepAlive _) = ''*protocol.ClientboundKeepAlive''"
| "reflect_TypeOf (ServerboundKeepAlive _) = ''*protocol.ServerboundKeepAlive''"
| "reflect_TypeOf (ServerboundClientSettings _) = ''*protocol.ServerboundClientSettings''"
| "reflect_TypeOf (CustomPayload _) = ''*protocol.CustomPayload''"
| "reflect_TypeOf (ServerboundCustomPayload _) = ''*protocol.ServerboundCustomPayload''"
| "reflect_TypeOf (ClientboundCustomPayload _) = ''*protocol.ClientboundCustomPayload''"
| "reflect_TypeOf (ClientboundFeatureFlags _) = ''*protocol.ClientboundFeatureFlags''"
| "reflect_TypeOf (ClientboundUpdateTags _) = ''*protocol.ClientboundUpdateTags''"
| "reflect_TypeOf (ClientboundRegistryData _) = ''*protocol.ClientboundRegistryData''"
| "reflect_TypeOf (ClientboundChatMessage _) = ''*protocol.ClientboundChatMessage''"
| "reflect_TypeOf (ServerboundPlayerPosition _) = ''*protocol.ServerboundPlayerPosition''"

definition packetTypes :: "(string \<times> string) list" where
  "packetTypes = map (\<lambda>(name, p). (reflect_TypeOf p, name)) packetConstructors"

section \<open>The registry\<close>

type_synonym registry = "Version \<rightharpoonup> Definition"

definition protocolRegistry :: registry where
  "protocolRegistry = map_of initialRegistry"

text \<open>The loop of \<open>GetDefinition\<close>: the nearest registered version at or below
  \<open>current\<close>.\<close>

function find_definition :: "registry \<Rightarrow> Version \<Rightarrow> (Version \<times> Definition) option" where
  "find_definition reg current =
     (if current \<ge> 0 then
        (case reg current of
           Some def \<Rightarrow> Some (current, def)
         | None \<Rightarrow> find_definition reg (current - 1))
      else None)"
  by pat_completeness auto
termination
  by (relation "measure (\<lambda>(reg, current). nat (current + 1))") auto

declare find_definition.simps [simp del]

definition GetDefinition :: "registry \<Rightarrow> Version \<Rightarrow> Definition option \<times> registry" where
  "GetDefinition reg v =
     (case find_definition reg v of
        Some (current, def) \<Rightarrow> (Some def, if current \<noteq> v then reg(v \<mapsto> def) else reg)
      | None \<Rightarrow> (None, reg))"

text \<open>\<open>m[k]\<close> of a nested Go map: a missing inner map is a nil map, which is empty.\<close>

definition map_at :: "('k \<times> 'v list) list \<Rightarrow> 'k \<Rightarrow> 'v list" where
  "map_at m k = (case map_of m k of Some v \<Rightarrow> v | None \<Rightarrow> [])"

definition lookup_name :: "Definition \<Rightarrow> State \<Rightarrow> Direction \<Rightarrow> int32 \<Rightarrow> string option" where
  "lookup_name def s d i = map_of (map_at (map_at (PacketNames def) s) d) i"

definition lookup_id :: "Definition \<Rightarrow> State \<Rightarrow> Direction \<Rightarrow> string \<Rightarrow> int32 option" where
  "lookup_id def s d n = map_of (map_at (map_at (PacketIDs def) s) d) n"

definition NewPacket ::
  "registry \<Rightarrow> Version \<Rightarrow> State \<Rightarrow> Direction \<Rightarrow> int32 \<Rightarrow> (goerr + Packet) \<times> registry" where
  "NewPacket reg v s d id' =
     (case GetDefinition reg v of
        (None, reg') \<Rightarrow> (Inl (Errorf (''unknown protocol version '' @ Version_String v)), reg')
      | (Some def, reg') \<Rightarrow>
          (case lookup_name def s d id' of
             None \<Rightarrow> (Inl ErrUnknownPacket, reg')
           | Some name \<Rightarrow>
               (case map_of packetConstructors name of
                  None \<Rightarrow> (Inl (Errorf (''no constructor for packet type '' @ CHR 0x27 # name @ [CHR 0x27])), reg')
                | Some p \<Rightarrow> (Inr p, reg'))))"

definition GetPacketID ::
  "registry \<Rightarrow> Version \<Rightarrow> State \<Rightarrow> Direction \<Rightarrow> Packet \<Rightarrow> (int32 \<times> bool) \<times> registry" where
  "GetPacketID reg v s d p =
     (case GetDefinition reg v of
        (None, reg') \<Rightarrow> ((-1, False), reg')
      | (Some def, reg') \<Rightarrow>
          (case map_of packetTypes (reflect_TypeOf p) of
             None \<Rightarrow> ((-1, False), reg')
           | Some name \<Rightarrow>
               (case lookup_id def s d name of
                  Some i \<Rightarrow> ((i, True), reg')
                | None \<Rightarrow> ((0, False), reg'))))"

text \<open>\<open>Version.Protocol\<close> of \<open>protocol/generated_versions.go\<close>.\<close>

definition Version_Protocol :: "registry \<Rightarrow> Version \<Rightarrow> int32 outcome \<times> registry" where
  "Version_Protocol reg v =
     (case GetDefinition reg v of
        (Some def, reg') \<Rightarrow> (Ret (ProtocolVersion def), reg')
      | (None, reg') \<Rightarrow> (Panic (''protocol number missing for version '' @ Version_String v), reg'))"

section \<open>Version strings\<close>

text \<open>\<open>strings.Split(s, ".")\<close> and \<open>strconv.Atoi\<close>: an optional sign and decimal
  digits, within the range of a 64-bit integer.\<close>

fun strings_Split :: "char \<Rightarrow> string \<Rightarrow> string list" where
  "strings_Split sep [] = [[]]"
| "strings_Split sep (c # s) =
     (if c = sep then [] # strings_Split sep s
      else case strings_Split sep s of p # ps \<Rightarrow> (c # p) # ps | [] \<Rightarrow> [[c]])"

definition digit_val :: "char \<Rightarrow> nat option" where
  "digit_val c = (let n = of_char c :: nat in if 48 \<le> n \<and> n \<le> 57 then Some (n - 48) else None)"

fun digits_val :: "nat \<Rightarrow> string \<Rightarrow> nat option" where
  "digits_val acc [] = Some acc"
| "digits_val acc (c # s) =
     (case digit_val c of Some d \<Rightarrow> digits_val (acc * 10 + d) s | None \<Rightarrow> None)"

definition unsigned_val :: "string \<Rightarrow> nat option" where
  "unsigned_val s = (if s = [] then None else digits_val 0 s)"

definition in_int64 :: "int \<Rightarrow> bool" where
  "in_int64 i \<longleftrightarrow> - (2 ^ 63) \<le> i \<and> i < 2 ^ 63"

definition strconv_Atoi :: "string \<Rightarrow> int option" where
  "strconv_Atoi s =
     (let (neg, body) =
        (case s of c # t \<Rightarrow> if c = CHR ''-'' then (True, t) else if c = CHR ''+'' then (False, t) else (False, s)
         | [] \<Rightarrow> (False, s)) in
      case unsigned_val body of
        None \<Rightarrow> None
      | Some n \<Rightarrow> (let i = (if neg then - int n else int n) in if in_int64 i then Some i else None))"

text \<open>\<open>Some (major, minor, patch, hasPatch)\<close> stands for the five results with
  \<open>ok = true\<close>.\<close>

definition parseReleaseVersion :: "string \<Rightarrow> (int \<times> int \<times> int \<times> bool) option" where
  "parseReleaseVersion s =
     (let parts = strings_Split (CHR ''.'') s in
      if length parts \<noteq> 2 \<and> length parts \<noteq> 3 then None
      else
        case strconv_Atoi (parts ! 0) of None \<Rightarrow> None | Some major \<Rightarrow>
        (case strconv_Atoi (parts ! 1) of None \<Rightarrow> None | Some minor \<Rightarrow>
         (if length parts = 3 then
            (case strconv_Atoi (parts ! 2) of None \<Rightarrow> None | Some patch \<Rightarrow> Some (major, minor, patch, True))
          else Some (major, minor, 0, False))))"

text \<open>The loop over the map \<open>stringToVersion\<close>, in the order \<open>entries\<close> in which
  Go happens to visit it.\<close>

fun best_version ::
  "int \<Rightarrow> int \<Rightarrow> int \<Rightarrow> bool \<Rightarrow> (string \<times> Version) list \<Rightarrow> int \<times> Version \<Rightarrow> int \<times> Version" where
  "best_version major minor patch hasPatch [] best = best"
| "best_version major minor patch hasPatch ((knownStr, knownVersion) # entries) (bestPatch, bestVersion) =
     best_version major minor patch hasPatch entries
       (case parseReleaseVersion knownStr of
          None \<Rightarrow> (bestPatch, bestVersion)
        | Some (kMajor, kMinor, kPatch, _) \<Rightarrow>
            if kMajor \<noteq> major \<or> kMinor \<noteq> minor then (bestPatch, bestVersion)
            else if hasPatch \<and> kPatch > patch then (bestPatch, bestVersion)
            else if kPatch > bestPatch then (kPatch, knownVersion)
            else (bestPatch, bestVersion))"

definition VersionFromString :: "(string \<times> Version) list \<Rightarrow> string \<Rightarrow> Version \<times> bool" where
  "VersionFromString entries s =
     (case map_of stringToVersion s of
        Some version \<Rightarrow> (version, True)
      | None \<Rightarrow>
          (case parseReleaseVersion s of
             None \<Rightarrow> (0, False)
           | Some (major, minor, patch, hasPatch) \<Rightarrow>
               (case best_version major minor patch hasPatch entries (-1, 0) of
                  (bestPatch, bestVersion) \<Rightarrow>
                    if bestPatch \<ge> 0 then (bestVersion, True) else (0, False))))"

end
