(* ===== verification/Registry_Facts.thy ===== *)
theory Registry_Facts
  imports Registry
begin

text \<open>
  What holds of the registry of packet tables and of the lookups in it: the two tables of
  every definition are inverse to each other, every registered name has a constructor, the
  packets the client sends are registered, the cache of \<open>GetDefinition\<close> never changes
  an answer, and packet ids and packet types translate into each other.  The facts about
  the tables are evaluated, a few definitions at a time.
\<close>

section \<open>Checks over the tables\<close>

definition inverse_maps :: "('a \<times> 'b) list \<Rightarrow> ('b \<times> 'a) list \<Rightarrow> bool" where
  "inverse_maps xs ys \<longleftrightarrow>
     list_all (\<lambda>(a, b). map_of ys b = Some a) xs \<and> list_all (\<lambda>(b, a). map_of xs a = Some b) ys"

definition tables_inverse :: "Definition \<Rightarrow> bool" where
  "tables_inverse D \<longleftrightarrow>
     list_all2 (\<lambda>(s, ds) (s', ds'). s = s' \<and>
       list_all2 (\<lambda>(d, ids) (d', names). d = d' \<and> inverse_maps ids names) ds ds')
     (PacketIDs D) (PacketNames D)"

definition names_of :: "Definition \<Rightarrow> (State \<times> Direction \<times> string) list" where
  "names_of D =
     concat (map (\<lambda>(s, ds). concat (map (\<lambda>(d, names). map (\<lambda>(i, n). (s, d, n)) names) ds)) (PacketNames D))"

text \<open>The names that occur in the tables of a direction with the states they occur in, and
  the names per state the client writes.\<close>

definition clientbound_places :: "(string \<times> State list) list" where
  "clientbound_places = [
     (''ClientboundKeepAlive'', [StatePlay]),
     (''ClientboundDisconnect'', [StateLogin, StatePlay, StateConfiguration]),
     (''ClientboundCustomPayload'', [StatePlay, StateConfiguration]),
     (''ClientboundJoinGame'', [StatePlay]),
     (''ServerboundChatMessage'', [StatePlay]),
     (''ClientboundPong'', [StateStatus, StatePlay]),
     (''ClientboundStatusResponse'', [StateStatus]),
     (''ClientboundLoginSuccess'', [StateLogin]),
     (''ClientboundSetCompression'', [StateLogin]),
     (''ClientboundCookieRequest'', [StateLogin, StatePlay, StateConfiguration]),
     (''ClientboundFinishConfiguration'', [StateConfiguration]),
     (''ClientboundConfigKeepAlive'', [StateConfiguration]),
     (''ClientboundConfigPing'', [StateConfiguration]),
     (''ClientboundRegistryData'', [StateConfiguration]),
     (''ClientboundFeatureFlags'', [StatePlay, StateConfiguration]),
     (''ClientboundSelectKnownPacks'', [StateConfiguration])]"

definition serverbound_places :: "(string \<times> State list) list" where
  "serverbound_places = [
     (''ServerboundKeepAlive'', [StatePlay]),
     (''ServerboundChatMessage'', [StatePlay]),
     (''ServerboundClientSettings'', [StatePlay, StateConfiguration]),
     (''ServerboundCustomPayload'', [StatePlay, StateConfiguration]),
     (''ServerboundHandshake'', [StateHandshaking]),
     (''ServerboundStatusRequest'', [StateStatus]),
     (''ServerboundPing'', [StateStatus]),
     (''ServerboundLoginStart'', [StateLogin]),
     (''ServerboundLoginAcknowledged'', [StateLogin]),
     (''ServerboundCookieResponse'', [StateLogin, StatePlay, StateConfiguration]),
     (''ServerboundFinishConfiguration'', [StateConfiguration]),
     (''ServerboundConfigKeepAlive'', [StateConfiguration]),
     (''ServerboundConfigPong'', [StateConfiguration]),
     (''ServerboundSelectKnownPacks'', [StateConfiguration])]"

definition places :: "Direction \<Rightarrow> (string \<times> State list) list" where
  "places d = (if d then serverbound_places else clientbound_places)"

definition clientbound_names :: "string list" where
  "clientbound_names = map fst clientbound_places"

definition written_names :: "Version \<Rightarrow> (State \<times> Direction \<times> string) list" where
  "written_names v = map (\<lambda>(s, n). (s, DirectionServerbound, n))
     ([(StateHandshaking, ''ServerboundHandshake''), (StateStatus, ''ServerboundStatusRequest''),
       (StateStatus, ''ServerboundPing''), (StateLogin, ''ServerboundLoginStart''),
       (StatePlay, ''ServerboundKeepAlive''), (StatePlay, ''ServerboundChatMessage''),
       (StatePlay, ''ServerboundClientSettings'')]
      @ (if v \<ge> V1_20_2
         then [(StateLogin, ''ServerboundLoginAcknowledged''),
               (StateConfiguration, ''ServerboundClientSettings''),
               (StateConfiguration, ''ServerboundConfigKeepAlive''),
               (StateConfiguration, ''ServerboundCustomPayload''),
               (StateConfiguration, ''ServerboundFinishConfiguration'')]
         else [])
      @ (if v \<ge> V1_20_5
         then [(StateConfiguration, ''ServerboundSelectKnownPacks''),
               (StateConfiguration, ''ServerboundCookieResponse'')]
         else []))"

definition handled_names :: "Version \<Rightarrow> (State \<times> Direction \<times> string) list" where
  "handled_names v = map (\<lambda>(s, n). (s, DirectionClientbound, n))
     ([(StateStatus, ''ClientboundStatusResponse''), (StateStatus, ''ClientboundPong''),
       (StateLogin, ''ClientboundDisconnect''), (StateLogin, ''ClientboundLoginSuccess''),
       (StatePlay, ''ClientboundKeepAlive''), (StatePlay, ''ClientboundDisconnect''),
       (StatePlay, ''ClientboundJoinGame'')]
      @ (if v \<ge> V1_8 then [(StateLogin, ''ClientboundSetCompression'')] else [])
      @ (if v \<ge> V1_20_2
         then map (Pair StateConfiguration)
                [''ClientboundConfigKeepAlive'', ''ClientboundConfigPing'', ''ClientboundCustomPayload'',
                 ''ClientboundDisconnect'', ''ClientboundFeatureFlags'', ''ClientboundFinishConfiguration'',
                 ''ClientboundRegistryData'']
         else [])
      @ (if v \<ge> V1_20_5
         then map (Pair StateConfiguration) [''ClientboundSelectKnownPacks'', ''ClientboundCookieRequest'']
         else []))"

definition definition_ok :: "Version \<times> Definition \<Rightarrow> bool" where
  "definition_ok vD \<longleftrightarrow>
     tables_inverse (snd vD) \<and>
     list_all (\<lambda>(s, d, n). case map_of (places d) n of Some ss \<Rightarrow> s \<in> set ss | None \<Rightarrow> False)
       (names_of (snd vD)) \<and>
     list_all (\<lambda>(s, d, n). lookup_id (snd vD) s d n \<noteq> None)
       (written_names (fst vD) @ handled_names (fst vD))"

lemma definitions_ok_1:
  "list_all definition_ok [
    (V1_7, def_V1_7), (V1_8, def_V1_8), (V1_9, def_V1_9), (V1_9_2, def_V1_9_2),
    (V1_9_4, def_V1_9_4), (V1_10, def_V1_10), (V1_11, def_V1_11), (V1_12, def_V1_12),
    (V1_12_1, def_V1_12_1), (V1_12_2, def_V1_12_2)]"
  by code_simp

lemma definitions_ok_2:
  "list_all definition_ok [
    (V1_13, def_V1_13), (V1_13_1, def_V1_13_1), (V1_13_2, def_V1_13_2), (V1_14, def_V1_14),
    (V1_14_1, def_V1_14_1), (V1_14_3, def_V1_14_3), (V1_14_4, def_V1_14_4), (V1_15, def_V1_15),
    (V1_15_1, def_V1_15_1), (V1_15_2, def_V1_15_2)]"
  by code_simp

lemma definitions_ok_3:
  "list_all definition_ok [
    (V1_16, def_V1_16), (V1_16_1, def_V1_16_1), (V1_16_2, def_V1_16_2), (V1_17, def_V1_17),
    (V1_17_1, def_V1_17_1), (V1_18, def_V1_18), (V1_18_2, def_V1_18_2)]"
  by code_simp

lemma definitions_ok_4:
  "list_all definition_ok [
    (V1_19, def_V1_19), (V1_19_2, def_V1_19_2), (V1_19_3, def_V1_19_3), (V1_19_4, def_V1_19_4),
    (V1_20, def_V1_20)]"
  by code_simp

lemma definitions_ok_5:
  "list_all definition_ok [
    (V1_20_2, def_V1_20_2), (V1_20_3, def_V1_20_3), (V1_20_5, def_V1_20_5), (V1_21_1, def_V1_21_1)]"
  by code_simp

lemma definitions_ok_6:
  "list_all definition_ok [
    (V1_21_3, def_V1_21_3), (V1_21_4, def_V1_21_4), (V1_21_5, def_V1_21_5), (V1_21_6, def_V1_21_6)]"
  by code_simp

lemma definitions_ok_7:
  "list_all definition_ok [
    (V1_21_8, def_V1_21_8), (V1_21_9, def_V1_21_9), (V1_21_11, def_V1_21_11)]"
  by code_simp

lemma definitions_ok: "list_all definition_ok initialRegistry"
  using definitions_ok_1 definitions_ok_2 definitions_ok_3 definitions_ok_4 definitions_ok_5 definitions_ok_6 definitions_ok_7
  by (simp only: initialRegistry_def list.pred_inject simp_thms)

section \<open>The two tables of a definition\<close>

definition Definitions :: "Definition set" where
  "Definitions = snd ` set initialRegistry"

lemma map_at_list_all2:
  assumes "list_all2 (\<lambda>(k, xs) (k', ys). k = k' \<and> P xs ys) m m'" "P [] []"
  shows "P (map_at m k) (map_at m' k)"
  using assms(1)
proof (induction rule: list_all2_induct)
  case Nil
  show ?case using assms(2) by (simp add: map_at_def)
next
  case (Cons x m y m')
  then show ?case by (auto simp: map_at_def split: prod.splits)
qed

lemma inverse_maps_iff:
  assumes "inverse_maps xs ys"
  shows "map_of xs a = Some b \<longleftrightarrow> map_of ys b = Some a"
  using assms unfolding inverse_maps_def list_all_iff by (fastforce dest: map_of_SomeD)

lemma tables_inverse_at:
  assumes "tables_inverse D"
  shows "inverse_maps (map_at (map_at (PacketIDs D) s) d) (map_at (map_at (PacketNames D) s) d)"
proof -
  let ?P = "list_all2 (\<lambda>(d, ids) (d', names). d = d' \<and> inverse_maps ids names)"
  have Nil: "inverse_maps [] []" by (simp add: inverse_maps_def)
  have "?P (map_at (PacketIDs D) s) (map_at (PacketNames D) s)"
    using assms unfolding tables_inverse_def by (rule map_at_list_all2) simp
  then show ?thesis by (rule map_at_list_all2) (rule Nil)
qed

lemma Definitions_ok:
  assumes "D \<in> Definitions"
  obtains v where "(v, D) \<in> set initialRegistry" "definition_ok (v, D)"
  using assms definitions_ok by (auto simp: Definitions_def list_all_iff)

text \<open>
  The contract between the tables and the lookups: within one definition, state and
  direction, ids and names determine each other.
\<close>

locale packet_tables =
  fixes defs :: "'d set"
    and name_at :: "'d \<Rightarrow> State \<Rightarrow> Direction \<Rightarrow> int32 \<Rightarrow> string option"
    and id_at :: "'d \<Rightarrow> State \<Rightarrow> Direction \<Rightarrow> string \<Rightarrow> int32 option"
  assumes id_iff_name: "D \<in> defs \<Longrightarrow> id_at D s d n = Some i \<longleftrightarrow> name_at D s d i = Some n"
begin

lemma name_inject: "D \<in> defs \<Longrightarrow> name_at D s d i = Some n \<Longrightarrow> name_at D s d j = Some n \<Longrightarrow> i = j"
  using id_iff_name by (metis option.inject)

lemma id_inject: "D \<in> defs \<Longrightarrow> id_at D s d n = Some i \<Longrightarrow> id_at D s d m = Some i \<Longrightarrow> n = m"
  using id_iff_name by (metis option.inject)

lemma name_of_id: "D \<in> defs \<Longrightarrow> id_at D s d n = Some i \<Longrightarrow> name_at D s d i = Some n"
  by (simp add: id_iff_name)

end

interpretation tables: packet_tables Definitions lookup_name lookup_id
proof
  fix D s d n i assume "D \<in> Definitions"
  then obtain v where "definition_ok (v, D)" by (rule Definitions_ok)
  then have "tables_inverse D" by (simp add: definition_ok_def)
  from inverse_maps_iff [OF tables_inverse_at [OF this]]
  show "lookup_id D s d n = Some i \<longleftrightarrow> lookup_name D s d i = Some n"
    by (simp add: lookup_id_def lookup_name_def)
qed

lemma in_map_at: "x \<in> set (map_at m k) \<Longrightarrow> \<exists>xs. (k, xs) \<in> set m \<and> x \<in> set xs"
  by (cases "map_of m k") (auto simp: map_at_def dest: map_of_SomeD)

lemma lookup_name_in_names_of:
  assumes "lookup_name D s d i = Some n"
  shows "(s, d, n) \<in> set (names_of D)"
proof -
  have "(i, n) \<in> set (map_at (map_at (PacketNames D) s) d)"
    using assms unfolding lookup_name_def by (rule map_of_SomeD)
  then obtain names where "(d, names) \<in> set (map_at (PacketNames D) s)" "(i, n) \<in> set names"
    using in_map_at by fast
  moreover from this(1) obtain ds where "(s, ds) \<in> set (PacketNames D)" "(d, names) \<in> set ds"
    using in_map_at by fast
  ultimately show ?thesis by (force simp: names_of_def)
qed

lemma name_place:
  assumes "D \<in> Definitions" "lookup_name D s d i = Some n"
  shows "\<exists>ss. map_of (places d) n = Some ss \<and> s \<in> set ss"
proof -
  obtain v where "definition_ok (v, D)" using assms(1) by (rule Definitions_ok)
  moreover have "(s, d, n) \<in> set (names_of D)" using assms(2) by (rule lookup_name_in_names_of)
  ultimately show ?thesis
    by (auto simp: definition_ok_def list_all_iff split: option.splits)
qed

lemma clientbound_name:
  "D \<in> Definitions \<Longrightarrow> lookup_name D s DirectionClientbound i = Some n \<Longrightarrow> n \<in> set clientbound_names"
  using name_place [of D s False i n]
  by (auto simp: places_def clientbound_names_def image_iff dest!: map_of_SomeD) force

lemma places_constructed:
  "list_all (\<lambda>(n, ss). map_of packetConstructors n \<noteq> None) (places False @ places True)"
  by code_simp

lemma name_has_constructor:
  "D \<in> Definitions \<Longrightarrow> lookup_name D s d i = Some n \<Longrightarrow> map_of packetConstructors n \<noteq> None"
  using name_place [of D s d i n] places_constructed
  by (cases d) (auto simp: list_all_iff dest!: map_of_SomeD)

section \<open>GetDefinition and its cache\<close>

definition definition_at :: "registry \<Rightarrow> Version \<Rightarrow> Definition option" where
  "definition_at reg v = map_option snd (find_definition reg v)"

lemma find_definition_neg: "v < 0 \<Longrightarrow> find_definition reg v = None"
  by (simp add: find_definition.simps [of reg v])

lemma find_definition_hit: "0 \<le> v \<Longrightarrow> reg v = Some D \<Longrightarrow> find_definition reg v = Some (v, D)"
  by (simp add: find_definition.simps [of reg v])

lemma find_definition_miss: "0 \<le> v \<Longrightarrow> reg v = None \<Longrightarrow> find_definition reg v = find_definition reg (v - 1)"
  by (simp add: find_definition.simps [of reg v])

lemma find_definition_Some:
  "find_definition reg v = Some (c, D) \<Longrightarrow>
     0 \<le> c \<and> c \<le> v \<and> reg c = Some D \<and> (\<forall>u. c < u \<and> u \<le> v \<longrightarrow> reg u = None)"
proof (induction reg v rule: find_definition.induct)
  case (1 reg v)
  show ?case
  proof (cases "0 \<le> v")
    case False
    with 1 show ?thesis by (simp add: find_definition_neg)
  next
    case pos: True
    show ?thesis
    proof (cases "reg v")
      case None
      with 1 pos have IH: "0 \<le> c \<and> c \<le> v - 1 \<and> reg c = Some D \<and> (\<forall>u. c < u \<and> u \<le> v - 1 \<longrightarrow> reg u = None)"
        by (simp add: find_definition_miss)
      then show ?thesis using None by (auto simp: order.order_iff_strict)
    next
      case (Some E)
      with 1 pos show ?thesis by (auto simp: find_definition_hit)
    qed
  qed
qed

lemma find_definition_None:
  "find_definition reg v = None \<longleftrightarrow> (\<forall>u. 0 \<le> u \<and> u \<le> v \<longrightarrow> reg u = None)"
proof (induction reg v rule: find_definition.induct)
  case (1 reg v)
  show ?case
  proof (cases "0 \<le> v \<and> reg v = None")
    case True
    then have "(\<forall>u. 0 \<le> u \<and> u \<le> v \<longrightarrow> reg u = None) \<longleftrightarrow> (\<forall>u. 0 \<le> u \<and> u \<le> v - 1 \<longrightarrow> reg u = None)"
      by (metis order.order_iff_strict zle_diff1_eq)
    with 1 True show ?thesis by (simp add: find_definition_miss)
  next
    case False
    then consider "v < 0" | D where "0 \<le> v" "reg v = Some D" by force
    then show ?thesis
      by cases (auto simp: find_definition_neg find_definition_hit intro: exI [of _ v])
  qed
qed

lemma definition_at_cache:
  assumes "find_definition reg v = Some (c, D)"
  shows "definition_at (reg(v \<mapsto> D)) u = definition_at reg u"
proof (induction "reg(v \<mapsto> D)" u rule: find_definition.induct)
  case (1 u)
  let ?reg' = "reg(v \<mapsto> D)"
  show ?case
  proof (cases "0 \<le> u")
    case False
    then show ?thesis by (simp add: definition_at_def find_definition_neg)
  next
    case pos: True
    show ?thesis
    proof (cases "u = v")
      case True
      with pos assms show ?thesis by (simp add: definition_at_def find_definition_hit)
    next
      case ne: False
      show ?thesis
      proof (cases "reg u")
        case None
        with ne have "?reg' u = None" by simp
        with 1 pos None show ?thesis by (simp add: definition_at_def find_definition_miss)
      next
        case (Some E)
        with pos ne show ?thesis by (simp add: definition_at_def find_definition_hit)
      qed
    qed
  qed
qed

definition registry_ok :: "registry \<Rightarrow> bool" where
  "registry_ok reg \<longleftrightarrow> (\<forall>v. definition_at reg v = definition_at protocolRegistry v)"

lemma registry_ok_init [simp]: "registry_ok protocolRegistry"
  by (simp add: registry_ok_def)

lemma GetDefinition_value: "registry_ok reg \<Longrightarrow> fst (GetDefinition reg v) = definition_at protocolRegistry v"
  unfolding registry_ok_def GetDefinition_def definition_at_def
  by (metis (no_types, lifting) case_optionE fst_conv map_option_case not_None_eq option.case(1)
      option.case(2) prod.case_eq_if snd_conv)

lemma GetDefinition_ok: "registry_ok reg \<Longrightarrow> registry_ok (snd (GetDefinition reg v))"
  using definition_at_cache
  by (auto simp: registry_ok_def GetDefinition_def split: option.split)

lemma definition_at_Definitions: "definition_at protocolRegistry v = Some D \<Longrightarrow> D \<in> Definitions"
  by (auto simp: definition_at_def protocolRegistry_def Definitions_def image_iff
      dest!: find_definition_Some map_of_SomeD) force

text \<open>Every version has a definition: its own, or the newest one.\<close>

lemma registry_complete: "map fst initialRegistry = map int [0..<43]"
  by (simp add: initialRegistry_def upt_rec)

lemma definition_at_exists:
  assumes "0 \<le> v"
  shows "\<exists>D. definition_at protocolRegistry v = Some D \<and> (min v V1_21_11, D) \<in> set initialRegistry"
proof -
  have known: "\<exists>D. protocolRegistry u = Some D" if "0 \<le> u" "u \<le> V1_21_11" for u
  proof -
    have "u \<in> int ` {0..<43}" using that by (intro image_eqI [of _ _ "nat u"]) auto
    then have "u \<in> fst ` set initialRegistry" using registry_complete
      by (metis atLeastLessThan_upt list.set_map)
    then show ?thesis by (metis map_of_eq_None_iff not_None_eq protocolRegistry_def)
  qed
  obtain D0 where "protocolRegistry 0 = Some D0" using known [of 0] by auto
  then have "find_definition protocolRegistry v \<noteq> None"
    using assms unfolding find_definition_None by force
  then obtain c D where cD: "find_definition protocolRegistry v = Some (c, D)" by force
  then have c: "0 \<le> c" "c \<le> v" "protocolRegistry c = Some D" "\<forall>u. c < u \<and> u \<le> v \<longrightarrow> protocolRegistry u = None"
    using find_definition_Some by blast+
  have "(c, D) \<in> set initialRegistry" using c(3) unfolding protocolRegistry_def by (rule map_of_SomeD)
  moreover from this have "c \<le> V1_21_11"
  proof -
    have "c \<in> int ` {0..<43}" using \<open>(c, D) \<in> set initialRegistry\<close> registry_complete
      by (metis atLeastLessThan_upt fst_conv image_eqI list.set_map)
    then show ?thesis by auto
  qed
  moreover have "\<not> c < min v V1_21_11"
    using c(1,4) known [of "min v V1_21_11"] by auto
  ultimately have "(min v V1_21_11, D) \<in> set initialRegistry" using c(2) by (simp add: min_def split: if_splits)
  with cD show ?thesis by (simp add: definition_at_def)
qed

lemma registered:
  assumes "0 \<le> v" "(s, d, n) \<in> set (written_names v) \<union> set (handled_names v)"
  shows "\<exists>D i. definition_at protocolRegistry v = Some D \<and> lookup_id D s d n = Some i"
proof -
  obtain D where D: "definition_at protocolRegistry v = Some D" "(min v V1_21_11, D) \<in> set initialRegistry"
    using definition_at_exists [OF assms(1)] by blast
  have names: "written_names (min v V1_21_11) = written_names v" "handled_names (min v V1_21_11) = handled_names v"
    by (simp_all add: written_names_def handled_names_def min_def)
  have "definition_ok (min v V1_21_11, D)"
    using definitions_ok D(2) unfolding list_all_iff by (rule bspec)
  then have "list_all (\<lambda>(s, d, n). lookup_id D s d n \<noteq> None) (written_names v @ handled_names v)"
    unfolding definition_ok_def names fst_conv snd_conv by blast
  then have "lookup_id D s d n \<noteq> None" using assms(2) by (force simp: list_all_iff)
  with D(1) show ?thesis by blast
qed

section \<open>Packets and their ids\<close>

lemma packetConstructors_distinct: "distinct (map fst packetConstructors)"
  by code_simp

lemma packetTypes_distinct: "distinct (map fst packetTypes)"
  by code_simp

lemma packetTypes_iff:
  "map_of packetTypes t = Some n \<longleftrightarrow>
     (\<exists>q. map_of packetConstructors n = Some q \<and> reflect_TypeOf q = t)"
proof -
  have "map_of packetTypes t = Some n \<longleftrightarrow> (t, n) \<in> set packetTypes"
    using packetTypes_distinct by simp
  also have "\<dots> \<longleftrightarrow> (\<exists>q. (n, q) \<in> set packetConstructors \<and> reflect_TypeOf q = t)"
    by (auto simp: packetTypes_def)
  finally show ?thesis using packetConstructors_distinct by simp
qed

lemma GetPacketID_eq:
  assumes "registry_ok reg"
  shows "GetPacketID reg v s d p =
    ((case definition_at protocolRegistry v of
        None \<Rightarrow> (-1, False)
      | Some D \<Rightarrow>
          (case map_of packetTypes (reflect_TypeOf p) of
             None \<Rightarrow> (-1, False)
           | Some n \<Rightarrow> (case lookup_id D s d n of Some i \<Rightarrow> (i, True) | None \<Rightarrow> (0, False)))),
     snd (GetDefinition reg v))"
  unfolding GetDefinition_value [OF assms, symmetric] GetPacketID_def
  by (simp split: prod.split option.split)

lemma NewPacket_eq:
  assumes "registry_ok reg"
  shows "NewPacket reg v s d i =
    ((case definition_at protocolRegistry v of
        None \<Rightarrow> Inl (Errorf (''unknown protocol version '' @ Version_String v))
      | Some D \<Rightarrow>
          (case lookup_name D s d i of
             None \<Rightarrow> Inl ErrUnknownPacket
           | Some n \<Rightarrow> Inr (the (map_of packetConstructors n)))),
     snd (GetDefinition reg v))"
  unfolding GetDefinition_value [OF assms, symmetric] NewPacket_def
  using name_has_constructor definition_at_Definitions [of v] GetDefinition_value [OF assms, of v]
  by (fastforce split: prod.split option.split)

lemma NewPacket_inverse:
  assumes "registry_ok reg" "fst (GetPacketID reg v s d p) = (i, True)"
  shows "\<exists>q. fst (NewPacket reg v s d i) = Inr q \<and> reflect_TypeOf q = reflect_TypeOf p"
proof -
  obtain D n where D: "definition_at protocolRegistry v = Some D"
    and n: "map_of packetTypes (reflect_TypeOf p) = Some n" "lookup_id D s d n = Some i"
    using assms(2) unfolding GetPacketID_eq [OF assms(1)] by (auto split: option.splits)
  then have "lookup_name D s d i = Some n"
    using tables.name_of_id definition_at_Definitions by blast
  with D n(1) show ?thesis
    unfolding NewPacket_eq [OF assms(1)] packetTypes_iff by auto
qed

lemma GetPacketID_inverse:
  assumes "registry_ok reg" "fst (NewPacket reg v s d i) = Inr q"
  shows "fst (GetPacketID reg v s d q) = (i, True)"
proof -
  obtain D n where D: "definition_at protocolRegistry v = Some D"
    and n: "lookup_name D s d i = Some n" "q = the (map_of packetConstructors n)"
    using assms(2) unfolding NewPacket_eq [OF assms(1)] by (auto split: option.splits)
  have "D \<in> Definitions" using D by (rule definition_at_Definitions)
  then have "lookup_id D s d n = Some i" "map_of packetConstructors n = Some q"
    using n tables.id_iff_name name_has_constructor by auto
  moreover from this have "map_of packetTypes (reflect_TypeOf q) = Some n"
    using packetTypes_iff by blast
  ultimately show ?thesis unfolding GetPacketID_eq [OF assms(1)] using D by simp
qed

end
