(* ===== verification/Conn.thy ===== *)
theory Conn
  imports Registry_Facts
begin

text \<open>
  \<open>protocol/conn.go\<close>: a framed packet connection over a \<open>net.Conn\<close>.

  A \<open>net.Conn\<close> is its incoming stream, its outgoing stream and what closing it
  returns.  The incoming stream is everything the peer sends until the connection ends,
  with the error the read after the last byte returns; a read that would wait for ever is
  not a result of these functions.  The two mutexes make a whole \<open>ReadPacket\<close> or
  \<open>WritePacket\<close> one step, which it is here.
\<close>

record NetConn =
  nc_in :: reader
  nc_out :: writer
  nc_close :: "goerr option"

record Conn =
  c_Conn :: NetConn
  c_version :: Version
  c_state :: State
  c_compressionThreshold :: int
  c_zlibReader :: bool  \<comment> \<open>whether a zlib reader has been created\<close>

definition NewConn :: "NetConn \<Rightarrow> Version \<Rightarrow> Conn" where
  "NewConn conn version =
     \<lparr>c_Conn = conn, c_version = version, c_state = StateHandshaking,
      c_compressionThreshold = -1, c_zlibReader = False\<rparr>"

definition SetState :: "State \<Rightarrow> Conn \<Rightarrow> Conn" where
  "SetState s c = c\<lparr>c_state := s\<rparr>"

definition SetCompression :: "int \<Rightarrow> Conn \<Rightarrow> Conn" where
  "SetCompression threshold c = c\<lparr>c_compressionThreshold := threshold\<rparr>"

definition set_in :: "reader \<Rightarrow> Conn \<Rightarrow> Conn" where
  "set_in r c = c\<lparr>c_Conn := (c_Conn c)\<lparr>nc_in := r\<rparr>\<rparr>"

definition set_out :: "writer \<Rightarrow> Conn \<Rightarrow> Conn" where
  "set_out w c = c\<lparr>c_Conn := (c_Conn c)\<lparr>nc_out := w\<rparr>\<rparr>"

section \<open>ReadPacket\<close>

text \<open>\<open>ReadPacket\<close> in three parts, in the order of the source: the frame
  (\<open>packetBuffer\<close>), the reader of its uncompressed contents (\<open>dataReader\<close>), and the
  packet.\<close>

definition read_frame :: "Conn \<Rightarrow> (goerr + bytes) \<times> Conn" where
  "read_frame c =
     (case ReadVarInt (nc_in (c_Conn c)) of
        (packetLength, Some e, r) \<Rightarrow> (Inl (Wrapf ''read packet length: '' e), set_in r c)
      | (packetLength, None, r) \<Rightarrow>
          (case CopyN (sint packetLength) r of
             (buf, Some e, r') \<Rightarrow> (Inl (Wrapf ''read packet data: '' e), set_in r' c)
           | (buf, None, r') \<Rightarrow> (Inr buf, set_in r' c)))"

definition open_data :: "env \<Rightarrow> bytes \<Rightarrow> Conn \<Rightarrow> (goerr + reader) \<times> Conn" where
  "open_data E buf c =
     (let packetReader = new_reader buf in
      if c_compressionThreshold c \<ge> 0 then
        case ReadVarInt packetReader of
          (dataLength, Some e, _) \<Rightarrow> (Inl (Wrapf ''read compressed data length: '' e), c)
        | (dataLength, None, packetReader') \<Rightarrow>
            if dataLength = 0 then (Inr packetReader', c)
            else if \<not> c_zlibReader c then
              (case zlib_NewReader E (rd_data packetReader') of
                 Inl e \<Rightarrow> (Inl (Wrapf ''create zlib reader: '' e), c)
               | Inr z \<Rightarrow> (Inr z, c\<lparr>c_zlibReader := True\<rparr>))
            else
              (case zlib_NewReader E (rd_data packetReader') of
                 Inl e \<Rightarrow> (Inl (Wrapf ''reset zlib reader: '' e), c)
               | Inr z \<Rightarrow> (Inr z, c))
      else (Inr packetReader, c))"

definition ReadPacket ::
  "env \<Rightarrow> registry \<Rightarrow> Conn \<Rightarrow> ((goerr + Packet) \<times> registry \<times> Conn) outcome" where
  "ReadPacket E reg c =
     (case read_frame c of
        (Inl e, c1) \<Rightarrow> Ret (Inl e, reg, c1)
      | (Inr buf, c1) \<Rightarrow>
          (case open_data E buf c1 of
             (Inl e, c2) \<Rightarrow> Ret (Inl e, reg, c2)
           | (Inr dataReader, c2) \<Rightarrow>
               (case ReadVarInt dataReader of
                  (packetID, Some e, _) \<Rightarrow> Ret (Inl (Wrapf ''read packet ID: '' e), reg, c2)
                | (packetID, None, dataReader') \<Rightarrow>
                    (case NewPacket reg (c_version c) (c_state c) DirectionClientbound packetID of
                       (Inl _, reg') \<Rightarrow> Ret (Inl ErrUnknownPacket, reg', c2)
                     | (Inr packet, reg') \<Rightarrow>
                         obind (Decode E (c_version c) packet dataReader') (\<lambda>(packet', err, _).
                           case err of
                             Some e \<Rightarrow>
                               Ret (Inl (Wrapf (''decode packet 0x'' @ hex02_str (sint packetID) @ '' ('' @
                                           reflect_TypeOf packet @ ''): '') e), reg', c2)
                           | None \<Rightarrow> Ret (Inr packet', reg', c2))))))"

section \<open>WritePacket\<close>

text \<open>The contents of \<open>finalPayload\<close> for an encoded packet.\<close>

definition final_payload :: "env \<Rightarrow> int \<Rightarrow> bytes \<Rightarrow> bytes" where
  "final_payload E threshold data =
     wr_out (snd (
       (if threshold \<ge> 0 then
          if int (length data) \<ge> threshold
          then wign (WriteVarInt (word_of_nat (length data))) (Write (zlib_compress E data))
          else wign (WriteVarInt 0) (Write data)
        else Write data) new_buffer))"

definition WritePacket ::
  "env \<Rightarrow> registry \<Rightarrow> Packet \<Rightarrow> Conn \<Rightarrow> (goerr option \<times> registry \<times> Conn) outcome" where
  "WritePacket E reg p c =
     (case GetPacketID reg (c_version c) (c_state c) DirectionServerbound p of
        ((packetID, False), reg') \<Rightarrow>
          Ret (Some (Errorf (''no id for packet '' @ reflect_TypeOf p @ '' in state '' @
                 State_String (c_state c) @ '' (version '' @ Version_String (c_version c) @ '')'')), reg', c)
      | ((packetID, True), reg') \<Rightarrow>
          obind (Encode E p (c_version c) (snd (WriteVarInt packetID new_buffer))) (\<lambda>(err, dataBuf).
            case err of
              Some e \<Rightarrow> Ret (Some (Wrapf (''encode packet data for '' @ reflect_TypeOf p @ '': '') e), reg', c)
            | None \<Rightarrow>
                (let payload = final_payload E (c_compressionThreshold c) (wr_out dataBuf) in
                 case wign (WriteVarInt (word_of_nat (length payload))) (Write payload) (nc_out (c_Conn c)) of
                   (Some e, w) \<Rightarrow> Ret (Some (Wrapf ''write final payload to network: '' e), reg', set_out w c)
                 | (None, w) \<Rightarrow> Ret (None, reg', set_out w c))))"

definition Conn_Close :: "Conn \<Rightarrow> goerr option" where
  "Conn_Close c = nc_close (c_Conn c)"

end
