(* ===== verification/Packet_Facts.thy ===== *)
theory Packet_Facts
  imports Conn
begin

text \<open>
  Facts about the packets of \<open>Packets\<close>: encoders append the same bytes to every buffer,
  counted sequences read back what was written (interpretations of \<open>struct_codec\<close>), and
  decoding keeps the type of a packet.
\<close>

section \<open>Encoding into a buffer\<close>

text \<open>What an encoder does to an in-memory buffer does not depend on the buffer: it returns
  the same error and appends the same bytes to each.\<close>

named_theorems steady_intros \<open>encoders that append the same bytes to every buffer\<close>

definition steady :: "wr \<Rightarrow> bool" where
  "steady f \<longleftrightarrow> (\<exists>err bs. \<forall>w. unbounded w \<longrightarrow> f w = (err, emit bs w))"

lemma steadyI: "(\<And>w. unbounded w \<Longrightarrow> f w = (err, emit bs w)) \<Longrightarrow> steady f"
  unfolding steady_def by blast

lemma steadyE:
  assumes "steady f"
  obtains err bs where "\<forall>w. unbounded w \<longrightarrow> f w = (err, emit bs w)"
  using assms unfolding steady_def by blast

lemma steady_primitives [steady_intros]:
  "steady (Write bs)" "steady (WriteByte b)" "steady (WriteVarInt i)" "steady (WriteByteSlice bs)"
  "steady (WriteString s)" "steady (WriteBool b')" "steady (binary_Write n k)" "steady (WriteLong l)"
  "steady (WriteUShort u)"
  by (rule steadyI, erule wire_simps)+

lemma steady_err [steady_intros]: "steady (\<lambda>w. (err, w))"
  by (rule steadyI [where err = err and bs = "[]"]) simp

lemma steady_wnil [steady_intros]: "steady wnil"
  by (rule steadyI [where err = None and bs = "[]"]) simp

lemma steady_wign [steady_intros]:
  assumes "steady f" "steady g"
  shows "steady (wign f g)"
proof -
  obtain e a where "\<forall>w. unbounded w \<longrightarrow> f w = (e, emit a w)" using assms(1) by (rule steadyE)
  moreover obtain e' b where "\<forall>w. unbounded w \<longrightarrow> g w = (e', emit b w)" using assms(2) by (rule steadyE)
  ultimately show ?thesis by (intro steadyI [where err = e' and bs = "a @ b"]) simp
qed

lemma steady_wtry [steady_intros]:
  assumes "steady f" "steady g"
  shows "steady (wtry f g)"
proof -
  obtain e a where f: "\<forall>w. unbounded w \<longrightarrow> f w = (e, emit a w)" using assms(1) by (rule steadyE)
  show ?thesis
  proof (cases e)
    case None
    then have "unbounded w \<Longrightarrow> wtry f g w = wign f g w" for w by (simp add: f)
    then show ?thesis using steady_wign [OF assms] unfolding steady_def by simp
  next
    case (Some x)
    then show ?thesis by (intro steadyI [where err = e and bs = a]) (simp add: f)
  qed
qed

lemma steady_If [steady_intros]: "steady f \<Longrightarrow> steady g \<Longrightarrow> steady (if b then f else g)"
  by simp

lemma steady_write_packs [steady_intros]: "steady (write_packs ps)"
proof (induction ps)
  case Nil
  show ?case by (simp only: write_packs.simps steady_wnil)
next
  case (Cons p ps)
  then show ?case by (simp only: write_packs.simps steady_intros)
qed

lemma steady_case_option [steady_intros]:
  "steady f \<Longrightarrow> (\<And>x. steady (g x)) \<Longrightarrow> steady (case y of None \<Rightarrow> f | Some x \<Rightarrow> g x)"
  by (cases y) auto

lemma steady_case_sum [steady_intros]:
  "(\<And>x. steady (f x)) \<Longrightarrow> (\<And>x. steady (g x)) \<Longrightarrow> steady (case y of Inl x \<Rightarrow> f x | Inr x \<Rightarrow> g x)"
  by (cases y) auto

lemma steady_structs [steady_intros]:
  "steady (ServerboundHandshake_Encode p1)" "steady (ServerboundLoginStart_Encode p2 v)"
  "steady (ServerboundSelectKnownPacks_Encode p3)" "steady (ServerboundCookieResponse_Encode p4)"
  "steady (ServerboundChatMessage_Encode E p5 v)" "steady (ServerboundKeepAlive_Encode n v)"
  "steady (ServerboundClientSettings_Encode p6 v)" "steady (CustomPayload_encode p7)"
  "steady (ServerboundPlayerPosition_Encode p8)"
  unfolding ServerboundHandshake_Encode_def ServerboundLoginStart_Encode_def
    ServerboundSelectKnownPacks_Encode_def ServerboundCookieResponse_Encode_def
    ServerboundChatMessage_Encode_def ServerboundKeepAlive_Encode_def
    ServerboundClientSettings_Encode_def CustomPayload_encode_def
    ServerboundPlayerPosition_Encode_def Let_def
  by (intro steady_intros)+

lemma Encode_steady:
  "(\<exists>f. steady f \<and> (\<forall>w. Encode E p v w = Ret (f w))) \<or> (\<exists>m. \<forall>w. Encode E p v w = Panic m)"
  by (cases p; simp; intro exI conjI allI; (rule refl)?; intro steady_intros)

lemma Encode_buffer:
  assumes "Encode E p v w = Ret (err, w')" "unbounded w"
  shows "\<exists>bs. w' = emit bs w \<and> (\<forall>u. unbounded u \<longrightarrow> Encode E p v u = Ret (err, emit bs u))"
proof -
  obtain f where f: "steady f" "\<forall>w. Encode E p v w = Ret (f w)"
    using Encode_steady [of E p v] assms(1) by auto
  from f(1) obtain e bs where "\<forall>w. unbounded w \<longrightarrow> f w = (e, emit bs w)" by (rule steadyE)
  with f(2) assms show ?thesis by auto
qed

section \<open>Decoding keeps the type of the packet\<close>

lemma Decode_type:
  "Decode E v p r = Ret (p', err, r') \<Longrightarrow> reflect_TypeOf p' = reflect_TypeOf p"
  by (cases p) (auto simp: lift_packet_def obind_Ret_iff split: prod.splits)

section \<open>Panics\<close>

lemma read_each_no_panic:
  "(\<And>r. \<exists>y. m r = Ret y) \<Longrightarrow> \<exists>y. read_each z m n r = Ret y"
proof (induction n arbitrary: r)
  case 0
  show ?case by simp
next
  case (Suc n)
  obtain x err r' where "m r = Ret (x, err, r')" using Suc.prems by (metis prod_cases3)
  moreover obtain xs err' r'' where "read_each z m n r' = Ret (xs, err', r'')"
    using Suc by (metis prod_cases3)
  ultimately show ?case by (simp split: option.split)
qed

definition negative_count :: "reader \<Rightarrow> bool" where
  "negative_count r \<longleftrightarrow> (case ReadVarInt r of (count, err, _) \<Rightarrow> err = None \<and> sint count < 0)"

lemma read_slice_panic:
  assumes "\<And>r. \<exists>y. m r = Ret y"
  shows "read_slice old z m r = Panic e \<longleftrightarrow> negative_count r \<and> e = makeslice_panic"
proof -
  obtain count err r' where R: "ReadVarInt r = (count, err, r')" by (metis prod_cases3)
  obtain y where "read_each z m (nat (sint count)) r' = Ret y"
    using read_each_no_panic [of m z, OF assms] by blast
  then show ?thesis
    using R by (cases err) (auto simp: read_slice_def negative_count_def)
qed

lemma read_slice_Ret_panic:
  "read_slice old z (\<lambda>r. Ret (f r)) r = Panic e \<longleftrightarrow> negative_count r \<and> e = makeslice_panic"
  by (rule read_slice_panic) blast

lemma Decode_panic:
  assumes "reflect_TypeOf p \<noteq> ''*protocol.ClientboundUpdateTags''"
    and "reflect_TypeOf p \<noteq> ''*protocol.ServerboundKeepAlive''"
  shows "Decode E v p r = Panic m \<longleftrightarrow>
     reflect_TypeOf p \<in> {''*protocol.ClientboundFeatureFlags'', ''*protocol.ClientboundSelectKnownPacks''}
     \<and> negative_count r \<and> m = makeslice_panic"
  using assms
  by (cases p) (simp_all add: obind_Panic_iff ClientboundFeatureFlags_Decode_def
      ClientboundSelectKnownPacks_Decode_def read_slice_Ret_panic CopyDiscard_def)


section \<open>Counted sequences\<close>

text \<open>The contract of a decoder that can panic, and what follows for a counted sequence
  of the values it reads.  Every codec gives one.\<close>

definition counted_bytes :: "('a \<Rightarrow> bytes) \<Rightarrow> 'a list \<Rightarrow> bytes" where
  "counted_bytes enc xs = varint_bytes (word_of_nat (length xs)) @ concat (map enc xs)"

definition countable_list :: "('a \<Rightarrow> bool) \<Rightarrow> 'a list \<Rightarrow> bool" where
  "countable_list ok xs \<longleftrightarrow> list_all ok xs \<and> int (length xs) < 2 ^ 31"

locale struct_codec =
  fixes enc :: "'a \<Rightarrow> bytes"
    and dec :: "reader \<Rightarrow> ('a \<times> goerr option \<times> reader) outcome"
    and ok :: "'a \<Rightarrow> bool"
  assumes dec_enc:
    "ok x \<Longrightarrow> dec \<lparr>rd_data = enc x @ rest, rd_end = e\<rparr> = Ret (x, None, \<lparr>rd_data = rest, rd_end = e\<rparr>)"
begin

lemma read_each_enc:
  "\<forall>x \<in> set xs. ok x \<Longrightarrow>
   read_each z dec (length xs) \<lparr>rd_data = concat (map enc xs) @ rest, rd_end = e\<rparr> =
     Ret (xs, None, \<lparr>rd_data = rest, rd_end = e\<rparr>)"
  by (induction xs) (simp_all add: dec_enc)

lemma read_slice_enc:
  assumes "countable_list ok xs"
  shows "read_slice old z dec \<lparr>rd_data = counted_bytes enc xs @ rest, rd_end = e\<rparr> =
     Ret (xs, None, \<lparr>rd_data = rest, rd_end = e\<rparr>)"
proof -
  have "\<forall>x \<in> set xs. ok x" "sint (word_of_nat (length xs) :: int32) = int (length xs)"
    using assms by (simp_all add: countable_list_def list_all_iff sint_length_word)
  then show ?thesis
    by (simp add: read_slice_def counted_bytes_def varint.dec_enc read_each_enc)
qed

end

sublocale codec \<subseteq> counted: struct_codec enc "\<lambda>r. Ret (dec r)" ok
  by unfold_locales (simp add: dec_enc)

definition pack_bytes :: "KnownPack \<Rightarrow> bytes" where
  "pack_bytes p = string_bytes (kp_Namespace p) @ string_bytes (kp_ID p) @ string_bytes (kp_Version p)"

definition pack_sized :: "KnownPack \<Rightarrow> bool" where
  "pack_sized p \<longleftrightarrow> sized (kp_Namespace p) \<and> sized (kp_ID p) \<and> sized (kp_Version p)"

interpretation pack: codec pack_bytes read_pack pack_sized
  by unfold_locales (simp add: pack_bytes_def pack_sized_def read_pack_def zero_pack_def string.dec_enc)

lemma write_packs_unbounded [wire_simps]:
  "unbounded w \<Longrightarrow> write_packs ps w = (None, emit (concat (map pack_bytes ps)) w)"
  by (induction ps arbitrary: w) (simp_all add: wire_simps pack_bytes_def)

definition tag_bytes :: "Tag \<Rightarrow> bytes" where
  "tag_bytes t = string_bytes (tag_Name t) @ counted_bytes varint_bytes (tag_Entries t)"

definition tag_sized :: "Tag \<Rightarrow> bool" where
  "tag_sized t \<longleftrightarrow> sized (tag_Name t) \<and> countable_list (\<lambda>_. True) (tag_Entries t)"

interpretation tag: struct_codec tag_bytes read_tag tag_sized
  by unfold_locales
    (simp add: tag_bytes_def tag_sized_def read_tag_def string.dec_enc varint.counted.read_slice_enc)

definition registry_tag_bytes :: "RegistryTag \<Rightarrow> bytes" where
  "registry_tag_bytes t = string_bytes (rt_Registry t) @ counted_bytes tag_bytes (rt_Tags t)"

definition registry_tag_sized :: "RegistryTag \<Rightarrow> bool" where
  "registry_tag_sized t \<longleftrightarrow> sized (rt_Registry t) \<and> countable_list tag_sized (rt_Tags t)"

interpretation registry_tag: struct_codec registry_tag_bytes read_registry_tag registry_tag_sized
  by unfold_locales
    (simp add: registry_tag_bytes_def registry_tag_sized_def read_registry_tag_def string.dec_enc
      tag.read_slice_enc)

section \<open>Round trips\<close>

definition int32_range :: "int \<Rightarrow> bool" where
  "int32_range i \<longleftrightarrow> - (2 ^ 31) \<le> i \<and> i < 2 ^ 31"

lemma sint_word_of_int32: "int32_range i \<Longrightarrow> sint (word_of_int i :: int32) = i"
  by (simp add: int32_range_def signed_of_int signed_take_bit_int_eq_self)

text \<open>The packets whose \<open>Encode\<close> and \<open>Decode\<close> are inverse, with what their fields
  must satisfy for it.\<close>

fun transparent :: "Packet \<Rightarrow> bool" where
  "transparent (ServerboundHandshake p) = (sized (hs_ServerAddress p) \<and> int32_range (hs_NextState p))"
| "transparent ServerboundStatusRequest = True"
| "transparent (ClientboundStatusResponse s) = sized s"
| "transparent (ServerboundPing _) = True"
| "transparent (ClientboundPong _) = True"
| "transparent ServerboundLoginAcknowledged = True"
| "transparent (ClientboundSetCompression _) = True"
| "transparent ServerboundFinishConfiguration = True"
| "transparent ClientboundFinishConfiguration = True"
| "transparent (ClientboundConfigKeepAlive _) = True"
| "transparent (ServerboundConfigKeepAlive _) = True"
| "transparent (ClientboundCookieRequest s) = sized s"
| "transparent (ClientboundConfigPing _) = True"
| "transparent (ClientboundDisconnect s) = sized s"
| "transparent (CustomPayload p) = sized (cp_Channel p)"
| "transparent (ServerboundCustomPayload p) = sized (cp_Channel p)"
| "transparent (ClientboundCustomPayload p) = sized (cp_Channel p)"
| "transparent _ = False"

lemma codec_new_reader:
  "codec enc dec ok \<Longrightarrow> ok x \<Longrightarrow> dec (new_reader (enc x @ rest)) = (x, None, new_reader rest)"
  by (simp add: new_reader_def codec.dec_enc)

lemma codec_new_reader_end:
  "codec enc dec ok \<Longrightarrow> ok x \<Longrightarrow> dec (new_reader (enc x)) = (x, None, new_reader [])"
  by (simp add: new_reader_def codec.dec_enc_end)

lemmas primitive_codecs = varint.codec_axioms string.codec_axioms long.codec_axioms
  ushort.codec_axioms bool.codec_axioms slice.codec_axioms

lemmas read_back = primitive_codecs [THEN codec_new_reader] primitive_codecs [THEN codec_new_reader_end]

lemma ReadAll_new_reader [simp]: "ReadAll (new_reader bs) = (bs, None, new_reader [])"
  by (simp add: ReadAll_def new_reader_def)

lemma binary_Read_int32 [simp]:
  "binary_Read 4 (new_reader (be_bytes 4 (unat (n :: int32)))) = (unat n, None, new_reader [])"
proof -
  have "unat n < 2 ^ 32" using unsigned_less [of n, where 'a = nat] by simp
  then have "unat n < 256 ^ 4" by simp
  from binary_Read_be_bytes [OF this, of "[]" EOF] show ?thesis by (simp add: new_reader_def)
qed

lemma emit_inject [simp]:
  "emit a w = emit b w \<longleftrightarrow> a = b" "w = emit b w \<longleftrightarrow> b = []"
  by (cases w, auto simp: emit_def)+

lemma transparent_roundtrip:
  assumes "transparent p" "reflect_TypeOf q = reflect_TypeOf p"
  shows "\<exists>bs. Encode E p v new_buffer = Ret (None, emit bs new_buffer) \<and>
     Decode E v q (new_reader bs) = Ret (p, None, new_reader [])"
  using assms
  by (cases p; cases q)
    (simp_all add: wire_simps lift_packet_def read_back sint_word_of_int32
      ServerboundHandshake_Encode_def ServerboundHandshake_Decode_def
      CustomPayload_encode_def CustomPayload_decode_def ClientboundConfigPing_Decode_def
      del: be_bytes.simps)

lemmas more_read_back = uuid.codec_axioms [THEN codec_new_reader] uuid.codec_axioms [THEN codec_new_reader_end]

lemma read_bool [simp]:
  "ReadBool (new_reader (0 # bs)) = (False, None, new_reader bs)"
  "ReadBool (new_reader (1 # bs)) = (True, None, new_reader bs)"
  "ReadBool (new_reader []) = (False, Some EOF, new_reader [])"
  by (simp_all add: ReadBool_def ReadByte_def new_reader_def)

lemma varint_bytes_zero [simp]: "varint_bytes 0 = [0]"
  by (simp add: varint_bytes_def varint_nat.simps)

end
