(* ===== verification/Conn_Facts.thy ===== *)
theory Conn_Facts
  imports Packet_Facts
begin

text \<open>
  What the framed connection guarantees: a successful write puts exactly one frame on the
  wire, a frame is read back by a reader with the same compression threshold, a read always
  leaves the stream behind the frame it read, and nothing but the streams changes.
\<close>

section \<open>Frames\<close>

text \<open>The bytes of one packet on the wire.\<close>

definition frame_payload :: "env \<Rightarrow> int \<Rightarrow> bytes \<Rightarrow> bytes" where
  "frame_payload E threshold data =
     (if threshold < 0 then data
      else if int (length data) \<ge> threshold
      then varint_bytes (word_of_nat (length data)) @ zlib_compress E data
      else 0 # data)"

definition frame_bytes :: "env \<Rightarrow> int \<Rightarrow> int32 \<Rightarrow> bytes \<Rightarrow> bytes" where
  "frame_bytes E threshold pid body = slice_bytes (frame_payload E threshold (varint_bytes pid @ body))"

text \<open>What is assumed of zlib: inflating what was deflated gives it back.\<close>

definition zlib_lawful :: "env \<Rightarrow> bool" where
  "zlib_lawful E \<longleftrightarrow> (\<forall>bs. zlib_NewReader E (zlib_compress E bs) = Inr (new_reader bs))"

lemma final_payload_eq: "final_payload E threshold data = frame_payload E threshold data"
  by (simp add: final_payload_def frame_payload_def wire_simps)

section \<open>Writing to a writer that can fail\<close>

lemma Write_grows:
  assumes "Write bs w = (err, w')"
  shows "(err = None \<longrightarrow> wr_out w' = wr_out w @ bs) \<and> (err \<noteq> None \<longrightarrow> wr_room w' = Some 0)"
  using assms by (cases "wr_room w") (auto simp: Write_def emit_def split: if_splits)

lemma WriteVarInt_loop_result:
  assumes "WriteVarInt_loop uv w = (err, w')"
  shows "(err = None \<longrightarrow> wr_out w' = wr_out w @ varint_nat (unat uv)) \<and>
     (err \<noteq> None \<longrightarrow> wr_room w' = Some 0)"
  using assms
proof (induction "unat uv" arbitrary: uv w rule: less_induct)
  case less
  show ?case
  proof (cases "unat uv < 128")
    case True
    then show ?thesis
      using less.prems by (auto simp: WriteVarInt_loop_last WriteByte_def varint_nat_last dest!: Write_grows)
  next
    case False
    let ?b = "ucast (uv AND 0x7F OR 0x80) :: byte"
    have smaller: "unat (drop_bit 7 uv) < unat uv" using False by (simp add: uint32_drop_7)
    obtain e w1 where w1: "Write [?b] w = (e, w1)" by (metis surj_pair)
    show ?thesis
    proof (cases e)
      case None
      then have "WriteVarInt_loop (drop_bit 7 uv) w1 = (err, w')"
        using less.prems False w1 by (simp add: WriteVarInt_loop_more WriteByte_def)
      from less.hyps [OF smaller this] None Write_grows [OF w1] show ?thesis
        by (auto simp: varint_nat_more [OF False])
    next
      case (Some x)
      then show ?thesis
        using less.prems False w1 Write_grows [OF w1] by (auto simp: WriteVarInt_loop_more WriteByte_def)
    qed
  qed
qed

lemma Write_full: "wr_room w = Some 0 \<Longrightarrow> bs \<noteq> [] \<Longrightarrow> fst (Write bs w) \<noteq> None"
  by (simp add: Write_def)

text \<open>The length prefix's error is dropped, yet a frame is only reported as written when all
  of it was: a writer that failed once does not take the payload either.\<close>

lemma write_frame_complete:
  assumes "wign (WriteVarInt (word_of_nat (length bs))) (Write bs) w = (None, w')" "bs \<noteq> []"
  shows "wr_out w' = wr_out w @ slice_bytes bs"
proof -
  obtain err w1 where w1: "WriteVarInt_loop (word_of_nat (length bs)) w = (err, w1)" by (metis surj_pair)
  then have w': "Write bs w1 = (None, w')" using assms(1) by (simp add: WriteVarInt_def)
  have "err = None"
    using WriteVarInt_loop_result [OF w1] Write_full [of w1 bs] assms(2) w' by (cases err) auto
  then have "wr_out w1 = wr_out w @ varint_bytes (word_of_nat (length bs))"
    using WriteVarInt_loop_result [OF w1] by (simp add: varint_bytes_def)
  with Write_grows [OF w'] show ?thesis by (auto simp: slice_bytes_def)
qed

lemma frame_payload_nonempty: "data \<noteq> [] \<Longrightarrow> frame_payload E threshold data \<noteq> []"
  using length_varint_bytes [of "word_of_nat (length data)"] by (auto simp: frame_payload_def)

section \<open>WritePacket\<close>

lemma set_out_selectors [simp]:
  "nc_out (c_Conn (set_out w c)) = w" "nc_in (c_Conn (set_out w c)) = nc_in (c_Conn c)"
  "nc_close (c_Conn (set_out w c)) = nc_close (c_Conn c)"
  "c_version (set_out w c) = c_version c" "c_state (set_out w c) = c_state c"
  "c_compressionThreshold (set_out w c) = c_compressionThreshold c" "c_zlibReader (set_out w c) = c_zlibReader c"
  by (simp_all add: set_out_def)

lemma set_in_selectors [simp]:
  "nc_out (c_Conn (set_in r c)) = nc_out (c_Conn c)" "nc_in (c_Conn (set_in r c)) = r"
  "nc_close (c_Conn (set_in r c)) = nc_close (c_Conn c)"
  "c_version (set_in r c) = c_version c" "c_state (set_in r c) = c_state c"
  "c_compressionThreshold (set_in r c) = c_compressionThreshold c" "c_zlibReader (set_in r c) = c_zlibReader c"
  by (simp_all add: set_in_def)

lemma varint_bytes_nonempty [simp]: "varint_bytes v \<noteq> []"
  using length_varint_bytes [of v] by auto

lemma WritePacket_frame':
  assumes "WritePacket E reg p c = Ret (None, reg', c')"
  shows "\<exists>pid body w. fst (GetPacketID reg (c_version c) (c_state c) DirectionServerbound p) = (pid, True) \<and>
     Encode E p (c_version c) new_buffer = Ret (None, emit body new_buffer) \<and> c' = set_out w c \<and>
     wr_out w = wr_out (nc_out (c_Conn c)) @ frame_bytes E (c_compressionThreshold c) pid body"
proof -
  obtain pid ok r where id: "GetPacketID reg (c_version c) (c_state c) DirectionServerbound p = ((pid, ok), r)"
    by (metis surj_pair)
  have ok: "ok" using assms id by (cases ok) (auto simp: WritePacket_def)
  obtain err buf where enc: "Encode E p (c_version c) (emit (varint_bytes pid) new_buffer) = Ret (err, buf)"
    using assms id ok by (auto simp: WritePacket_def obind_Ret_iff wire_simps)
  obtain body where body: "buf = emit body (emit (varint_bytes pid) new_buffer)"
      "Encode E p (c_version c) new_buffer = Ret (err, emit body new_buffer)"
    using Encode_buffer [OF enc] by auto
  have err: "err = None" using assms id ok enc by (auto simp: WritePacket_def wire_simps split: option.splits)
  let ?data = "varint_bytes pid @ body"
  let ?payload = "frame_payload E (c_compressionThreshold c) ?data"
  obtain w where w: "wign (WriteVarInt (word_of_nat (length ?payload))) (Write ?payload) (nc_out (c_Conn c)) = (None, w)"
      "c' = set_out w c"
    using assms id ok enc body err
    by (auto simp: WritePacket_def wire_simps final_payload_eq Let_def split: prod.splits option.splits)
  have "wr_out w = wr_out (nc_out (c_Conn c)) @ slice_bytes ?payload"
    by (rule write_frame_complete [OF w(1)]) (simp add: frame_payload_nonempty)
  with id ok body err w(2) show ?thesis by (auto simp: frame_bytes_def)
qed

lemma set_in_set_in [simp]: "set_in r (set_in r' c) = set_in r c"
  by (simp add: set_in_def)

lemma set_in_same [simp]: "set_in (nc_in (c_Conn c)) c = c"
  by (simp add: set_in_def)

section \<open>ReadPacket\<close>

text \<open>The stream behind the next frame: what a read leaves, whatever the frame holds.\<close>

definition next_stream :: "reader \<Rightarrow> reader" where
  "next_stream r =
     (case ReadVarInt r of
        (_, Some _, r') \<Rightarrow> r'
      | (n, None, r') \<Rightarrow> r'\<lparr>rd_data := drop (nat (sint n)) (rd_data r')\<rparr>)"

lemma read_frame_stream: "snd (read_frame c) = set_in (next_stream (nc_in (c_Conn c))) c"
  by (auto simp: read_frame_def next_stream_def CopyN_def Let_def split: prod.split option.split)

lemma open_data_conn: "\<exists>z. snd (open_data E buf c) = c\<lparr>c_zlibReader := z\<rparr>"
  by (cases "c_zlibReader c")
    (auto simp: open_data_def Let_def split: prod.split option.split sum.split intro: exI [of _ "c_zlibReader c"])

lemma NewPacket_registry: "registry_ok reg \<Longrightarrow> NewPacket reg v s d i = (x, reg') \<Longrightarrow> registry_ok reg'"
  by (auto simp: NewPacket_eq GetDefinition_ok)

lemma GetPacketID_registry: "registry_ok reg \<Longrightarrow> registry_ok (snd (GetPacketID reg v s d p))"
  by (simp add: GetPacketID_eq GetDefinition_ok)

text \<open>The three ways a read ends: before a packet id is known, with an unknown id, and with
  what the packet's decoder returns.\<close>

lemma ReadPacket_cases:
  fixes c
  defines "r \<equiv> nc_in (c_Conn c)"
  obtains (no_id) s e z where
      "ReadPacket E reg c = Ret (Inl (Wrapf s e), reg, (set_in (next_stream r) c)\<lparr>c_zlibReader := z\<rparr>)"
  | (unknown) i e reg' z where "NewPacket reg (c_version c) (c_state c) DirectionClientbound i = (Inl e, reg')"
      "ReadPacket E reg c = Ret (Inl ErrUnknownPacket, reg', (set_in (next_stream r) c)\<lparr>c_zlibReader := z\<rparr>)"
  | (known) i p reg' body s z where "NewPacket reg (c_version c) (c_state c) DirectionClientbound i = (Inr p, reg')"
      "ReadPacket E reg c = obind (Decode E (c_version c) p body) (\<lambda>(p', err, _).
         Ret (case err of Some e \<Rightarrow> Inl (Wrapf s e) | None \<Rightarrow> Inr p', reg',
              (set_in (next_stream r) c)\<lparr>c_zlibReader := z\<rparr>))"
proof -
  obtain res c1 where f: "read_frame c = (res, c1)" by (metis surj_pair)
  then have c1: "c1 = set_in (next_stream r) c" using read_frame_stream [of c] by (simp add: r_def)
  show thesis
  proof (cases res)
    case (Inl e)
    with f have "ReadPacket E reg c = Ret (Inl e, reg, c1)" by (simp add: ReadPacket_def)
    moreover obtain s e' where "e = Wrapf s e'"
      using f Inl by (auto simp: read_frame_def split: prod.splits option.splits)
    moreover have "c1 = (set_in (next_stream r) c)\<lparr>c_zlibReader := c_zlibReader c1\<rparr>" by (simp add: c1)
    ultimately show ?thesis using no_id by metis
  next
    case buf: (Inr buf)
    obtain res2 c2 where o: "open_data E buf c1 = (res2, c2)" by (metis surj_pair)
    obtain z where c2: "c2 = (set_in (next_stream r) c)\<lparr>c_zlibReader := z\<rparr>"
      using open_data_conn [of E buf c1] o c1 by auto
    show ?thesis
    proof (cases res2)
      case (Inl e)
      then obtain s e' where "e = Wrapf s e'"
        using o by (auto simp: open_data_def Let_def split: prod.splits option.splits sum.splits if_splits)
      moreover have "ReadPacket E reg c = Ret (Inl e, reg, c2)" using f buf o Inl by (simp add: ReadPacket_def)
      ultimately show ?thesis using no_id c2 by metis
    next
      case data: (Inr d)
      obtain i err d' where i: "ReadVarInt d = (i, err, d')" by (metis prod_cases3)
      show ?thesis
      proof (cases err)
        case (Some e)
        then have "ReadPacket E reg c = Ret (Inl (Wrapf ''read packet ID: '' e), reg, c2)"
          using f buf o data i by (simp add: ReadPacket_def)
        then show ?thesis using no_id c2 by metis
      next
        case None
        obtain np reg' where np: "NewPacket reg (c_version c) (c_state c) DirectionClientbound i = (np, reg')"
          by (metis surj_pair)
        have same: "c_version c2 = c_version c" "c_state c2 = c_state c" by (simp_all add: c2)
        show ?thesis
        proof (cases np)
          case (Inl e)
          then have "ReadPacket E reg c = Ret (Inl ErrUnknownPacket, reg', c2)"
            using f buf o data i None np same by (simp add: ReadPacket_def)
          then show ?thesis using unknown np Inl c2 by metis
        next
          case (Inr p)
          let ?s = "''decode packet 0x'' @ hex02_str (sint i) @ '' ('' @ reflect_TypeOf p @ ''): ''"
          have "ReadPacket E reg c = obind (Decode E (c_version c) p d') (\<lambda>(p', err, _).
               Ret (case err of Some e \<Rightarrow> Inl (Wrapf ?s e) | None \<Rightarrow> Inr p', reg', c2))"
            using f buf o data i None np same Inr
            by (auto simp: ReadPacket_def intro!: obind_cong split: option.split)
          then show ?thesis using known np Inr c2 by metis
        qed
      qed
    qed
  qed
qed

lemma ReadPacket_conn':
  assumes "ReadPacket E reg c = Ret (res, reg', c')"
  shows "\<exists>z. c' = (set_in (next_stream (nc_in (c_Conn c))) c)\<lparr>c_zlibReader := z\<rparr>"
  using assms by (cases rule: ReadPacket_cases [of E reg c]) (auto simp: obind_Ret_iff split: prod.splits)

lemma ReadPacket_registry:
  assumes "ReadPacket E reg c = Ret (res, reg', c')" "registry_ok reg"
  shows "registry_ok reg'"
  using assms
  by (cases rule: ReadPacket_cases [of E reg c])
    (auto simp: obind_Ret_iff dest: NewPacket_registry split: prod.splits)

lemma suffix_next_stream: "suffix (rd_data (next_stream r)) (rd_data r)"
proof (cases rule: ReadVarInt_cases [of r])
  case (complete cs c rest)
  have "suffix (drop n rest) (cs @ c # rest)" for n
    by (rule suffixI [of _ "cs @ c # take n rest"]) simp
  with complete show ?thesis by (simp add: next_stream_def)
qed (auto simp: next_stream_def suffix_def)

lemma next_stream_end [simp]: "rd_end (next_stream r) = rd_end r"
  by (cases rule: ReadVarInt_cases [of r]) (auto simp: next_stream_def)

lemma next_stream_shorter: "rd_data r \<noteq> [] \<Longrightarrow> length (rd_data (next_stream r)) < length (rd_data r)"
  by (cases rule: ReadVarInt_cases [of r]) (auto simp: next_stream_def)

lemma next_stream_frame [simp]:
  assumes "int (length payload) < 2 ^ 31"
  shows "next_stream \<lparr>rd_data = slice_bytes payload @ rest, rd_end = e\<rparr> = \<lparr>rd_data = rest, rd_end = e\<rparr>"
  using assms by (simp add: next_stream_def slice_bytes_def varint.dec_enc sint_length_word)

lemma ReadPacket_empty:
  "rd_data (nc_in (c_Conn c)) = [] \<Longrightarrow>
   ReadPacket E reg c = Ret (Inl (Wrapf ''read packet length: '' (rd_end (nc_in (c_Conn c)))), reg, c)"
proof -
  assume "rd_data (nc_in (c_Conn c)) = []"
  then have "ReadVarInt (nc_in (c_Conn c)) = (0, Some (rd_end (nc_in (c_Conn c))), nc_in (c_Conn c))"
    using ReadVarInt_truncated [of "[]" "rd_end (nc_in (c_Conn c))"]
    by (metis (full_types) empty_iff list.set(1) list.size(3) old.unit.exhaust reader.surjective zero_less_numeral)
  then show ?thesis by (simp add: ReadPacket_def read_frame_def)
qed

text \<open>The types of packet that a read in a state can return.\<close>

definition types_in :: "State \<Rightarrow> string list" where
  "types_in s = map (\<lambda>(n, _). ''*protocol.'' @ n) (filter (\<lambda>(_, ss). s \<in> set ss) clientbound_places)"

lemma constructor_types:
  "list_all (\<lambda>(n, ss). reflect_TypeOf (the (map_of packetConstructors n)) = ''*protocol.'' @ n)
     (places False @ places True)"
  by code_simp

lemma constructor_type:
  assumes "map_of (places d) n = Some ss"
  shows "reflect_TypeOf (the (map_of packetConstructors n)) = ''*protocol.'' @ n"
  using constructor_types map_of_SomeD [OF assms] by (cases d) (auto simp: list_all_iff)

lemma NewPacket_type:
  assumes "registry_ok reg" "NewPacket reg v s DirectionClientbound i = (Inr p, reg')"
  shows "reflect_TypeOf p \<in> set (types_in s)"
proof -
  obtain D n where D: "definition_at protocolRegistry v = Some D" "lookup_name D s DirectionClientbound i = Some n"
      "p = the (map_of packetConstructors n)"
    using assms(2) unfolding NewPacket_eq [OF assms(1)] by (auto split: option.splits)
  moreover obtain ss where "map_of (places False) n = Some ss" "s \<in> set ss"
    using name_place [OF definition_at_Definitions [OF D(1)] D(2)] by blast
  ultimately show ?thesis
    using constructor_type [of False n ss] map_of_SomeD [of "places False" n ss]
    by (force simp: types_in_def places_def)
qed

lemma ReadPacket_type':
  assumes "registry_ok reg" "ReadPacket E reg c = Ret (Inr p, reg', c')"
  shows "reflect_TypeOf p \<in> set (types_in (c_state c))"
  using assms
  by (cases rule: ReadPacket_cases [of E reg c])
    (auto simp: obind_Ret_iff dest!: Decode_type dest: NewPacket_type [of reg] split: prod.splits option.splits)

lemma types_in_decodable:
  "''*protocol.ClientboundUpdateTags'' \<notin> set (types_in s)"
  "''*protocol.ServerboundKeepAlive'' \<notin> set (types_in s)"
  "''*protocol.ClientboundSelectKnownPacks'' \<in> set (types_in s) \<Longrightarrow> s = StateConfiguration"
  "''*protocol.ClientboundFeatureFlags'' \<in> set (types_in s) \<Longrightarrow> s \<in> {StatePlay, StateConfiguration}"
  by (auto simp: types_in_def clientbound_places_def split: if_splits)

lemma ReadPacket_panic':
  assumes "registry_ok reg" "ReadPacket E reg c = Panic m"
  shows "m = makeslice_panic \<and> c_state c \<in> {StatePlay, StateConfiguration}"
proof (cases rule: ReadPacket_cases [of E reg c])
  case (known i p reg' body s z)
  then have p: "reflect_TypeOf p \<in> set (types_in (c_state c))" using NewPacket_type assms(1) by blast
  have "Decode E (c_version c) p body = Panic m"
    using known(2) assms(2) by (cases "Decode E (c_version c) p body") (auto split: prod.splits)
  moreover have "reflect_TypeOf p \<noteq> ''*protocol.ClientboundUpdateTags''"
      "reflect_TypeOf p \<noteq> ''*protocol.ServerboundKeepAlive''"
    using p types_in_decodable by metis+
  ultimately have "reflect_TypeOf p \<in> {''*protocol.ClientboundFeatureFlags'', ''*protocol.ClientboundSelectKnownPacks''}"
      "m = makeslice_panic"
    using Decode_panic by blast+
  then show ?thesis using p types_in_decodable(3,4) [of "c_state c"] by auto
qed (use assms(2) in simp_all)

section \<open>WritePacket never panics\<close>

lemma GetPacketID_type:
  assumes "registry_ok reg" "GetPacketID reg v s d p = ((i, True), reg')"
  shows "\<exists>n ss. map_of (places d) n = Some ss \<and> s \<in> set ss \<and> reflect_TypeOf p = ''*protocol.'' @ n"
proof -
  obtain D n where D: "definition_at protocolRegistry v = Some D"
    and n: "map_of packetTypes (reflect_TypeOf p) = Some n" "lookup_id D s d n = Some i"
    using assms(2) unfolding GetPacketID_eq [OF assms(1)] by (auto split: option.splits)
  have D': "D \<in> Definitions" using D by (rule definition_at_Definitions)
  obtain ss where ss: "map_of (places d) n = Some ss" "s \<in> set ss"
    using name_place [OF D' tables.name_of_id [OF D' n(2)]] by blast
  with n(1) constructor_type [OF ss(1)] show ?thesis by (auto simp: packetTypes_iff)
qed

lemma Encode_serverbound:
  assumes "(n, ss) \<in> set serverbound_places" "reflect_TypeOf p = ''*protocol.'' @ n"
  shows "\<exists>y. Encode E p v w = Ret y"
  using assms by (cases p) (auto simp: serverbound_places_def)

lemma WritePacket_Ret:
  assumes "registry_ok reg"
  shows "\<exists>err reg' w. WritePacket E reg p c = Ret (err, reg', set_out w c) \<and> registry_ok reg'"
proof -
  obtain pid ok r where pid: "GetPacketID reg (c_version c) (c_state c) DirectionServerbound p = ((pid, ok), r)"
    by (metis surj_pair)
  then have r: "registry_ok r" using GetPacketID_registry [OF assms] by (metis snd_conv)
  have self: "c = set_out (nc_out (c_Conn c)) c" by (simp add: set_out_def)
  show ?thesis
  proof (cases ok)
    case False
    with pid r show ?thesis
      by (intro exI [of _ "Some _"] exI [of _ r] exI [of _ "nc_out (c_Conn c)"])
        (simp add: WritePacket_def set_out_def)
  next
    case True
    then obtain n ss where "(n, ss) \<in> set serverbound_places" "reflect_TypeOf p = ''*protocol.'' @ n"
      using GetPacketID_type [OF assms] pid by (fastforce simp: places_def dest: map_of_SomeD)
    then obtain err buf where "Encode E p (c_version c) (emit (varint_bytes pid) new_buffer) = Ret (err, buf)"
      using Encode_serverbound by (metis surj_pair)
    note enc = this
    show ?thesis
    proof (cases err)
      case (Some e)
      with pid True enc have "\<exists>x. WritePacket E reg p c = Ret (Some x, r, c)"
        by (simp add: WritePacket_def wire_simps)
      then show ?thesis using r self by metis
    next
      case None
      let ?payload = "frame_payload E (c_compressionThreshold c) (wr_out buf)"
      obtain e w where "wign (WriteVarInt (word_of_nat (length ?payload))) (Write ?payload) (nc_out (c_Conn c)) = (e, w)"
        by (metis surj_pair)
      with pid True enc None have "\<exists>x. WritePacket E reg p c = Ret (x, r, set_out w c)"
        by (cases e) (simp_all add: WritePacket_def wire_simps final_payload_eq Let_def del: wign_eq)
      then show ?thesis using r by blast
    qed
  qed
qed

section \<open>Reading a frame\<close>

definition frame_sized :: "env \<Rightarrow> int \<Rightarrow> int32 \<Rightarrow> bytes \<Rightarrow> bool" where
  "frame_sized E threshold pid body \<longleftrightarrow>
     int (length (varint_bytes pid @ body)) < 2 ^ 31 \<and>
     int (length (frame_payload E threshold (varint_bytes pid @ body))) < 2 ^ 31"

lemma read_frame_bytes:
  assumes "int (length payload) < 2 ^ 31" "nc_in (c_Conn c) = \<lparr>rd_data = slice_bytes payload @ rest, rd_end = e\<rparr>"
  shows "read_frame c = (Inr payload, set_in \<lparr>rd_data = rest, rd_end = e\<rparr> c)"
  using assms by (simp add: read_frame_def slice_bytes_def varint.dec_enc sint_length_word CopyN_def)

lemma word_of_nat_nonzero: "0 < n \<Longrightarrow> int n < 2 ^ 31 \<Longrightarrow> (word_of_nat n :: int32) \<noteq> 0"
  using sint_length_word [of n] by force

lemma open_data_payload:
  assumes "zlib_lawful E" "int (length data) < 2 ^ 31" "data \<noteq> []"
  shows "\<exists>z. open_data E (frame_payload E (c_compressionThreshold c) data) c =
     (Inr (new_reader data), c\<lparr>c_zlibReader := z\<rparr>)"
proof -
  let ?n = "word_of_nat (length data) :: int32"
  have n: "?n \<noteq> 0" using assms(2,3) by (intro word_of_nat_nonzero) simp_all
  have zlib: "zlib_NewReader E (zlib_compress E data) = Inr (new_reader data)"
    using assms(1) by (simp add: zlib_lawful_def)
  have same: "\<exists>z. c = c\<lparr>c_zlibReader := z\<rparr>" by (rule exI [of _ "c_zlibReader c"]) simp
  have read: "ReadVarInt (new_reader (varint_bytes v @ bs)) = (v, None, new_reader bs)" for v bs
    by (simp add: read_back)
  have zero: "ReadVarInt (new_reader (0 # bs)) = (0, None, new_reader bs)" for bs
    using read [of 0 bs] by simp
  have data: "rd_data (new_reader bs) = bs" for bs by (simp add: new_reader_def)
  show ?thesis
    using n zlib same
    by (cases "c_zlibReader c") (auto simp: open_data_def frame_payload_def read zero data)
qed

text \<open>Reading one frame of a server that uses the same threshold.\<close>

lemma ReadPacket_frame':
  assumes "registry_ok reg" "zlib_lawful E" "frame_sized E (c_compressionThreshold c) pid body"
    and "nc_in (c_Conn c) = \<lparr>rd_data = frame_bytes E (c_compressionThreshold c) pid body @ rest, rd_end = e\<rparr>"
  shows "\<exists>z reg'. registry_ok reg' \<and> ReadPacket E reg c =
    (let c' = (set_in \<lparr>rd_data = rest, rd_end = e\<rparr> c)\<lparr>c_zlibReader := z\<rparr> in
     case fst (NewPacket reg (c_version c) (c_state c) DirectionClientbound pid) of
       Inl _ \<Rightarrow> Ret (Inl ErrUnknownPacket, reg', c')
     | Inr p \<Rightarrow> obind (Decode E (c_version c) p (new_reader body)) (\<lambda>(p', err, _).
         Ret (case err of
                None \<Rightarrow> Inr p'
              | Some e \<Rightarrow> Inl (Wrapf (''decode packet 0x'' @ hex02_str (sint pid) @ '' ('' @ reflect_TypeOf p @ ''): '') e),
              reg', c')))"
proof -
  let ?c1 = "set_in \<lparr>rd_data = rest, rd_end = e\<rparr> c"
  let ?data = "varint_bytes pid @ body"
  have f: "read_frame c = (Inr (frame_payload E (c_compressionThreshold c) ?data), ?c1)"
    using assms(3,4) by (intro read_frame_bytes) (simp_all add: frame_bytes_def frame_sized_def)
  obtain z where z: "open_data E (frame_payload E (c_compressionThreshold c) ?data) ?c1 =
      (Inr (new_reader ?data), ?c1\<lparr>c_zlibReader := z\<rparr>)"
    using open_data_payload [of E ?data ?c1] assms(2,3) by (auto simp: frame_sized_def)
  obtain np reg' where np: "NewPacket reg (c_version c) (c_state c) DirectionClientbound pid = (np, reg')"
    by (metis surj_pair)
  have ok: "registry_ok reg'" using NewPacket_registry [OF assms(1) np] .
  have "ReadPacket E reg c =
    (case np of
       Inl _ \<Rightarrow> Ret (Inl ErrUnknownPacket, reg', ?c1\<lparr>c_zlibReader := z\<rparr>)
     | Inr p \<Rightarrow> obind (Decode E (c_version c) p (new_reader body)) (\<lambda>(p', err, _).
         Ret (case err of
                None \<Rightarrow> Inr p'
              | Some e \<Rightarrow> Inl (Wrapf (''decode packet 0x'' @ hex02_str (sint pid) @ '' ('' @ reflect_TypeOf p @ ''): '') e),
              reg', ?c1\<lparr>c_zlibReader := z\<rparr>)))"
    using f z np
    by (auto simp: ReadPacket_def read_back split: sum.split option.split intro!: obind_cong)
  with ok np show ?thesis by (intro exI [of _ z] exI [of _ reg']) (simp add: Let_def)
qed

text \<open>A zlib that stores what it is given behind a header: it is lawful.\<close>

definition stored_zlib :: env where
  "stored_zlib =
     \<lparr>now_UnixMilli = 1700000000000, rand_salt = 7, rsa_SignPKCS1v15 = (\<lambda>key hashed. Inr hashed),
      uuid_Parse = (\<lambda>s. (uuid_Nil, None)),
      zlib_NewReader = (\<lambda>bs. case bs of
          a # b # data \<Rightarrow> (if a = 0x78 \<and> b = 1 then Inr (new_reader data) else Inl (ExtErr ''zlib: invalid header''))
        | _ \<Rightarrow> Inl ErrUnexpectedEOF),
      zlib_compress = (\<lambda>bs. 0x78 # 1 # bs)\<rparr>"

lemma stored_zlib_lawful: "zlib_lawful stored_zlib"
  by (simp add: zlib_lawful_def stored_zlib_def)

section \<open>Registered packets\<close>

lemma NewPacket_handled:
  assumes "registry_ok reg" "0 \<le> v" "(s, DirectionClientbound, n) \<in> set (handled_names v)"
  shows "\<exists>i. fst (NewPacket reg v s DirectionClientbound i) = Inr (the (map_of packetConstructors n))"
proof -
  obtain D i where "definition_at protocolRegistry v = Some D" "lookup_id D s False n = Some i"
    using registered [OF assms(2), of s False n] assms(3) by auto
  moreover from this have "lookup_name D s False i = Some n"
    using tables.name_of_id definition_at_Definitions by blast
  ultimately show ?thesis by (intro exI [of _ i]) (simp add: NewPacket_eq [OF assms(1)])
qed

lemma GetPacketID_written:
  assumes "registry_ok reg" "0 \<le> v" "(s, DirectionServerbound, n) \<in> set (written_names v)"
    and "reflect_TypeOf p = ''*protocol.'' @ n"
  shows "\<exists>i. fst (GetPacketID reg v s DirectionServerbound p) = (i, True)"
proof -
  obtain D i where D: "definition_at protocolRegistry v = Some D" "lookup_id D s True n = Some i"
    using registered [OF assms(2), of s True n] assms(3) by auto
  then have "lookup_name D s True i = Some n"
    using tables.name_of_id definition_at_Definitions by blast
  moreover have "D \<in> Definitions" using D(1) by (rule definition_at_Definitions)
  ultimately obtain ss where ss: "map_of (places True) n = Some ss" and "map_of packetConstructors n \<noteq> None"
    using name_place name_has_constructor by meson
  then have "map_of packetTypes (reflect_TypeOf p) = Some n"
    using constructor_type [OF ss] assms(4) by (auto simp: packetTypes_iff)
  with D show ?thesis by (simp add: GetPacketID_eq [OF assms(1)])
qed

text \<open>Looking up a single known version.\<close>

lemma NewPacket_known:
  assumes "protocolRegistry v = Some D" "0 \<le> v" "lookup_name D s d i = Some n"
  shows "fst (NewPacket protocolRegistry v s d i) = Inr (the (map_of packetConstructors n))"
  using assms by (simp add: NewPacket_eq definition_at_def find_definition_hit)

lemma GetPacketID_known:
  assumes "protocolRegistry v = Some D" "0 \<le> v" "lookup_id D s d n = Some i"
    and "map_of packetTypes (reflect_TypeOf p) = Some n"
  shows "GetPacketID protocolRegistry v s d p = ((i, True), protocolRegistry)"
  using assms by (simp add: GetPacketID_eq definition_at_def find_definition_hit GetDefinition_def)

lemma known_definitions:
  "protocolRegistry V1_8 = Some def_V1_8" "protocolRegistry V1_21_4 = Some def_V1_21_4"
  by (simp_all add: protocolRegistry_def initialRegistry_def)

end
