(* ===== verification/Packet_Props.thy ===== *)
theory Packet_Props
  imports Conn_Facts
begin

text \<open>
  The properties of the wire format and of single packets: VarInts, byte slices, packets
  whose two directions are inverse, and the packets whose layout depends on the version.
\<close>

section \<open>Primitive encodings\<close>

text \<open>C12. Every 32-bit value is written as one to five bytes that read back as the same value
  and nothing more.\<close>

theorem VarInt_roundtrip:
  "\<exists>bs. WriteVarInt v new_buffer = (None, emit bs new_buffer) \<and> 1 \<le> length bs \<and> length bs \<le> 5 \<and>
     (\<forall>rest. ReadVarInt (new_reader (bs @ rest)) = (v, None, new_reader rest))"
  using length_varint_bytes [of v] by (simp add: wire_simps read_back)

text \<open>C13. What \<open>ReadVarInt\<close> does on any stream: it takes the bytes with the high bit set and
  one more, and returns the value of their seven-bit groups modulo \<open>2 ^ 32\<close>; five bytes with
  the high bit set are an error, after exactly these five, and so is a stream that ends
  before the last byte.\<close>

theorem ReadVarInt_spec:
  "ReadVarInt r =
     (let n = length (takeWhile cont (rd_data r)) in
      if n \<ge> 5 then (0, Some (Errorf ''varint is too big''), r\<lparr>rd_data := drop 5 (rd_data r)\<rparr>)
      else if n = length (rd_data r) then (0, Some (rd_end r), r\<lparr>rd_data := []\<rparr>)
      else (word_of_nat (varint_val (take (Suc n) (rd_data r))), None,
            r\<lparr>rd_data := drop (Suc n) (rd_data r)\<rparr>))"
proof (cases rule: ReadVarInt_cases [of r])
  case (complete cs c rest)
  then have "takeWhile cont (rd_data r) = cs" by simp
  with complete show ?thesis by simp
next
  case truncated
  have "takeWhile cont (rd_data r) = rd_data r" using truncated(1) unfolding takeWhile_eq_all_conv .
  then have "length (takeWhile cont (rd_data r)) = length (rd_data r)" by (rule arg_cong)
  with truncated show ?thesis by (simp add: Let_def)
next
  case (too_big cs rest)
  then have "takeWhile cont (rd_data r) = cs @ takeWhile cont rest" by simp
  with too_big show ?thesis by simp
qed

text \<open>A byte slice read from the wire is never longer than two megabytes: a larger or a
  negative announced length is refused before anything is allocated.\<close>

theorem ReadBytes_bounded:
  "int (length (fst (ReadBytes r))) \<le> MaxPacketDataSize \<and>
   (fst (snd (ReadVarInt r)) = None \<longrightarrow>
      (fst (snd (ReadBytes r)) = None \<longrightarrow>
         0 \<le> sint (fst (ReadVarInt r)) \<and> int (length (fst (ReadBytes r))) = sint (fst (ReadVarInt r))))"
  by (auto simp: ReadBytes_def ReadFull_def MaxPacketDataSize_def Let_def split: prod.splits option.splits)

lemma ReadBytes_bounded_witness:
  "int (length (fst (ReadBytes (new_reader [2, 7, 8, 9])))) \<le> MaxPacketDataSize \<and>
   fst (snd (ReadVarInt (new_reader [2, 7, 8, 9]))) = None \<and>
   int (length (fst (ReadBytes (new_reader [2, 7, 8, 9])))) = sint (fst (ReadVarInt (new_reader [2, 7, 8, 9])))"
proof -
  have v: "ReadVarInt (new_reader [2, 7, 8, 9]) = (2, None, new_reader [7, 8, 9])" by code_simp
  then have "fst (snd (ReadBytes (new_reader [2, 7, 8, 9]))) = None"
    by (simp add: ReadBytes_def MaxPacketDataSize_def ReadFull_def new_reader_def)
  with v ReadBytes_bounded [of "new_reader [2, 7, 8, 9]"] show ?thesis by simp
qed

section \<open>Packets that read back\<close>

text \<open>C14. For the packets whose \<open>Encode\<close> and \<open>Decode\<close> handle the same fields, decoding into
  any value of the packet's type what was encoded gives the packet back and uses up the
  body, in every version.\<close>

theorem Packet_roundtrip:
  assumes "transparent p" "reflect_TypeOf q = reflect_TypeOf p"
  shows "\<exists>bs. Encode E p v new_buffer = Ret (None, emit bs new_buffer) \<and>
     Decode E v q (new_reader bs) = Ret (p, None, new_reader [])"
  using assms by (rule transparent_roundtrip)

lemma Packet_roundtrip_witness:
  "\<exists>bs. Encode stored_zlib (ServerboundHandshake \<lparr>hs_ProtocolVersion = 47, hs_ServerAddress = ''localhost'',
        hs_ServerPort = 25565, hs_NextState = StateLogin\<rparr>) V1_8 new_buffer = Ret (None, emit bs new_buffer) \<and>
     Decode stored_zlib V1_8 (ServerboundHandshake \<lparr>hs_ProtocolVersion = 0, hs_ServerAddress = [],
        hs_ServerPort = 0, hs_NextState = 0\<rparr>) (new_reader bs) =
       Ret (ServerboundHandshake \<lparr>hs_ProtocolVersion = 47, hs_ServerAddress = ''localhost'',
        hs_ServerPort = 25565, hs_NextState = StateLogin\<rparr>, None, new_reader [])"
  by (rule Packet_roundtrip) (simp_all add: sized_def MaxPacketDataSize_def int32_range_def)

text \<open>The counted, nested packets read what a server that follows the format writes: the
  tags of all registries (a list of registries with lists of tags with lists of ids), the
  known packs and the feature flags.\<close>

theorem counted_packets_decode:
  assumes "countable_list registry_tag_sized ts" "countable_list pack_sized ps" "countable_list sized fs"
  shows "Decode E v (ClientboundUpdateTags ts0) (new_reader (counted_bytes registry_tag_bytes ts)) =
       Ret (ClientboundUpdateTags ts, None, new_reader []) \<and>
     Decode E v (ClientboundSelectKnownPacks ps0) (new_reader (counted_bytes pack_bytes ps)) =
       Ret (ClientboundSelectKnownPacks ps, None, new_reader []) \<and>
     Decode E v (ClientboundFeatureFlags fs0) (new_reader (counted_bytes string_bytes fs)) =
       Ret (ClientboundFeatureFlags fs, None, new_reader [])"
  using registry_tag.read_slice_enc [OF assms(1), where rest = "[]"]
    pack.counted.read_slice_enc [OF assms(2), where rest = "[]"]
    string.counted.read_slice_enc [OF assms(3), where rest = "[]"]
  by (simp add: new_reader_def lift_packet_def ClientboundUpdateTags_Decode_def
      ClientboundSelectKnownPacks_Decode_def ClientboundFeatureFlags_Decode_def)

definition sample_tags :: "RegistryTag list" where
  "sample_tags = [\<lparr>rt_Registry = ''block'', rt_Tags = [\<lparr>tag_Name = ''logs'', tag_Entries = [1, 300]\<rparr>]\<rparr>]"

lemma counted_packets_decode_witness:
  "Decode stored_zlib V1_21_4 (ClientboundUpdateTags []) (new_reader (counted_bytes registry_tag_bytes sample_tags)) =
     Ret (ClientboundUpdateTags sample_tags, None, new_reader [])"
proof -
  have "countable_list registry_tag_sized sample_tags"
    by (simp add: countable_list_def sample_tags_def registry_tag_sized_def tag_sized_def sized_def
        MaxPacketDataSize_def)
  moreover have "countable_list pack_sized []" "countable_list sized ([] :: string list)"
    by (simp_all add: countable_list_def)
  ultimately show ?thesis using counted_packets_decode by blast
qed

section \<open>Keep-alive\<close>

lemma ucast_scast_int32 [simp]: "(ucast (scast (i :: int32) :: int64) :: int32) = i"
  by (rule bit_eqI) (simp add: bit_simps)

text \<open>A keep-alive survives the echo in every version: the id the client has decoded is
  encoded so that a reader of the same version gets the same id, although versions before
  1.12.2 cut it to 32 bits.\<close>

theorem keepalive_echo:
  assumes "Decode E v (ClientboundKeepAlive k) r = Ret (ClientboundKeepAlive n, None, r')"
  shows "\<exists>bs. Encode E (ServerboundKeepAlive n) v new_buffer = Ret (None, emit bs new_buffer) \<and>
     Decode E v (ClientboundKeepAlive k') (new_reader bs) = Ret (ClientboundKeepAlive n, None, new_reader [])"
proof (cases "v \<ge> V1_12_2")
  case True
  then show ?thesis
    by (simp add: ServerboundKeepAlive_Encode_def ClientboundKeepAlive_Decode_def lift_packet_def
        wire_simps read_back del: be_bytes.simps)
next
  case False
  then obtain i :: int32 where "n = scast i"
    using assms by (auto simp: ClientboundKeepAlive_Decode_def dlast_def lift_packet_def split: prod.splits)
  with False show ?thesis
    by (simp add: ServerboundKeepAlive_Encode_def ClientboundKeepAlive_Decode_def lift_packet_def
        wire_simps read_back)
qed


lemma keepalive_echo_witness:
  "\<exists>bs. Encode stored_zlib (ServerboundKeepAlive 5) V1_12 new_buffer = Ret (None, emit bs new_buffer) \<and>
     Decode stored_zlib V1_12 (ClientboundKeepAlive 0) (new_reader bs) = Ret (ClientboundKeepAlive 5, None, new_reader [])"
proof (rule keepalive_echo)
  show "Decode stored_zlib V1_12 (ClientboundKeepAlive 0) (new_reader [5]) = Ret (ClientboundKeepAlive 5, None, new_reader [])"
    by code_simp
qed

section \<open>Login start\<close>

definition login_start_bytes :: "Version \<Rightarrow> LoginStart_t \<Rightarrow> bytes" where
  "login_start_bytes v p = string_bytes (ls_Username p) @
     (if v < V1_19 then []
      else if v < V1_19_2 then [0]
      else if v = V1_19_2 then 0 # (if ls_UUID p = uuid_Nil then [] else 1 # ls_UUID p)
      else if v < V1_20_2 then (if ls_UUID p = uuid_Nil then [] else 1 # ls_UUID p)
      else ls_UUID p)"

lemma LoginStart_layout:
  "ServerboundLoginStart_Encode p v new_buffer = (None, emit (login_start_bytes v p) new_buffer)"
  by (auto simp: ServerboundLoginStart_Encode_def wire_simps login_start_bytes_def bool_bytes_def)

text \<open>What a server of a version reads from a login start, by the protocol's documentation:
  the name, in 1.19 to 1.19.2 whether a signature follows, and the UUID, announced by a
  boolean before 1.20.2.\<close>

definition server_LoginStart :: "Version \<Rightarrow> (string \<times> uuid option) rd" where
  "server_LoginStart v =
     rtry ReadString ([], None) (\<lambda>name.
     rtry (if v \<ge> V1_19 \<and> v \<le> V1_19_2 then ReadBool else (\<lambda>r. (False, None, r))) (name, None) (\<lambda>signed.
     rtry (if v \<ge> V1_19_2 \<and> v < V1_20_2 then ReadBool else (\<lambda>r. (v \<ge> V1_20_2, None, r)))
       (name, None) (\<lambda>has_uuid.
     if has_uuid then rtry ReadUUID (name, None) (\<lambda>u r. ((name, Some u), None, r))
     else (\<lambda>r. ((name, None), None, r)))))"


definition sample_login :: "uuid \<Rightarrow> LoginStart_t" where
  "sample_login u = \<lparr>ls_Username = ''GopherMC'', ls_UUID = u\<rparr>"

lemma sample_login_sized [simp]: "sized (ls_Username (sample_login u))" "ls_UUID (sample_login u) = u"
  by (simp_all add: sample_login_def sized_def MaxPacketDataSize_def)


text \<open>With a nil UUID the same packet is cut short from 1.19.2 to 1.20.1: the flag that says
  whether a UUID follows is not written, and a server runs into the end of the packet.\<close>

theorem LoginStart_nil_unreadable:
  assumes "sized (ls_Username p)" "ls_UUID p = uuid_Nil" "v \<ge> V1_19_2" "v < V1_20_2"
  shows "\<exists>bs. Encode E (ServerboundLoginStart p) v new_buffer = Ret (None, emit bs new_buffer) \<and>
     server_LoginStart v (new_reader bs) = ((ls_Username p, None), Some EOF, new_reader [])"
  using assms
  by (auto simp: LoginStart_layout login_start_bytes_def server_LoginStart_def read_back rtry_def)

lemma LoginStart_nil_unreadable_witness:
  "\<exists>bs. Encode stored_zlib (ServerboundLoginStart (sample_login uuid_Nil)) V1_20 new_buffer = Ret (None, emit bs new_buffer) \<and>
     server_LoginStart V1_20 (new_reader bs) = ((ls_Username (sample_login uuid_Nil), None), Some EOF, new_reader [])"
  by (rule LoginStart_nil_unreadable) simp_all

section \<open>Login success\<close>

record profile_property =
  pr_Name :: string
  pr_Value :: string
  pr_Signature :: "string option"

definition property_bytes :: "profile_property \<Rightarrow> bytes" where
  "property_bytes p = string_bytes (pr_Name p) @ string_bytes (pr_Value p) @
     (case pr_Signature p of None \<Rightarrow> [0] | Some s \<Rightarrow> 1 # string_bytes s)"

definition property_sized :: "profile_property \<Rightarrow> bool" where
  "property_sized p \<longleftrightarrow> sized (pr_Name p) \<and> sized (pr_Value p) \<and>
     (case pr_Signature p of None \<Rightarrow> True | Some s \<Rightarrow> sized s)"

lemma skip_properties_bytes:
  "list_all property_sized ps \<Longrightarrow>
   skip_properties (length ps) (new_reader (concat (map property_bytes ps) @ rest)) =
     ((), None, new_reader rest)"
proof (induction ps)
  case (Cons p ps)
  then show ?case
    by (cases "pr_Signature p") (simp_all add: property_sized_def property_bytes_def read_back)
qed simp

definition login_success_bytes ::
    "Version \<Rightarrow> uuid \<Rightarrow> string \<Rightarrow> string \<Rightarrow> profile_property list \<Rightarrow> bool \<Rightarrow> bytes" where
  "login_success_bytes v u text name ps strict =
     (if v \<ge> V1_16 then u else string_bytes text) @ string_bytes name @
     (if v \<ge> V1_19 then counted_bytes property_bytes ps else []) @
     (if v \<ge> V1_20_5 \<and> v \<le> V1_21_1 then bool_bytes strict else [])"

text \<open>C16. \<open>ClientboundLoginSuccess\<close> reads what servers of every version send: the UUID as
  bytes from 1.16 on and as text before, the name, from 1.19 on any number of properties with
  and without signatures, and the flag that only 1.20.5 to 1.21.1 have; it uses up the
  packet.\<close>

theorem LoginSuccess_decode:
  assumes "length u = 16" "sized name" "sized text" "uuid_Parse E (dash_uuid text) = (u, None)"
    and "countable_list property_sized ps"
  shows "Decode E v (ClientboundLoginSuccess p) (new_reader (login_success_bytes v u text name ps strict)) =
     Ret (ClientboundLoginSuccess \<lparr>lk_Username = name, lk_UUID = u\<rparr>, None, new_reader [])"
proof -
  let ?uuid = "if v \<ge> V1_16 then ReadUUID else ReadStringUUID (uuid_Parse E)"
  have uuid: "?uuid (new_reader ((if v \<ge> V1_16 then u else string_bytes text) @ rest)) = (u, None, new_reader rest)"
    for rest using assms(1,3,4) by (simp add: more_read_back ReadStringUUID_def read_back)
  have ps: "rtry ReadVarInt () (\<lambda>propCount. skip_properties (nat (sint propCount)))
      (new_reader (counted_bytes property_bytes ps @ rest)) = ((), None, new_reader rest)" for rest
    using assms(5) by (simp add: countable_list_def counted_bytes_def read_back sint_length_word
        skip_properties_bytes)
  from ps [of "[]"] show ?thesis
    using assms(2) ps
    by (simp add: login_success_bytes_def ClientboundLoginSuccess_Decode_def lift_packet_def uuid
        read_back)
qed

lemma LoginSuccess_decode_witness:
  "Decode stored_zlib V1_20_5 (ClientboundLoginSuccess \<lparr>lk_Username = [], lk_UUID = uuid_Nil\<rparr>)
     (new_reader (login_success_bytes V1_20_5 uuid_Nil ''x'' ''GopherMC''
        [\<lparr>pr_Name = ''textures'', pr_Value = ''e30='', pr_Signature = Some ''c2ln''\<rparr>] True)) =
   Ret (ClientboundLoginSuccess \<lparr>lk_Username = ''GopherMC'', lk_UUID = uuid_Nil\<rparr>, None, new_reader [])"
  by (rule LoginSuccess_decode)
    (simp_all add: uuid_Nil_def sized_def MaxPacketDataSize_def stored_zlib_def countable_list_def property_sized_def)

section \<open>Chat\<close>

definition chat_bytes :: "Version \<Rightarrow> string \<Rightarrow> int64 \<Rightarrow> int64 \<Rightarrow> bytes option \<Rightarrow> bytes" where
  "chat_bytes v message timestamp salt signature =
     string_bytes message @ be_bytes 8 (unat timestamp) @ be_bytes 8 (unat salt) @
     (if v \<ge> V1_19_3 then
        (case signature of None \<Rightarrow> [0] | Some s \<Rightarrow> 1 # s) @ [0] @ [0, 0, 0] @ (if v \<ge> V1_21_5 then [0] else [])
      else slice_bytes (case signature of None \<Rightarrow> [] | Some s \<Rightarrow> s) @ [0] @ (if v \<ge> V1_19_2 then [0, 0] else []))"

lemma signature_buffer_length [simp]: "min n 256 + (256 - n) = (256 :: nat)"
  by linarith

text \<open>C17. A chat message from 1.19 on is signed first; if signing fails nothing is written and
  the error is returned.  Otherwise the packet is message, timestamp and salt, and behind
  them the signature: from 1.19.3 on exactly 256 bytes (or none, without a key) with an empty
  acknowledgement, and the checksum byte from 1.21.5 on.\<close>

theorem ChatMessage_layout:
  assumes "v \<ge> V1_19"
  shows "(\<forall>s. signMessage E p v (cm_Message p) (now_UnixMilli E) (rand_salt E) = Inr (Some s) \<longrightarrow>
       v \<ge> V1_19_3 \<longrightarrow> length s = 256) \<and>
    Encode E (ServerboundChatMessage p) v new_buffer =
    Ret (case signMessage E p v (cm_Message p) (now_UnixMilli E) (rand_salt E) of
           Inl e \<Rightarrow> (Some e, new_buffer)
         | Inr signature \<Rightarrow>
             (None, emit (chat_bytes v (cm_Message p) (now_UnixMilli E) (rand_salt E) signature) new_buffer))"
  using assms
  by (simp add: ServerboundChatMessage_Encode_def chat_bytes_def wire_simps bool_bytes_def
      signMessage_def del: be_bytes.simps split: sum.split option.split)

lemma ChatMessage_layout_witness:
  "Encode stored_zlib (ServerboundChatMessage \<lparr>cm_Message = ''hi'', cm_PrivateKey = None, cm_UUID = uuid_Nil\<rparr>)
     V1_21_5 new_buffer =
   Ret (None, emit (chat_bytes V1_21_5 ''hi'' (now_UnixMilli stored_zlib) (rand_salt stored_zlib) None) new_buffer)"
  using ChatMessage_layout [of V1_21_5 stored_zlib
      "\<lparr>cm_Message = ''hi'', cm_PrivateKey = None, cm_UUID = uuid_Nil\<rparr>"]
  by (simp add: signMessage_def del: Encode.simps)

end
