(* ===== verification/Component_Props.thy ===== *)
theory Component_Props
  imports Component
begin

text \<open>
  The properties of chat components: what \<open>UnmarshalJSON\<close> makes of a document, the
  plain text of the result, and the documents it panics on.
\<close>

section \<open>Decoding what was encoded\<close>


lemma keys [simp]:
  "key_is ''text'' ''text''" "key_is ''with'' ''with''" "key_is ''translate'' ''translate''" "key_is ''extra'' ''extra''"
  "\<not> key_is ''with'' ''text''" "\<not> key_is ''extra'' ''text''" "\<not> key_is ''extra'' ''with''" "\<not> key_is ''with'' ''translate''"
  "\<not> key_is ''extra'' ''translate''" "\<not> key_is ''text'' ''translate''" "\<not> key_is ''with'' ''extra''"
  by code_simp+




section \<open>The text of a document\<close>

text \<open>A document: no key twice, none that is a field up to case only, and values of the right
  types.  A part is a document, a string or null.\<close>

fun is_string :: "json \<Rightarrow> bool" where
  "is_string (JStr s) = True"
| "is_string j = False"






text \<open>The text of a document, in the order in which \<open>String\<close> puts it together: its own, that
  of the parts of \<open>with\<close>, and that of the parts of \<open>extra\<close> that are not strings.\<close>

fun plain_text :: "json \<Rightarrow> string" where
  "plain_text (JStr s) = s"
| "plain_text (JObj ms) =
     concat (map (\<lambda>m. if fst m = ''text'' then plain_text (snd m) else []) ms) @
     concat (map (\<lambda>m. if fst m = ''with''
       then (case snd m of JArr js \<Rightarrow> concat (map plain_text js) | _ \<Rightarrow> []) else []) ms) @
     concat (map (\<lambda>m. if fst m = ''extra''
       then (case snd m of JArr js \<Rightarrow> concat (map (\<lambda>p. if is_string p then [] else plain_text p) js) | _ \<Rightarrow> []) else []) ms)"
| "plain_text j = []"











text \<open>What the two loops make of the parts, when each decodes as it should.\<close>

definition decodes :: "json \<Rightarrow> bool" where
  "decodes p \<longleftrightarrow> (\<exists>c. UnmarshalJSON zero_component p = Ret (c, None) \<and> ChatComponent_String c = plain_text p)"

lemma is_string_iff: "is_string p \<longleftrightarrow> (\<exists>s. p = JStr s)"
  by (cases p) auto

lemma decodes_no_string: "decodes p \<Longrightarrow> \<not> is_string p"
  by (auto simp: decodes_def is_string_iff)





end
