(* ===== verification/Version_Facts.thy ===== *)
theory Version_Facts
  imports Registry
begin

text \<open>
  The version tables and \<open>VersionFromString\<close>: version numbers compare like the
  releases they name, and a version string that is not in the table is resolved to the
  greatest known release of the same major and minor number that does not exceed it,
  whatever the order in which Go visits the map.
\<close>

section \<open>Version strings\<close>

datatype release = Release (rel_major: int) (rel_minor: int) (rel_patch: int)

instantiation release :: linorder
begin

definition less_eq_release :: "release \<Rightarrow> release \<Rightarrow> bool" where
  "r \<le> s \<longleftrightarrow>
     rel_major r < rel_major s \<or> rel_major r = rel_major s \<and>
       (rel_minor r < rel_minor s \<or> rel_minor r = rel_minor s \<and> rel_patch r \<le> rel_patch s)"

definition less_release :: "release \<Rightarrow> release \<Rightarrow> bool" where
  "(r :: release) < s \<longleftrightarrow> r \<le> s \<and> \<not> s \<le> r"

instance
  by standard (auto simp: less_eq_release_def less_release_def release.expand)

end

definition release_of :: "string \<Rightarrow> release option" where
  "release_of s =
     (case parseReleaseVersion s of
        Some (major, minor, patch, _) \<Rightarrow> Some (Release major minor patch)
      | None \<Rightarrow> None)"

text \<open>The table of known versions lists the releases in ascending order, numbered
  consecutively, with a patch that is not negative.\<close>

lemma known_releases:
  "list_all (\<lambda>(s, v). case release_of s of Some r \<Rightarrow> 0 \<le> rel_patch r | None \<Rightarrow> False) stringToVersion"
  by code_simp

lemma known_releases_sorted: "sorted_wrt (<) (map (\<lambda>(s, v). the (release_of s)) stringToVersion)"
  by code_simp

lemma known_versions: "map snd stringToVersion = [0..42]"
  by code_simp

lemma known_strings_distinct: "distinct (map fst stringToVersion)"
  by code_simp


lemma known_release:
  assumes "(s, v) \<in> set stringToVersion"
  obtains r where "release_of s = Some r" "0 \<le> rel_patch r"
  using assms known_releases by (fastforce simp: list_all_iff split: option.splits)

lemma known_version_nth:
  assumes "(s, v) \<in> set stringToVersion"
  obtains i where "i < length stringToVersion" "stringToVersion ! i = (s, v)" "v = int i"
proof -
  obtain i where i: "i < length stringToVersion" "stringToVersion ! i = (s, v)"
    using assms by (metis in_set_conv_nth)
  then have "v = [0..42] ! i" by (metis known_versions nth_map snd_conv)
  moreover have "length stringToVersion = 43"
    using arg_cong [OF known_versions, of length] by simp
  ultimately show ?thesis using that i by simp
qed

lemma version_order':
  assumes "(s, v) \<in> set stringToVersion" "(t, u) \<in> set stringToVersion"
  shows "v \<le> u \<longleftrightarrow> the (release_of s) \<le> the (release_of t)"
proof -
  obtain i j where i: "i < length stringToVersion" "stringToVersion ! i = (s, v)" "v = int i"
    and j: "j < length stringToVersion" "stringToVersion ! j = (t, u)" "u = int j"
    by (meson assms known_version_nth)
  have mono: "the (release_of (fst (stringToVersion ! a))) < the (release_of (fst (stringToVersion ! b)))"
    if "a < b" "b < length stringToVersion" for a b
    using known_releases_sorted that by (simp add: sorted_wrt_iff_nth_less case_prod_beta)
  show ?thesis
  proof (cases i j rule: linorder_cases)
    case less
    with mono [OF less] i j show ?thesis by simp
  next
    case equal
    with i j show ?thesis by simp
  next
    case greater
    with mono [OF greater] i j show ?thesis by simp
  qed
qed

text \<open>\<open>fits\<close>: a known version with the requested major and minor number and a patch that
  is not above the requested one, if there is one.\<close>

definition fits :: "int \<times> int \<times> int \<times> bool \<Rightarrow> release \<Rightarrow> bool" where
  "fits req r = (case req of (major, minor, patch, hasPatch) \<Rightarrow>
     rel_major r = major \<and> rel_minor r = minor \<and> (hasPatch \<longrightarrow> rel_patch r \<le> patch))"

definition candidate :: "int \<times> int \<times> int \<times> bool \<Rightarrow> string \<times> Version \<Rightarrow> bool" where
  "candidate req e \<longleftrightarrow> (\<exists>r. release_of (fst e) = Some r \<and> fits req r)"

definition patch_of :: "string \<Rightarrow> int" where
  "patch_of s = rel_patch (the (release_of s))"

lemma best_version_Cons:
  "best_version major minor patch hasPatch (e # es) (bp, bv) =
     best_version major minor patch hasPatch es
       (if candidate (major, minor, patch, hasPatch) e \<and> bp < patch_of (fst e)
        then (patch_of (fst e), snd e) else (bp, bv))"
  by (cases e) (auto simp: candidate_def fits_def patch_of_def release_of_def split: option.splits prod.splits)

lemma best_version_spec:
  assumes "best_version major minor patch hasPatch es (bp, bv) = (rp, rv)"
  shows "bp \<le> rp"
    and "e \<in> set es \<Longrightarrow> candidate (major, minor, patch, hasPatch) e \<Longrightarrow> patch_of (fst e) \<le> rp"
    and "(rp, rv) = (bp, bv) \<or>
      (\<exists>e \<in> set es. candidate (major, minor, patch, hasPatch) e \<and> patch_of (fst e) = rp \<and> snd e = rv)"
  using assms
proof (induction es arbitrary: bp bv)
  case Nil
  {
    case 1 with Nil show ?case by simp
  next
    case 2 with Nil show ?case by simp
  next
    case 3 with Nil show ?case by simp
  }
next
  case (Cons a es)
  let ?c = "candidate (major, minor, patch, hasPatch) a \<and> bp < patch_of (fst a)"
  {
    case 1 then show ?case
      using Cons.IH(1) unfolding best_version_Cons by (fastforce split: if_splits)
  next
    case 2 then show ?case
      using Cons.IH(1,2) unfolding best_version_Cons by (fastforce split: if_splits)
  next
    case 3 then show ?case
      using Cons.IH(3) unfolding best_version_Cons by (fastforce split: if_splits)
  }
qed

section \<open>The fallback of VersionFromString\<close>

definition nearest_release :: "int \<times> int \<times> int \<times> bool \<Rightarrow> Version \<times> bool \<Rightarrow> bool" where
  "nearest_release req res \<longleftrightarrow>
     (case res of
        (v, True) \<Rightarrow> \<exists>s. (s, v) \<in> set stringToVersion \<and> candidate req (s, v) \<and>
           (\<forall>(t, u) \<in> set stringToVersion. candidate req (t, u) \<longrightarrow> u \<le> v)
      | (v, False) \<Rightarrow> v = 0 \<and> (\<forall>e \<in> set stringToVersion. \<not> candidate req e))"

lemma candidate_le:
  assumes "(s, v) \<in> set stringToVersion" "(t, u) \<in> set stringToVersion"
    and "candidate req (s, v)" "candidate req (t, u)" "patch_of t \<le> patch_of s"
  shows "u \<le> v"
  using assms version_order' [of t u s v]
  by (cases req) (auto simp: candidate_def fits_def patch_of_def less_eq_release_def)

lemma nearest_release_unique:
  assumes "nearest_release req r1" "nearest_release req r2"
  shows "r1 = r2"
proof -
  obtain v1 b1 v2 b2 where r: "r1 = (v1, b1)" "r2 = (v2, b2)" by (cases r1, cases r2) auto
  show ?thesis
  proof (cases b1; cases b2)
    assume "b1" "b2"
    with assms r have "v1 \<le> v2" "v2 \<le> v1" by (fastforce simp: nearest_release_def)+
    with r \<open>b1\<close> \<open>b2\<close> show ?thesis by simp
  qed (use assms r in \<open>auto simp: nearest_release_def\<close>)
qed

lemma VersionFromString_nearest':
  assumes entries: "set entries = set stringToVersion"
    and unknown: "map_of stringToVersion s = None"
    and req: "parseReleaseVersion s = Some req"
  shows "nearest_release req (VersionFromString entries s)"
proof -
  obtain major minor patch hasPatch where req': "req = (major, minor, patch, hasPatch)" by (cases req)
  obtain rp rv where best: "best_version major minor patch hasPatch entries (-1, 0) = (rp, rv)" by fastforce
  have VFS: "VersionFromString entries s = (if rp \<ge> 0 then (rv, True) else (0, False))"
    using best unknown req req' by (simp add: VersionFromString_def)
  note spec = best_version_spec [OF best, folded req']
  have known: "0 \<le> patch_of (fst e)" if mem: "e \<in> set stringToVersion" for e
  proof -
    obtain x v where e: "e = (x, v)" by (cases e)
    obtain r where "release_of x = Some r" "0 \<le> rel_patch r"
      using mem unfolding e by (rule known_release)
    then show ?thesis by (simp add: patch_of_def e)
  qed
  show ?thesis
  proof (cases "rp \<ge> 0")
    case True
    with spec(3) obtain t where t: "(t, rv) \<in> set stringToVersion" "candidate req (t, rv)" "patch_of t = rp"
      unfolding entries by force
    have "u \<le> rv" if "(x, u) \<in> set stringToVersion" "candidate req (x, u)" for x u
      using candidate_le [OF t(1) that(1) t(2) that(2)] spec(2) [of "(x, u)"] that t(3) entries by simp
    with t True show ?thesis unfolding VFS nearest_release_def by auto
  next
    case False
    have "\<not> candidate req e" if "e \<in> set stringToVersion" for e
      using spec(2) [of e] known [OF that] that False unfolding entries by auto
    with False show ?thesis unfolding VFS nearest_release_def by auto
  qed
qed

text \<open>The cases of \<open>protocol/registry_test.go\<close>.\<close>

lemma VersionFromString_tests:
  "VersionFromString stringToVersion ''1.21.8'' = (V1_21_8, True)"
  "VersionFromString stringToVersion ''1.21.999'' = (V1_21_11, True)"
  "VersionFromString stringToVersion ''1.21.2'' = (V1_21_1, True)"
  "VersionFromString stringToVersion ''25w37a'' = (0, False)"
  by code_simp+

end
