(* ===== verification/Registry_Props.thy ===== *)
theory Registry_Props
  imports Conn_Facts Version_Facts
begin

text \<open>
  The properties of the registry and of the version strings.
\<close>

section \<open>Packet ids\<close>

text \<open>C7. Within a version, state and direction, packet ids and packet types translate into each
  other: a packet has the id \<open>i\<close> exactly when the constructor found for \<open>i\<close> makes a
  packet of its type.\<close>

theorem packet_ids_inverse:
  assumes "registry_ok reg"
  shows "fst (GetPacketID reg v s d p) = (i, True) \<longleftrightarrow>
     (\<exists>q. fst (NewPacket reg v s d i) = Inr q \<and> reflect_TypeOf q = reflect_TypeOf p)"
proof
  assume "fst (GetPacketID reg v s d p) = (i, True)"
  then show "\<exists>q. fst (NewPacket reg v s d i) = Inr q \<and> reflect_TypeOf q = reflect_TypeOf p"
    by (rule NewPacket_inverse [OF assms])
next
  assume "\<exists>q. fst (NewPacket reg v s d i) = Inr q \<and> reflect_TypeOf q = reflect_TypeOf p"
  then obtain q where q: "fst (NewPacket reg v s d i) = Inr q" "reflect_TypeOf q = reflect_TypeOf p" by blast
  have "GetPacketID reg v s d p = GetPacketID reg v s d q" unfolding GetPacketID_def q(2) by (rule refl)
  with GetPacketID_inverse [OF assms q(1)] show "fst (GetPacketID reg v s d p) = (i, True)" by simp
qed

lemma packet_ids_inverse_witness:
  "fst (GetPacketID protocolRegistry V1_8 StatePlay DirectionServerbound (ServerboundKeepAlive 9)) = (0, True)"
proof -
  have "lookup_name def_V1_8 StatePlay DirectionServerbound 0 = Some ''ServerboundKeepAlive''" by code_simp
  then have "fst (NewPacket protocolRegistry V1_8 StatePlay DirectionServerbound 0) = Inr (ServerboundKeepAlive 0)"
    using NewPacket_known [OF known_definitions(1)] by (simp add: packetConstructors_def)
  then show ?thesis
    using packet_ids_inverse [OF registry_ok_init, of V1_8 StatePlay DirectionServerbound "ServerboundKeepAlive 9" 0]
    by simp
qed




section \<open>Definitions\<close>

text \<open>The registry after any lookups: each of them may store a definition.\<close>

definition after_lookups :: "registry \<Rightarrow> Version list \<Rightarrow> registry" where
  "after_lookups reg vs = fold (\<lambda>v reg. snd (GetDefinition reg v)) vs reg"

lemma after_lookups_ok: "registry_ok reg \<Longrightarrow> registry_ok (after_lookups reg vs)"
  unfolding after_lookups_def by (induction vs arbitrary: reg) (simp_all add: GetDefinition_ok)

lemma initialRegistry_unique: "(u, D) \<in> set initialRegistry \<Longrightarrow> protocolRegistry u = Some D"
proof -
  have "distinct (map fst initialRegistry)" unfolding registry_complete by (simp add: distinct_map)
  then show "(u, D) \<in> set initialRegistry \<Longrightarrow> protocolRegistry u = Some D"
    by (simp add: protocolRegistry_def)
qed

lemma definition_at_spec:
  "definition_at protocolRegistry v = (if v < 0 then None else protocolRegistry (min v V1_21_11))"
  using definition_at_exists [of v] by (auto simp: definition_at_def find_definition_neg initialRegistry_unique)

text \<open>C9. The cache of \<open>GetDefinition\<close> is invisible: after any sequence of lookups it returns
  for a known version the definition generated for it, for a newer version the newest one and
  for a negative one none.\<close>

theorem GetDefinition_spec:
  "fst (GetDefinition (after_lookups protocolRegistry vs) v) =
     (if v < 0 then None else map_of initialRegistry (min v V1_21_11))"
  unfolding GetDefinition_value [OF after_lookups_ok [OF registry_ok_init]] definition_at_spec
  by (simp only: protocolRegistry_def)

lemma protocol_numbers: "sorted_wrt (<) (map (\<lambda>(v, D). sint (ProtocolVersion D)) initialRegistry)"
  by code_simp

text \<open>C10. The protocol number of a version: negative versions panic, and among the known ones the
  numbers grow strictly with the version, so that they identify it.\<close>

theorem Version_Protocol_strict:
  assumes "registry_ok reg" "u < v" "v \<le> V1_21_11"
  shows "if u < 0 then \<exists>m. fst (Version_Protocol reg u) = Panic m
     else \<exists>a b. fst (Version_Protocol reg u) = Ret a \<and> fst (Version_Protocol reg v) = Ret b \<and> sint a < sint b"
proof -
  have protocol: "fst (Version_Protocol reg w) = (case definition_at protocolRegistry w of
      Some D \<Rightarrow> Ret (ProtocolVersion D)
    | None \<Rightarrow> Panic (''protocol number missing for version '' @ Version_String w))" for w
    using GetDefinition_value [OF assms(1), of w] by (auto simp: Version_Protocol_def split: prod.splits option.splits)
  have entry: "w < length initialRegistry \<Longrightarrow> protocolRegistry (int w) = Some (snd (initialRegistry ! w))" for w
  proof -
    assume w: "w < length initialRegistry"
    then have "fst (initialRegistry ! w) = int w"
      using arg_cong [OF registry_complete, of "\<lambda>xs. xs ! w"] arg_cong [OF registry_complete, of length] by simp
    then have "(int w, snd (initialRegistry ! w)) \<in> set initialRegistry" using w by (metis nth_mem prod.collapse)
    then show ?thesis by (rule initialRegistry_unique)
  qed
  have len: "length initialRegistry = 43" using arg_cong [OF registry_complete, of length] by simp
  show ?thesis
  proof (cases "u < 0")
    case True
    then show ?thesis by (simp add: protocol definition_at_spec)
  next
    case False
    then have *: "nat u < nat v" "nat v < 43" "u = int (nat u)" "v = int (nat v)" using assms by simp_all
    let ?n = "\<lambda>w. ProtocolVersion (snd (initialRegistry ! nat w))"
    have "sint (?n u) < sint (?n v)"
      using protocol_numbers * len by (auto simp: sorted_wrt_iff_nth_less case_prod_beta)
    moreover have "fst (Version_Protocol reg u) = Ret (?n u)" "fst (Version_Protocol reg v) = Ret (?n v)"
      using False assms(2,3) entry [of "nat u"] entry [of "nat v"] len
      by (simp_all add: protocol definition_at_spec min_absorb1)
    ultimately show ?thesis using False by simp
  qed
qed

lemma Version_Protocol_strict_witness:
  "\<exists>a b. fst (Version_Protocol protocolRegistry V1_20) = Ret a \<and>
     fst (Version_Protocol protocolRegistry V1_21_1) = Ret b \<and> sint a < sint b"
  using Version_Protocol_strict [OF registry_ok_init, of V1_20 V1_21_1] by simp

section \<open>Version strings\<close>

text \<open>Version numbers compare as the releases that their strings name: by major, minor and
  patch number.\<close>

theorem version_order:
  assumes "(s, v) \<in> set stringToVersion" "(t, u) \<in> set stringToVersion"
  shows "v \<le> u \<longleftrightarrow> the (release_of s) \<le> the (release_of t)"
  using assms by (rule version_order')

lemma version_order_witness:
  "the (release_of ''1.9.4'') \<le> the (release_of ''1.10'') \<and> \<not> the (release_of ''1.21.11'') \<le> the (release_of ''1.21.9'')"
  using version_order [of "''1.9.4''" V1_9_4 "''1.10''" V1_10] version_order [of "''1.21.11''" V1_21_11 "''1.21.9''" V1_21_9]
  by (simp add: stringToVersion_def)

text \<open>C11. A release that is not in the table resolves to the greatest known release of the same
  major and minor number that does not exceed it (any patch, when none is given), and to
  nothing when there is none.\<close>

theorem VersionFromString_nearest:
  assumes "set entries = set stringToVersion"
    and "map_of stringToVersion s = None"
    and "parseReleaseVersion s = Some req"
  shows "nearest_release req (VersionFromString entries s)"
  using assms by (rule VersionFromString_nearest')

lemma VersionFromString_nearest_witness:
  "nearest_release (1, 21, 2, True) (VersionFromString stringToVersion ''1.21.2'')"
proof (rule VersionFromString_nearest [OF refl])
  show "map_of stringToVersion ''1.21.2'' = None" by code_simp
  show "parseReleaseVersion ''1.21.2'' = Some (1, 21, 2, True)" by code_simp
qed

text \<open>\<open>VersionFromString\<close> does not depend on the order in which Go visits the map of known
  versions.\<close>

theorem VersionFromString_order_independent:
  assumes "set entries = set stringToVersion"
  shows "VersionFromString entries s = VersionFromString stringToVersion s"
proof (cases "map_of stringToVersion s = None \<and> parseReleaseVersion s \<noteq> None")
  case True
  then obtain req where req: "parseReleaseVersion s = Some req" by auto
  show ?thesis
    using True VersionFromString_nearest' [OF assms _ req] VersionFromString_nearest' [OF refl _ req]
    by (blast intro: nearest_release_unique)
next
  case False
  then show ?thesis by (auto simp: VersionFromString_def split: option.split)
qed

lemma VersionFromString_order_independent_witness:
  "VersionFromString (rev stringToVersion) ''1.21.7'' = (V1_21_6, True)"
proof -
  have "VersionFromString stringToVersion ''1.21.7'' = (V1_21_6, True)" by code_simp
  then show ?thesis using VersionFromString_order_independent [of "rev stringToVersion"] by simp
qed

text \<open>The name of a known version parses back to the version.\<close>

theorem Version_String_roundtrip:
  assumes "v \<in> set Versions"
  shows "VersionFromString entries (Version_String v) = (v, True)"
proof -
  have "list_all (\<lambda>v. map_of stringToVersion (Version_String v) = Some v) Versions" by code_simp
  with assms show ?thesis by (simp add: list_all_iff VersionFromString_def)
qed

lemma Version_String_roundtrip_witness:
  "VersionFromString [] (Version_String V1_12_2) = (V1_12_2, True)"
  by (rule Version_String_roundtrip) (simp add: Versions_def stringToVersion_def)

end
