(* ===== verification/Conn_Props.thy ===== *)
theory Conn_Props
  imports Conn_Facts
begin

text \<open>
  The properties of the framed connection.
\<close>

text \<open>C1. A packet that \<open>WritePacket\<close> reports as written has gone out as exactly one
  complete frame: its registered id and its encoding, length-prefixed and compressed as the
  threshold asks, also when the writer can fail.  Nothing else of the connection changes.\<close>

theorem WritePacket_frame:
  assumes "WritePacket E reg p c = Ret (None, reg', c')"
  shows "\<exists>pid body w. fst (GetPacketID reg (c_version c) (c_state c) DirectionServerbound p) = (pid, True) \<and>
     Encode E p (c_version c) new_buffer = Ret (None, emit body new_buffer) \<and> c' = set_out w c \<and>
     wr_out w = wr_out (nc_out (c_Conn c)) @ frame_bytes E (c_compressionThreshold c) pid body"
  using assms by (rule WritePacket_frame')

definition sample_net :: "bytes \<Rightarrow> nat option \<Rightarrow> NetConn" where
  "sample_net inp room = \<lparr>nc_in = new_reader inp,
     nc_out = \<lparr>wr_out = [], wr_room = room, wr_fail = ExtErr ''broken pipe''\<rparr>, nc_close = None\<rparr>"

definition sample_conn :: Conn where
  "sample_conn = SetCompression 1 (SetState StateStatus (NewConn (sample_net [] (Some 20)) V1_8))"

lemma sample_request:
  "GetPacketID protocolRegistry V1_8 StateStatus DirectionServerbound ServerboundStatusRequest = ((0, True), protocolRegistry)"
proof (rule GetPacketID_known [OF known_definitions(1)])
  show "lookup_id def_V1_8 StateStatus DirectionServerbound ''ServerboundStatusRequest'' = Some 0" by code_simp
  show "map_of packetTypes (reflect_TypeOf ServerboundStatusRequest) = Some ''ServerboundStatusRequest''" by code_simp
qed simp

lemma WritePacket_frame_witness:
  "\<exists>c'. WritePacket stored_zlib protocolRegistry ServerboundStatusRequest sample_conn = Ret (None, protocolRegistry, c') \<and>
     (\<exists>pid body w. fst (GetPacketID protocolRegistry (c_version sample_conn) (c_state sample_conn)
          DirectionServerbound ServerboundStatusRequest) = (pid, True) \<and>
        Encode stored_zlib ServerboundStatusRequest (c_version sample_conn) new_buffer = Ret (None, emit body new_buffer) \<and>
        c' = set_out w sample_conn \<and>
        wr_out w = wr_out (nc_out (c_Conn sample_conn)) @
          frame_bytes stored_zlib (c_compressionThreshold sample_conn) pid body)"
proof -
  have conn: "c_version sample_conn = V1_8" "c_state sample_conn = StateStatus"
      "c_compressionThreshold sample_conn = 1" "nc_out (c_Conn sample_conn) = nc_out (sample_net [] (Some 20))"
    by (simp_all add: sample_conn_def SetCompression_def SetState_def NewConn_def)
  have payload: "frame_payload stored_zlib 1 [0] = [1, 0x78, 1, 0]"
    by (simp add: frame_payload_def stored_zlib_def varint_bytes_def varint_nat.simps)
  have "fst (wign (WriteVarInt 4) (Write [1, 0x78, 1, 0]) (nc_out (sample_net [] (Some 20)))) = None"
    by code_simp
  then obtain w where w: "wign (WriteVarInt 4) (Write [1, 0x78, 1, 0]) (nc_out (sample_net [] (Some 20))) = (None, w)"
    by (metis prod.collapse)
  have "WritePacket stored_zlib protocolRegistry ServerboundStatusRequest sample_conn =
      Ret (None, protocolRegistry, set_out w sample_conn)"
    by (simp add: WritePacket_def conn sample_request wire_simps final_payload_eq payload w Let_def del: wign_eq)
  then show ?thesis using WritePacket_frame by blast
qed

text \<open>\<open>WritePacket\<close> never panics: none of the packets whose \<open>Encode\<close> does has a
  serverbound id in any version.  Whatever it returns, only the outgoing stream has changed,
  and the registry answers as before.\<close>

theorem WritePacket_total:
  assumes "registry_ok reg"
  shows "\<exists>err reg' w. WritePacket E reg p c = Ret (err, reg', set_out w c) \<and> registry_ok reg'"
  using assms by (rule WritePacket_Ret)

lemma WritePacket_total_witness:
  "\<exists>err reg' w. WritePacket stored_zlib protocolRegistry ClientboundJoinGame sample_conn =
     Ret (err, reg', set_out w sample_conn) \<and> registry_ok reg'"
  by (rule WritePacket_total) (rule registry_ok_init)

text \<open>C2. \<open>ReadPacket\<close> reads the frames a server writes: for a lawful zlib and a server
  with the same threshold it returns what the decoder of the packet registered for the id
  makes of the body (or \<open>ErrUnknownPacket\<close>), and the stream is left behind the frame,
  whatever the outcome.\<close>

theorem ReadPacket_frame:
  assumes "registry_ok reg" "zlib_lawful E" "frame_sized E (c_compressionThreshold c) pid body"
    and "nc_in (c_Conn c) = \<lparr>rd_data = frame_bytes E (c_compressionThreshold c) pid body @ rest, rd_end = e\<rparr>"
  shows "\<exists>z reg'. registry_ok reg' \<and> ReadPacket E reg c =
    (let c' = (set_in \<lparr>rd_data = rest, rd_end = e\<rparr> c)\<lparr>c_zlibReader := z\<rparr> in
     case fst (NewPacket reg (c_version c) (c_state c) DirectionClientbound pid) of
       Inl _ \<Rightarrow> Ret (Inl ErrUnknownPacket, reg', c')
     | Inr p \<Rightarrow> obind (Decode E (c_version c) p (new_reader body)) (\<lambda>(p', err, _).
         Ret (case err of
                None \<Rightarrow> Inr p'
              | Some e \<Rightarrow> Inl (Wrapf (''decode packet 0x'' @ hex02_str (sint pid) @ '' ('' @ reflect_TypeOf p @ ''): '') e),
              reg', c')))"
  using assms by (rule ReadPacket_frame')

definition reading_conn :: "bytes \<Rightarrow> Conn" where
  "reading_conn inp = SetCompression 1 (SetState StateStatus (NewConn (sample_net inp None) V1_8))"

lemma reading_conn_selectors [simp]:
  "c_compressionThreshold (reading_conn inp) = 1" "c_version (reading_conn inp) = V1_8"
  "c_state (reading_conn inp) = StateStatus" "nc_in (c_Conn (reading_conn inp)) = new_reader inp"
  by (simp_all add: reading_conn_def SetCompression_def SetState_def NewConn_def sample_net_def)

lemma ReadPacket_frame_witness:
  "\<exists>z reg'. registry_ok reg' \<and>
     ReadPacket stored_zlib protocolRegistry (reading_conn (frame_bytes stored_zlib 1 1 [0, 0, 0, 0, 0, 0, 0, 5] @ [9])) =
     Ret (Inr (ClientboundPong 5), reg',
       (set_in (new_reader [9]) (reading_conn (frame_bytes stored_zlib 1 1 [0, 0, 0, 0, 0, 0, 0, 5] @ [9])))
         \<lparr>c_zlibReader := z\<rparr>)"
proof -
  let ?c = "reading_conn (frame_bytes stored_zlib 1 1 [0, 0, 0, 0, 0, 0, 0, 5] @ [9])"
  have "fst (NewPacket protocolRegistry V1_8 StateStatus DirectionClientbound 1) =
      Inr (the (map_of packetConstructors ''ClientboundPong''))"
    by (rule NewPacket_known [OF known_definitions(1)]) (simp, code_simp)
  then have np: "fst (NewPacket protocolRegistry V1_8 StateStatus DirectionClientbound 1) = Inr (ClientboundPong 0)"
    by (simp add: packetConstructors_def)
  have dec: "ReadLong (new_reader [0, 0, 0, 0, 0, 0, 0, 5]) = (5, None, new_reader [])"
    by (simp add: ReadLong_def binary_Read_def ReadFull_def be_val_def new_reader_def rtry_def)
  have "frame_sized stored_zlib 1 1 [0, 0, 0, 0, 0, 0, 0, 5]"
    by (simp add: frame_sized_def frame_payload_def varint_bytes_def varint_nat.simps stored_zlib_def)
  then show ?thesis
    using ReadPacket_frame [of protocolRegistry stored_zlib ?c 1 "[0, 0, 0, 0, 0, 0, 0, 5]" "[9]" EOF]
    by (simp add: stored_zlib_lawful new_reader_def np dec [unfolded new_reader_def] Let_def lift_packet_def)
qed

text \<open>C3. Reading never loses the frame boundaries: whatever is wrong with a packet (unknown,
  malformed, wrongly compressed), \<open>ReadPacket\<close> takes exactly the length prefix and the
  announced bytes off the stream, makes progress while there is input, and changes neither
  version, state, threshold nor the outgoing side.  On an exhausted stream it reports the
  stream's own error.\<close>

theorem ReadPacket_resync:
  assumes "ReadPacket E reg c = Ret (res, reg', c')"
  shows "(\<exists>z. c' = (set_in (next_stream (nc_in (c_Conn c))) c)\<lparr>c_zlibReader := z\<rparr>) \<and>
     suffix (rd_data (nc_in (c_Conn c'))) (rd_data (nc_in (c_Conn c))) \<and>
     (if rd_data (nc_in (c_Conn c)) = []
      then res = Inl (Wrapf ''read packet length: '' (rd_end (nc_in (c_Conn c))))
      else length (rd_data (nc_in (c_Conn c'))) < length (rd_data (nc_in (c_Conn c))))"
proof -
  obtain z where c': "c' = (set_in (next_stream (nc_in (c_Conn c))) c)\<lparr>c_zlibReader := z\<rparr>"
    using ReadPacket_conn' [OF assms] by blast
  then have "nc_in (c_Conn c') = next_stream (nc_in (c_Conn c))" by simp
  with c' assms show ?thesis by (auto simp: suffix_next_stream next_stream_shorter ReadPacket_empty)
qed

lemma ReadPacket_resync_witness:
  "\<exists>res reg' c'. ReadPacket stored_zlib protocolRegistry (reading_conn [200, 200]) = Ret (res, reg', c') \<and>
     length (rd_data (nc_in (c_Conn c'))) < 2"
proof -
  have "fst (snd (ReadVarInt (new_reader [200, 200]))) = Some EOF" by code_simp
  then obtain x r where "ReadVarInt (new_reader [200, 200]) = (x, Some EOF, r)" by (metis prod.collapse)
  then have "\<exists>res reg' c'. ReadPacket stored_zlib protocolRegistry (reading_conn [200, 200]) = Ret (res, reg', c')"
    by (simp add: ReadPacket_def read_frame_def)
  then obtain res reg' c' where r: "ReadPacket stored_zlib protocolRegistry (reading_conn [200, 200]) = Ret (res, reg', c')"
    by blast
  from ReadPacket_resync [OF r] r show ?thesis by (auto simp: new_reader_def)
qed

text \<open>C4. \<open>ReadPacket\<close> panics in one way only: in the play or configuration state, when a
  packet announces a sequence with a negative length.\<close>

theorem ReadPacket_panic:
  assumes "registry_ok reg" "ReadPacket E reg c = Panic m"
  shows "m = makeslice_panic \<and> c_state c \<in> {StatePlay, StateConfiguration}"
  using assms by (rule ReadPacket_panic')

definition config_conn :: "bytes \<Rightarrow> Conn" where
  "config_conn inp = SetState StateConfiguration (NewConn (sample_net inp None) V1_21_4)"

lemma config_conn_selectors [simp]:
  "c_compressionThreshold (config_conn inp) = -1" "c_version (config_conn inp) = V1_21_4"
  "c_state (config_conn inp) = StateConfiguration" "nc_in (c_Conn (config_conn inp)) = new_reader inp"
  by (simp_all add: config_conn_def SetState_def NewConn_def sample_net_def)

lemma config_ids:
  "fst (NewPacket protocolRegistry V1_21_4 StateConfiguration DirectionClientbound 3) = Inr ClientboundFinishConfiguration"
  "fst (NewPacket protocolRegistry V1_21_4 StateConfiguration DirectionClientbound 14) = Inr (ClientboundSelectKnownPacks [])"
proof -
  have "lookup_name def_V1_21_4 StateConfiguration DirectionClientbound 3 = Some ''ClientboundFinishConfiguration''"
      "lookup_name def_V1_21_4 StateConfiguration DirectionClientbound 14 = Some ''ClientboundSelectKnownPacks''"
    by code_simp+
  from this [THEN NewPacket_known [OF known_definitions(2), rotated]]
  show "fst (NewPacket protocolRegistry V1_21_4 StateConfiguration DirectionClientbound 3) = Inr ClientboundFinishConfiguration"
    "fst (NewPacket protocolRegistry V1_21_4 StateConfiguration DirectionClientbound 14) = Inr (ClientboundSelectKnownPacks [])"
    by (simp_all add: packetConstructors_def)
qed

lemma plain_frame_sized: "length body < 100 \<Longrightarrow> frame_sized stored_zlib (-1) pid body"
  using length_varint_bytes [of pid] by (simp add: frame_sized_def frame_payload_def)

lemma read_plain_frame:
  assumes "length body < 100" "fst (NewPacket protocolRegistry V1_21_4 StateConfiguration DirectionClientbound pid) = Inr p"
  shows "\<exists>s reg' c'. ReadPacket stored_zlib protocolRegistry (config_conn (frame_bytes stored_zlib (-1) pid body)) =
     obind (Decode stored_zlib V1_21_4 p (new_reader body)) (\<lambda>(p', err, _).
       Ret (case err of None \<Rightarrow> Inr p' | Some e \<Rightarrow> Inl (Wrapf s e), reg', c'))"
  using ReadPacket_frame' [OF registry_ok_init stored_zlib_lawful, of "config_conn (frame_bytes stored_zlib (-1) pid body)" pid body "[]" EOF]
    plain_frame_sized [OF assms(1)] assms(2)
  by (fastforce simp: new_reader_def Let_def simp del: Decode.simps)

lemma ReadPacket_panic_witness:
  "ReadPacket stored_zlib protocolRegistry (config_conn (frame_bytes stored_zlib (-1) 14 (varint_bytes (-1)))) =
     Panic makeslice_panic \<and>
   c_state (config_conn (frame_bytes stored_zlib (-1) 14 (varint_bytes (-1)))) \<in> {StatePlay, StateConfiguration}"
proof -
  have len: "length (varint_bytes (-1)) < 100" using length_varint_bytes [of "-1"] by simp
  have "Decode stored_zlib V1_21_4 (ClientboundSelectKnownPacks []) (new_reader (varint_bytes (-1))) = Panic makeslice_panic"
    by (simp add: ClientboundSelectKnownPacks_Decode_def read_slice_def read_back)
  then obtain m where
    "ReadPacket stored_zlib protocolRegistry (config_conn (frame_bytes stored_zlib (-1) 14 (varint_bytes (-1)))) = Panic m"
    using read_plain_frame [OF len config_ids(2)] by (auto simp del: Decode.simps)
  then show ?thesis using ReadPacket_panic [OF registry_ok_init] by metis
qed

text \<open>C6. What \<open>ReadPacket\<close> returns is one of the packets registered for the state of the
  connection; in the login state that leaves four types, none of which is a keep-alive or the
  join-game packet.\<close>

theorem ReadPacket_types:
  assumes "registry_ok reg" "ReadPacket E reg c = Ret (Inr p, reg', c')"
  shows "reflect_TypeOf p \<in> set (types_in (c_state c))"
  using assms by (rule ReadPacket_type')

lemma ReadPacket_types_witness:
  "\<exists>p reg' c'. ReadPacket stored_zlib protocolRegistry (config_conn (frame_bytes stored_zlib (-1) 3 [])) = Ret (Inr p, reg', c') \<and>
     reflect_TypeOf p \<in> set (types_in StateConfiguration)"
proof -
  obtain reg' c' where r: "ReadPacket stored_zlib protocolRegistry (config_conn (frame_bytes stored_zlib (-1) 3 [])) =
      Ret (Inr ClientboundFinishConfiguration, reg', c')"
    using read_plain_frame [of "[]", OF _ config_ids(1)] by auto
  from ReadPacket_types [OF registry_ok_init r] r show ?thesis by auto
qed



end
