(* ===== verification/Offline.thy ===== *)
theory Offline
  imports Protocol Sha
begin

text \<open>
  \<open>OfflineUUID\<close> of \<open>protocol/types.go\<close>: the UUID of a player who has none, derived
  from the name.
\<close>

definition OfflineUUID :: "string \<Rightarrow> uuid" where
  "OfflineUUID username =
     (let hash = sha1 (str_bytes (''OfflinePlayer:'' @ username));
          u = take 16 (hash @ replicate 16 0);
          u = u[6 := (u ! 6 AND 0x0F) OR 0x30] in
      u[8 := (u ! 8 AND 0x3F) OR 0x80])"

lemma byte_version: "((b :: byte) AND 0x0F OR 0x30) AND 0xF0 = 0x30"
  by (simp add: and.assoc bit.conj_disj_distrib2)

lemma byte_variant: "((b :: byte) AND 0x3F OR 0x80) AND 0xC0 = 0x80"
  by (simp add: and.assoc bit.conj_disj_distrib2)

lemma length_OfflineUUID [simp]: "length (OfflineUUID username) = 16"
  by (simp add: OfflineUUID_def Let_def)

lemma OfflineUUID_version: "OfflineUUID username ! 6 AND 0xF0 = 0x30"
  by (simp add: OfflineUUID_def Let_def byte_version)

lemma OfflineUUID_variant: "OfflineUUID username ! 8 AND 0xC0 = 0x80"
  by (simp add: OfflineUUID_def Let_def byte_variant)

lemma OfflineUUID_not_nil [simp]: "OfflineUUID username \<noteq> uuid_Nil"
proof
  assume "OfflineUUID username = uuid_Nil"
  then have "OfflineUUID username ! 6 = 0" by (simp add: uuid_Nil_def)
  with OfflineUUID_version [of username] show False by simp
qed

text \<open>An offline UUID is a well-formed UUID of version 3 and the RFC 4122 variant, and never
  the nil UUID.  (The hash below it is SHA-1, which RFC 4122 pairs with version 5.)\<close>

theorem OfflineUUID_wellformed:
  "length (OfflineUUID username) = 16 \<and> OfflineUUID username ! 6 AND 0xF0 = 0x30 \<and>
   OfflineUUID username ! 8 AND 0xC0 = 0x80 \<and> OfflineUUID username \<noteq> uuid_Nil"
  by (simp add: OfflineUUID_version OfflineUUID_variant)

end
