(* ===== verification/Client.thy ===== *)
theory Client
  imports Conn_Facts Offline
begin

text \<open>
  \<open>client.go\<close> and \<open>options.go\<close>: the client, its options and its synchronous
  operations, up to the end of \<open>Join\<close>.  (The read loop and the event channel are in
  \<open>Listener\<close>.)

  The network is a parameter: \<open>net_Dial\<close> is the dialler, \<open>net_ResolveTCPAddr\<close> the
  name resolution, and \<open>time_Since\<close> the time a ping takes.  A nil \<open>*protocol.Conn\<close>
  or \<open>*net.TCPAddr\<close> is \<open>None\<close>, and a method that dereferences it panics.  An
  operation takes and returns the packet registry and the client.
\<close>

section \<open>The client and its world\<close>

text \<open>Of an IP address the client uses the text; a nil IP is \<open>None\<close>.\<close>

record TCPAddr =
  ta_IP :: "string option"
  ta_Port :: int
  ta_Zone :: string

record world =
  w_env :: env
  net_Dial :: "string \<Rightarrow> goerr + NetConn"
  net_ResolveTCPAddr :: "string \<Rightarrow> goerr + TCPAddr"
  time_Since :: int

record Client =
  cl_Conn :: "Conn option"
  cl_version :: Version
  cl_addr :: "TCPAddr option"
  cl_privateKey :: "rsa_key option"
  cl_serverHostname :: string
  cl_brand :: string
  cl_username :: string
  cl_uniqueId :: uuid
  cl_settings :: ClientSettings
  cl_playerPosition :: PlayerPosition

section \<open>Addresses\<close>

text \<open>\<open>net.JoinHostPort\<close>, \<open>TCPAddr.String\<close>, \<open>IP.String\<close>, and \<open>net.SplitHostPort\<close>
  without its error, which is dropped (host and port are empty then).\<close>

definition net_JoinHostPort :: "string \<Rightarrow> string \<Rightarrow> string" where
  "net_JoinHostPort host port =
     (if CHR '':'' \<in> set host then ''['' @ host @ '']:'' @ port else host @ '':'' @ port)"

definition IP_String :: "string option \<Rightarrow> string" where
  "IP_String ip = (case ip of None \<Rightarrow> ''<nil>'' | Some s \<Rightarrow> s)"

definition TCPAddr_String :: "TCPAddr option \<Rightarrow> string" where
  "TCPAddr_String addr =
     (case addr of
        None \<Rightarrow> ''<nil>''
      | Some a \<Rightarrow>
          (let ip = (case ta_IP a of None \<Rightarrow> [] | Some s \<Rightarrow> s) in
           net_JoinHostPort (if ta_Zone a = [] then ip else ip @ ''%'' @ ta_Zone a) (int_str (ta_Port a))))"

text \<open>The position of the first and of the last occurrence of a character.\<close>

fun index_byte :: "char \<Rightarrow> string \<Rightarrow> nat option" where
  "index_byte c [] = None"
| "index_byte c (d # s) = (if c = d then Some 0 else map_option Suc (index_byte c s))"

fun last_byte :: "char \<Rightarrow> string \<Rightarrow> nat option" where
  "last_byte c [] = None"
| "last_byte c (d # s) =
     (case last_byte c s of Some i \<Rightarrow> Some (Suc i) | None \<Rightarrow> if c = d then Some 0 else None)"

definition net_SplitHostPort :: "string \<Rightarrow> string \<times> string" where
  "net_SplitHostPort hostport =
     (case last_byte CHR '':'' hostport of
        None \<Rightarrow> ([], [])
      | Some i \<Rightarrow>
          if take 1 hostport = ''['' then
            (case index_byte CHR '']'' hostport of
               None \<Rightarrow> ([], [])
             | Some end' \<Rightarrow>
                 if end' + 1 \<noteq> i then ([], [])
                 else if CHR ''['' \<in> set (drop 1 hostport) \<or> CHR '']'' \<in> set (drop (end' + 1) hostport)
                 then ([], [])
                 else (drop 1 (take end' hostport), drop (i + 1) hostport))
          else
            (let host = take i hostport in
             if CHR '':'' \<in> set host then ([], [])
             else if CHR ''['' \<in> set hostport \<or> CHR '']'' \<in> set hostport then ([], [])
             else (host, drop (i + 1) hostport)))"

section \<open>Options and NewClient\<close>

type_synonym ClientOption = "Client \<Rightarrow> Client"

definition WithVersion :: "Version \<Rightarrow> ClientOption" where
  "WithVersion version c = c\<lparr>cl_version := version\<rparr>"

definition WithTCPAddr :: "TCPAddr option \<Rightarrow> ClientOption" where
  "WithTCPAddr tcpAddr c = c\<lparr>cl_addr := tcpAddr\<rparr>"

definition WithServerHostname :: "string \<Rightarrow> ClientOption" where
  "WithServerHostname serverHostname c = c\<lparr>cl_serverHostname := serverHostname\<rparr>"

definition WithAddr :: "world \<Rightarrow> string \<Rightarrow> ClientOption" where
  "WithAddr W addr c =
     (let (host, port) = net_SplitHostPort addr;
          host = (if host = [] then addr else host);
          c = WithServerHostname host c;
          addr = (if port = [] then net_JoinHostPort addr ''25565'' else addr) in
      case net_ResolveTCPAddr W addr of
        Inl _ \<Rightarrow> c
      | Inr tcpAddr \<Rightarrow> WithTCPAddr (Some tcpAddr) c)"

definition WithBrand :: "string \<Rightarrow> ClientOption" where
  "WithBrand brand c = c\<lparr>cl_brand := brand\<rparr>"

definition Close :: "Client \<Rightarrow> goerr option \<times> Client" where
  "Close c =
     (case cl_Conn c of
        None \<Rightarrow> (None, c)
      | Some conn \<Rightarrow> (Conn_Close conn, c\<lparr>cl_Conn := None\<rparr>))"

definition WithConn :: "NetConn \<Rightarrow> Version \<Rightarrow> ClientOption" where
  "WithConn conn version c =
     (let c = (if cl_Conn c \<noteq> None then snd (Close c) else c);
          c = WithVersion version c in
      c\<lparr>cl_Conn := Some (NewConn conn (cl_version c))\<rparr>)"

definition WithPrivateKey :: "rsa_key option \<Rightarrow> ClientOption" where
  "WithPrivateKey key c = c\<lparr>cl_privateKey := key\<rparr>"

definition WithUsername :: "string \<Rightarrow> ClientOption" where
  "WithUsername username c = c\<lparr>cl_username := username\<rparr>"

definition WithUUID :: "uuid \<Rightarrow> ClientOption" where
  "WithUUID u c = c\<lparr>cl_uniqueId := u\<rparr>"

definition default_client :: Client where
  "default_client =
     \<lparr>cl_Conn = None, cl_version = Latest, cl_addr = None, cl_privateKey = None, cl_serverHostname = [],
      cl_brand = ''vanilla'', cl_username = ''GopherMC'', cl_uniqueId = uuid_Nil,
      cl_settings = \<lparr>Locale = ''en_US'', View = 10, ChatMode = 0, ChatColors = True, SkinParts = 0x7F, MainHand = 1\<rparr>,
      cl_playerPosition = \<lparr>pos_X = 0, pos_Y = 0, pos_Z = 0, pos_Yaw = 0, pos_HeadYaw = 0, pos_Pitch = 0,
        pos_OnGround = False\<rparr>\<rparr>"

definition NewClient :: "ClientOption list \<Rightarrow> Client" where
  "NewClient opts = fold (\<lambda>opt c. opt c) opts default_client"

section \<open>Commands\<close>

type_synonym cstate = "registry \<times> Client"
type_synonym 'a cmd = "cstate \<Rightarrow> ('a \<times> cstate) outcome"

definition cret :: "'a \<Rightarrow> 'a cmd" where
  "cret x s = Ret (x, s)"

definition cbind :: "'a cmd \<Rightarrow> ('a \<Rightarrow> 'b cmd) \<Rightarrow> 'b cmd" where
  "cbind m k s = obind (m s) (\<lambda>(x, s'). k x s')"

text \<open>"if err := m; err != nil { return h(err) }", then \<open>k\<close>.\<close>

definition ctry :: "goerr option cmd \<Rightarrow> (goerr \<Rightarrow> 'a) \<Rightarrow> 'a cmd \<Rightarrow> 'a cmd" where
  "ctry m h k = cbind m (\<lambda>err. case err of Some e \<Rightarrow> cret (h e) | None \<Rightarrow> k)"

text \<open>The promoted methods of the embedded \<open>*protocol.Conn\<close>.\<close>

definition cWritePacket :: "world \<Rightarrow> Packet \<Rightarrow> goerr option cmd" where
  "cWritePacket W p s =
     (case cl_Conn (snd s) of
        None \<Rightarrow> Panic nil_panic
      | Some c \<Rightarrow>
          obind (WritePacket (w_env W) (fst s) p c) (\<lambda>(err, reg', c').
            Ret (err, reg', (snd s)\<lparr>cl_Conn := Some c'\<rparr>)))"

definition cReadPacket :: "world \<Rightarrow> (goerr + Packet) cmd" where
  "cReadPacket W s =
     (case cl_Conn (snd s) of
        None \<Rightarrow> Panic nil_panic
      | Some c \<Rightarrow>
          obind (ReadPacket (w_env W) (fst s) c) (\<lambda>(res, reg', c').
            Ret (res, reg', (snd s)\<lparr>cl_Conn := Some c'\<rparr>)))"

definition cUpdate :: "(Conn \<Rightarrow> Conn) \<Rightarrow> unit cmd" where
  "cUpdate f s =
     (case cl_Conn (snd s) of
        None \<Rightarrow> Panic nil_panic
      | Some c \<Rightarrow> Ret ((), fst s, (snd s)\<lparr>cl_Conn := Some (f c)\<rparr>))"

definition cl_State :: "Client \<Rightarrow> State" where
  "cl_State cl = (case cl_Conn cl of Some c \<Rightarrow> c_state c | None \<Rightarrow> StateHandshaking)"

text \<open>"if c.Conn == nil { return fmt.Errorf("client not connected") }".\<close>

definition not_connected :: goerr where
  "not_connected = Errorf ''client not connected''"

definition connected :: "(goerr \<Rightarrow> 'a) \<Rightarrow> 'a cmd \<Rightarrow> 'a cmd" where
  "connected h k s = (if cl_Conn (snd s) = None then cret (h not_connected) s else k s)"

section \<open>Connecting\<close>

definition Connect :: "world \<Rightarrow> goerr option cmd" where
  "Connect W s =
     (let cl = (if cl_Conn (snd s) \<noteq> None then snd (Close (snd s)) else snd s) in
      case net_Dial W (TCPAddr_String (cl_addr cl)) of
        Inl e \<Rightarrow> Ret (Some (Wrapf ''failed to dial server: '' e), fst s, cl)
      | Inr netConn \<Rightarrow> Ret (None, fst s, cl\<lparr>cl_Conn := Some (NewConn netConn (cl_version cl))\<rparr>))"

definition ServerHostname :: "Client \<Rightarrow> string outcome" where
  "ServerHostname c =
     (if cl_serverHostname c = [] then
        (case cl_addr c of None \<Rightarrow> Panic nil_panic | Some a \<Rightarrow> Ret (IP_String (ta_IP a)))
      else Ret (cl_serverHostname c))"

section \<open>Sending packets\<close>

definition SendHandshake :: "world \<Rightarrow> State \<Rightarrow> goerr option cmd" where
  "SendHandshake W state = connected Some (\<lambda>s.
     (case Version_Protocol (fst s) (cl_version (snd s)) of
        (Panic m, _) \<Rightarrow> Panic m
      | (Ret protocolVersion, reg) \<Rightarrow>
          obind (ServerHostname (snd s)) (\<lambda>serverAddress.
            case cl_addr (snd s) of
              None \<Rightarrow> Panic nil_panic
            | Some a \<Rightarrow>
                cWritePacket W (ServerboundHandshake
                  \<lparr>hs_ProtocolVersion = protocolVersion, hs_ServerAddress = serverAddress,
                   hs_ServerPort = word_of_int (ta_Port a), hs_NextState = state\<rparr>) (reg, snd s))))"

definition SendLogin :: "world \<Rightarrow> string \<Rightarrow> uuid \<Rightarrow> goerr option cmd" where
  "SendLogin W username uniqueId = connected Some (\<lambda>s.
     (if cl_username (snd s) = [] then cret (Some (Errorf ''invalid username'')) s
      else
        let uniqueId = (if uniqueId = uuid_Nil \<and> cl_version (snd s) \<ge> V1_19_2
                        then OfflineUUID (cl_username (snd s)) else uniqueId) in
        cWritePacket W (ServerboundLoginStart \<lparr>ls_Username = username, ls_UUID = uniqueId\<rparr>) s))"

definition SendStatusRequest :: "world \<Rightarrow> goerr option cmd" where
  "SendStatusRequest W = connected Some (cWritePacket W ServerboundStatusRequest)"

definition SendPingRequest :: "world \<Rightarrow> goerr option cmd" where
  "SendPingRequest W = connected Some (cWritePacket W (ServerboundPing 0))"

definition SendClientSettings :: "world \<Rightarrow> ClientSettings \<Rightarrow> goerr option cmd" where
  "SendClientSettings W settings = connected Some (cWritePacket W (ServerboundClientSettings settings))"

definition Chat :: "world \<Rightarrow> string \<Rightarrow> goerr option cmd" where
  "Chat W message = connected Some (\<lambda>s.
     (if cl_State (snd s) \<noteq> StatePlay then cret (Some (Errorf ''client is not in the play state'')) s
      else cWritePacket W (ServerboundChatMessage
             \<lparr>cm_Message = message, cm_PrivateKey = cl_privateKey (snd s), cm_UUID = cl_uniqueId (snd s)\<rparr>) s))"

definition SetPosition ::
  "world \<Rightarrow> float64 \<Rightarrow> float64 \<Rightarrow> float64 \<Rightarrow> float32 \<Rightarrow> float32 \<Rightarrow> float32 \<Rightarrow> bool \<Rightarrow> goerr option cmd" where
  "SetPosition W x y z yaw headYaw pitch onGround = connected Some (\<lambda>s.
     (if cl_State (snd s) \<noteq> StatePlay then cret (Some (Errorf ''client is not in the play state'')) s
      else
        let pos = PlayerPosition_Update x y z yaw headYaw pitch onGround (cl_playerPosition (snd s)) in
        cWritePacket W (ServerboundPlayerPosition
          \<lparr>pp_X = pos_X pos, pp_Y = pos_Y pos, pp_Z = pos_Z pos, pp_OnGround = pos_OnGround pos\<rparr>)
          (fst s, (snd s)\<lparr>cl_playerPosition := pos\<rparr>)))"

section \<open>Status and ping\<close>

definition Ping :: "world \<Rightarrow> (goerr + int) cmd" where
  "Ping W = connected Inl
     (ctry (cWritePacket W (ServerboundPing (now_UnixMilli (w_env W))))
        (\<lambda>e. Inl (Wrapf ''sending ping failed: '' e))
     (cbind (cReadPacket W) (\<lambda>res.
        case res of
          Inl e \<Rightarrow> cret (Inl (Wrapf ''reading pong failed: '' e))
        | Inr (ClientboundPong _) \<Rightarrow> cret (Inr (time_Since W))
        | Inr p \<Rightarrow> cret (Inl (Errorf (''expected pong response, got '' @ reflect_TypeOf p))))))"

definition GetStatus :: "world \<Rightarrow> (goerr + string \<times> int) cmd" where
  "GetStatus W =
     ctry (Connect W) Inl
    (ctry (SendHandshake W StateStatus) (\<lambda>e. Inl (Wrapf ''sending handshake failed: '' e))
    (cbind (cUpdate (SetState StateStatus)) (\<lambda>_.
     ctry (cWritePacket W ServerboundStatusRequest) (\<lambda>e. Inl (Wrapf ''sending status request failed: '' e))
    (cbind (cReadPacket W) (\<lambda>res.
       case res of
         Inl e \<Rightarrow> cret (Inl (Wrapf ''reading status response failed: '' e))
       | Inr (ClientboundStatusResponse json) \<Rightarrow>
           cbind (Ping W) (\<lambda>latency.
             case latency of
               Inl e \<Rightarrow> cret (Inl e)
             | Inr d \<Rightarrow> cret (Inr (json, d)))
       | Inr p \<Rightarrow> cret (Inl (Errorf (''expected status response, got '' @ reflect_TypeOf p))))))))"

section \<open>The configuration loop\<close>

text \<open>One iteration of a read loop: \<open>Inl\<close> is what the function returns, \<open>Inr ()\<close> the
  next iteration.\<close>

type_synonym 'a iteration = "('a + unit) cmd"

definition leave :: "'a \<Rightarrow> 'a iteration" where
  "leave x = cret (Inl x)"

definition again :: "'a iteration" where
  "again = cret (Inr ())"

text \<open>"if err := c.WritePacket(p); err != nil { return fmt.Errorf(msg, err) }".\<close>

definition send_or :: "world \<Rightarrow> string \<Rightarrow> Packet \<Rightarrow> goerr option iteration \<Rightarrow> goerr option iteration" where
  "send_or W msg p k = ctry (cWritePacket W p) (\<lambda>e. Inl (Some (Wrapf msg e))) k"

text \<open>The brand as it is put into the payload of the answer.\<close>

definition brand_payload :: "string \<Rightarrow> Packet" where
  "brand_payload brand =
     ServerboundCustomPayload
       \<lparr>cp_Channel = ''minecraft:brand'', cp_Data = wr_out (snd (WriteString brand new_buffer))\<rparr>"

definition config_packet :: "world \<Rightarrow> Packet \<Rightarrow> goerr option iteration" where
  "config_packet W packet s =
     (let version = cl_version (snd s) in
      case packet of
        ClientboundConfigKeepAlive i \<Rightarrow>
          send_or W ''failed to send config keep alive: '' (ServerboundConfigKeepAlive i) again s
      | ClientboundCustomPayload p \<Rightarrow>
          if cp_Channel p = ''minecraft:brand'' then
            (case fst (WriteString (cl_brand (snd s)) new_buffer) of
               Some e \<Rightarrow> leave (Some e) s
             | None \<Rightarrow>
                 send_or W ''failed to send brand response: '' (brand_payload (cl_brand (snd s))) again s)
          else again s
      | ClientboundSelectKnownPacks _ \<Rightarrow>
          send_or W ''failed to respond to known packs: '' (ServerboundSelectKnownPacks [])
            (if version \<ge> V1_21_3
             then send_or W ''failed to send finish configuration for 1.21+: '' ServerboundFinishConfiguration again
             else again) s
      | ClientboundFinishConfiguration \<Rightarrow>
          (let play = cbind (cUpdate (SetState StatePlay)) (\<lambda>_. leave None) in
           if version < V1_21_3
           then send_or W ''failed to send final finish configuration: '' ServerboundFinishConfiguration play s
           else play s)
      | ClientboundDisconnect reason \<Rightarrow> leave (Some (Errorf (''disconnected during config: '' @ reason))) s
      | ClientboundCookieRequest key \<Rightarrow>
          send_or W ''failed to respond to cookie request: ''
            (ServerboundCookieResponse \<lparr>cr_Key = key, cr_HasData = False, cr_Data = []\<rparr>) again s
      | _ \<Rightarrow> again s)"

definition config_step :: "world \<Rightarrow> goerr option iteration" where
  "config_step W =
     cbind (cReadPacket W) (\<lambda>res.
       case res of
         Inl e \<Rightarrow>
           if errors_Is e ErrUnknownPacket then again
           else leave (Some (Wrapf ''error during configuration: '' e))
       | Inr packet \<Rightarrow> config_packet W packet)"

section \<open>Loops\<close>

text \<open>A Go \<open>for\<close> loop that runs an iteration until it returns; \<open>None\<close> when it never
  does.\<close>

partial_function (option) loop :: "('s \<Rightarrow> (('r + unit) \<times> 's) outcome) \<Rightarrow> 's \<Rightarrow> ('r \<times> 's) outcome option" where
  "loop step s =
     (case step s of
        Panic m \<Rightarrow> Some (Panic m)
      | Ret (res, s') \<Rightarrow> (case res of Inl r \<Rightarrow> Some (Ret (r, s')) | Inr _ \<Rightarrow> loop step s'))"

declare loop.simps [code]

lemma loop_return: "step s = Ret (Inl r, s') \<Longrightarrow> loop step s = Some (Ret (r, s'))"
  by (simp add: loop.simps [of step s])

lemma loop_panic: "step s = Panic m \<Longrightarrow> loop step s = Some (Panic m)"
  by (simp add: loop.simps [of step s])

lemma loop_again: "step s = Ret (Inr u, s') \<Longrightarrow> loop step s = loop step s'"
  by (simp add: loop.simps [of step s])

text \<open>A loop ends when some measure of its state falls with every iteration.\<close>

lemma loop_terminates:
  assumes "\<And>s u s'. I s \<Longrightarrow> step s = Ret (Inr u, s') \<Longrightarrow> I s' \<and> f s' < (f s :: nat)" "I s"
  shows "\<exists>y. loop step s = Some y"
  using assms(2)
proof (induction "f s" arbitrary: s rule: less_induct)
  case less
  show ?case
  proof (cases "step s")
    case (Panic m)
    then show ?thesis by (simp add: loop_panic)
  next
    case (Ret x)
    obtain res s' where x: "x = (res, s')" by (cases x)
    show ?thesis
    proof (cases res)
      case (Inl r)
      then show ?thesis using Ret x by (simp add: loop_return)
    next
      case (Inr u)
      then have "step s = Ret (Inr u, s')" using Ret x by simp
      with less.hyps [of s'] assms(1) [OF less.prems this] show ?thesis by (simp add: loop_again)
    qed
  qed
qed

text \<open>What every iteration keeps holds when the loop ends.\<close>

lemma loop_invariant:
  assumes "loop step s = Some y" "I s"
    and "\<And>s u s'. I s \<Longrightarrow> step s = Ret (Inr u, s') \<Longrightarrow> I s'"
  shows "\<exists>t. I t \<and> (case y of Ret (r, s') \<Rightarrow> step t = Ret (Inl r, s') | Panic m \<Rightarrow> step t = Panic m)"
proof -
  have "\<forall>I. I s \<longrightarrow> (\<forall>s u s'. I s \<longrightarrow> step s = Ret (Inr u, s') \<longrightarrow> I s') \<longrightarrow>
      (\<exists>t. I t \<and> (case y of Ret (r, s') \<Rightarrow> step t = Ret (Inl r, s') | Panic m \<Rightarrow> step t = Panic m))"
    using assms(1)
  proof (rule loop.raw_induct [rotated], intro allI impI)
    fix rec step s y I
    assume IH: "\<And>step s y. rec step s = Some y \<Longrightarrow> \<forall>I. I s \<longrightarrow> (\<forall>s u s'. I s \<longrightarrow> step s = Ret (Inr u, s') \<longrightarrow> I s') \<longrightarrow>
        (\<exists>t. I t \<and> (case y of Ret (r, s') \<Rightarrow> step t = Ret (Inl r, s') | Panic m \<Rightarrow> step t = Panic m))"
      and one: "(case step s of Panic m \<Rightarrow> Some (Panic m)
        | Ret (res, s') \<Rightarrow> (case res of Inl r \<Rightarrow> Some (Ret (r, s')) | Inr _ \<Rightarrow> rec step s')) = Some y"
      and I: "I s" "\<forall>s u s'. I s \<longrightarrow> step s = Ret (Inr u, s') \<longrightarrow> I s'"
    show "\<exists>t. I t \<and> (case y of Ret (r, s') \<Rightarrow> step t = Ret (Inl r, s') | Panic m \<Rightarrow> step t = Panic m)"
      using one I IH [of step _ y] by (force split: outcome.splits prod.splits sum.splits)
  qed
  with assms(2,3) show ?thesis by blast
qed

definition handleConfiguration :: "world \<Rightarrow> cstate \<Rightarrow> (goerr option \<times> cstate) outcome option" where
  "handleConfiguration W s =
     (case SendClientSettings W (cl_settings (snd s)) s of
        Panic m \<Rightarrow> Some (Panic m)
      | Ret (Some e, s') \<Rightarrow> Some (Ret (Some (Wrapf ''failed to send client settings in config: '' e), s'))
      | Ret (None, s') \<Rightarrow> loop (config_step W) s')"

section \<open>Join\<close>

text \<open>How the login loop ends: with a result, or by going on with the configuration.\<close>

datatype login_exit = Return "goerr option" | Configuration

definition login_packet :: "world \<Rightarrow> Packet \<Rightarrow> login_exit iteration" where
  "login_packet W packet s =
     (case packet of
        ClientboundSetCompression threshold \<Rightarrow> cbind (cUpdate (SetCompression (sint threshold))) (\<lambda>_. again) s
      | ClientboundDisconnect reason \<Rightarrow>
          leave (Return (Some (Errorf (''disconnected by server: '' @ State_String (cl_State (snd s)) @ '', '' @ reason)))) s
      | ClientboundLoginSuccess _ \<Rightarrow>
          if cl_version (snd s) \<ge> V1_20_2 then
            ctry (cWritePacket W ServerboundLoginAcknowledged)
              (\<lambda>e. Inl (Return (Some (Wrapf ''failed to send login acknowledged: '' e))))
              (cbind (cUpdate (SetState StateConfiguration)) (\<lambda>_. leave Configuration)) s
          else
            cbind (cUpdate (SetState StatePlay)) (\<lambda>_.
            cbind (SendClientSettings W (cl_settings (snd s))) (\<lambda>err. leave (Return err))) s
      | ClientboundJoinGame \<Rightarrow> leave (Return None) s
      | ClientboundKeepAlive i \<Rightarrow>
          ctry (cWritePacket W (ServerboundKeepAlive i))
            (\<lambda>e. Inl (Return (Some (Wrapf ''failed to respond to keep alive during login: '' e)))) again s
      | _ \<Rightarrow> again s)"

definition login_step :: "world \<Rightarrow> login_exit iteration" where
  "login_step W =
     cbind (cReadPacket W) (\<lambda>res.
       case res of
         Inl e \<Rightarrow> leave (Return (Some (Wrapf ''error during login sequence: '' e)))
       | Inr packet \<Rightarrow> login_packet W packet)"

definition start_login :: "world \<Rightarrow> goerr option cmd" where
  "start_login W =
     ctry (Connect W) Some
    (ctry (SendHandshake W StateLogin) (\<lambda>e. Some (Wrapf ''handshake failed: '' e))
    (cbind (cUpdate (SetState StateLogin)) (\<lambda>_ s.
     ctry (SendLogin W (cl_username (snd s)) (cl_uniqueId (snd s)))
       (\<lambda>e. Some (Wrapf ''handshake failed: '' e)) (cret None) s)))"

definition Join :: "world \<Rightarrow> cstate \<Rightarrow> (goerr option \<times> cstate) outcome option" where
  "Join W s =
     (case start_login W s of
        Panic m \<Rightarrow> Some (Panic m)
      | Ret (Some e, s') \<Rightarrow> Some (Ret (Some e, s'))
      | Ret (None, s') \<Rightarrow>
          (case loop (login_step W) s' of
             None \<Rightarrow> None
           | Some (Panic m) \<Rightarrow> Some (Panic m)
           | Some (Ret (Return err, s'')) \<Rightarrow> Some (Ret (err, s''))
           | Some (Ret (Configuration, s'')) \<Rightarrow> handleConfiguration W s''))"

end
