(* ===== verification/Client_Facts.thy ===== *)
theory Client_Facts
  imports Client
begin

text \<open>
  Facts about the client's commands: what one read or write does to the client, when the
  loops end, and the packets a run receives and sends.
\<close>

section \<open>Reads do not depend on what was written\<close>

lemma set_out_set_out [simp]: "set_out w (set_out w' c) = set_out w c"
  by (simp add: set_out_def)

lemma set_out_same [simp]: "set_out (nc_out (c_Conn c)) c = c"
  by (simp add: set_out_def)

lemma set_out_set_in: "set_out w (set_in r c) = set_in r (set_out w c)"
  by (simp add: set_out_def set_in_def)

lemma set_out_zlib: "set_out w (c\<lparr>c_zlibReader := z\<rparr>) = (set_out w c)\<lparr>c_zlibReader := z\<rparr>"
  by (simp add: set_out_def)

lemma read_frame_set_out: "read_frame (set_out w c) = map_prod id (set_out w) (read_frame c)"
  by (auto simp: read_frame_def set_out_set_in split: prod.split option.split)

lemma open_data_set_out: "open_data E buf (set_out w c) = map_prod id (set_out w) (open_data E buf c)"
  by (cases "c_zlibReader c")
    (auto simp: open_data_def set_out_zlib Let_def split: prod.split option.split sum.split)

lemma NewPacket_registry_ok:
  "registry_ok reg \<Longrightarrow> fst (NewPacket reg v s d i) = fst (NewPacket protocolRegistry v s d i)"
  by (simp add: NewPacket_eq)

lemma ReadPacket_transfer:
  assumes "registry_ok reg" "ReadPacket E reg (set_out w c) = Ret (res, reg', c')"
  shows "\<exists>c1 reg1. c' = set_out w c1 \<and> ReadPacket E protocolRegistry c = Ret (res, reg1, c1)"
proof -
  obtain f c1 where f: "read_frame c = (f, c1)" by (metis surj_pair)
  show ?thesis
  proof (cases f)
    case (Inl e)
    with assms(2) f show ?thesis by (auto simp: ReadPacket_def read_frame_set_out)
  next
    case buf: (Inr buf)
    obtain d c2 where d: "open_data E buf c1 = (d, c2)" by (metis surj_pair)
    show ?thesis
    proof (cases d)
      case (Inl e)
      with assms(2) f buf d show ?thesis by (auto simp: ReadPacket_def read_frame_set_out open_data_set_out)
    next
      case data: (Inr r)
      obtain i err r' where i: "ReadVarInt r = (i, err, r')" by (metis prod_cases3)
      show ?thesis
      proof (cases err)
        case (Some e)
        with assms(2) f buf d data i show ?thesis
          by (auto simp: ReadPacket_def read_frame_set_out open_data_set_out)
      next
        case None
        obtain np ra where a: "NewPacket reg (c_version c) (c_state c) DirectionClientbound i = (np, ra)"
          by (metis surj_pair)
        then obtain rb where b: "NewPacket protocolRegistry (c_version c) (c_state c) DirectionClientbound i = (np, rb)"
          using NewPacket_registry_ok [OF assms(1)] by (metis fst_conv prod.collapse)
        note simps = ReadPacket_def read_frame_set_out open_data_set_out f buf d data i None a b
        show ?thesis
        proof (cases np)
          case (Inl e)
          then show ?thesis using assms(2) by (auto simp: simps)
        next
          case (Inr p)
          then obtain p' err' r'' where dec: "Decode E (c_version c) p r' = Ret (p', err', r'')"
            using assms(2) by (auto simp: simps obind_Ret_iff)
          show ?thesis using assms(2) Inr dec by (cases err') (auto simp: simps)
        qed
      qed
    qed
  qed
qed

section \<open>Live clients\<close>

text \<open>A client with a connection and a registry that answers as generated.\<close>

definition live :: "cstate \<Rightarrow> bool" where
  "live s \<longleftrightarrow> registry_ok (fst s) \<and> cl_Conn (snd s) \<noteq> None"

text \<open>The input still to come.\<close>

definition pending :: "cstate \<Rightarrow> nat" where
  "pending s = (case cl_Conn (snd s) of Some c \<Rightarrow> length (rd_data (nc_in (c_Conn c))) | None \<Rightarrow> 0)"

lemma live_conn: "live s \<Longrightarrow> \<exists>reg cl c. s = (reg, cl) \<and> registry_ok reg \<and> cl_Conn cl = Some c"
  by (cases s) (auto simp: live_def)

text \<open>What an error of the network is not: the sentinel of the protocol package.\<close>

definition sane :: "cstate \<Rightarrow> bool" where
  "sane s \<longleftrightarrow> live s \<and>
     (\<forall>c. cl_Conn (snd s) = Some c \<longrightarrow> \<not> errors_Is (rd_end (nc_in (c_Conn c))) ErrUnknownPacket)"

lemma cWritePacket_live:
  assumes "live s"
  shows "\<exists>err reg' w c. cl_Conn (snd s) = Some c \<and> registry_ok reg' \<and>
     cWritePacket W p s = Ret (err, reg', (snd s)\<lparr>cl_Conn := Some (set_out w c)\<rparr>)"
proof -
  obtain reg cl c where s: "s = (reg, cl)" "registry_ok reg" "cl_Conn cl = Some c"
    using live_conn [OF assms] by blast
  obtain err reg' w where "WritePacket (w_env W) reg p c = Ret (err, reg', set_out w c)" "registry_ok reg'"
    using WritePacket_Ret [OF s(2)] by blast
  with s show ?thesis by (auto simp: cWritePacket_def)
qed

lemma cReadPacket_result:
  assumes "live s" "cReadPacket W s = Ret (res, s')"
  shows "\<exists>c c' reg'. cl_Conn (snd s) = Some c \<and> ReadPacket (w_env W) (fst s) c = Ret (res, reg', c') \<and>
     s' = (reg', (snd s)\<lparr>cl_Conn := Some c'\<rparr>) \<and> registry_ok reg'"
proof -
  obtain reg cl c where s: "s = (reg, cl)" "registry_ok reg" "cl_Conn cl = Some c"
    using live_conn [OF assms(1)] by blast
  with assms(2) obtain reg' c' where r: "ReadPacket (w_env W) reg c = Ret (res, reg', c')"
      "s' = (reg', cl\<lparr>cl_Conn := Some c'\<rparr>)"
    by (auto simp: cReadPacket_def obind_Ret_iff)
  with s ReadPacket_registry [OF r(1) s(2)] show ?thesis by auto
qed

text \<open>After a command: the connection is still there, with the same input, closing behaviour
  and version, and of the client only the connection has changed.\<close>

definition rest_of :: "Client \<Rightarrow> Client" where
  "rest_of cl = cl\<lparr>cl_Conn := None\<rparr>"

definition intake :: "Client \<Rightarrow> (reader \<times> Version) option" where
  "intake cl = map_option (\<lambda>c. (nc_in (c_Conn c), c_version c)) (cl_Conn cl)"

lemma rest_of_Conn [simp]: "rest_of (cl\<lparr>cl_Conn := x\<rparr>) = rest_of cl"
  by (simp add: rest_of_def)

lemma rest_of_fields:
  assumes "rest_of cl = rest_of cl'"
  shows "cl_version cl = cl_version cl'" "cl_settings cl = cl_settings cl'" "cl_brand cl = cl_brand cl'"
    "cl_username cl = cl_username cl'" "cl_uniqueId cl = cl_uniqueId cl'" "cl_addr cl = cl_addr cl'"
  using assms unfolding rest_of_def
  by (metis Client.ext_inject Client.surjective Client.update_convs(1))+

lemma intake_Conn [simp]:
  "intake (cl\<lparr>cl_Conn := Some c\<rparr>) = Some (nc_in (c_Conn c), c_version c)"
  by (simp add: intake_def)

lemma pending_intake: "pending s = (case intake (snd s) of Some (r, v) \<Rightarrow> length (rd_data r) | None \<Rightarrow> 0)"
  by (simp add: pending_def intake_def split: option.split)

lemma sane_intake:
  "sane s \<longleftrightarrow> live s \<and> (\<forall>r v. intake (snd s) = Some (r, v) \<longrightarrow> \<not> errors_Is (rd_end r) ErrUnknownPacket)"
  by (auto simp: sane_def intake_def)

definition quiet :: "cstate \<Rightarrow> cstate \<Rightarrow> bool" where
  "quiet s s' \<longleftrightarrow> live s' \<and> rest_of (snd s') = rest_of (snd s) \<and> intake (snd s') = intake (snd s)"

lemma quiet_refl [simp]: "live s \<Longrightarrow> quiet s s"
  by (simp add: quiet_def)

lemma quiet_trans [trans]:
  assumes "quiet s s1" "quiet s1 s2"
  shows "quiet s s2"
  using assms by (simp add: quiet_def)

lemma quiet_live: "quiet s s' \<Longrightarrow> live s'"
  by (simp add: quiet_def)

lemma quiet_pending: "live s \<Longrightarrow> quiet s s' \<Longrightarrow> pending s' = pending s"
  by (simp add: quiet_def pending_intake)

lemma quiet_sane: "sane s \<Longrightarrow> quiet s s' \<Longrightarrow> sane s'"
  by (simp add: quiet_def sane_intake)

text \<open>A command that does not read: from a live state it returns, and its step is quiet.\<close>

definition calm :: "cstate \<Rightarrow> ('a \<times> cstate) outcome \<Rightarrow> bool" where
  "calm s y \<longleftrightarrow> (\<exists>x s'. y = Ret (x, s') \<and> quiet s s')"

definition writes :: "'a cmd \<Rightarrow> bool" where
  "writes m \<longleftrightarrow> (\<forall>s. live s \<longrightarrow> calm s (m s))"

named_theorems writes_intros \<open>commands that only write\<close>

lemma writesD: "writes m \<Longrightarrow> live s \<Longrightarrow> \<exists>x s'. m s = Ret (x, s') \<and> quiet s s'"
  unfolding writes_def calm_def by blast

lemma writes_calm: "writes m \<Longrightarrow> live s \<Longrightarrow> calm s (m s)"
  unfolding writes_def by blast

lemma writes_quiet: "writes m \<Longrightarrow> live s \<Longrightarrow> m s = Ret (x, s') \<Longrightarrow> quiet s s'"
  unfolding writes_def calm_def by fastforce

lemma writes_cWritePacket [writes_intros]: "writes (cWritePacket W p)"
proof -
  have "\<exists>x s'. cWritePacket W p s = Ret (x, s') \<and> quiet s s'" if "live s" for s
    using cWritePacket_live [OF that, of W p] by (auto simp: quiet_def live_def intake_def)
  then show ?thesis unfolding writes_def calm_def by blast
qed

lemma writes_cUpdate [writes_intros]:
  "(\<And>c. nc_in (c_Conn (f c)) = nc_in (c_Conn c) \<and> c_version (f c) = c_version c) \<Longrightarrow> writes (cUpdate f)"
  by (auto simp: writes_def calm_def cUpdate_def quiet_def live_def intake_def)

lemma writes_cret [writes_intros]: "writes (cret x)"
  by (simp add: writes_def calm_def cret_def)

lemma writes_cbind [writes_intros]:
  assumes "writes m" "\<And>x. writes (k x)"
  shows "writes (cbind m k)"
  unfolding writes_def calm_def
proof (intro allI impI)
  fix s assume "live s"
  then obtain x s1 where 1: "m s = Ret (x, s1)" "quiet s s1" using assms(1) by (meson writesD)
  then obtain y s2 where "k x s1 = Ret (y, s2)" "quiet s1 s2"
    using assms(2) [of x] quiet_live by (meson writesD)
  with 1 show "\<exists>x s'. cbind m k s = Ret (x, s') \<and> quiet s s'"
    by (auto simp: cbind_def intro: quiet_trans)
qed

lemma writes_ctry [writes_intros]: "writes m \<Longrightarrow> writes k \<Longrightarrow> writes (ctry m h k)"
  unfolding ctry_def by (rule writes_cbind) (auto simp: writes_cret split: option.split)

lemma writes_connected [writes_intros]: "writes k \<Longrightarrow> writes (connected h k)"
  by (auto simp: writes_def connected_def live_def)

lemma writes_If [writes_intros]: "writes f \<Longrightarrow> writes g \<Longrightarrow> writes (if b then f else g)"
  by simp

lemma writes_again [writes_intros]: "writes again" "writes (leave x)"
  unfolding again_def leave_def by (rule writes_cret)+

lemma SetState_selectors [simp]:
  "c_Conn (SetState st c) = c_Conn c" "c_version (SetState st c) = c_version c" "c_state (SetState st c) = st"
  "c_compressionThreshold (SetState st c) = c_compressionThreshold c" "c_zlibReader (SetState st c) = c_zlibReader c"
  by (simp_all add: SetState_def)

lemma SetCompression_selectors [simp]:
  "c_Conn (SetCompression t c) = c_Conn c" "c_version (SetCompression t c) = c_version c"
  "c_state (SetCompression t c) = c_state c" "c_compressionThreshold (SetCompression t c) = t"
  "c_zlibReader (SetCompression t c) = c_zlibReader c"
  by (simp_all add: SetCompression_def)

lemma writes_send_or [writes_intros]: "writes k \<Longrightarrow> writes (send_or W msg p k)"
  unfolding send_or_def by (intro writes_intros)

lemma writes_SetState [writes_intros]: "writes (cUpdate (SetState st))" "writes (cUpdate (SetCompression t))"
  by (rule writes_cUpdate, simp)+

lemma writes_SendClientSettings [writes_intros]: "writes (SendClientSettings W settings)"
  unfolding SendClientSettings_def by (intro writes_intros)

lemma brand_written [simp]: "fst (WriteString brand new_buffer) = None"
  by (simp add: wire_simps)

lemma writes_config_packet: "writes (config_packet W p)"
proof -
  have "calm s (config_packet W p s)"
    if "live s" "cl_brand (snd s) = b" "cl_version (snd s) = v" for s b v
    by (insert that(2,3), cases p; simp add: config_packet_def Let_def;
        (intro conjI impI allI)?; rule writes_calm [OF _ that(1)]; intro writes_intros)
  then show ?thesis unfolding writes_def by blast
qed

lemma writes_login_packet: "writes (login_packet W p)"
proof -
  have "calm s (login_packet W p s)"
    if "live s" "cl_State (snd s) = st" "cl_version (snd s) = v" "cl_settings (snd s) = set" for s st v set
    by (insert that(2,3,4), cases p; simp add: login_packet_def; (intro conjI impI allI)?; rule writes_calm [OF _ that(1)]; intro writes_intros)
  then show ?thesis unfolding writes_def by blast
qed

section \<open>Iterations make progress\<close>

text \<open>A read that delivers a packet, or an unknown one, has taken input off the stream.\<close>

lemma cReadPacket_progress:
  assumes "live s" "cReadPacket W s = Ret (res, s')"
    and "\<And>e. res = Inl e \<Longrightarrow> sane s \<and> errors_Is e ErrUnknownPacket"
  shows "live s' \<and> pending s' < pending s \<and> (sane s \<longrightarrow> sane s') \<and> rest_of (snd s') = rest_of (snd s)"
proof -
  obtain c c' reg' where c: "cl_Conn (snd s) = Some c" "ReadPacket (w_env W) (fst s) c = Ret (res, reg', c')"
      "s' = (reg', (snd s)\<lparr>cl_Conn := Some c'\<rparr>)" "registry_ok reg'"
    using cReadPacket_result [OF assms(1,2)] by blast
  obtain z where c': "c' = (set_in (next_stream (nc_in (c_Conn c))) c)\<lparr>c_zlibReader := z\<rparr>"
    using ReadPacket_conn' [OF c(2)] by blast
  have "rd_data (nc_in (c_Conn c)) \<noteq> []"
  proof
    assume "rd_data (nc_in (c_Conn c)) = []"
    from ReadPacket_empty [OF this, of "w_env W" "fst s"] c(2)
    have "res = Inl (Wrapf ''read packet length: '' (rd_end (nc_in (c_Conn c))))" by auto
    with assms(3) c(1) show False by (auto simp: sane_def)
  qed
  with c c' show ?thesis
    by (auto simp: live_def pending_def sane_def next_stream_shorter)
qed

lemma config_step_again:
  assumes "sane s" "config_step W s = Ret (Inr u, s')"
  shows "sane s' \<and> pending s' < pending s"
proof -
  have live: "live s" using assms(1) by (simp add: sane_def)
  obtain res s1 where r: "cReadPacket W s = Ret (res, s1)"
    using assms(2) by (auto simp: config_step_def cbind_def obind_Ret_iff)
  show ?thesis
  proof (cases res)
    case (Inl e)
    then have "errors_Is e ErrUnknownPacket" "s' = s1"
      using assms(2) r by (auto simp: config_step_def cbind_def leave_def again_def cret_def split: if_splits)
    with cReadPacket_progress [OF live r] assms(1) Inl show ?thesis by auto
  next
    case (Inr p)
    then have p: "config_packet W p s1 = Ret (Inr u, s')"
      using assms(2) r by (simp add: config_step_def cbind_def)
    have s1: "live s1" "pending s1 < pending s" "sane s1"
      using cReadPacket_progress [OF live r] assms(1) Inr by auto
    have q: "quiet s1 s'" by (rule writes_quiet [OF writes_config_packet s1(1) p])
    show ?thesis using s1 quiet_pending [OF s1(1) q] quiet_sane [OF s1(3) q] by simp
  qed
qed

lemma login_step_again:
  assumes "live s" "login_step W s = Ret (Inr u, s')"
  shows "live s' \<and> pending s' < pending s \<and> (sane s \<longrightarrow> sane s')"
proof -
  obtain res s1 where r: "cReadPacket W s = Ret (res, s1)"
    using assms(2) by (auto simp: login_step_def cbind_def obind_Ret_iff)
  obtain p where p: "res = Inr p" "login_packet W p s1 = Ret (Inr u, s')"
    using assms(2) r by (cases res) (auto simp: login_step_def cbind_def leave_def cret_def)
  have s1: "live s1" "pending s1 < pending s" "sane s \<longrightarrow> sane s1"
    using cReadPacket_progress [OF assms(1) r] p(1) by auto
  have q: "quiet s1 s'" by (rule writes_quiet [OF writes_login_packet s1(1) p(2)])
  show ?thesis using s1 quiet_pending [OF s1(1) q] quiet_sane [OF _ q] quiet_live [OF q] by simp
qed

lemma config_loop_returns: "sane s \<Longrightarrow> \<exists>y. loop (config_step W) s = Some y"
  by (rule loop_terminates [where I = sane and f = pending]) (use config_step_again in blast)+

lemma login_loop_returns: "live s \<Longrightarrow> \<exists>y. loop (login_step W) s = Some y"
  by (rule loop_terminates [where I = live and f = pending]) (use login_step_again in blast)+

lemma handleConfiguration_returns: "sane s \<Longrightarrow> \<exists>y. handleConfiguration W s = Some y"
proof -
  assume sane: "sane s"
  then have "live s" by (simp add: sane_def)
  then obtain err s1 where s1: "SendClientSettings W (cl_settings (snd s)) s = Ret (err, s1)" "quiet s s1"
    using writesD [OF writes_SendClientSettings] by blast
  then have "sane s1" using sane quiet_sane by blast
  with s1 show ?thesis using config_loop_returns by (cases err) (auto simp: handleConfiguration_def)
qed

section \<open>States of the connection\<close>

lemma cl_State_Conn [simp]: "cl_State (cl\<lparr>cl_Conn := Some c\<rparr>) = c_state c"
  by (simp add: cl_State_def)

lemma cWritePacket_state:
  assumes "live s" "cWritePacket W p s = Ret (err, s')"
  shows "cl_State (snd s') = cl_State (snd s)"
  using cWritePacket_live [OF assms(1), of W p] assms(2) by (auto simp: cl_State_def)

lemma SendClientSettings_state:
  assumes "live s" "SendClientSettings W settings s = Ret (err, s')"
  shows "cl_State (snd s') = cl_State (snd s)"
proof -
  have "cl_Conn (snd s) \<noteq> None" using assms(1) by (simp add: live_def)
  with assms(2) have "cWritePacket W (ServerboundClientSettings settings) s = Ret (err, s')"
    by (simp add: SendClientSettings_def connected_def)
  then show ?thesis by (rule cWritePacket_state [OF assms(1)])
qed

lemma cUpdate_live:
  "live s \<Longrightarrow> \<exists>c. cl_Conn (snd s) = Some c \<and> cUpdate f s = Ret ((), fst s, (snd s)\<lparr>cl_Conn := Some (f c)\<rparr>)"
  by (auto simp: cUpdate_def live_def)

lemma cReadPacket_state:
  assumes "live s" "cReadPacket W s = Ret (res, s')"
  shows "cl_State (snd s') = cl_State (snd s) \<and>
     (\<forall>p. res = Inr p \<longrightarrow> reflect_TypeOf p \<in> set (types_in (cl_State (snd s))))"
proof -
  obtain c c' reg' where c: "cl_Conn (snd s) = Some c" "ReadPacket (w_env W) (fst s) c = Ret (res, reg', c')"
      "s' = (reg', (snd s)\<lparr>cl_Conn := Some c'\<rparr>)"
    using cReadPacket_result [OF assms] by blast
  have "registry_ok (fst s)" using assms(1) by (simp add: live_def)
  with c ReadPacket_type' [of "fst s" "w_env W" c] ReadPacket_conn' [OF c(2)] show ?thesis
    by (auto simp: cl_State_def)
qed

lemma cReadPacket_panic:
  assumes "live s" "cReadPacket W s = Panic m"
  shows "m = makeslice_panic \<and> cl_State (snd s) \<in> {StatePlay, StateConfiguration}"
proof -
  obtain reg cl c where s: "s = (reg, cl)" "registry_ok reg" "cl_Conn cl = Some c"
    using live_conn [OF assms(1)] by blast
  with assms(2) have "ReadPacket (w_env W) reg c = Panic m" by (auto simp: cReadPacket_def obind_Panic_iff)
  from ReadPacket_panic' [OF s(2) this] s show ?thesis by (simp add: cl_State_def)
qed

text \<open>The packets of the login state.\<close>

lemma login_types:
  "reflect_TypeOf p \<in> set (types_in StateLogin) \<Longrightarrow>
     (\<exists>t. p = ClientboundSetCompression t) \<or> (\<exists>r. p = ClientboundDisconnect r) \<or>
     (\<exists>q. p = ClientboundLoginSuccess q) \<or> (\<exists>k. p = ClientboundCookieRequest k)"
  by (cases p) (simp_all add: types_in_def clientbound_places_def)

definition logged_in :: "login_exit + unit \<Rightarrow> cstate \<Rightarrow> bool" where
  "logged_in res s \<longleftrightarrow> live s \<and>
     (case res of
        Inr _ \<Rightarrow> cl_State (snd s) = StateLogin
      | Inl Configuration \<Rightarrow> cl_State (snd s) = StateConfiguration \<and> cl_version (snd s) \<ge> V1_20_2
      | Inl (Return None) \<Rightarrow> cl_State (snd s) = StatePlay \<and> cl_version (snd s) < V1_20_2
      | Inl (Return (Some _)) \<Rightarrow> True)"

lemma live_Conn [simp]: "live (reg, cl\<lparr>cl_Conn := Some c\<rparr>) \<longleftrightarrow> registry_ok reg"
  by (simp add: live_def)

lemma login_packet_result:
  assumes "live s" "cl_State (snd s) = StateLogin" "reflect_TypeOf p \<in> set (types_in StateLogin)"
  shows "\<exists>res s'. login_packet W p s = Ret (res, s') \<and> logged_in res s'"
proof -
  obtain c where c: "cl_Conn (snd s) = Some c" and reg: "registry_ok (fst s)" using assms(1) by (auto simp: live_def)
  have st: "c_state c = StateLogin" using assms(2) c by (simp add: cl_State_def)
  consider (compression) t where "p = ClientboundSetCompression t" | (disconnect) r where "p = ClientboundDisconnect r"
    | (success) q where "p = ClientboundLoginSuccess q" | (cookie) k where "p = ClientboundCookieRequest k"
    using login_types [OF assms(3)] by blast
  then show ?thesis
  proof cases
    case compression
    then show ?thesis using c reg st
      by (auto simp: login_packet_def cbind_def cUpdate_def again_def cret_def logged_in_def)
  next
    case disconnect
    then show ?thesis using assms(1) by (auto simp: login_packet_def leave_def cret_def logged_in_def)
  next
    case cookie
    then show ?thesis using assms(1,2) by (auto simp: login_packet_def again_def cret_def logged_in_def)
  next
    case success
    show ?thesis
    proof (cases "cl_version (snd s) \<ge> V1_20_2")
      case True
      obtain err reg' w where "cWritePacket W ServerboundLoginAcknowledged s =
          Ret (err, reg', (snd s)\<lparr>cl_Conn := Some (set_out w c)\<rparr>)" "registry_ok reg'"
        using cWritePacket_live [OF assms(1)] c by force
      with success True show ?thesis
        by (cases err) (auto simp: login_packet_def ctry_def cbind_def cUpdate_def leave_def cret_def logged_in_def)
    next
      case False
      let ?s = "(fst s, (snd s)\<lparr>cl_Conn := Some (SetState StatePlay c)\<rparr>)"
      have live: "live ?s" using reg by simp
      obtain err reg' w where "cWritePacket W (ServerboundClientSettings (cl_settings (snd s))) ?s =
          Ret (err, reg', (snd s)\<lparr>cl_Conn := Some (set_out w (SetState StatePlay c))\<rparr>)" "registry_ok reg'"
        using cWritePacket_live [OF live, of W "ServerboundClientSettings (cl_settings (snd s))"] by force
      with success False c show ?thesis
        by (cases err)
          (auto simp: login_packet_def cbind_def cUpdate_def SendClientSettings_def connected_def leave_def cret_def logged_in_def)
    qed
  qed
qed

lemma login_step_result:
  assumes "live s" "cl_State (snd s) = StateLogin"
  shows "\<exists>res s'. login_step W s = Ret (res, s') \<and> logged_in res s'"
proof (cases "cReadPacket W s")
  case (Panic m)
  then show ?thesis using cReadPacket_panic [OF assms(1)] assms(2) by fastforce
next
  case (Ret x)
  obtain res s1 where r: "cReadPacket W s = Ret (res, s1)" using Ret by (cases x) auto
  have s1: "live s1" using cReadPacket_result [OF assms(1) r] by (auto simp: live_def)
  note st = cReadPacket_state [OF assms(1) r]
  show ?thesis
  proof (cases res)
    case (Inl e)
    then show ?thesis using r s1 by (auto simp: login_step_def cbind_def leave_def cret_def logged_in_def)
  next
    case (Inr p)
    then show ?thesis using login_packet_result [OF s1, of p W] st assms(2) r by (auto simp: login_step_def cbind_def)
  qed
qed

section \<open>The configuration\<close>

lemma cWritePacket_ret:
  assumes "live s" "cl_Conn (snd s) = Some c"
  obtains err reg' w where "registry_ok reg'"
    "cWritePacket W p s = Ret (err, reg', (snd s)\<lparr>cl_Conn := Some (set_out w c)\<rparr>)"
  using cWritePacket_live [OF assms(1), of W p] assms(2) by auto

lemma send_or_not_again:
  "send_or W msg p again s = Ret (Inl None, s') \<longleftrightarrow> False"
  by (auto simp: send_or_def ctry_def cbind_def obind_Ret_iff again_def cret_def split: option.splits)

lemma config_packet_finish:
  assumes "live s" "config_packet W p s = Ret (Inl None, s')"
  shows "p = ClientboundFinishConfiguration \<and> cl_State (snd s') = StatePlay"
proof -
  have play: "cl_State (snd t') = StatePlay"
    if "cbind (cUpdate (SetState StatePlay)) (\<lambda>_. leave None) t = Ret (Inl (None :: goerr option), t')" for t t'
    using that by (auto simp: cbind_def obind_Ret_iff cUpdate_def leave_def cret_def split: option.splits)
  have send: "cl_State (snd t') = StatePlay"
    if "send_or W msg q (cbind (cUpdate (SetState StatePlay)) (\<lambda>_. leave None)) t = Ret (Inl None, t')" for msg q t t'
    using that
    by (auto simp: send_or_def ctry_def cbind_def [of "cWritePacket W q"] obind_Ret_iff cret_def
        split: option.splits dest!: play)
  have twice: "\<not> send_or W msg q (send_or W msg' q' again) t = Ret (Inl None, t')" for msg msg' q q' t t'
    using send_or_not_again
    by (auto simp: send_or_def [of W msg] ctry_def cbind_def obind_Ret_iff cret_def split: option.splits)
  have no: "again t \<noteq> Ret (Inl None, t')" "leave (Some e) t \<noteq> Ret (Inl None, t')" for t t' and e :: goerr
    by (simp_all add: again_def leave_def cret_def)
  show ?thesis
    using assms(2)
    by (cases p)
      (auto simp: config_packet_def Let_def send_or_not_again twice no split: if_splits option.splits dest!: send play)
qed

lemma config_step_finish:
  assumes "live s" "config_step W s = Ret (Inl None, s')"
  shows "live s' \<and> cl_State (snd s') = StatePlay \<and> rest_of (snd s') = rest_of (snd s)"
proof -
  obtain res s1 where r: "cReadPacket W s = Ret (res, s1)"
    using assms(2) by (auto simp: config_step_def cbind_def obind_Ret_iff)
  obtain p where p: "res = Inr p" "config_packet W p s1 = Ret (Inl None, s')"
    using assms(2) r by (cases res) (auto simp: config_step_def cbind_def leave_def again_def cret_def split: if_splits)
  have s1: "live s1" "rest_of (snd s1) = rest_of (snd s)" using cReadPacket_progress [OF assms(1) r] p(1) by auto
  have q: "quiet s1 s'" by (rule writes_quiet [OF writes_config_packet s1(1) p(2)])
  show ?thesis using s1 q config_packet_finish [OF s1(1) p(2)] by (simp add: quiet_def)
qed

lemma config_step_panic:
  assumes "live s" "config_step W s = Panic m"
  shows "m = makeslice_panic"
proof (cases "cReadPacket W s")
  case (Panic e)
  with assms show ?thesis using cReadPacket_panic [OF assms(1) Panic] by (simp add: config_step_def cbind_def)
next
  case (Ret x)
  obtain res s1 where r: "cReadPacket W s = Ret (res, s1)" using Ret by (cases x) auto
  show ?thesis
  proof (cases res)
    case (Inl e)
    with assms r show ?thesis by (auto simp: config_step_def cbind_def leave_def again_def cret_def split: if_splits)
  next
    case (Inr p)
    have "live s1" using cReadPacket_progress [OF assms(1) r] Inr by auto
    then show ?thesis
      using assms(2) r Inr writes_calm [OF writes_config_packet, of s1 W p]
      by (auto simp: config_step_def cbind_def calm_def)
  qed
qed

lemma config_step_live: 
  assumes "live s" "config_step W s = Ret (Inr u, s')"
  shows "live s' \<and> rest_of (snd s') = rest_of (snd s)"
proof -
  obtain res s1 where r: "cReadPacket W s = Ret (res, s1)"
    using assms(2) by (auto simp: config_step_def cbind_def obind_Ret_iff)
  obtain c c' reg' where c: "s1 = (reg', (snd s)\<lparr>cl_Conn := Some c'\<rparr>)" "registry_ok reg'"
    using cReadPacket_result [OF assms(1) r] by blast
  show ?thesis
  proof (cases res)
    case (Inl e)
    with assms r c show ?thesis by (auto simp: config_step_def cbind_def leave_def again_def cret_def split: if_splits)
  next
    case (Inr p)
    then have "quiet s1 s'" using assms(2) r c
      by (intro writes_quiet [OF writes_config_packet]) (auto simp: config_step_def cbind_def)
    with c show ?thesis by (simp add: quiet_def)
  qed
qed

lemma handleConfiguration_result:
  assumes "live s" "handleConfiguration W s = Some y"
  shows "case y of Panic m \<Rightarrow> m = makeslice_panic
    | Ret (err, s') \<Rightarrow> err = None \<longrightarrow> live s' \<and> cl_State (snd s') = StatePlay \<and> rest_of (snd s') = rest_of (snd s)"
proof -
  obtain err s1 where s1: "SendClientSettings W (cl_settings (snd s)) s = Ret (err, s1)" "quiet s s1"
    using writesD [OF writes_SendClientSettings assms(1)] by blast
  let ?I = "\<lambda>t. live t \<and> rest_of (snd t) = rest_of (snd s)"
  show ?thesis
  proof (cases err)
    case (Some e)
    with s1 assms(2) show ?thesis by (auto simp: handleConfiguration_def)
  next
    case None
    with s1 assms(2) have l: "loop (config_step W) s1 = Some y" by (simp add: handleConfiguration_def)
    have I: "?I s1" using s1(2) by (simp add: quiet_def)
    obtain t where t: "?I t" "case y of Ret (r, s') \<Rightarrow> config_step W t = Ret (Inl r, s') | Panic m \<Rightarrow> config_step W t = Panic m"
      using loop_invariant [where I = ?I, OF l I] config_step_live by (smt (verit))
    then show ?thesis
      using config_step_finish [of t W] config_step_panic [of t W] by (auto split: outcome.splits)
  qed
qed

end
