(* ===== verification/Client_Trace.thy ===== *)
theory Client_Trace
  imports Client_Facts
begin

text \<open>
  What a client sends and receives, as packets: the frames behind successful writes, the
  packets in the incoming stream, and the configuration as an exchange of packets.
\<close>

section \<open>Packets sent\<close>

definition packet_frame :: "env \<Rightarrow> Version \<Rightarrow> State \<Rightarrow> int \<Rightarrow> Packet \<Rightarrow> bytes" where
  "packet_frame E v st threshold p =
     frame_bytes E threshold (fst (fst (GetPacketID protocolRegistry v st DirectionServerbound p)))
       (case Encode E p v new_buffer of Ret (_, b) \<Rightarrow> wr_out b | Panic _ \<Rightarrow> [])"

definition packet_frames :: "env \<Rightarrow> Conn \<Rightarrow> Packet list \<Rightarrow> bytes" where
  "packet_frames E c ps = concat (map (packet_frame E (c_version c) (c_state c) (c_compressionThreshold c)) ps)"

lemma packet_frames_simps [simp]:
  "packet_frames E c [] = []"
  "packet_frames E c (p # ps) =
     packet_frame E (c_version c) (c_state c) (c_compressionThreshold c) p @ packet_frames E c ps"
  "packet_frames E c (ps @ qs) = packet_frames E c ps @ packet_frames E c qs"
  "packet_frames E (set_out w c) = packet_frames E c"
  by (simp_all add: packet_frames_def fun_eq_iff)

lemma GetPacketID_registry_ok:
  "registry_ok reg \<Longrightarrow> fst (GetPacketID reg v s d p) = fst (GetPacketID protocolRegistry v s d p)"
  by (simp add: GetPacketID_eq)

text \<open>From \<open>s\<close> the packets \<open>ps\<close> have been written, and nothing else has happened.\<close>

definition sent :: "world \<Rightarrow> Packet list \<Rightarrow> cstate \<Rightarrow> cstate \<Rightarrow> bool" where
  "sent W ps s s' \<longleftrightarrow> registry_ok (fst s') \<and>
     (\<exists>c w. cl_Conn (snd s) = Some c \<and> snd s' = (snd s)\<lparr>cl_Conn := Some (set_out w c)\<rparr> \<and>
        wr_out w = wr_out (nc_out (c_Conn c)) @ packet_frames (w_env W) c ps)"

lemma sent_live: "sent W ps s s' \<Longrightarrow> live s'"
  by (auto simp: sent_def live_def)

lemma sent_nil: "live s \<Longrightarrow> sent W [] s s"
proof -
  assume "live s"
  then obtain reg cl c where s: "s = (reg, cl)" "registry_ok reg" "cl_Conn cl = Some c" using live_conn by blast
  have "cl\<lparr>cl_Conn := Some (set_out (nc_out (c_Conn c)) c)\<rparr> = cl" using s(3) by (cases cl) simp
  with s show "sent W [] s s"
    unfolding sent_def by (intro conjI exI [of _ c] exI [of _ "nc_out (c_Conn c)"]) simp_all
qed

lemma sent_append:
  assumes "sent W ps s s1" "sent W qs s1 s2"
  shows "sent W (ps @ qs) s s2"
proof -
  obtain c w where 1: "cl_Conn (snd s) = Some c" "snd s1 = (snd s)\<lparr>cl_Conn := Some (set_out w c)\<rparr>"
      "wr_out w = wr_out (nc_out (c_Conn c)) @ packet_frames (w_env W) c ps"
    using assms(1) by (auto simp: sent_def)
  obtain c1 w1 where 2: "cl_Conn (snd s1) = Some c1" "snd s2 = (snd s1)\<lparr>cl_Conn := Some (set_out w1 c1)\<rparr>"
      "wr_out w1 = wr_out (nc_out (c_Conn c1)) @ packet_frames (w_env W) c1 qs" "registry_ok (fst s2)"
    using assms(2) by (auto simp: sent_def)
  have c1: "c1 = set_out w c" using 1(2) 2(1) by simp
  show ?thesis unfolding sent_def
    using 1 2 by (intro conjI exI [of _ c] exI [of _ w1]) (simp_all add: c1)
qed

lemma sent_packet:
  assumes "live s" "cWritePacket W p s = Ret (None, s')"
  shows "sent W [p] s s'"
proof -
  obtain reg cl c where s: "s = (reg, cl)" "registry_ok reg" "cl_Conn cl = Some c"
    using live_conn [OF assms(1)] by blast
  obtain err reg' c' where w: "WritePacket (w_env W) reg p c = Ret (err, reg', c')"
      "(None, s') = (err, reg', cl\<lparr>cl_Conn := Some c'\<rparr>)"
    using assms(2) s by (auto simp: cWritePacket_def obind_Ret_iff)
  then have w': "WritePacket (w_env W) reg p c = Ret (None, reg', c')" by simp
  obtain pid body wr where f: "fst (GetPacketID reg (c_version c) (c_state c) DirectionServerbound p) = (pid, True)"
      "Encode (w_env W) p (c_version c) new_buffer = Ret (None, emit body new_buffer)" "c' = set_out wr c"
      "wr_out wr = wr_out (nc_out (c_Conn c)) @ frame_bytes (w_env W) (c_compressionThreshold c) pid body"
    using WritePacket_frame' [OF w'] by blast
  have "registry_ok reg'" using WritePacket_Ret [OF s(2), of "w_env W" p c] w' by auto
  moreover have "packet_frame (w_env W) (c_version c) (c_state c) (c_compressionThreshold c) p = frame_bytes (w_env W) (c_compressionThreshold c) pid body"
    using f(1,2) GetPacketID_registry_ok [OF s(2), of "c_version c" "c_state c" DirectionServerbound p]
    by (simp add: packet_frame_def emit_def new_buffer_def)
  ultimately show ?thesis using w(2) s f by (auto simp: sent_def)
qed

lemma send_or_cases:
  assumes "live s" "send_or W msg p k s = Ret (r, s')"
  obtains e where "r = Inl (Some e)" | s1 where "sent W [p] s s1" "k s1 = Ret (r, s')"
proof -
  obtain err s1 where w: "cWritePacket W p s = Ret (err, s1)"
    using writesD [OF writes_cWritePacket assms(1)] by blast
  show ?thesis
  proof (cases err)
    case (Some e)
    with assms(2) w show ?thesis by (intro that(1)) (auto simp: send_or_def ctry_def cbind_def cret_def)
  next
    case None
    with assms w have "k s1 = Ret (r, s')" "sent W [p] s s1"
      by (auto simp: send_or_def ctry_def cbind_def intro: sent_packet)
    then show ?thesis by (rule that(2) [rotated])
  qed
qed

section \<open>The answers of the configuration\<close>

definition config_reply :: "Version \<Rightarrow> string \<Rightarrow> Packet \<Rightarrow> Packet list" where
  "config_reply v brand p =
     (case p of
        ClientboundConfigKeepAlive i \<Rightarrow> [ServerboundConfigKeepAlive i]
      | ClientboundCustomPayload q \<Rightarrow> if cp_Channel q = ''minecraft:brand'' then [brand_payload brand] else []
      | ClientboundSelectKnownPacks _ \<Rightarrow>
          ServerboundSelectKnownPacks [] # (if v \<ge> V1_21_3 then [ServerboundFinishConfiguration] else [])
      | ClientboundFinishConfiguration \<Rightarrow> if v < V1_21_3 then [ServerboundFinishConfiguration] else []
      | ClientboundCookieRequest key \<Rightarrow>
          [ServerboundCookieResponse \<lparr>cr_Key = key, cr_HasData = False, cr_Data = []\<rparr>]
      | _ \<Rightarrow> [])"

lemma config_packet_again:
  assumes "live s" "config_packet W p s = Ret (Inr u, s')"
  shows "sent W (config_reply (cl_version (snd s)) (cl_brand (snd s)) p) s s' \<and>
     p \<noteq> ClientboundFinishConfiguration \<and> (\<forall>r. p \<noteq> ClientboundDisconnect r)"
proof -
  have one: "sent W [q] s s'" if "send_or W msg q again s = Ret (Inr u, s')" for msg q
    using that by (rule send_or_cases [OF assms(1)]) (auto simp: again_def cret_def)
  have two: "sent W [q, q'] s s'" if "send_or W msg q (send_or W msg' q' again) s = Ret (Inr u, s')" for msg msg' q q'
  proof -
    from that obtain s1 where 1: "sent W [q] s s1" "send_or W msg' q' again s1 = Ret (Inr u, s')"
      by (rule send_or_cases [OF assms(1)]) auto
    from 1(2) have "sent W [q'] s1 s'"
      by (rule send_or_cases [OF sent_live [OF 1(1)]]) (auto simp: again_def cret_def)
    from sent_append [OF 1(1) this] show ?thesis by simp
  qed
  have none: "sent W [] s s'" if "again s = Ret (Inr u, s')"
    using that sent_nil [OF assms(1)] by (simp add: again_def cret_def)
  have no: "leave x t \<noteq> Ret (Inr z, s')" for x :: "goerr option" and t and z
    by (simp add: leave_def cret_def)
  have play: "cbind (cUpdate f) (\<lambda>_. leave None) t \<noteq> Ret (Inr z, s')" for f t z
    by (cases "cl_Conn (snd t)") (simp_all add: cbind_def cUpdate_def leave_def cret_def)
  have play': "send_or W msg q (cbind (cUpdate f) (\<lambda>_. leave None)) s \<noteq> Ret (Inr z, s')" for msg q f z
    by (rule notI, erule send_or_cases [OF assms(1)]) (use play in auto)
  show ?thesis
    using assms(2)
    by (cases p) (auto simp: config_packet_def config_reply_def Let_def no play play' intro: one two none split: if_splits)
qed

lemma config_packet_done:
  assumes "live s" "config_packet W p s = Ret (Inl None, s')"
  shows "p = ClientboundFinishConfiguration \<and>
     (\<exists>s1. sent W (config_reply (cl_version (snd s)) (cl_brand (snd s)) p) s s1 \<and>
        cUpdate (SetState StatePlay) s1 = Ret ((), s'))"
proof -
  have p: "p = ClientboundFinishConfiguration" using config_packet_finish [OF assms] by simp
  have play: "cUpdate (SetState StatePlay) t = Ret ((), s')"
    if "cbind (cUpdate (SetState StatePlay)) (\<lambda>_. leave None) t = Ret (Inl (None :: goerr option), s')" for t
    using that by (cases "cl_Conn (snd t)") (simp_all add: cbind_def cUpdate_def leave_def cret_def)
  show ?thesis
  proof (cases "cl_version (snd s) < V1_21_3")
    case True
    then have "send_or W ''failed to send final finish configuration: '' ServerboundFinishConfiguration
        (cbind (cUpdate (SetState StatePlay)) (\<lambda>_. leave None)) s = Ret (Inl None, s')"
      using assms(2) p by (simp add: config_packet_def Let_def)
    then obtain s1 where s1: "sent W [ServerboundFinishConfiguration] s s1"
        "cbind (cUpdate (SetState StatePlay)) (\<lambda>_. leave None) s1 = Ret (Inl (None :: goerr option), s')"
      by (rule send_or_cases [OF assms(1)]) auto
    have r: "config_reply (cl_version (snd s)) (cl_brand (snd s)) p = [ServerboundFinishConfiguration]"
      using p True by (simp add: config_reply_def)
    show ?thesis unfolding r using p s1(1) play [OF s1(2)] by blast
  next
    case False
    then have "cbind (cUpdate (SetState StatePlay)) (\<lambda>_. leave None) s = Ret (Inl (None :: goerr option), s')"
      using assms(2) p by (simp add: config_packet_def Let_def)
    note s' = play [OF this]
    have r: "config_reply (cl_version (snd s)) (cl_brand (snd s)) p = []"
      using p False by (simp add: config_reply_def)
    show ?thesis unfolding r using p s' sent_nil [OF assms(1)] by blast
  qed
qed

section \<open>Packets received\<close>

text \<open>The packets at the front of a connection's stream, those of unknown ids skipped, as
  \<open>ReadPacket\<close> decodes them; the connection \<open>c\<close> is left in \<open>c'\<close>.\<close>

inductive received :: "env \<Rightarrow> Conn \<Rightarrow> Packet list \<Rightarrow> Conn \<Rightarrow> bool" for E c where
  received_none: "received E c [] c"
| received_unknown: "received E c ps c1 \<Longrightarrow> ReadPacket E protocolRegistry c1 = Ret (Inl e, reg, c2) \<Longrightarrow>
    errors_Is e ErrUnknownPacket \<Longrightarrow> received E c ps c2"
| received_packet: "received E c ps c1 \<Longrightarrow> ReadPacket E protocolRegistry c1 = Ret (Inr p, reg, c2) \<Longrightarrow>
    received E c (ps @ [p]) c2"

lemma received_conn:
  "received E c ps c' \<Longrightarrow> c_version c' = c_version c \<and> c_state c' = c_state c \<and>
     c_compressionThreshold c' = c_compressionThreshold c \<and> nc_out (c_Conn c') = nc_out (c_Conn c)"
  by (induction rule: received.induct) (auto dest!: ReadPacket_conn')

text \<open>A state that has received \<open>ps\<close> and sent \<open>qs\<close> since \<open>s\<close>.\<close>

definition exchanged :: "world \<Rightarrow> cstate \<Rightarrow> Packet list \<Rightarrow> Packet list \<Rightarrow> cstate \<Rightarrow> bool" where
  "exchanged W s ps qs s' \<longleftrightarrow> registry_ok (fst s') \<and>
     (\<exists>c c' w. cl_Conn (snd s) = Some c \<and> received (w_env W) c ps c' \<and>
        snd s' = (snd s)\<lparr>cl_Conn := Some (set_out w c')\<rparr> \<and>
        wr_out w = wr_out (nc_out (c_Conn c)) @ packet_frames (w_env W) c qs)"

lemma exchanged_live: "exchanged W s ps qs s' \<Longrightarrow> live s'"
  by (auto simp: exchanged_def live_def)

lemma exchanged_fields:
  "exchanged W s ps qs s' \<Longrightarrow> cl_version (snd s') = cl_version (snd s) \<and> cl_brand (snd s') = cl_brand (snd s)"
  by (auto simp: exchanged_def)

lemma sent_exchanged: "sent W qs s s' \<Longrightarrow> exchanged W s [] qs s'"
  unfolding sent_def exchanged_def by (metis received_none)

lemma exchanged_sent:
  assumes "exchanged W s ps qs s1" "sent W rs s1 s2"
  shows "exchanged W s ps (qs @ rs) s2"
proof -
  obtain c c1 w where 1: "cl_Conn (snd s) = Some c" "received (w_env W) c ps c1"
      "snd s1 = (snd s)\<lparr>cl_Conn := Some (set_out w c1)\<rparr>"
      "wr_out w = wr_out (nc_out (c_Conn c)) @ packet_frames (w_env W) c qs"
    using assms(1) by (auto simp: exchanged_def)
  obtain c2 w2 where 2: "cl_Conn (snd s1) = Some c2" "snd s2 = (snd s1)\<lparr>cl_Conn := Some (set_out w2 c2)\<rparr>"
      "wr_out w2 = wr_out (nc_out (c_Conn c2)) @ packet_frames (w_env W) c2 rs" "registry_ok (fst s2)"
    using assms(2) by (auto simp: sent_def)
  have c2: "c2 = set_out w c1" using 1(3) 2(1) by simp
  have "packet_frames (w_env W) c1 = packet_frames (w_env W) c"
    using received_conn [OF 1(2)] by (simp add: packet_frames_def fun_eq_iff)
  then show ?thesis unfolding exchanged_def
    using 1 2 by (intro conjI exI [of _ c] exI [of _ c1] exI [of _ w2]) (simp_all add: c2)
qed

lemma exchanged_read:
  assumes "exchanged W s ps qs s1" "cReadPacket W s1 = Ret (res, s2)"
  shows "case res of
      Inl e \<Rightarrow> errors_Is e ErrUnknownPacket \<longrightarrow> exchanged W s ps qs s2
    | Inr p \<Rightarrow> exchanged W s (ps @ [p]) qs s2"
proof -
  obtain c c1 w where 1: "cl_Conn (snd s) = Some c" "received (w_env W) c ps c1"
      "snd s1 = (snd s)\<lparr>cl_Conn := Some (set_out w c1)\<rparr>"
      "wr_out w = wr_out (nc_out (c_Conn c)) @ packet_frames (w_env W) c qs"
    using assms(1) by (auto simp: exchanged_def)
  obtain reg' c2 where 2: "ReadPacket (w_env W) (fst s1) (set_out w c1) = Ret (res, reg', c2)"
      "s2 = (reg', (snd s1)\<lparr>cl_Conn := Some c2\<rparr>)" "registry_ok reg'"
    using cReadPacket_result [OF exchanged_live [OF assms(1)] assms(2)] 1(3) by auto
  have "registry_ok (fst s1)" using assms(1) by (simp add: exchanged_def)
  from ReadPacket_transfer [OF this 2(1)]
  obtain c3 reg3 where 3: "c2 = set_out w c3" "ReadPacket (w_env W) protocolRegistry c1 = Ret (res, reg3, c3)" by blast
  show ?thesis
  proof (cases res)
    case (Inl e)
    show ?thesis
      using 1 2 3 Inl received_unknown [OF 1(2), of e reg3 c3] by (auto simp: exchanged_def)
  next
    case (Inr p)
    then have "received (w_env W) c (ps @ [p]) c3" using 3 received_packet [OF 1(2)] by simp
    with 1 2 3 Inr show ?thesis by (auto simp: exchanged_def)
  qed
qed

section \<open>The configuration as an exchange\<close>

definition config_replies :: "Client \<Rightarrow> Packet list \<Rightarrow> Packet list" where
  "config_replies cl ps = concat (map (config_reply (cl_version cl) (cl_brand cl)) ps)"

definition config_going :: "Packet list \<Rightarrow> bool" where
  "config_going ps \<longleftrightarrow> ClientboundFinishConfiguration \<notin> set ps \<and> (\<forall>r. ClientboundDisconnect r \<notin> set ps)"

lemma exchanged_read_packet:
  "exchanged W s ps qs s1 \<Longrightarrow> cReadPacket W s1 = Ret (Inr p, s2) \<Longrightarrow> exchanged W s (ps @ [p]) qs s2"
  using exchanged_read [of W s ps qs s1 "Inr p" s2] by simp

lemma config_step_packet:
  assumes "config_step W t = Ret (r, t')"
  obtains e t1 where "cReadPacket W t = Ret (Inl e, t1)" "r = Inl (Some (Wrapf ''error during configuration: '' e))"
  | e where "cReadPacket W t = Ret (Inl e, t')" "r = Inr ()" "errors_Is e ErrUnknownPacket"
  | p t1 where "cReadPacket W t = Ret (Inr p, t1)" "config_packet W p t1 = Ret (r, t')"
proof -
  obtain res t1 where res: "cReadPacket W t = Ret (res, t1)"
    using assms by (auto simp: config_step_def cbind_def obind_Ret_iff)
  show ?thesis
    using assms res that
    by (cases res) (auto simp: config_step_def cbind_def leave_def again_def cret_def split: if_splits)
qed

lemma config_step_exchange:
  assumes "exchanged W s ps (q # config_replies (snd s) ps) t" "config_going ps" "config_step W t = Ret (Inr u, t')"
  shows "\<exists>ps'. exchanged W s ps' (q # config_replies (snd s) ps') t' \<and> config_going ps'"
  using assms(3)
proof (cases rule: config_step_packet)
  case (2 e)
  then show ?thesis using exchanged_read [OF assms(1) 2(1)] assms(2) by auto
next
  case (3 p t1)
  have r: "exchanged W s (ps @ [p]) (q # config_replies (snd s) ps) t1"
    by (rule exchanged_read_packet [OF assms(1) 3(1)])
  have live: "live t1" and f: "cl_version (snd t1) = cl_version (snd s)" "cl_brand (snd t1) = cl_brand (snd s)"
    using exchanged_live [OF r] exchanged_fields [OF r] by auto
  note p = config_packet_again [OF live 3(2)]
  have "exchanged W s (ps @ [p]) (q # config_replies (snd s) (ps @ [p])) t'"
    using exchanged_sent [OF r] p f by (fastforce simp: config_replies_def)
  moreover have "config_going (ps @ [p])" using assms(2) p by (auto simp: config_going_def)
  ultimately show ?thesis by blast
qed auto

lemma handleConfiguration_exchange:
  assumes "live s" "handleConfiguration W s = Some (Ret (None, s'))"
  shows "\<exists>ps s1. exchanged W s (ps @ [ClientboundFinishConfiguration])
       (ServerboundClientSettings (cl_settings (snd s)) # config_replies (snd s) (ps @ [ClientboundFinishConfiguration])) s1 \<and>
     config_going ps \<and> cUpdate (SetState StatePlay) s1 = Ret ((), s')"
proof -
  let ?set = "ServerboundClientSettings (cl_settings (snd s))"
  let ?I = "\<lambda>t. \<exists>ps. exchanged W s ps (?set # config_replies (snd s) ps) t \<and> config_going ps"
  have conn: "cl_Conn (snd s) \<noteq> None" using assms(1) by (simp add: live_def)
  obtain s0 where s0: "cWritePacket W ?set s = Ret (None, s0)" "loop (config_step W) s0 = Some (Ret (None, s'))"
    using assms(2) conn
    by (auto simp: handleConfiguration_def SendClientSettings_def connected_def split: outcome.splits option.splits)
  have "exchanged W s [] [?set] s0" using sent_exchanged [OF sent_packet [OF assms(1) s0(1)]] .
  then have I: "?I s0" by (intro exI [of _ "[]"]) (simp add: config_replies_def config_going_def)
  obtain t where t: "?I t" "config_step W t = Ret (Inl None, s')"
    using loop_invariant [where I = ?I, OF s0(2) I] config_step_exchange by (auto; blast)
  then obtain ps where ps: "exchanged W s ps (?set # config_replies (snd s) ps) t" "config_going ps" by blast
  show ?thesis
    using t(2)
  proof (cases rule: config_step_packet)
    case (3 p t1)
    have r: "exchanged W s (ps @ [p]) (?set # config_replies (snd s) ps) t1"
      by (rule exchanged_read_packet [OF ps(1) 3(1)])
    have live: "live t1" and f: "cl_version (snd t1) = cl_version (snd s)" "cl_brand (snd t1) = cl_brand (snd s)"
      using exchanged_live [OF r] exchanged_fields [OF r] by auto
    from config_packet_done [OF live 3(2)] obtain s1 where p: "p = ClientboundFinishConfiguration"
        "sent W (config_reply (cl_version (snd s)) (cl_brand (snd s)) p) t1 s1" "cUpdate (SetState StatePlay) s1 = Ret ((), s')"
      unfolding f by blast
    have "exchanged W s (ps @ [p]) (?set # config_replies (snd s) (ps @ [p])) s1"
      using exchanged_sent [OF r p(2)] by (simp add: config_replies_def)
    with p ps(2) show ?thesis by blast
  qed auto
qed

end
