(* ===== verification/Conversation.thy ===== *)
theory Conversation
  imports Client_Trace
begin

text \<open>
  Whole conversations with a server whose side is scripted: what is written when the writer
  does not fail, what a scripted stream is read as, and from these the runs of the client's
  operations.
\<close>

section \<open>What the operations write\<close>

lemma Connect_eq:
  "Connect W (reg, cl) =
     (case net_Dial W (TCPAddr_String (cl_addr cl)) of
        Inl e \<Rightarrow> Ret (Some (Wrapf ''failed to dial server: '' e), reg, rest_of cl)
      | Inr nc \<Rightarrow> Ret (None, reg, cl\<lparr>cl_Conn := Some (NewConn nc (cl_version cl))\<rparr>))"
  by (auto simp: Connect_def Close_def Let_def rest_of_def split: sum.split option.split)

lemma Version_Protocol_Ret:
  assumes "registry_ok reg" "0 \<le> v"
  shows "\<exists>n reg'. Version_Protocol reg v = (Ret n, reg') \<and> registry_ok reg'"
proof -
  obtain D where D: "definition_at protocolRegistry v = Some D" using definition_at_exists [OF assms(2)] by blast
  have "fst (GetDefinition reg v) = Some D" using GetDefinition_value [OF assms(1)] D by simp
  then show ?thesis using GetDefinition_ok [OF assms(1), of v]
    by (auto simp: Version_Protocol_def split: prod.splits)
qed

lemma SendHandshake_eq:
  assumes "live s" "cl_addr (snd s) = Some a" "0 \<le> cl_version (snd s)"
  shows "\<exists>reg' n host. registry_ok reg' \<and> Version_Protocol (fst s) (cl_version (snd s)) = (Ret n, reg') \<and>
     ServerHostname (snd s) = Ret host \<and>
     SendHandshake W st s = cWritePacket W (ServerboundHandshake
       \<lparr>hs_ProtocolVersion = n, hs_ServerAddress = host, hs_ServerPort = word_of_int (ta_Port a), hs_NextState = st\<rparr>)
       (reg', snd s)"
proof -
  have ok: "registry_ok (fst s)" "cl_Conn (snd s) \<noteq> None" using assms(1) by (auto simp: live_def)
  obtain n reg' where v: "Version_Protocol (fst s) (cl_version (snd s)) = (Ret n, reg')" "registry_ok reg'"
    using Version_Protocol_Ret [OF ok(1) assms(3)] by blast
  obtain host where h: "ServerHostname (snd s) = Ret host"
    using assms(2) by (cases "cl_serverHostname (snd s) = []") (auto simp: ServerHostname_def)
  show ?thesis using ok v h assms(2) by (auto simp: SendHandshake_def connected_def)
qed

lemma SendLogin_eq:
  assumes "live s" "cl_username (snd s) \<noteq> []"
  shows "SendLogin W name u s = cWritePacket W (ServerboundLoginStart \<lparr>ls_Username = name,
     ls_UUID = (if u = uuid_Nil \<and> cl_version (snd s) \<ge> V1_19_2 then OfflineUUID (cl_username (snd s)) else u)\<rparr>) s"
  using assms by (auto simp: SendLogin_def connected_def live_def Let_def)

lemma live_registry: "live s \<Longrightarrow> registry_ok reg \<Longrightarrow> live (reg, snd s)"
  by (simp add: live_def)

section \<open>Writing that succeeds\<close>

named_theorems reliable_intros \<open>encoders without an error\<close>

definition reliable :: "wr \<Rightarrow> bool" where
  "reliable f \<longleftrightarrow> (\<forall>w. unbounded w \<longrightarrow> fst (f w) = None \<and> unbounded (snd (f w)))"

lemma reliable_primitives [reliable_intros]:
  "reliable (Write bs)" "reliable (WriteByte b)" "reliable (WriteVarInt i)" "reliable (WriteByteSlice bs)"
  "reliable (WriteString s)" "reliable (WriteBool b')" "reliable (WriteLong l)" "reliable (WriteUShort u)" "reliable wnil"
  by (simp_all add: reliable_def wire_simps)

lemma reliable_seq [reliable_intros]:
  "reliable f \<Longrightarrow> reliable g \<Longrightarrow> reliable (wtry f g)" "reliable f \<Longrightarrow> reliable g \<Longrightarrow> reliable (wign f g)"
  by (auto simp: reliable_def wtry_def wign_def split: prod.splits option.splits)

lemma reliable_If [reliable_intros]: "reliable f \<Longrightarrow> reliable g \<Longrightarrow> reliable (if b then f else g)"
  by simp

lemma reliable_write_packs [reliable_intros]: "reliable (write_packs ps)"
  by (induction ps) (simp_all only: write_packs.simps reliable_intros)

lemma reliable_structs [reliable_intros]:
  "reliable (ServerboundHandshake_Encode p1)" "reliable (ServerboundLoginStart_Encode p2 v)"
  "reliable (ServerboundSelectKnownPacks_Encode p3)" "reliable (ServerboundCookieResponse_Encode p4)"
  "reliable (ServerboundKeepAlive_Encode n v)" "reliable (ServerboundClientSettings_Encode p6 v)"
  "reliable (CustomPayload_encode p7)"
  unfolding ServerboundHandshake_Encode_def ServerboundLoginStart_Encode_def
    ServerboundSelectKnownPacks_Encode_def ServerboundCookieResponse_Encode_def
    ServerboundKeepAlive_Encode_def ServerboundClientSettings_Encode_def CustomPayload_encode_def
  by (intro reliable_intros)+

text \<open>The packets of the client's operations, with the state they are sent in.\<close>

definition sendable :: "Version \<Rightarrow> State \<Rightarrow> Packet \<Rightarrow> bool" where
  "sendable v st p \<longleftrightarrow> 0 \<le> v \<and>
     (\<exists>n. reflect_TypeOf p = ''*protocol.'' @ n \<and> (st, DirectionServerbound, n) \<in> set (written_names v)) \<and>
     (\<forall>E w. unbounded w \<longrightarrow> (\<exists>w'. Encode E p v w = Ret (None, w')))"

lemma reliableD: "reliable f \<Longrightarrow> unbounded w \<Longrightarrow> \<exists>w'. f w = (None, w')"
  unfolding reliable_def by (metis prod.collapse)

lemma sendable_packets:
  "0 \<le> v \<Longrightarrow> sendable v StateHandshaking (ServerboundHandshake hs)"
  "0 \<le> v \<Longrightarrow> sendable v StateLogin (ServerboundLoginStart ls)"
  "0 \<le> v \<Longrightarrow> sendable v StatePlay (ServerboundClientSettings settings)"
  "0 \<le> v \<Longrightarrow> sendable v StateStatus ServerboundStatusRequest"
  "0 \<le> v \<Longrightarrow> sendable v StateStatus (ServerboundPing n)"
  "v \<ge> V1_20_2 \<Longrightarrow> sendable v StateLogin ServerboundLoginAcknowledged"
  "v \<ge> V1_20_2 \<Longrightarrow> sendable v StateConfiguration (ServerboundClientSettings settings)"
  "v \<ge> V1_20_2 \<Longrightarrow> sendable v StateConfiguration (ServerboundConfigKeepAlive n)"
  "v \<ge> V1_20_2 \<Longrightarrow> sendable v StateConfiguration (ServerboundCustomPayload cp)"
  "v \<ge> V1_20_2 \<Longrightarrow> sendable v StateConfiguration ServerboundFinishConfiguration"
  "v \<ge> V1_20_5 \<Longrightarrow> sendable v StateConfiguration (ServerboundSelectKnownPacks packs)"
  "v \<ge> V1_20_5 \<Longrightarrow> sendable v StateConfiguration (ServerboundCookieResponse cookie)"
  by (simp_all add: sendable_def written_names_def reliableD reliable_intros)

lemma WritePacket_sendable:
  assumes "sendable (c_version c) (c_state c) p" "registry_ok reg" "unbounded (nc_out (c_Conn c))"
  shows "\<exists>reg' w. WritePacket E reg p c = Ret (None, reg', set_out w c) \<and> unbounded w"
proof -
  obtain n where n: "0 \<le> c_version c" "reflect_TypeOf p = ''*protocol.'' @ n"
      "(c_state c, DirectionServerbound, n) \<in> set (written_names (c_version c))"
      and f: "\<forall>w. unbounded w \<longrightarrow> (\<exists>w'. Encode E p (c_version c) w = Ret (None, w'))"
    using assms(1) by (auto simp: sendable_def)
  obtain pid reg' where pid: "GetPacketID reg (c_version c) (c_state c) DirectionServerbound p = ((pid, True), reg')"
    using GetPacketID_written [OF assms(2) n(1,3,2)] by (metis prod.collapse fst_conv)
  obtain buf where buf: "Encode E p (c_version c) (emit (varint_bytes pid) new_buffer) = Ret (None, buf)"
    using f by (metis unbounded_emit unbounded_new_buffer)
  let ?payload = "frame_payload E (c_compressionThreshold c) (wr_out buf)"
  have "reliable (wign (WriteVarInt (word_of_nat (length ?payload))) (Write ?payload))"
    by (intro reliable_intros)
  then obtain w where w: "wign (WriteVarInt (word_of_nat (length ?payload))) (Write ?payload) (nc_out (c_Conn c)) = (None, w)"
      "unbounded w"
    using assms(3) by (metis reliable_def prod.collapse)
  have "WritePacket E reg p c = Ret (None, reg', set_out w c)"
    using pid buf w(1) by (simp add: WritePacket_def wire_simps final_payload_eq Let_def del: wign_eq)
  with w(2) show ?thesis by blast
qed

section \<open>A scripted stream\<close>

text \<open>The frame \<open>bs\<close> of a server delivers the packet \<open>p\<close>.\<close>

definition delivers :: "env \<Rightarrow> Version \<Rightarrow> State \<Rightarrow> int \<Rightarrow> Packet \<Rightarrow> bytes \<Rightarrow> bool" where
  "delivers E v st threshold p bs \<longleftrightarrow>
     (\<exists>pid body p0 r. frame_sized E threshold pid body \<and> bs = frame_bytes E threshold pid body \<and>
        fst (NewPacket protocolRegistry v st DirectionClientbound pid) = Inr p0 \<and>
        Decode E v p0 (new_reader body) = Ret (p, None, r))"

lemma deliversI:
  assumes "protocolRegistry v = Some D" "0 \<le> v" "lookup_name D st DirectionClientbound pid = Some n"
    and "Decode E v (the (map_of packetConstructors n)) (new_reader body) = Ret (p, None, r)"
    and "frame_sized E threshold pid body" "bs = frame_bytes E threshold pid body"
  shows "delivers E v st threshold p bs"
  unfolding delivers_def using NewPacket_known [OF assms(1-3)] assms(4-6) by blast

text \<open>A client that differs from \<open>base\<close> in its connection only, which is in the given
  state, with the given input ahead and the given output behind it.\<close>

definition conversing :: "Client \<Rightarrow> State \<Rightarrow> int \<Rightarrow> bytes \<Rightarrow> goerr \<Rightarrow> bytes \<Rightarrow> cstate \<Rightarrow> bool" where
  "conversing base st threshold inp e out s \<longleftrightarrow>
     registry_ok (fst s) \<and> rest_of (snd s) = rest_of base \<and>
     (\<exists>c. cl_Conn (snd s) = Some c \<and> c_version c = cl_version base \<and> c_state c = st \<and>
        c_compressionThreshold c = threshold \<and> nc_in (c_Conn c) = \<lparr>rd_data = inp, rd_end = e\<rparr> \<and>
        unbounded (nc_out (c_Conn c)) \<and> wr_out (nc_out (c_Conn c)) = out)"

lemma update_injects [simp]:
  "cl\<lparr>cl_Conn := x\<rparr> = cl\<lparr>cl_Conn := y\<rparr> \<longleftrightarrow> x = y" "set_out w c = set_out w' c \<longleftrightarrow> w = w'"
  by (metis Client.select_convs(1) Client.surjective Client.update_convs(1)) (metis set_out_selectors(1))

lemma conversing_live: "conversing base st threshold inp e out s \<Longrightarrow> live s"
  by (auto simp: conversing_def live_def)

lemma conversing_fields:
  "conversing base st threshold inp e out s \<Longrightarrow>
     cl_version (snd s) = cl_version base \<and> cl_settings (snd s) = cl_settings base \<and> cl_brand (snd s) = cl_brand base \<and>
     cl_username (snd s) = cl_username base \<and> cl_uniqueId (snd s) = cl_uniqueId base \<and> cl_addr (snd s) = cl_addr base \<and>
     cl_State (snd s) = st \<and> cl_Conn (snd s) \<noteq> None"
  using rest_of_fields [of "snd s" base] by (auto simp: conversing_def cl_State_def)

lemma conversing_write:
  assumes "conversing base st threshold inp e out s" "sendable (cl_version base) st p"
  shows "\<exists>s'. cWritePacket W p s = Ret (None, s') \<and>
     conversing base st threshold inp e (out @ packet_frame (w_env W) (cl_version base) st threshold p) s'"
proof -
  obtain c where c: "cl_Conn (snd s) = Some c" "registry_ok (fst s)" "rest_of (snd s) = rest_of base"
      "c_version c = cl_version base" "c_state c = st" "c_compressionThreshold c = threshold"
      "nc_in (c_Conn c) = \<lparr>rd_data = inp, rd_end = e\<rparr>" "unbounded (nc_out (c_Conn c))" "wr_out (nc_out (c_Conn c)) = out"
    using assms(1) by (auto simp: conversing_def)
  obtain reg' w where w: "WritePacket (w_env W) (fst s) p c = Ret (None, reg', set_out w c)" "unbounded w"
    using WritePacket_sendable [of c p "fst s" "w_env W"] c assms(2) by auto
  then have r: "cWritePacket W p s = Ret (None, reg', (snd s)\<lparr>cl_Conn := Some (set_out w c)\<rparr>)"
    using c(1) by (simp add: cWritePacket_def)
  have "sent W [p] s (reg', (snd s)\<lparr>cl_Conn := Some (set_out w c)\<rparr>)"
    by (rule sent_packet [OF conversing_live [OF assms(1)] r])
  then have "registry_ok reg'" "wr_out w = out @ packet_frame (w_env W) (cl_version base) st threshold p"
    using c by (auto simp: sent_def)
  with r c w(2) show ?thesis by (auto simp: conversing_def)
qed

lemma conversing_read:
  assumes "conversing base st threshold (bs @ rest) e out s" "zlib_lawful (w_env W)"
    and "delivers (w_env W) (cl_version base) st threshold p bs"
  shows "\<exists>s'. cReadPacket W s = Ret (Inr p, s') \<and> conversing base st threshold rest e out s'"
proof -
  obtain c where c: "cl_Conn (snd s) = Some c" "registry_ok (fst s)" "rest_of (snd s) = rest_of base"
      "c_version c = cl_version base" "c_state c = st" "c_compressionThreshold c = threshold"
      "nc_in (c_Conn c) = \<lparr>rd_data = bs @ rest, rd_end = e\<rparr>" "unbounded (nc_out (c_Conn c))" "wr_out (nc_out (c_Conn c)) = out"
    using assms(1) by (auto simp: conversing_def)
  obtain pid body p0 r where f: "frame_sized (w_env W) threshold pid body" "bs = frame_bytes (w_env W) threshold pid body"
      "fst (NewPacket protocolRegistry (cl_version base) st DirectionClientbound pid) = Inr p0"
      "Decode (w_env W) (cl_version base) p0 (new_reader body) = Ret (p, None, r)"
    using assms(3) by (auto simp: delivers_def)
  have np: "fst (NewPacket (fst s) (c_version c) (c_state c) DirectionClientbound pid) = Inr p0"
    using NewPacket_registry_ok [OF c(2)] c(4,5) f(3) by simp
  have dec: "Decode (w_env W) (c_version c) p0 (new_reader body) = Ret (p, None, r)" using f(4) c(4) by simp
  obtain z reg' where "registry_ok reg'"
      "ReadPacket (w_env W) (fst s) c = Ret (Inr p, reg', (set_in \<lparr>rd_data = rest, rd_end = e\<rparr> c)\<lparr>c_zlibReader := z\<rparr>)"
    using ReadPacket_frame' [OF c(2) assms(2), of c pid body rest e] f c(6,7) np dec
    by (auto simp: Let_def simp del: Decode.simps)
  with c show ?thesis by (auto simp: cReadPacket_def conversing_def)
qed

lemma conversing_SetState:
  assumes "conversing base st threshold inp e out s"
  shows "\<exists>s'. cUpdate (SetState st') s = Ret ((), s') \<and> conversing base st' threshold inp e out s'"
  using assms by (auto simp: conversing_def cUpdate_def)

lemma conversing_SetCompression:
  assumes "conversing base st threshold inp e out s"
  shows "\<exists>s'. cUpdate (SetCompression t) s = Ret ((), s') \<and> conversing base st t inp e out s'"
  using assms by (auto simp: conversing_def cUpdate_def)

section \<open>Steps of a conversation\<close>

text \<open>A successful write in the middle of an iteration.\<close>

lemma conversing_send_or:
  assumes "conversing base st threshold inp e out s" "sendable (cl_version base) st p"
  shows "\<exists>s'. (\<forall>msg k. send_or W msg p k s = k s') \<and>
     conversing base st threshold inp e (out @ packet_frame (w_env W) (cl_version base) st threshold p) s'"
proof -
  obtain s' where "cWritePacket W p s = Ret (None, s')"
      "conversing base st threshold inp e (out @ packet_frame (w_env W) (cl_version base) st threshold p) s'"
    using conversing_write [OF assms] by blast
  then show ?thesis by (intro exI [of _ s'] conjI) (simp_all add: send_or_def ctry_def cbind_def)
qed

definition answerable :: "Version \<Rightarrow> Packet \<Rightarrow> bool" where
  "answerable v p \<longleftrightarrow> v \<ge> V1_20_5 \<or>
     (\<forall>packs. p \<noteq> ClientboundSelectKnownPacks packs) \<and> (\<forall>key. p \<noteq> ClientboundCookieRequest key)"

definition frames_for :: "world \<Rightarrow> Client \<Rightarrow> State \<Rightarrow> int \<Rightarrow> Packet list \<Rightarrow> bytes" where
  "frames_for W base st threshold ps = concat (map (packet_frame (w_env W) (cl_version base) st threshold) ps)"

lemma frames_for_simps [simp]:
  "frames_for W base st t [] = []"
  "frames_for W base st t (p # ps) = packet_frame (w_env W) (cl_version base) st t p @ frames_for W base st t ps"
  "frames_for W base st t (ps @ qs) = frames_for W base st t ps @ frames_for W base st t qs"
  by (simp_all add: frames_for_def)

lemma config_packet_answers:
  assumes "conversing base StateConfiguration t inp e out s" "cl_version base \<ge> V1_20_2"
    and "answerable (cl_version base) p" "config_going [p]"
  shows "\<exists>s'. config_packet W p s = Ret (Inr (), s') \<and>
     conversing base StateConfiguration t inp e
       (out @ frames_for W base StateConfiguration t (config_reply (cl_version base) (cl_brand base) p)) s'"
proof -
  have f: "cl_version (snd s) = cl_version base" "cl_brand (snd s) = cl_brand base"
    using conversing_fields [OF assms(1)] by simp_all
  let ?out = "\<lambda>q. out @ packet_frame (w_env W) (cl_version base) StateConfiguration t q"
  have none: "\<exists>s'. again s = Ret (Inr (), s') \<and> conversing base StateConfiguration t inp e out s'"
    using assms(1) by (intro exI [of _ s]) (simp add: again_def cret_def)
  have one: "\<exists>s'. send_or W m q again s = Ret (Inr (), s') \<and> conversing base StateConfiguration t inp e (?out q) s'"
    if q: "sendable (cl_version base) StateConfiguration q" for m q
  proof -
    obtain s1 where "send_or W m q again s = again s1" "conversing base StateConfiguration t inp e (?out q) s1"
      using conversing_send_or [OF assms(1) q] by blast
    then show ?thesis by (intro exI [of _ s1]) (simp add: again_def cret_def)
  qed
  have two: "\<exists>s'. send_or W m q (send_or W m' q' again) s = Ret (Inr (), s') \<and>
      conversing base StateConfiguration t inp e (?out q @ packet_frame (w_env W) (cl_version base) StateConfiguration t q') s'"
    if q: "sendable (cl_version base) StateConfiguration q" "sendable (cl_version base) StateConfiguration q'" for m q m' q'
  proof -
    obtain s1 where s1: "send_or W m q (send_or W m' q' again) s = send_or W m' q' again s1"
        "conversing base StateConfiguration t inp e (?out q) s1"
      using conversing_send_or [OF assms(1) q(1)] by blast
    obtain s2 where "send_or W m' q' again s1 = again s2"
        "conversing base StateConfiguration t inp e (?out q @ packet_frame (w_env W) (cl_version base) StateConfiguration t q') s2"
      using conversing_send_or [OF s1(2) q(2)] by blast
    with s1 show ?thesis by (intro exI [of _ s2]) (simp add: again_def cret_def)
  qed
  show ?thesis
    using assms(2,3,4) none one two
    by (cases p) (simp_all add: config_packet_def config_reply_def config_going_def answerable_def f Let_def
        brand_payload_def sendable_packets)
qed

lemma config_packet_finishes:
  assumes "conversing base StateConfiguration t inp e out s" "cl_version base \<ge> V1_20_2"
  shows "\<exists>s'. config_packet W ClientboundFinishConfiguration s = Ret (Inl None, s') \<and>
     conversing base StatePlay t inp e (out @ frames_for W base StateConfiguration t
       (config_reply (cl_version base) (cl_brand base) ClientboundFinishConfiguration)) s'"
proof -
  have f: "cl_version (snd s) = cl_version base" using conversing_fields [OF assms(1)] by simp
  have play: "\<exists>s'. cbind (cUpdate (SetState StatePlay)) (\<lambda>_. leave None) s1 = Ret (Inl None, s') \<and>
      conversing base StatePlay t inp e out' s'"
    if c: "conversing base StateConfiguration t inp e out' s1" for out' s1
  proof -
    obtain s' where "cUpdate (SetState StatePlay) s1 = Ret ((), s')" "conversing base StatePlay t inp e out' s'"
      using conversing_SetState [OF c] by blast
    then show ?thesis by (intro exI [of _ s']) (simp add: cbind_def leave_def cret_def)
  qed
  show ?thesis
  proof (cases "cl_version base < V1_21_3")
    case True
    obtain s1 where s1: "\<forall>m k. send_or W m ServerboundFinishConfiguration k s = k s1"
        "conversing base StateConfiguration t inp e
          (out @ packet_frame (w_env W) (cl_version base) StateConfiguration t ServerboundFinishConfiguration) s1"
      using conversing_send_or [OF assms(1) sendable_packets(10) [OF assms(2)]] by blast
    then show ?thesis using play [OF s1(2)] True f
      by (simp add: config_packet_def config_reply_def Let_def)
  next
    case False
    then show ?thesis using play [OF assms(1)] f by (simp add: config_packet_def config_reply_def Let_def)
  qed
qed

section \<open>The configuration with a scripted server\<close>

lemma config_step_reads:
  assumes "conversing base st t (bs @ rest) e out s" "zlib_lawful (w_env W)"
    and "delivers (w_env W) (cl_version base) st t p bs"
  shows "\<exists>s'. config_step W s = config_packet W p s' \<and> conversing base st t rest e out s'"
proof -
  obtain s1 where "cReadPacket W s = Ret (Inr p, s1)" "conversing base st t rest e out s1"
    using conversing_read [OF assms] by blast
  then show ?thesis by (intro exI [of _ s1]) (simp add: config_step_def cbind_def)
qed

lemma config_loop_script:
  assumes "conversing base StateConfiguration t (concat bss @ fin @ rest) e out s" "zlib_lawful (w_env W)"
    and "cl_version base \<ge> V1_20_2" "list_all2 (delivers (w_env W) (cl_version base) StateConfiguration t) ps bss"
    and "delivers (w_env W) (cl_version base) StateConfiguration t ClientboundFinishConfiguration fin"
    and "config_going ps" "\<forall>p \<in> set ps. answerable (cl_version base) p"
  shows "\<exists>s'. loop (config_step W) s = Some (Ret (None, s')) \<and>
     conversing base StatePlay t rest e
       (out @ frames_for W base StateConfiguration t (config_replies base (ps @ [ClientboundFinishConfiguration]))) s'"
  using assms(4,1,6,7)
proof (induction ps bss arbitrary: s out rule: list_all2_induct)
  case Nil
  obtain s1 where s1: "config_step W s = config_packet W ClientboundFinishConfiguration s1"
      "conversing base StateConfiguration t rest e out s1"
    using config_step_reads [OF _ assms(2,5), of "rest" e out s] Nil by auto
  obtain s2 where s2: "config_packet W ClientboundFinishConfiguration s1 = Ret (Inl None, s2)"
      "conversing base StatePlay t rest e (out @ frames_for W base StateConfiguration t
        (config_reply (cl_version base) (cl_brand base) ClientboundFinishConfiguration)) s2"
    using config_packet_finishes [OF s1(2) assms(3)] by blast
  have "loop (config_step W) s = Some (Ret (None, s2))" using s1(1) s2(1) by (intro loop_return) simp
  with s2(2) show ?case by (auto simp: config_replies_def)
next
  case (Cons p ps bs bss)
  obtain s1 where s1: "config_step W s = config_packet W p s1"
      "conversing base StateConfiguration t (concat bss @ fin @ rest) e out s1"
    using config_step_reads [OF _ assms(2) Cons.hyps(1), of "concat bss @ fin @ rest" e out s] Cons.prems(1) by auto
  have p: "answerable (cl_version base) p" "config_going [p]" "config_going ps"
    using Cons.prems(2,3) by (auto simp: config_going_def)
  obtain s2 where s2: "config_packet W p s1 = Ret (Inr (), s2)"
      "conversing base StateConfiguration t (concat bss @ fin @ rest) e
        (out @ frames_for W base StateConfiguration t (config_reply (cl_version base) (cl_brand base) p)) s2"
    using config_packet_answers [OF s1(2) assms(3) p(1,2)] by blast
  have "loop (config_step W) s = loop (config_step W) s2" using s1(1) s2(1) by (intro loop_again) simp
  then show ?case using Cons.IH [OF s2(2) p(3)] Cons.prems(3) by (simp add: config_replies_def)
qed

lemma handleConfiguration_script:
  assumes "conversing base StateConfiguration t (concat bss @ fin @ rest) e out s" "zlib_lawful (w_env W)"
    and "cl_version base \<ge> V1_20_2" "list_all2 (delivers (w_env W) (cl_version base) StateConfiguration t) ps bss"
    and "delivers (w_env W) (cl_version base) StateConfiguration t ClientboundFinishConfiguration fin"
    and "config_going ps" "\<forall>p \<in> set ps. answerable (cl_version base) p"
  shows "\<exists>s'. handleConfiguration W s = Some (Ret (None, s')) \<and>
     conversing base StatePlay t rest e
       (out @ frames_for W base StateConfiguration t (ServerboundClientSettings (cl_settings base) #
          config_replies base (ps @ [ClientboundFinishConfiguration]))) s'"
proof -
  have f: "cl_settings (snd s) = cl_settings base" "cl_Conn (snd s) \<noteq> None"
    using conversing_fields [OF assms(1)] by simp_all
  obtain s1 where s1: "cWritePacket W (ServerboundClientSettings (cl_settings base)) s = Ret (None, s1)"
      "conversing base StateConfiguration t (concat bss @ fin @ rest) e (out @ packet_frame (w_env W) (cl_version base)
        StateConfiguration t (ServerboundClientSettings (cl_settings base))) s1"
    using conversing_write [OF assms(1) sendable_packets(7) [OF assms(3)]] by blast
  have "handleConfiguration W s = loop (config_step W) s1"
    using f s1(1) by (auto simp: handleConfiguration_def SendClientSettings_def connected_def)
  then show ?thesis using config_loop_script [OF s1(2) assms(2-7)] by simp
qed

section \<open>The login with a scripted server\<close>

lemma conversing_Connect:
  assumes "registry_ok reg" "net_Dial W (TCPAddr_String (cl_addr cl)) = Inr nc"
    and "nc_in nc = \<lparr>rd_data = inp, rd_end = e\<rparr>" "unbounded (nc_out nc)"
  shows "\<exists>s'. Connect W (reg, cl) = Ret (None, s') \<and>
     conversing cl StateHandshaking (-1) inp e (wr_out (nc_out nc)) s'"
  using assms by (auto simp: Connect_eq conversing_def NewConn_def)

definition handshake :: "Client \<Rightarrow> State \<Rightarrow> Packet" where
  "handshake cl st = ServerboundHandshake
     \<lparr>hs_ProtocolVersion = (case fst (Version_Protocol protocolRegistry (cl_version cl)) of Ret n \<Rightarrow> n | Panic _ \<Rightarrow> 0),
      hs_ServerAddress = (case ServerHostname cl of Ret h \<Rightarrow> h | Panic _ \<Rightarrow> []),
      hs_ServerPort = (case cl_addr cl of Some a \<Rightarrow> word_of_int (ta_Port a) | None \<Rightarrow> 0), hs_NextState = st\<rparr>"

definition login_start :: "Client \<Rightarrow> Packet" where
  "login_start cl = ServerboundLoginStart \<lparr>ls_Username = cl_username cl,
     ls_UUID = (if cl_uniqueId cl = uuid_Nil \<and> cl_version cl \<ge> V1_19_2
                then OfflineUUID (cl_username cl) else cl_uniqueId cl)\<rparr>"

lemma ServerHostname_rest: "rest_of cl = rest_of cl' \<Longrightarrow> ServerHostname cl = ServerHostname cl'"
  unfolding rest_of_def ServerHostname_def
  by (metis Client.ext_inject Client.surjective Client.update_convs(1))

lemma Version_Protocol_value:
  "registry_ok reg \<Longrightarrow> fst (Version_Protocol reg v) = fst (Version_Protocol protocolRegistry v)"
  using GetDefinition_value [of reg v] GetDefinition_value [OF registry_ok_init, of v]
  by (cases "definition_at protocolRegistry v") (auto simp: Version_Protocol_def split: prod.splits option.splits)

lemma conversing_SendHandshake:
  assumes "conversing base StateHandshaking t inp e out s" "cl_addr base = Some a" "0 \<le> cl_version base"
  shows "\<exists>s'. SendHandshake W st s = Ret (None, s') \<and> conversing base StateHandshaking t inp e
     (out @ frames_for W base StateHandshaking t [handshake base st]) s'"
proof -
  have live: "live s" by (rule conversing_live [OF assms(1)])
  note f = conversing_fields [OF assms(1)]
  have ok: "registry_ok (fst s)" and r: "rest_of (snd s) = rest_of base" using assms(1) by (simp_all add: conversing_def)
  obtain reg' n host where h: "registry_ok reg'" "Version_Protocol (fst s) (cl_version (snd s)) = (Ret n, reg')"
      "ServerHostname (snd s) = Ret host"
      "SendHandshake W st s = cWritePacket W (ServerboundHandshake
       \<lparr>hs_ProtocolVersion = n, hs_ServerAddress = host, hs_ServerPort = word_of_int (ta_Port a), hs_NextState = st\<rparr>)
       (reg', snd s)"
    using SendHandshake_eq [OF live, of a W st] f assms(2,3) by auto
  have "fst (Version_Protocol protocolRegistry (cl_version base)) = Ret n"
    using Version_Protocol_value [OF ok] h(2) f by (metis fst_conv)
  then have p: "SendHandshake W st s = cWritePacket W (handshake base st) (reg', snd s)"
    using h(3,4) ServerHostname_rest [OF r] assms(2) by (simp add: handshake_def)
  have "conversing base StateHandshaking t inp e out (reg', snd s)" using assms(1) h(1) by (simp add: conversing_def)
  from conversing_write [OF this, of "handshake base st" W] p show ?thesis
    by (simp add: handshake_def sendable_packets(1) [OF assms(3)])
qed

lemma conversing_SendLogin:
  assumes "conversing base StateLogin t inp e out s" "cl_username base \<noteq> []" "0 \<le> cl_version base"
  shows "\<exists>s'. SendLogin W (cl_username (snd s)) (cl_uniqueId (snd s)) s = Ret (None, s') \<and>
     conversing base StateLogin t inp e (out @ frames_for W base StateLogin t [login_start base]) s'"
proof -
  note f = conversing_fields [OF assms(1)]
  have p: "SendLogin W (cl_username (snd s)) (cl_uniqueId (snd s)) s = cWritePacket W (login_start base) s"
    using SendLogin_eq [OF conversing_live [OF assms(1)]] f assms(2) by (simp add: login_start_def)
  show ?thesis using conversing_write [OF assms(1), of "login_start base" W] p
    by (simp add: login_start_def sendable_packets(2) [OF assms(3)])
qed

lemma login_step_reads:
  assumes "conversing base st t (bs @ rest) e out s" "zlib_lawful (w_env W)"
    and "delivers (w_env W) (cl_version base) st t p bs"
  shows "\<exists>s'. login_step W s = login_packet W p s' \<and> conversing base st t rest e out s'"
proof -
  obtain s1 where "cReadPacket W s = Ret (Inr p, s1)" "conversing base st t rest e out s1"
    using conversing_read [OF assms] by blast
  then show ?thesis by (intro exI [of _ s1]) (simp add: login_step_def cbind_def)
qed

text \<open>A server may set the compression threshold during the login; \<open>threshold_set\<close> says
  which frames do that, and what the threshold is then.\<close>

definition threshold_set :: "env \<Rightarrow> Version \<Rightarrow> bytes \<Rightarrow> int \<Rightarrow> bool" where
  "threshold_set E v bs threshold \<longleftrightarrow>
     bs = [] \<and> threshold = -1 \<or>
     (\<exists>t. delivers E v StateLogin (-1) (ClientboundSetCompression t) bs \<and> threshold = sint t)"

lemma login_loop_compression:
  assumes "conversing base StateLogin (-1) (bs @ rest) e out s" "zlib_lawful (w_env W)"
    and "threshold_set (w_env W) (cl_version base) bs threshold"
  shows "\<exists>s'. loop (login_step W) s = loop (login_step W) s' \<and> conversing base StateLogin threshold rest e out s'"
proof (cases "bs = [] \<and> threshold = -1")
  case True
  with assms(1) show ?thesis by (intro exI [of _ s]) simp
next
  case False
  then obtain t where t: "delivers (w_env W) (cl_version base) StateLogin (-1) (ClientboundSetCompression t) bs"
      "threshold = sint t"
    using assms(3) by (auto simp: threshold_set_def)
  obtain s1 where s1: "login_step W s = login_packet W (ClientboundSetCompression t) s1"
      "conversing base StateLogin (-1) rest e out s1"
    using login_step_reads [OF assms(1,2) t(1)] by blast
  obtain s2 where s2: "cUpdate (SetCompression (sint t)) s1 = Ret ((), s2)" "conversing base StateLogin (sint t) rest e out s2"
    using conversing_SetCompression [OF s1(2)] by blast
  have "login_step W s = Ret (Inr (), s2)"
    using s1(1) s2(1) by (simp add: login_packet_def cbind_def again_def cret_def)
  from loop_again [of "login_step W", OF this] s2(2) t(2) show ?thesis by (intro exI [of _ s2]) simp
qed

definition login_finish :: "world \<Rightarrow> Client \<Rightarrow> int \<Rightarrow> bytes" where
  "login_finish W base t =
     (if cl_version base \<ge> V1_20_2 then frames_for W base StateLogin t [ServerboundLoginAcknowledged]
      else frames_for W base StatePlay t [ServerboundClientSettings (cl_settings base)])"

lemma login_loop_success:
  assumes "conversing base StateLogin t (bs @ rest) e out s" "zlib_lawful (w_env W)" "0 \<le> cl_version base"
    and "delivers (w_env W) (cl_version base) StateLogin t (ClientboundLoginSuccess p) bs"
  shows "\<exists>s'. loop (login_step W) s =
       Some (Ret (if cl_version base \<ge> V1_20_2 then Configuration else Return None, s')) \<and>
     conversing base (if cl_version base \<ge> V1_20_2 then StateConfiguration else StatePlay) t rest e
       (out @ login_finish W base t) s'"
proof -
  obtain s1 where s1: "login_step W s = login_packet W (ClientboundLoginSuccess p) s1" "conversing base StateLogin t rest e out s1"
    using login_step_reads [OF assms(1,2,4)] by blast
  note f = conversing_fields [OF s1(2)]
  show ?thesis
  proof (cases "cl_version base \<ge> V1_20_2")
    case True
    obtain s2 where s2: "cWritePacket W ServerboundLoginAcknowledged s1 = Ret (None, s2)"
        "conversing base StateLogin t rest e (out @ login_finish W base t) s2"
      using conversing_write [OF s1(2) sendable_packets(6) [OF True], of W] True by (auto simp: login_finish_def)
    obtain s3 where s3: "cUpdate (SetState StateConfiguration) s2 = Ret ((), s3)"
        "conversing base StateConfiguration t rest e (out @ login_finish W base t) s3"
      using conversing_SetState [OF s2(2)] by blast
    have "login_step W s = Ret (Inl Configuration, s3)"
      using s1(1) s2(1) s3(1) f True by (simp add: login_packet_def ctry_def cbind_def leave_def cret_def)
    with s3(2) True show ?thesis by (intro exI [of _ s3]) (simp add: loop_return)
  next
    case False
    obtain s2 where s2: "cUpdate (SetState StatePlay) s1 = Ret ((), s2)" "conversing base StatePlay t rest e out s2"
      using conversing_SetState [OF s1(2)] by blast
    obtain s3 where s3: "cWritePacket W (ServerboundClientSettings (cl_settings base)) s2 = Ret (None, s3)"
        "conversing base StatePlay t rest e (out @ login_finish W base t) s3"
      using conversing_write [OF s2(2) sendable_packets(3) [OF assms(3), of "cl_settings base"], of W] False by (auto simp: login_finish_def)
    have "login_step W s = Ret (Inl (Return None), s3)"
      using s1(1) s2(1) s3(1) f conversing_fields [OF s2(2)] False
      by (auto simp: login_packet_def SendClientSettings_def connected_def cbind_def leave_def cret_def)
    with s3(2) False show ?thesis by (intro exI [of _ s3]) (simp add: loop_return)
  qed
qed

lemma start_login_script:
  assumes "registry_ok reg" "cl_addr cl = Some a" "0 \<le> cl_version cl" "cl_username cl \<noteq> []"
    and "net_Dial W (TCPAddr_String (cl_addr cl)) = Inr nc" "unbounded (nc_out nc)"
    and "nc_in nc = \<lparr>rd_data = inp, rd_end = e\<rparr>"
  shows "\<exists>s'. start_login W (reg, cl) = Ret (None, s') \<and>
     conversing cl StateLogin (-1) inp e (wr_out (nc_out nc) @
       frames_for W cl StateHandshaking (-1) [handshake cl StateLogin] @ frames_for W cl StateLogin (-1) [login_start cl]) s'"
proof -
  obtain s1 where s1: "Connect W (reg, cl) = Ret (None, s1)" "conversing cl StateHandshaking (-1) inp e (wr_out (nc_out nc)) s1"
    using conversing_Connect [OF assms(1,5,7,6)] by blast
  obtain s2 where s2: "SendHandshake W StateLogin s1 = Ret (None, s2)" "conversing cl StateHandshaking (-1) inp e
      (wr_out (nc_out nc) @ frames_for W cl StateHandshaking (-1) [handshake cl StateLogin]) s2"
    using conversing_SendHandshake [OF s1(2) assms(2,3)] by blast
  obtain s3 where s3: "cUpdate (SetState StateLogin) s2 = Ret ((), s3)" "conversing cl StateLogin (-1) inp e
      (wr_out (nc_out nc) @ frames_for W cl StateHandshaking (-1) [handshake cl StateLogin]) s3"
    using conversing_SetState [OF s2(2)] by blast
  obtain s4 where s4: "SendLogin W (cl_username (snd s3)) (cl_uniqueId (snd s3)) s3 = Ret (None, s4)"
      "conversing cl StateLogin (-1) inp e ((wr_out (nc_out nc) @
        frames_for W cl StateHandshaking (-1) [handshake cl StateLogin]) @ frames_for W cl StateLogin (-1) [login_start cl]) s4"
    using conversing_SendLogin [OF s3(2) assms(4,3)] by blast
  have "start_login W (reg, cl) = Ret (None, s4)"
    using s1(1) s2(1) s3(1) s4(1) by (simp add: start_login_def ctry_def cbind_def cret_def)
  with s4(2) show ?thesis by auto
qed

end
