(* ===== verification/Client_Props.thy ===== *)
theory Client_Props
  imports Conversation
begin

text \<open>
  The properties of the client's operations.
\<close>

section \<open>A sample world\<close>

text \<open>A client and a world for the witnesses: every dial gives a connection on which a
  server has written \<open>inp\<close>.\<close>

definition sample_addr :: TCPAddr where
  "sample_addr = \<lparr>ta_IP = Some ''127.0.0.1'', ta_Port = 25565, ta_Zone = []\<rparr>"

definition dialled :: "bytes \<Rightarrow> NetConn" where
  "dialled inp = \<lparr>nc_in = new_reader inp, nc_out = new_buffer, nc_close = None\<rparr>"

definition sample_world :: "bytes \<Rightarrow> world" where
  "sample_world inp = \<lparr>w_env = stored_zlib, net_Dial = (\<lambda>_. Inr (dialled inp)),
     net_ResolveTCPAddr = (\<lambda>_. Inr sample_addr), time_Since = 42\<rparr>"

definition sample_client :: Client where
  "sample_client = default_client\<lparr>cl_version := V1_21_4, cl_addr := Some sample_addr\<rparr>"

lemma sample_simps [simp]:
  "cl_version sample_client = V1_21_4" "cl_addr sample_client = Some sample_addr" "cl_username sample_client = ''GopherMC''"
  "net_Dial (sample_world inp) a = Inr (dialled inp)" "w_env (sample_world inp) = stored_zlib"
  "nc_in (dialled inp) = \<lparr>rd_data = inp, rd_end = EOF\<rparr>" "unbounded (nc_out (dialled inp))"
  by (simp_all add: sample_client_def default_client_def sample_world_def dialled_def new_reader_def)

lemma sample_sized: "length body < 100 \<Longrightarrow> t = -1 \<or> 256 \<le> t \<Longrightarrow> frame_sized stored_zlib t pid body"
  using length_varint_bytes [of pid] by (auto simp: frame_sized_def frame_payload_def)

lemma sample_deliversI:
  assumes "lookup_name def_V1_21_4 st DirectionClientbound pid = Some n" "length body < 100" "t = -1 \<or> 256 \<le> t"
    and "case Decode stored_zlib V1_21_4 (the (map_of packetConstructors n)) (new_reader body) of
      Ret (q, err, _) \<Rightarrow> q = p \<and> err = None | Panic _ \<Rightarrow> False"
  shows "delivers stored_zlib V1_21_4 st t p (frame_bytes stored_zlib t pid body)"
proof -
  obtain r where "Decode stored_zlib V1_21_4 (the (map_of packetConstructors n)) (new_reader body) = Ret (p, None, r)"
    using assms(4) by (auto simp del: Decode.simps split: outcome.splits)
  with assms(1-3) show ?thesis
    by (intro deliversI [OF known_definitions(2) _ assms(1)]) (simp_all add: sample_sized del: Decode.simps)
qed

text \<open>The frames of a short login: compression from 256 bytes on, the success, known packs, and
  the end of the configuration; and those of a status answer.\<close>

definition sample_frames :: "bytes list" where
  "sample_frames =
     [frame_bytes stored_zlib (-1) 3 [0x80, 2], frame_bytes stored_zlib 256 2 (replicate 16 1 @ [1, 65, 0]),
      frame_bytes stored_zlib 256 14 [0], frame_bytes stored_zlib 256 3 []]"

lemma sample_delivers:
  "delivers stored_zlib V1_21_4 StateLogin (-1) (ClientboundSetCompression 256) (frame_bytes stored_zlib (-1) 3 [0x80, 2])"
  "delivers stored_zlib V1_21_4 StateLogin 256 (ClientboundLoginSuccess \<lparr>lk_Username = ''A'', lk_UUID = replicate 16 1\<rparr>)
     (frame_bytes stored_zlib 256 2 (replicate 16 1 @ [1, 65, 0]))"
  "delivers stored_zlib V1_21_4 StateConfiguration 256 (ClientboundSelectKnownPacks []) (frame_bytes stored_zlib 256 14 [0])"
  "delivers stored_zlib V1_21_4 StateConfiguration 256 ClientboundFinishConfiguration (frame_bytes stored_zlib 256 3 [])"
proof -
  show "delivers stored_zlib V1_21_4 StateLogin (-1) (ClientboundSetCompression 256) (frame_bytes stored_zlib (-1) 3 [0x80, 2])"
    by (rule sample_deliversI [where n = "''ClientboundSetCompression''"]) (code_simp, simp, simp, code_simp)
  show "delivers stored_zlib V1_21_4 StateLogin 256 (ClientboundLoginSuccess \<lparr>lk_Username = ''A'', lk_UUID = replicate 16 1\<rparr>)
     (frame_bytes stored_zlib 256 2 (replicate 16 1 @ [1, 65, 0]))"
    by (rule sample_deliversI [where n = "''ClientboundLoginSuccess''"]) (code_simp, simp, simp, code_simp)
  show "delivers stored_zlib V1_21_4 StateConfiguration 256 (ClientboundSelectKnownPacks []) (frame_bytes stored_zlib 256 14 [0])"
    by (rule sample_deliversI [where n = "''ClientboundSelectKnownPacks''"]) (code_simp, simp, simp, code_simp)
  show "delivers stored_zlib V1_21_4 StateConfiguration 256 ClientboundFinishConfiguration (frame_bytes stored_zlib 256 3 [])"
    by (rule sample_deliversI [where n = "''ClientboundFinishConfiguration''"]) (code_simp, simp, simp, code_simp)
qed

section \<open>Starting a login\<close>

lemma start_login_result:
  assumes "registry_ok reg" "cl_addr cl = Some a" "0 \<le> cl_version cl"
  shows "\<exists>err s'. start_login W (reg, cl) = Ret (err, s') \<and>
    (err = None \<longrightarrow> live s' \<and> cl_State (snd s') = StateLogin \<and> rest_of (snd s') = rest_of cl \<and>
      (\<exists>nc. net_Dial W (TCPAddr_String (cl_addr cl)) = Inr nc \<and> intake (snd s') = Some (nc_in nc, cl_version cl)))"
proof (cases "net_Dial W (TCPAddr_String (cl_addr cl))")
  case (Inl e)
  then show ?thesis by (simp add: start_login_def ctry_def cbind_def Connect_eq cret_def)
next
  case (Inr nc)
  let ?c = "NewConn nc (cl_version cl)"
  let ?s = "(reg, cl\<lparr>cl_Conn := Some ?c\<rparr>)"
  have live: "live ?s" using assms(1) by simp
  obtain reg1 p where hs: "registry_ok reg1" "SendHandshake W StateLogin ?s = cWritePacket W p (reg1, snd ?s)"
    using SendHandshake_eq [OF live, of a W StateLogin] assms(2,3) by auto
  obtain err reg2 w where w: "registry_ok reg2"
    "SendHandshake W StateLogin ?s = Ret (err, reg2, cl\<lparr>cl_Conn := Some (set_out w ?c)\<rparr>)"
    using cWritePacket_live [OF live_registry [OF live hs(1)], of W p] hs(2) by auto
  show ?thesis
  proof (cases err)
    case (Some e)
    with w Inr show ?thesis by (simp add: start_login_def ctry_def cbind_def Connect_eq cret_def)
  next
    case None
    let ?c2 = "SetState StateLogin (set_out w ?c)"
    let ?s2 = "(reg2, cl\<lparr>cl_Conn := Some ?c2\<rparr>)"
    have run: "start_login W (reg, cl) =
        ctry (SendLogin W (cl_username cl) (cl_uniqueId cl)) (\<lambda>e. Some (Wrapf ''handshake failed: '' e)) (cret None) ?s2"
      using w Inr None by (simp add: start_login_def ctry_def cbind_def Connect_eq cret_def cUpdate_def)
    show ?thesis
    proof (cases "cl_username cl = []")
      case True
      then show ?thesis by (simp add: run ctry_def cbind_def SendLogin_def connected_def cret_def)
    next
      case False
      have live2: "live ?s2" using w(1) by simp
      have "SendLogin W (cl_username cl) (cl_uniqueId cl) ?s2 = cWritePacket W (ServerboundLoginStart
          \<lparr>ls_Username = cl_username cl, ls_UUID = (if cl_uniqueId cl = uuid_Nil \<and> cl_version cl \<ge> V1_19_2
             then OfflineUUID (cl_username cl) else cl_uniqueId cl)\<rparr>) ?s2"
        using SendLogin_eq [OF live2] False by simp
      then obtain err3 reg3 w3 where "registry_ok reg3"
          "SendLogin W (cl_username cl) (cl_uniqueId cl) ?s2 = Ret (err3, reg3, cl\<lparr>cl_Conn := Some (set_out w3 ?c2)\<rparr>)"
        using cWritePacket_live [OF live2] by fastforce
      then show ?thesis using Inr
        by (cases err3) (auto simp: run ctry_def cbind_def cret_def NewConn_def)
    qed
  qed
qed

section \<open>The end of Join\<close>

lemma logged_in_step:
  assumes "live s \<and> cl_State (snd s) = StateLogin \<and> rest_of (snd s) = r"
    and "login_step W s = Ret (res, s')"
  shows "logged_in res s' \<and> (rest_of (snd s') = r \<or> (\<exists>e. res = Inl (Return (Some e))))"
proof -
  have l: "logged_in res s'" using login_step_result [of s W] assms by auto
  obtain rp s1 where r: "cReadPacket W s = Ret (rp, s1)"
    using assms(2) by (auto simp: login_step_def cbind_def obind_Ret_iff)
  have "rest_of (snd s') = r \<or> (\<exists>e. res = Inl (Return (Some e)))"
  proof (cases rp)
    case (Inl e)
    with assms(2) r show ?thesis by (auto simp: login_step_def cbind_def leave_def cret_def)
  next
    case (Inr p)
    then have "login_packet W p s1 = Ret (res, s')" using assms(2) r by (simp add: login_step_def cbind_def)
    moreover have "live s1" "rest_of (snd s1) = rest_of (snd s)"
      using cReadPacket_progress [of s W rp s1] assms(1) r Inr by auto
    ultimately show ?thesis using writes_quiet [OF writes_login_packet, of s1 W p res s'] assms(1)
      by (auto simp: quiet_def)
  qed
  with l show ?thesis by blast
qed

lemma login_loop_result:
  assumes "live s" "cl_State (snd s) = StateLogin" "sane s"
  shows "\<exists>x s'. loop (login_step W) s = Some (Ret (x, s')) \<and> logged_in (Inl x) s' \<and>
     ((\<exists>e. x = Return (Some e)) \<or> rest_of (snd s') = rest_of (snd s) \<and> (x = Configuration \<longrightarrow> sane s'))"
proof -
  let ?I = "\<lambda>t. live t \<and> cl_State (snd t) = StateLogin \<and> rest_of (snd t) = rest_of (snd s) \<and> sane t"
  obtain y where y: "loop (login_step W) s = Some y" using login_loop_returns [OF assms(1)] by blast
  have I: "?I s" using assms by simp
  have step: "?I t'" if "?I t" "login_step W t = Ret (Inr u, t')" for t u t'
    using logged_in_step [of t "rest_of (snd s)" W "Inr u" t'] login_step_again [of t W u t'] that
    by (auto simp: logged_in_def)
  obtain t where t: "?I t" "case y of Ret (r, s') \<Rightarrow> login_step W t = Ret (Inl r, s') | Panic m \<Rightarrow> login_step W t = Panic m"
    using loop_invariant [where I = ?I, OF y I] step by blast
  then obtain x s' where x: "y = Ret (x, s')" "login_step W t = Ret (Inl x, s')"
    using login_step_result [of t W] by (cases y) auto
  have "sane s'" if c: "x = Configuration"
  proof -
    obtain rp s1 where r: "cReadPacket W t = Ret (rp, s1)"
      using x(2) by (auto simp: login_step_def cbind_def obind_Ret_iff)
    obtain p where p: "rp = Inr p" "login_packet W p s1 = Ret (Inl Configuration, s')"
      using x(2) r c by (cases rp) (auto simp: login_step_def cbind_def leave_def cret_def)
    have "live s1" "sane s1" using cReadPacket_progress [of t W rp s1] t(1) r p(1) by auto
    then show ?thesis using writes_quiet [OF writes_login_packet _ p(2)] quiet_sane by blast
  qed
  with x y logged_in_step [of t "rest_of (snd s)" W "Inl x" s'] t(1) show ?thesis by auto
qed

text \<open>C20. \<open>Join\<close> always returns when its stream ends (with any error but the sentinel
  \<open>ErrUnknownPacket\<close>).  It panics only on a negative sequence length, and only where
  there is a configuration phase; when it reports success the client is connected, in the
  play state, and nothing but its connection has changed.\<close>

theorem Join_result:
  assumes "registry_ok reg" "cl_addr cl = Some a" "0 \<le> cl_version cl"
    and "\<And>nc. net_Dial W (TCPAddr_String (cl_addr cl)) = Inr nc \<Longrightarrow> \<not> errors_Is (rd_end (nc_in nc)) ErrUnknownPacket"
  shows "\<exists>y. Join W (reg, cl) = Some y \<and>
    (case y of
       Panic m \<Rightarrow> m = makeslice_panic \<and> cl_version cl \<ge> V1_20_2
     | Ret (err, s') \<Rightarrow> err = None \<longrightarrow>
         cl_Conn (snd s') \<noteq> None \<and> cl_State (snd s') = StatePlay \<and> rest_of (snd s') = rest_of cl \<and> registry_ok (fst s'))"
proof -
  obtain err s1 where s1: "start_login W (reg, cl) = Ret (err, s1)"
      "err = None \<longrightarrow> live s1 \<and> cl_State (snd s1) = StateLogin \<and> rest_of (snd s1) = rest_of cl \<and>
        (\<exists>nc. net_Dial W (TCPAddr_String (cl_addr cl)) = Inr nc \<and> intake (snd s1) = Some (nc_in nc, cl_version cl))"
    using start_login_result [OF assms(1-3)] by blast
  show ?thesis
  proof (cases err)
    case (Some e)
    with s1 show ?thesis by (auto simp: Join_def)
  next
    case None
    with s1 assms(4) have I: "live s1" "cl_State (snd s1) = StateLogin" "sane s1" "rest_of (snd s1) = rest_of cl"
      by (auto simp: sane_intake)
    obtain x s2 where x: "loop (login_step W) s1 = Some (Ret (x, s2))" "logged_in (Inl x) s2"
        "(\<exists>e. x = Return (Some e)) \<or> rest_of (snd s2) = rest_of (snd s1) \<and> (x = Configuration \<longrightarrow> sane s2)"
      using login_loop_result [OF I(1-3)] by blast
    show ?thesis
    proof (cases x)
      case (Return r)
      with s1 None x I(4) show ?thesis by (cases r) (auto simp: Join_def logged_in_def live_def)
    next
      case Configuration
      with x I have s2: "sane s2" "live s2" "rest_of (snd s2) = rest_of cl" "cl_version (snd s2) \<ge> V1_20_2"
        by (auto simp: logged_in_def)
      have v: "cl_version cl \<ge> V1_20_2" using s2(3,4) rest_of_fields(1) [OF s2(3)] by simp
      obtain y where y: "handleConfiguration W s2 = Some y" using handleConfiguration_returns [OF s2(1)] by blast
      have "Join W (reg, cl) = Some y" using s1(1) None x(1) Configuration y by (simp add: Join_def)
      then show ?thesis using handleConfiguration_result [OF s2(2) y] s2(3) v
        by (auto simp: live_def split: outcome.splits)
    qed
  qed
qed

lemma Join_result_witness:
  "\<exists>y. Join (sample_world [0, 1, 2]) (protocolRegistry, sample_client) = Some y \<and>
    (case y of
       Panic m \<Rightarrow> m = makeslice_panic \<and> cl_version sample_client \<ge> V1_20_2
     | Ret (err, s') \<Rightarrow> err = None \<longrightarrow>
         cl_Conn (snd s') \<noteq> None \<and> cl_State (snd s') = StatePlay \<and> rest_of (snd s') = rest_of sample_client \<and>
         registry_ok (fst s'))"
  by (rule Join_result [where a = sample_addr]) auto

section \<open>Whole conversations\<close>

lemma Join_script:
  assumes "registry_ok reg" "cl_addr cl = Some a" "0 \<le> cl_version cl" "cl_username cl \<noteq> []"
    and "net_Dial W (TCPAddr_String (cl_addr cl)) = Inr nc" "unbounded (nc_out nc)" "zlib_lawful (w_env W)"
    and "nc_in nc = \<lparr>rd_data = compression @ success @ config @ rest, rd_end = e\<rparr>"
    and "threshold_set (w_env W) (cl_version cl) compression t"
    and "delivers (w_env W) (cl_version cl) StateLogin t (ClientboundLoginSuccess p) success"
    and "if cl_version cl \<ge> V1_20_2
         then list_all2 (delivers (w_env W) (cl_version cl) StateConfiguration t) ps bss \<and>
           delivers (w_env W) (cl_version cl) StateConfiguration t ClientboundFinishConfiguration fin \<and>
           config = concat bss @ fin \<and> config_going ps \<and> (\<forall>p \<in> set ps. answerable (cl_version cl) p)
         else config = []"
  shows "\<exists>s'. Join W (reg, cl) = Some (Ret (None, s')) \<and>
     conversing cl StatePlay t rest e
       (wr_out (nc_out nc) @
        frames_for W cl StateHandshaking (-1) [handshake cl StateLogin] @
        frames_for W cl StateLogin (-1) [login_start cl] @
        (if cl_version cl \<ge> V1_20_2
         then frames_for W cl StateLogin t [ServerboundLoginAcknowledged] @
           frames_for W cl StateConfiguration t (ServerboundClientSettings (cl_settings cl) #
             config_replies cl (ps @ [ClientboundFinishConfiguration]))
         else frames_for W cl StatePlay t [ServerboundClientSettings (cl_settings cl)])) s'"
proof -
  let ?out = "wr_out (nc_out nc) @ frames_for W cl StateHandshaking (-1) [handshake cl StateLogin] @
        frames_for W cl StateLogin (-1) [login_start cl]"
  obtain s1 where s1: "start_login W (reg, cl) = Ret (None, s1)"
      "conversing cl StateLogin (-1) (compression @ success @ config @ rest) e ?out s1"
    using start_login_script [OF assms(1-6,8)] by auto
  obtain s2 where s2: "loop (login_step W) s1 = loop (login_step W) s2"
      "conversing cl StateLogin t (success @ config @ rest) e ?out s2"
    using login_loop_compression [OF s1(2) assms(7,9)] by blast
  note success = login_loop_success [OF s2(2) assms(7,3,10)]
  show ?thesis
  proof (cases "cl_version cl \<ge> V1_20_2")
    case True
    then obtain s3 where s3: "loop (login_step W) s1 = Some (Ret (Configuration, s3))"
        "conversing cl StateConfiguration t (config @ rest) e (?out @ login_finish W cl t) s3"
      using success s2(1) by auto
    have script: "list_all2 (delivers (w_env W) (cl_version cl) StateConfiguration t) ps bss"
        "delivers (w_env W) (cl_version cl) StateConfiguration t ClientboundFinishConfiguration fin"
        "config = concat bss @ fin" "config_going ps" "\<forall>p \<in> set ps. answerable (cl_version cl) p"
      using assms(11) True by simp_all
    have c: "conversing cl StateConfiguration t (concat bss @ fin @ rest) e (?out @ login_finish W cl t) s3"
      using s3(2) script(3) by simp
    obtain s4 where s4: "handleConfiguration W s3 = Some (Ret (None, s4))"
      "conversing cl StatePlay t rest e ((?out @ login_finish W cl t) @ frames_for W cl StateConfiguration t
        (ServerboundClientSettings (cl_settings cl) # config_replies cl (ps @ [ClientboundFinishConfiguration]))) s4"
      using handleConfiguration_script [OF c assms(7) True script(1,2,4,5)] by blast
    have "Join W (reg, cl) = Some (Ret (None, s4))" using s1(1) s3(1) s4(1) by (simp add: Join_def)
    with s4(2) True show ?thesis by (auto simp: login_finish_def)
  next
    case False
    then obtain s3 where s3: "loop (login_step W) s1 = Some (Ret (Return None, s3))"
        "conversing cl StatePlay t rest e (?out @ login_finish W cl t) s3"
      using success s2(1) assms(11) by auto
    have "Join W (reg, cl) = Some (Ret (None, s3))" using s1(1) s3(1) by (simp add: Join_def)
    with s3(2) False show ?thesis by (auto simp: login_finish_def)
  qed
qed

text \<open>C21. Against a server that sends well-formed frames, \<open>Join\<close> succeeds in every
  version, with or without compression: it ends in the play state, leaves the stream behind
  the last frame it needed, and has sent handshake, login start and, depending on the version,
  the settings or the whole configuration exchange, in this order and nothing else.\<close>

theorem Join_conversation:
  assumes "registry_ok reg" "cl_addr cl = Some a" "0 \<le> cl_version cl" "cl_username cl \<noteq> []"
    and "net_Dial W (TCPAddr_String (cl_addr cl)) = Inr nc" "unbounded (nc_out nc)" "zlib_lawful (w_env W)"
    and "nc_in nc = \<lparr>rd_data = compression @ success @ config @ rest, rd_end = e\<rparr>"
    and "threshold_set (w_env W) (cl_version cl) compression t"
    and "delivers (w_env W) (cl_version cl) StateLogin t (ClientboundLoginSuccess p) success"
    and "if cl_version cl \<ge> V1_20_2
         then list_all2 (delivers (w_env W) (cl_version cl) StateConfiguration t) ps bss \<and>
           delivers (w_env W) (cl_version cl) StateConfiguration t ClientboundFinishConfiguration fin \<and>
           config = concat bss @ fin \<and> config_going ps \<and> (\<forall>p \<in> set ps. answerable (cl_version cl) p)
         else config = []"
  shows "\<exists>s'. Join W (reg, cl) = Some (Ret (None, s')) \<and>
     conversing cl StatePlay t rest e
       (wr_out (nc_out nc) @
        frames_for W cl StateHandshaking (-1) [handshake cl StateLogin] @
        frames_for W cl StateLogin (-1) [login_start cl] @
        (if cl_version cl \<ge> V1_20_2
         then frames_for W cl StateLogin t [ServerboundLoginAcknowledged] @
           frames_for W cl StateConfiguration t (ServerboundClientSettings (cl_settings cl) #
             config_replies cl (ps @ [ClientboundFinishConfiguration]))
         else frames_for W cl StatePlay t [ServerboundClientSettings (cl_settings cl)])) s'"
  using assms by (rule Join_script)

lemma Join_conversation_witness:
  "\<exists>s'. Join (sample_world (concat sample_frames @ [7])) (protocolRegistry, sample_client) = Some (Ret (None, s')) \<and>
     conversing sample_client StatePlay 256 [7] EOF
       (frames_for (sample_world (concat sample_frames @ [7])) sample_client StateHandshaking (-1) [handshake sample_client StateLogin] @
        frames_for (sample_world (concat sample_frames @ [7])) sample_client StateLogin (-1) [login_start sample_client] @
        frames_for (sample_world (concat sample_frames @ [7])) sample_client StateLogin 256 [ServerboundLoginAcknowledged] @
        frames_for (sample_world (concat sample_frames @ [7])) sample_client StateConfiguration 256
          [ServerboundClientSettings (cl_settings sample_client), ServerboundSelectKnownPacks [], ServerboundFinishConfiguration]) s'"
proof -
  let ?W = "sample_world (concat sample_frames @ [7])"
  have replies: "config_replies sample_client [ClientboundSelectKnownPacks [], ClientboundFinishConfiguration] =
      [ServerboundSelectKnownPacks [], ServerboundFinishConfiguration]"
    by (simp add: config_replies_def config_reply_def)
  have out: "wr_out (nc_out (dialled inp)) = []" for inp by (simp add: dialled_def new_buffer_def)
  have threshold: "threshold_set (w_env ?W) (cl_version sample_client) (sample_frames ! 0) 256"
    using sample_delivers(1) by (auto simp: threshold_set_def sample_frames_def)
  show ?thesis
    using Join_conversation [where W = ?W and cl = sample_client and reg = protocolRegistry and a = sample_addr and
        nc = "dialled (concat sample_frames @ [7])" and compression = "sample_frames ! 0" and success = "sample_frames ! 1" and
        config = "sample_frames ! 2 @ sample_frames ! 3" and rest = "[7]" and e = EOF and t = 256 and
        p = "\<lparr>lk_Username = ''A'', lk_UUID = replicate 16 1\<rparr>" and ps = "[ClientboundSelectKnownPacks []]" and
        bss = "[sample_frames ! 2]" and fin = "sample_frames ! 3", OF registry_ok_init _ _ _ _ _ _ _ threshold]
      sample_delivers stored_zlib_lawful
    by (simp add: replies out sample_frames_def config_going_def answerable_def)
qed

text \<open>C23. \<open>GetStatus\<close> returns the status document and the latency measured when the
  server answers with a status response and a pong, and has then sent handshake, status
  request and ping.\<close>

theorem GetStatus_conversation:
  assumes "registry_ok reg" "cl_addr cl = Some a" "0 \<le> cl_version cl"
    and "net_Dial W (TCPAddr_String (cl_addr cl)) = Inr nc" "unbounded (nc_out nc)" "zlib_lawful (w_env W)"
    and "nc_in nc = \<lparr>rd_data = response @ pong @ rest, rd_end = e\<rparr>"
    and "delivers (w_env W) (cl_version cl) StateStatus (-1) (ClientboundStatusResponse json) response"
    and "delivers (w_env W) (cl_version cl) StateStatus (-1) (ClientboundPong n) pong"
  shows "\<exists>s'. GetStatus W (reg, cl) = Ret (Inr (json, time_Since W), s') \<and>
     conversing cl StateStatus (-1) rest e
       (wr_out (nc_out nc) @ frames_for W cl StateHandshaking (-1) [handshake cl StateStatus] @
        frames_for W cl StateStatus (-1) [ServerboundStatusRequest, ServerboundPing (now_UnixMilli (w_env W))]) s'"
proof -
  obtain s1 where s1: "Connect W (reg, cl) = Ret (None, s1)"
      "conversing cl StateHandshaking (-1) (response @ pong @ rest) e (wr_out (nc_out nc)) s1"
    using conversing_Connect [OF assms(1,4,7,5)] by blast
  obtain s2 where s2: "SendHandshake W StateStatus s1 = Ret (None, s2)"
      "conversing cl StateHandshaking (-1) (response @ pong @ rest) e
        (wr_out (nc_out nc) @ frames_for W cl StateHandshaking (-1) [handshake cl StateStatus]) s2"
    using conversing_SendHandshake [OF s1(2) assms(2,3)] by blast
  let ?hs = "wr_out (nc_out nc) @ frames_for W cl StateHandshaking (-1) [handshake cl StateStatus]"
  obtain s3 where s3: "cUpdate (SetState StateStatus) s2 = Ret ((), s3)"
      "conversing cl StateStatus (-1) (response @ pong @ rest) e ?hs s3"
    using conversing_SetState [OF s2(2)] by blast
  obtain s4 where s4: "cWritePacket W ServerboundStatusRequest s3 = Ret (None, s4)"
      "conversing cl StateStatus (-1) (response @ pong @ rest) e
        (?hs @ packet_frame (w_env W) (cl_version cl) StateStatus (-1) ServerboundStatusRequest) s4"
    using conversing_write [OF s3(2) sendable_packets(4) [OF assms(3)]] by blast
  obtain s5 where s5: "cReadPacket W s4 = Ret (Inr (ClientboundStatusResponse json), s5)"
      "conversing cl StateStatus (-1) (pong @ rest) e
        (?hs @ packet_frame (w_env W) (cl_version cl) StateStatus (-1) ServerboundStatusRequest) s5"
    using conversing_read [OF s4(2) assms(6,8)] by blast
  obtain s6 where s6: "cWritePacket W (ServerboundPing (now_UnixMilli (w_env W))) s5 = Ret (None, s6)"
      "conversing cl StateStatus (-1) (pong @ rest) e
        ((?hs @ packet_frame (w_env W) (cl_version cl) StateStatus (-1) ServerboundStatusRequest) @
         packet_frame (w_env W) (cl_version cl) StateStatus (-1) (ServerboundPing (now_UnixMilli (w_env W)))) s6"
    using conversing_write [OF s5(2) sendable_packets(5) [OF assms(3)]] by blast
  obtain s7 where s7: "cReadPacket W s6 = Ret (Inr (ClientboundPong n), s7)"
      "conversing cl StateStatus (-1) rest e
        ((?hs @ packet_frame (w_env W) (cl_version cl) StateStatus (-1) ServerboundStatusRequest) @
         packet_frame (w_env W) (cl_version cl) StateStatus (-1) (ServerboundPing (now_UnixMilli (w_env W)))) s7"
    using conversing_read [OF s6(2) assms(6,9)] by blast
  have ping: "Ping W s5 = Ret (Inr (time_Since W), s7)"
    using s6(1) s7(1) conversing_fields [OF s5(2)]
    by (auto simp: Ping_def connected_def ctry_def cbind_def cret_def)
  have "GetStatus W (reg, cl) = Ret (Inr (json, time_Since W), s7)"
    using s1(1) s2(1) s3(1) s4(1) s5(1) ping by (simp add: GetStatus_def ctry_def cbind_def cret_def)
  with s7(2) show ?thesis by auto
qed

lemma GetStatus_conversation_witness:
  "\<exists>s'. GetStatus (sample_world (frame_bytes stored_zlib (-1) 0 [2, 0x7B, 0x7D] @
        frame_bytes stored_zlib (-1) 1 [0, 0, 0, 0, 0, 0, 0, 5] @ [])) (protocolRegistry, sample_client) =
     Ret (Inr (''{}'', 42), s')"
proof -
  let ?response = "frame_bytes stored_zlib (-1) 0 [2, 0x7B, 0x7D]"
  let ?pong = "frame_bytes stored_zlib (-1) 1 [0, 0, 0, 0, 0, 0, 0, 5]"
  let ?W = "sample_world (?response @ ?pong @ [])"
  have "delivers stored_zlib V1_21_4 StateStatus (-1) (ClientboundStatusResponse ''{}'') ?response"
    by (rule sample_deliversI [where n = "''ClientboundStatusResponse''"]) (code_simp, simp, simp, code_simp)
  moreover have "delivers stored_zlib V1_21_4 StateStatus (-1) (ClientboundPong 5) ?pong"
    by (rule sample_deliversI [where n = "''ClientboundPong''"]) (code_simp, simp, simp, code_simp)
  moreover have "time_Since ?W = 42" by (simp add: sample_world_def)
  ultimately show ?thesis
    using GetStatus_conversation [where W = ?W and cl = sample_client and reg = protocolRegistry and a = sample_addr and
        nc = "dialled (?response @ ?pong @ [])" and response = ?response and pong = ?pong and rest = "[]" and e = EOF and
        json = "''{}''" and n = 5] stored_zlib_lawful
    by auto
qed

section \<open>The configuration\<close>

text \<open>A client about to be configured by the server of the sample frames.\<close>

definition config_state :: cstate where
  "config_state = (protocolRegistry, sample_client\<lparr>cl_Conn := Some (SetCompression 256 (SetState StateConfiguration
     (NewConn (dialled (concat (drop 2 sample_frames))) V1_21_4)))\<rparr>)"

lemma config_state_live:
  "registry_ok (fst config_state)" "\<exists>c. cl_Conn (snd config_state) = Some c"
  by (simp_all add: config_state_def)

lemma config_state_runs: "\<exists>s'. handleConfiguration (sample_world []) config_state = Some (Ret (None, s'))"
proof -
  have "conversing sample_client StateConfiguration 256 (concat [sample_frames ! 2] @ sample_frames ! 3 @ []) EOF [] config_state"
    by (simp add: conversing_def config_state_def NewConn_def sample_frames_def dialled_def new_reader_def new_buffer_def
        unbounded_def)
  from handleConfiguration_script [OF this, of "sample_world []" "[ClientboundSelectKnownPacks []]"]
  show ?thesis using sample_delivers stored_zlib_lawful
    by (auto simp: sample_frames_def config_going_def answerable_def)
qed

text \<open>C24. A configuration that succeeds is an exchange of packets with the server: the
  packets received end with the first \<open>FinishConfiguration\<close>, none of them is a
  disconnect, and what has been written is the frames of the settings and of the prescribed
  answers to the packets, in order.  Which packets are received does not depend on what is
  written.\<close>

theorem configuration_exchange:
  assumes "registry_ok (fst s)" "cl_Conn (snd s) = Some c" "handleConfiguration W s = Some (Ret (None, s'))"
  shows "\<exists>ps c' w. received (w_env W) c (ps @ [ClientboundFinishConfiguration]) c' \<and> config_going ps \<and>
     snd s' = (snd s)\<lparr>cl_Conn := Some (SetState StatePlay (set_out w c'))\<rparr> \<and>
     wr_out w = wr_out (nc_out (c_Conn c)) @
       packet_frames (w_env W) c (ServerboundClientSettings (cl_settings (snd s)) #
         config_replies (snd s) (ps @ [ClientboundFinishConfiguration]))"
proof -
  have "live s" using assms(1,2) by (simp add: live_def)
  from handleConfiguration_exchange [OF this assms(3)] obtain ps s1 where x:
    "exchanged W s (ps @ [ClientboundFinishConfiguration])
       (ServerboundClientSettings (cl_settings (snd s)) # config_replies (snd s) (ps @ [ClientboundFinishConfiguration])) s1"
    "config_going ps" "cUpdate (SetState StatePlay) s1 = Ret ((), s')" by blast
  obtain c' w where c': "received (w_env W) c (ps @ [ClientboundFinishConfiguration]) c'"
      "snd s1 = (snd s)\<lparr>cl_Conn := Some (set_out w c')\<rparr>"
      "wr_out w = wr_out (nc_out (c_Conn c)) @
       packet_frames (w_env W) c (ServerboundClientSettings (cl_settings (snd s)) #
         config_replies (snd s) (ps @ [ClientboundFinishConfiguration]))"
    using x(1) assms(2) by (auto simp: exchanged_def)
  have "snd s' = (snd s)\<lparr>cl_Conn := Some (SetState StatePlay (set_out w c'))\<rparr>"
    using x(3) c'(2) by (auto simp: cUpdate_def)
  with x(2) c'(1,3) show ?thesis by blast
qed

lemma configuration_exchange_witness:
  "\<exists>c s' ps c' w. handleConfiguration (sample_world []) config_state = Some (Ret (None, s')) \<and>
     received stored_zlib c (ps @ [ClientboundFinishConfiguration]) c' \<and> config_going ps \<and>
     snd s' = (snd config_state)\<lparr>cl_Conn := Some (SetState StatePlay (set_out w c'))\<rparr> \<and>
     wr_out w = wr_out (nc_out (c_Conn c)) @
       packet_frames stored_zlib c (ServerboundClientSettings (cl_settings (snd config_state)) #
         config_replies (snd config_state) (ps @ [ClientboundFinishConfiguration]))"
proof -
  obtain c where c: "cl_Conn (snd config_state) = Some c" using config_state_live(2) by blast
  obtain s' where s': "handleConfiguration (sample_world []) config_state = Some (Ret (None, s'))"
    using config_state_runs by blast
  show ?thesis using configuration_exchange [OF config_state_live(1) c s'] s' unfolding sample_simps(5) by blast
qed

lemma config_replies_finish:
  "config_going ps \<Longrightarrow>
     length (filter ((=) ServerboundFinishConfiguration) (config_replies cl ps)) =
       (if cl_version cl \<ge> V1_21_3
        then length (filter (\<lambda>p. reflect_TypeOf p = ''*protocol.ClientboundSelectKnownPacks'') ps) else 0)"
proof (induction ps)
  case (Cons p ps)
  then have IH: "length (filter ((=) ServerboundFinishConfiguration) (config_replies cl ps)) =
       (if cl_version cl \<ge> V1_21_3
        then length (filter (\<lambda>p. reflect_TypeOf p = ''*protocol.ClientboundSelectKnownPacks'') ps) else 0)"
    by (simp add: config_going_def)
  have "config_replies cl (p # ps) = config_reply (cl_version cl) (cl_brand cl) p @ config_replies cl ps"
    by (simp add: config_replies_def)
  then show ?case using IH Cons.prems
    by (cases p) (simp_all add: config_reply_def config_going_def brand_payload_def)
qed (simp add: config_replies_def)

text \<open>C25. The client acknowledges the end of the configuration exactly once before 1.21.3.
  From 1.21.3 on it acknowledges once for every \<open>SelectKnownPacks\<close> it has received, and
  so never when the server sends none, although the protocol asks for one acknowledgement.\<close>

theorem configuration_acknowledged:
  assumes "registry_ok (fst s)" "cl_Conn (snd s) = Some c" "handleConfiguration W s = Some (Ret (None, s'))"
  shows "\<exists>ps c' qs w. received (w_env W) c (ps @ [ClientboundFinishConfiguration]) c' \<and>
     snd s' = (snd s)\<lparr>cl_Conn := Some (SetState StatePlay (set_out w c'))\<rparr> \<and>
     wr_out w = wr_out (nc_out (c_Conn c)) @ packet_frames (w_env W) c qs \<and>
     length (filter ((=) ServerboundFinishConfiguration) qs) =
       (if cl_version (snd s) \<ge> V1_21_3
        then length (filter (\<lambda>p. reflect_TypeOf p = ''*protocol.ClientboundSelectKnownPacks'') ps) else 1)"
proof -
  have "live s" using assms(1,2) by (simp add: live_def)
  from handleConfiguration_exchange [OF this assms(3)] obtain ps s1 where x:
    "exchanged W s (ps @ [ClientboundFinishConfiguration])
       (ServerboundClientSettings (cl_settings (snd s)) # config_replies (snd s) (ps @ [ClientboundFinishConfiguration])) s1"
    "config_going ps" "cUpdate (SetState StatePlay) s1 = Ret ((), s')" by blast
  let ?qs = "ServerboundClientSettings (cl_settings (snd s)) # config_replies (snd s) (ps @ [ClientboundFinishConfiguration])"
  obtain c' w where c': "received (w_env W) c (ps @ [ClientboundFinishConfiguration]) c'"
      "snd s1 = (snd s)\<lparr>cl_Conn := Some (set_out w c')\<rparr>" "wr_out w = wr_out (nc_out (c_Conn c)) @ packet_frames (w_env W) c ?qs"
    using x(1) assms(2) by (auto simp: exchanged_def)
  have "snd s' = (snd s)\<lparr>cl_Conn := Some (SetState StatePlay (set_out w c'))\<rparr>"
    using x(3) c'(2) by (auto simp: cUpdate_def)
  moreover have "length (filter ((=) ServerboundFinishConfiguration) ?qs) =
       (if cl_version (snd s) \<ge> V1_21_3
        then length (filter (\<lambda>p. reflect_TypeOf p = ''*protocol.ClientboundSelectKnownPacks'') ps) else 1)"
    using config_replies_finish [OF x(2), of "snd s"] by (simp add: config_replies_def config_reply_def)
  ultimately show ?thesis using c'(1,3) by blast
qed

lemma configuration_acknowledged_witness:
  "\<exists>c s' ps c' qs w. handleConfiguration (sample_world []) config_state = Some (Ret (None, s')) \<and>
     received stored_zlib c (ps @ [ClientboundFinishConfiguration]) c' \<and>
     snd s' = (snd config_state)\<lparr>cl_Conn := Some (SetState StatePlay (set_out w c'))\<rparr> \<and>
     wr_out w = wr_out (nc_out (c_Conn c)) @ packet_frames stored_zlib c qs \<and>
     length (filter ((=) ServerboundFinishConfiguration) qs) =
       length (filter (\<lambda>p. reflect_TypeOf p = ''*protocol.ClientboundSelectKnownPacks'') ps)"
proof -
  obtain c where c: "cl_Conn (snd config_state) = Some c" using config_state_live(2) by blast
  obtain s' where s': "handleConfiguration (sample_world []) config_state = Some (Ret (None, s'))"
    using config_state_runs by blast
  have v: "(cl_version (snd config_state) \<ge> V1_21_3) = True" by (simp add: config_state_def)
  show ?thesis using configuration_acknowledged [OF config_state_live(1) c s'] s'
    unfolding sample_simps(5) v if_True by blast
qed

section \<open>Operations in and out of the play state\<close>

lemma not_in_packetTypes: "map_of packetTypes ''*protocol.ServerboundPlayerPosition'' = None"
  by code_simp

text \<open>C26. \<open>SetPosition\<close> never succeeds: its packet has no constructor and so no id in any
  version.  In the play state the client's own position has changed all the same; nothing is
  written.\<close>

theorem SetPosition_fails:
  assumes "cl_Conn (snd s) = Some c"
  shows "\<exists>e reg'. SetPosition W x y z yaw headYaw pitch onGround s =
     Ret (Some e, reg', if c_state c = StatePlay
        then (snd s)\<lparr>cl_playerPosition := PlayerPosition_Update x y z yaw headYaw pitch onGround (cl_playerPosition (snd s))\<rparr>
        else snd s)"
proof -
  have id: "GetPacketID reg v st d (ServerboundPlayerPosition p) = ((-1, False), snd (GetDefinition reg v))" for reg v st d p
    using not_in_packetTypes by (auto simp: GetPacketID_def split: prod.splits option.splits)
  have same: "cl\<lparr>cl_Conn := Some c\<rparr> = cl" if "cl_Conn cl = Some c" for cl :: Client
    using that by (cases cl) simp
  show ?thesis
    using assms same
    by (cases s) (auto simp: SetPosition_def connected_def cl_State_def cret_def Let_def cWritePacket_def WritePacket_def id)
qed

lemma SetPosition_fails_witness:
  "\<exists>e reg'. SetPosition (sample_world []) 1 2 3 4 5 6 True config_state = Ret (Some e, reg', snd config_state)"
proof -
  obtain c where c: "cl_Conn (snd config_state) = Some c" "c_state c = StateConfiguration" by (simp add: config_state_def)
  show ?thesis using SetPosition_fails [OF c(1), of "sample_world []" 1 2 3 4 5 6 True] c(2) by simp
qed

text \<open>\<open>Join\<close> and \<open>GetStatus\<close> never use the connection the client has: it is
  closed, and a new one dialled.  A connection given with \<open>WithConn\<close> only serves the
  other operations.\<close>

theorem Join_redials:
  "Join W (reg, cl) = Join W (reg, cl\<lparr>cl_Conn := conn\<rparr>) \<and> GetStatus W (reg, cl) = GetStatus W (reg, cl\<lparr>cl_Conn := conn\<rparr>)"
proof -
  have "Connect W (reg, cl\<lparr>cl_Conn := conn\<rparr>) = Connect W (reg, cl)"
    by (auto simp: Connect_eq split: sum.split)
  then show ?thesis by (simp add: Join_def start_login_def GetStatus_def ctry_def cbind_def)
qed

section \<open>Addresses\<close>

lemma last_byte_append: "last_byte c (xs @ c # ys) = Some (length xs)" if "c \<notin> set ys"
proof (induction xs)
  case Nil
  have "last_byte c ys = None" using that by (induction ys) auto
  then show ?case by simp
qed simp


lemma index_byte_append: "c \<notin> set xs \<Longrightarrow> index_byte c (xs @ c # ys) = Some (length xs)"
  by (induction xs) auto

definition host_ok :: "string \<Rightarrow> bool" where
  "host_ok host \<longleftrightarrow> CHR ''['' \<notin> set host \<and> CHR '']'' \<notin> set host"

definition port_ok :: "string \<Rightarrow> bool" where
  "port_ok port \<longleftrightarrow> host_ok port \<and> CHR '':'' \<notin> set port"

lemma SplitHostPort_join:
  assumes "host_ok host" "port_ok port"
  shows "net_SplitHostPort (net_JoinHostPort host port) = (host, port)"
proof (cases "CHR '':'' \<in> set host")
  case True
  let ?s = "CHR ''['' # (host @ CHR '']'' # CHR '':'' # port)"
  have last: "last_byte CHR '':'' ?s = Some (length host + 2)"
    using last_byte_append [of "CHR '':''" port "CHR ''['' # host @ [CHR '']'']"] assms(2) by (simp add: port_ok_def)
  have index: "index_byte CHR '']'' ?s = Some (length host + 1)"
    using index_byte_append [of "CHR '']''" host] assms(1) by (simp add: host_ok_def)
  show ?thesis using True last index assms
    by (simp add: net_JoinHostPort_def net_SplitHostPort_def host_ok_def port_ok_def)
next
  case False
  have last: "last_byte CHR '':'' (host @ CHR '':'' # port) = Some (length host)"
    using last_byte_append assms(2) by (simp add: port_ok_def)
  have "take 1 (host @ CHR '':'' # port) \<noteq> ''[''" using assms(1) by (cases host) (auto simp: host_ok_def)
  then show ?thesis using False last assms
    by (simp add: net_JoinHostPort_def net_SplitHostPort_def host_ok_def port_ok_def Let_def)
qed

text \<open>Splitting a joined address gives host and port back, for host names and for
  IPv6 addresses, which are joined in brackets.\<close>

theorem SplitHostPort_JoinHostPort:
  assumes "host_ok host" "port_ok port"
  shows "net_SplitHostPort (net_JoinHostPort host port) = (host, port)"
  using assms by (rule SplitHostPort_join)

lemma SplitHostPort_JoinHostPort_witness:
  "net_SplitHostPort (net_JoinHostPort ''::1'' ''25565'') = (''::1'', ''25565'') \<and>
     net_JoinHostPort ''::1'' ''25565'' = ''[::1]:25565''"
  using SplitHostPort_JoinHostPort [of "''::1''" "''25565''"] by (simp add: host_ok_def port_ok_def net_JoinHostPort_def)




end
