(* ===== verification/Rejection.thy ===== *)
theory Rejection
  imports Client_Props
begin

text \<open>
  How \<open>Join\<close> ends when the server refuses: a disconnect, an unknown packet or the end of the
  stream, during the login and during the configuration.
\<close>

section \<open>Unknown packets\<close>

text \<open>A well-formed frame with an id for which there is no packet.\<close>

definition unknown_frame :: "env \<Rightarrow> Version \<Rightarrow> State \<Rightarrow> int \<Rightarrow> bytes \<Rightarrow> bool" where
  "unknown_frame E v st threshold bs \<longleftrightarrow>
     (\<exists>pid body err. frame_sized E threshold pid body \<and> bs = frame_bytes E threshold pid body \<and>
        fst (NewPacket protocolRegistry v st DirectionClientbound pid) = Inl err)"

lemma conversing_unknown:
  assumes "conversing base st t (bs @ rest) e out s" "zlib_lawful (w_env W)"
    and "unknown_frame (w_env W) (cl_version base) st t bs"
  shows "\<exists>s'. cReadPacket W s = Ret (Inl ErrUnknownPacket, s') \<and> conversing base st t rest e out s'"
proof -
  obtain c where c: "cl_Conn (snd s) = Some c" "registry_ok (fst s)" "rest_of (snd s) = rest_of base"
      "c_version c = cl_version base" "c_state c = st" "c_compressionThreshold c = t"
      "nc_in (c_Conn c) = \<lparr>rd_data = bs @ rest, rd_end = e\<rparr>" "unbounded (nc_out (c_Conn c))" "wr_out (nc_out (c_Conn c)) = out"
    using assms(1) by (auto simp: conversing_def)
  obtain pid body err where f: "frame_sized (w_env W) t pid body" "bs = frame_bytes (w_env W) t pid body"
      "fst (NewPacket protocolRegistry (cl_version base) st DirectionClientbound pid) = Inl err"
    using assms(3) by (auto simp: unknown_frame_def)
  obtain z reg' where r: "registry_ok reg'" "ReadPacket (w_env W) (fst s) c =
      Ret (Inl ErrUnknownPacket, reg', (set_in \<lparr>rd_data = rest, rd_end = e\<rparr> c)\<lparr>c_zlibReader := z\<rparr>)"
    using ReadPacket_frame' [OF c(2) assms(2), of c pid body rest e] f c(4-7) NewPacket_registry_ok [OF c(2)]
    by (auto simp: Let_def)
  with c show ?thesis by (auto simp: cReadPacket_def conversing_def set_in_def)
qed

lemma conversing_end:
  assumes "conversing base st t [] e out s"
  shows "\<exists>s'. cReadPacket W s = Ret (Inl (Wrapf ''read packet length: '' e), s') \<and> conversing base st t [] e out s'"
proof -
  obtain c where c: "cl_Conn (snd s) = Some c" "nc_in (c_Conn c) = \<lparr>rd_data = [], rd_end = e\<rparr>"
    using assms by (auto simp: conversing_def)
  have "ReadVarInt (nc_in (c_Conn c)) = (0, Some e, nc_in (c_Conn c))"
    by (cases rule: ReadVarInt_cases [of "nc_in (c_Conn c)"]) (simp_all add: c(2))
  then have "cReadPacket W s = Ret (Inl (Wrapf ''read packet length: '' e), fst s, (snd s)\<lparr>cl_Conn := Some (set_in (nc_in (c_Conn c)) c)\<rparr>)"
    using c(1) by (simp add: cReadPacket_def ReadPacket_def read_frame_def)
  with assms c show ?thesis by (auto simp: conversing_def set_in_def)
qed

section \<open>The configuration up to some point\<close>

text \<open>What a server sends during the configuration, frame by frame: a packet, or \<open>None\<close> for
  one that is unknown.\<close>

definition config_frame :: "world \<Rightarrow> Client \<Rightarrow> int \<Rightarrow> Packet option \<Rightarrow> bytes \<Rightarrow> bool" where
  "config_frame W base t op bs =
     (case op of
        Some p \<Rightarrow> delivers (w_env W) (cl_version base) StateConfiguration t p bs \<and>
          config_going [p] \<and> answerable (cl_version base) p
      | None \<Rightarrow> unknown_frame (w_env W) (cl_version base) StateConfiguration t bs)"

lemma config_loop_frames:
  assumes "list_all2 (config_frame W base t) ops bss" "conversing base StateConfiguration t (concat bss @ rest) e out s"
    and "zlib_lawful (w_env W)" "cl_version base \<ge> V1_20_2"
  shows "\<exists>s' out'. loop (config_step W) s = loop (config_step W) s' \<and> conversing base StateConfiguration t rest e out' s'"
  using assms(1,2)
proof (induction ops bss arbitrary: s out rule: list_all2_induct)
  case Nil
  then show ?case by (intro exI [of _ s] exI [of _ out]) simp
next
  case (Cons op ops bs bss)
  have inp: "conversing base StateConfiguration t (bs @ concat bss @ rest) e out s" using Cons.prems by simp
  obtain s2 out2 where s2: "config_step W s = Ret (Inr (), s2)" "conversing base StateConfiguration t (concat bss @ rest) e out2 s2"
  proof (cases op)
    case None
    then obtain s1 where s1: "cReadPacket W s = Ret (Inl ErrUnknownPacket, s1)"
        "conversing base StateConfiguration t (concat bss @ rest) e out s1"
      using conversing_unknown [OF inp assms(3)] Cons.hyps(1) by (auto simp: config_frame_def)
    show thesis by (rule that [OF _ s1(2)]) (simp add: s1(1) config_step_def cbind_def again_def cret_def)
  next
    case (Some p)
    then have p: "delivers (w_env W) (cl_version base) StateConfiguration t p bs" "config_going [p]" "answerable (cl_version base) p"
      using Cons.hyps(1) by (auto simp: config_frame_def)
    obtain s1 where s1: "config_step W s = config_packet W p s1" "conversing base StateConfiguration t (concat bss @ rest) e out s1"
      using config_step_reads [OF inp assms(3) p(1)] by blast
    show thesis using config_packet_answers [OF s1(2) assms(4) p(3,2), of W] s1(1) that by auto
  qed
  have "loop (config_step W) s = loop (config_step W) s2" by (rule loop_again [of "config_step W", OF s2(1)])
  with Cons.IH [OF s2(2)] show ?case by simp
qed

section \<open>Refusals\<close>

text \<open>What ends \<open>Join\<close>: the server's last frame or the end of its stream, and the error for it.\<close>

definition refusal :: "world \<Rightarrow> Client \<Rightarrow> State \<Rightarrow> int \<Rightarrow> bytes \<Rightarrow> goerr \<Rightarrow> goerr \<Rightarrow> bool" where
  "refusal W base st t stream e err \<longleftrightarrow>
     (\<exists>reason last rest. stream = last @ rest \<and>
        delivers (w_env W) (cl_version base) st t (ClientboundDisconnect reason) last \<and>
        err = Errorf (if st = StateLogin then ''disconnected by server: '' @ State_String st @ '', '' @ reason
                      else ''disconnected during config: '' @ reason)) \<or>
     (st = StateLogin \<and> (\<exists>last rest. stream = last @ rest \<and> unknown_frame (w_env W) (cl_version base) st t last) \<and>
        err = Wrapf ''error during login sequence: '' ErrUnknownPacket) \<or>
     (stream = [] \<and> \<not> errors_Is e ErrUnknownPacket \<and>
        err = Wrapf (if st = StateLogin then ''error during login sequence: '' else ''error during configuration: '')
          (Wrapf ''read packet length: '' e))"

lemma login_refused:
  assumes "conversing base StateLogin t stream e out s" "zlib_lawful (w_env W)"
    and "refusal W base StateLogin t stream e err"
  shows "\<exists>s'. loop (login_step W) s = Some (Ret (Return (Some err), s'))"
proof -
  have "\<exists>s'. login_step W s = Ret (Inl (Return (Some err)), s')"
    using assms(3) unfolding refusal_def
  proof (elim disjE exE conjE)
    fix reason last rest
    assume r: "stream = last @ rest" "delivers (w_env W) (cl_version base) StateLogin t (ClientboundDisconnect reason) last"
      "err = Errorf (if StateLogin = StateLogin then ''disconnected by server: '' @ State_String StateLogin @ '', '' @ reason
                     else ''disconnected during config: '' @ reason)"
    obtain s1 where "login_step W s = login_packet W (ClientboundDisconnect reason) s1" "conversing base StateLogin t rest e out s1"
      using login_step_reads [OF assms(1) [unfolded r(1)] assms(2) r(2)] by blast
    with conversing_fields [of base StateLogin t rest e out s1] r(3)
    show ?thesis by (simp add: login_packet_def leave_def cret_def)
  next
    fix last rest
    assume r: "err = Wrapf ''error during login sequence: '' ErrUnknownPacket" "stream = last @ rest"
      "unknown_frame (w_env W) (cl_version base) StateLogin t last"
    obtain s1 where "cReadPacket W s = Ret (Inl ErrUnknownPacket, s1)"
      using conversing_unknown [OF assms(1) [unfolded r(2)] assms(2) r(3)] by blast
    with r(1) show ?thesis by (simp add: login_step_def cbind_def leave_def cret_def)
  next
    assume r: "stream = []" "err = Wrapf (if StateLogin = StateLogin then ''error during login sequence: ''
      else ''error during configuration: '') (Wrapf ''read packet length: '' e)"
    obtain s1 where "cReadPacket W s = Ret (Inl (Wrapf ''read packet length: '' e), s1)"
      using conversing_end [OF assms(1) [unfolded r(1)]] by blast
    with r(2) show ?thesis by (simp add: login_step_def cbind_def leave_def cret_def)
  qed
  then obtain s' where "login_step W s = Ret (Inl (Return (Some err)), s')" by blast
  from loop_return [of "login_step W", OF this] show ?thesis by (rule exI)
qed

lemma config_refused:
  assumes "conversing base StateConfiguration t stream e out s" "zlib_lawful (w_env W)"
    and "refusal W base StateConfiguration t stream e err"
  shows "\<exists>s'. loop (config_step W) s = Some (Ret (Some err, s'))"
proof -
  have "\<exists>s'. config_step W s = Ret (Inl (Some err), s')"
    using assms(3) unfolding refusal_def
  proof (elim disjE exE conjE)
    fix reason last rest
    assume r: "stream = last @ rest" "delivers (w_env W) (cl_version base) StateConfiguration t (ClientboundDisconnect reason) last"
      "err = Errorf (if StateConfiguration = StateLogin then ''disconnected by server: '' @ State_String StateConfiguration @ '', '' @ reason
                     else ''disconnected during config: '' @ reason)"
    obtain s1 where "config_step W s = config_packet W (ClientboundDisconnect reason) s1"
      using config_step_reads [OF assms(1) [unfolded r(1)] assms(2) r(2)] by blast
    with r(3) show ?thesis by (simp add: config_packet_def leave_def cret_def)
  next
    assume r: "stream = []" "\<not> errors_Is e ErrUnknownPacket" "err = Wrapf (if StateConfiguration = StateLogin then
      ''error during login sequence: '' else ''error during configuration: '') (Wrapf ''read packet length: '' e)"
    obtain s1 where "cReadPacket W s = Ret (Inl (Wrapf ''read packet length: '' e), s1)"
      using conversing_end [OF assms(1) [unfolded r(1)]] by blast
    with r(2,3) show ?thesis by (simp add: config_step_def cbind_def leave_def cret_def)
  qed simp_all
  then obtain s' where "config_step W s = Ret (Inl (Some err), s')" by blast
  from loop_return [of "config_step W", OF this] show ?thesis by (rule exI)
qed

text \<open>C22. \<open>Join\<close> reports why it failed.  A disconnect yields an error with its reason, and the end
  of the stream an error that wraps it, in the login and in the configuration, where any packets
  but the last may come before.  An unknown packet ends the login with an error, but is skipped
  during the configuration.\<close>

theorem Join_refused:
  assumes "registry_ok reg" "cl_addr cl = Some a" "0 \<le> cl_version cl" "cl_username cl \<noteq> []"
    and "net_Dial W (TCPAddr_String (cl_addr cl)) = Inr nc" "unbounded (nc_out nc)" "zlib_lawful (w_env W)"
    and "nc_in nc = \<lparr>rd_data = compression @ success @ concat bss @ stream, rd_end = e\<rparr>"
    and "threshold_set (w_env W) (cl_version cl) compression t"
    and "if st = StateConfiguration
         then cl_version cl \<ge> V1_20_2 \<and> (\<exists>p. delivers (w_env W) (cl_version cl) StateLogin t (ClientboundLoginSuccess p) success) \<and>
           list_all2 (config_frame W cl t) ops bss
         else st = StateLogin \<and> success = [] \<and> bss = []"
    and "refusal W cl st t stream e err"
  shows "\<exists>s'. Join W (reg, cl) = Some (Ret (Some err, s'))"
proof -
  obtain s1 out where s1: "start_login W (reg, cl) = Ret (None, s1)"
      "conversing cl StateLogin (-1) (compression @ success @ concat bss @ stream) e out s1"
    using start_login_script [OF assms(1-6,8)] by auto
  obtain s2 where s2: "loop (login_step W) s1 = loop (login_step W) s2"
      "conversing cl StateLogin t (success @ concat bss @ stream) e out s2"
    using login_loop_compression [OF s1(2) assms(7,9)] by blast
  show ?thesis
  proof (cases "st = StateConfiguration")
    case True
    then obtain p where v: "cl_version cl \<ge> V1_20_2" "list_all2 (config_frame W cl t) ops bss"
        "delivers (w_env W) (cl_version cl) StateLogin t (ClientboundLoginSuccess p) success"
      using assms(10) by auto
    obtain s3 out3 where s3: "loop (login_step W) s2 = Some (Ret (Configuration, s3))"
        "conversing cl StateConfiguration t (concat bss @ stream) e out3 s3"
      using login_loop_success [OF s2(2) assms(7,3) v(3)] v(1) by auto
    note f = conversing_fields [OF s3(2)]
    obtain s4 out4 where s4: "cWritePacket W (ServerboundClientSettings (cl_settings cl)) s3 = Ret (None, s4)"
        "conversing cl StateConfiguration t (concat bss @ stream) e out4 s4"
      using conversing_write [OF s3(2) sendable_packets(7) [OF v(1)], of W "cl_settings cl"] by blast
    have h: "handleConfiguration W s3 = loop (config_step W) s4"
      using f s4(1) by (auto simp: handleConfiguration_def SendClientSettings_def connected_def)
    obtain s5 out5 where s5: "loop (config_step W) s4 = loop (config_step W) s5" "conversing cl StateConfiguration t stream e out5 s5"
      using config_loop_frames [OF v(2) s4(2) assms(7) v(1)] by blast
    obtain s6 where "loop (config_step W) s5 = Some (Ret (Some err, s6))"
      using config_refused [OF s5(2) assms(7)] assms(11) True by blast
    with s1(1) s2(1) s3(1) h s5(1) show ?thesis by (simp add: Join_def)
  next
    case False
    then have st: "st = StateLogin" "success = []" "bss = []" using assms(10) by auto
    with s2(2) have "conversing cl StateLogin t stream e out s2" by simp
    from login_refused [OF this assms(7)] assms(11) st(1)
    obtain s3 where "loop (login_step W) s2 = Some (Ret (Return (Some err), s3))" by blast
    with s1(1) s2(1) show ?thesis by (simp add: Join_def)
  qed
qed

lemma Join_refused_witness:
  "\<exists>s'. Join (sample_world (sample_frames ! 0 @ sample_frames ! 1 @ frame_bytes stored_zlib 256 126 [] @
       frame_bytes stored_zlib 256 2 [2, 0x6E, 0x6F] @ [])) (protocolRegistry, sample_client) =
     Some (Ret (Some (Errorf ''disconnected during config: no''), s'))"
proof -
  let ?unknown = "frame_bytes stored_zlib 256 126 []" and ?last = "frame_bytes stored_zlib 256 2 [2, 0x6E, 0x6F]"
  let ?W = "sample_world (sample_frames ! 0 @ sample_frames ! 1 @ ?unknown @ ?last @ [])"
  have threshold: "threshold_set (w_env ?W) (cl_version sample_client) (sample_frames ! 0) 256"
    using sample_delivers(1) by (auto simp: threshold_set_def sample_frames_def)
  have id: "fst (NewPacket protocolRegistry V1_21_4 StateConfiguration DirectionClientbound 126) = Inl ErrUnknownPacket"
    using known_definitions(2) by (simp add: NewPacket_eq definition_at_def find_definition_hit) code_simp
  have unknown: "unknown_frame stored_zlib V1_21_4 StateConfiguration 256 ?unknown"
    unfolding unknown_frame_def using id by (intro exI [of _ 126] exI [of _ "[]"]) (auto intro!: sample_sized)
  have "delivers stored_zlib V1_21_4 StateConfiguration 256 (ClientboundDisconnect ''no'') ?last"
    by (rule sample_deliversI [where n = "''ClientboundDisconnect''"]) (code_simp, simp, simp, code_simp)
  then have refusal: "refusal ?W sample_client StateConfiguration 256 (?last @ []) EOF (Errorf ''disconnected during config: no'')"
    unfolding refusal_def by (intro disjI1 exI [of _ "''no''"] exI [of _ ?last] exI [of _ "[]"]) simp
  have frames: "list_all2 (config_frame ?W sample_client 256) [None] [?unknown]"
    using unknown by (simp add: config_frame_def)
  show ?thesis
    by (rule Join_refused [OF registry_ok_init sample_simps(2) _ _ sample_simps(4) sample_simps(7) _ _ threshold _ refusal,
          where success = "sample_frames ! 1" and bss = "[?unknown]" and ops = "[None]"])
      (use sample_delivers(2) stored_zlib_lawful frames in \<open>auto simp: sample_frames_def\<close>)
qed

end
