(* ===== verification/Listener.thy ===== *)
theory Listener
  imports Client_Trace
begin

text \<open>
  The listening half of \<open>client.go\<close> and the events of \<open>events.go\<close>: the read loop,
  its event channel, \<open>JoinAndListen\<close> and \<open>Destroy\<close>, as a system of threads.

  One thread is the program that uses the client.  It calls an operation, and while it is not
  inside one it may receive from the channels.  The other is the goroutine of \<open>readLoop\<close>.
  Any other goroutine may call \<open>Chat\<close> at any time, in one step.
  A step is what happens between two points at which a thread can be overtaken: a channel
  operation, the return of a read from the network, a wait.  \<open>Join\<close> is one step, although
  a read loop of an earlier \<open>JoinAndListen\<close> could be running beside it.
\<close>

section \<open>Events\<close>

datatype Event =
    ReadyEvent string
  | DisconnectEvent string
  | KeepAliveEvent int64
  | ChatMessageEvent string ChatComponent string  \<comment> \<open>the time is left out\<close>

section \<open>Channels\<close>

record chan =
  ch_buf :: "Event list"
  ch_cap :: nat
  ch_closed :: bool

definition make_chan :: "nat \<Rightarrow> chan" where
  "make_chan n = \<lparr>ch_buf = [], ch_cap = n, ch_closed = False\<rparr>"

text \<open>A send that finds room in the buffer, and a receive that finds an event in it;
  otherwise the thread waits.\<close>

definition chan_send :: "Event \<Rightarrow> chan \<Rightarrow> chan option" where
  "chan_send ev ch =
     (if length (ch_buf ch) < ch_cap ch then Some (ch\<lparr>ch_buf := ch_buf ch @ [ev]\<rparr>) else None)"

definition chan_recv :: "chan \<Rightarrow> (Event \<times> chan) option" where
  "chan_recv ch = (case ch_buf ch of [] \<Rightarrow> None | ev # evs \<Rightarrow> Some (ev, ch\<lparr>ch_buf := evs\<rparr>))"

definition chan_close :: "chan \<Rightarrow> chan" where
  "chan_close ch = ch\<lparr>ch_closed := True\<rparr>"

text \<open>A queue: what is received is what was sent, in the order it was sent.\<close>

locale event_queue =
  fixes items :: "'c \<Rightarrow> 'e list" and enq :: "'e \<Rightarrow> 'c \<Rightarrow> 'c option" and deq :: "'c \<Rightarrow> ('e \<times> 'c) option"
  assumes enq_items: "enq e c = Some c' \<Longrightarrow> items c' = items c @ [e]"
    and deq_items: "deq c = Some (e, c') \<Longrightarrow> items c = e # items c'"
    and deq_ready: "items c \<noteq> [] \<Longrightarrow> deq c \<noteq> None"
begin

definition in_order :: "'e list \<Rightarrow> 'e list \<Rightarrow> 'c \<Rightarrow> bool" where
  "in_order ins outs c \<longleftrightarrow> ins = outs @ items c"

lemma in_order_enq: "in_order ins outs c \<Longrightarrow> enq e c = Some c' \<Longrightarrow> in_order (ins @ [e]) outs c'"
  by (simp add: in_order_def enq_items)

lemma in_order_deq: "in_order ins outs c \<Longrightarrow> deq c = Some (e, c') \<Longrightarrow> in_order ins (outs @ [e]) c'"
  by (simp add: in_order_def deq_items)

lemma in_order_prefix: "in_order ins outs c \<Longrightarrow> prefix outs ins"
  by (auto simp: in_order_def)

lemma in_order_drained: "in_order ins outs c \<Longrightarrow> deq c = None \<Longrightarrow> outs = ins"
  using deq_ready by (fastforce simp: in_order_def)

end

interpretation events: event_queue ch_buf chan_send chan_recv
  by unfold_locales (auto simp: chan_send_def chan_recv_def split: if_splits list.splits)

lemma chan_send_cap: "chan_send ev ch = Some ch' \<Longrightarrow> ch_cap ch' = ch_cap ch \<and> ch_closed ch' = ch_closed ch \<and>
    length (ch_buf ch') \<le> ch_cap ch"
  by (auto simp: chan_send_def split: if_splits)

lemma chan_recv_cap: "chan_recv ch = Some (ev, ch') \<Longrightarrow> ch_cap ch' = ch_cap ch \<and> ch_closed ch' = ch_closed ch \<and>
    length (ch_buf ch') < length (ch_buf ch)"
  by (auto simp: chan_recv_def split: list.splits)

lemma chan_close_simps [simp]:
  "ch_buf (chan_close ch) = ch_buf ch" "ch_cap (chan_close ch) = ch_cap ch" "ch_closed (chan_close ch)"
  "ch_buf (make_chan n) = []" "ch_cap (make_chan n) = n" "\<not> ch_closed (make_chan n)"
  by (simp_all add: chan_close_def make_chan_def)

section \<open>The threads\<close>

text \<open>What the read loop does after an event has been delivered.\<close>

datatype after_send = Exit | Continue | Cancel

text \<open>The read loop: not running, at its \<open>select\<close>, inside \<open>ReadPacket\<close> on the
  \<open>n\<close>-th connection, or waiting to send an event to a channel.\<close>

datatype reader_pc = Stopped | Looping | Reading nat | Sending nat Event after_send

text \<open>The caller: outside the client, in \<open>readerWg.Wait\<close> of \<open>JoinAndListen\<close>, at its
  send of the ready event, or in \<open>readerWg.Wait\<close> of \<open>Destroy\<close>.\<close>

datatype main_pc = Outside | Join_Wait | Join_Ready nat Event | Destroy_Wait

text \<open>\<open>ls_dialled\<close> counts the connections; \<open>ls_sent\<close> and \<open>ls_received\<close> record what
  went through the channels and influence nothing.\<close>

record listener =
  ls_client :: cstate
  ls_eventChan :: "nat option"
  ls_chans :: "chan list"
  ls_cancelled :: bool
  ls_wg :: nat
  ls_dialled :: nat
  ls_reader :: reader_pc
  ls_main :: main_pc
  ls_panic :: "string option"
  ls_sent :: "(nat \<times> Event) list"
  ls_received :: "(nat \<times> Event) list"

definition new_listener :: "cstate \<Rightarrow> listener" where
  "new_listener s =
     \<lparr>ls_client = s, ls_eventChan = None, ls_chans = [], ls_cancelled = False, ls_wg = 0, ls_dialled = 0,
      ls_reader = Stopped, ls_main = Outside, ls_panic = None, ls_sent = [], ls_received = []\<rparr>"

definition closed_send_panic :: string where
  "closed_send_panic = ''send on closed channel''"

definition makechan_panic :: string where
  "makechan_panic = ''makechan: size out of range''"

section \<open>The read loop\<close>

text \<open>\<open>handlePacket\<close> up to its send: the event, if any, and what follows it.\<close>

definition handlePacket :: "world \<Rightarrow> Packet \<Rightarrow> ((Event \<times> after_send) option) cmd" where
  "handlePacket W packet =
     (case packet of
        ClientboundKeepAlive i \<Rightarrow>
          cbind (cWritePacket W (ServerboundKeepAlive i)) (\<lambda>_. cret (Some (KeepAliveEvent i, Continue)))
      | ClientboundChatMessage p \<Rightarrow>
          cret (Some (ChatMessageEvent (ChatComponent_String (cc_Component p)) (cc_Component p) (cc_Sender p), Continue))
      | ClientboundDisconnect reason \<Rightarrow> cret (Some (DisconnectEvent reason, Cancel))
      | _ \<Rightarrow> cret None)"

definition after :: "after_send \<Rightarrow> listener \<Rightarrow> listener" where
  "after k s =
     (case k of
        Exit \<Rightarrow> s\<lparr>ls_reader := Stopped, ls_wg := ls_wg s - 1\<rparr>
      | Continue \<Rightarrow> s\<lparr>ls_reader := Looping\<rparr>
      | Cancel \<Rightarrow> s\<lparr>ls_reader := Looping, ls_cancelled := True\<rparr>)"

text \<open>"if c.eventChan != nil { c.eventChan <- ev }", then \<open>k\<close>.\<close>

definition emit_event :: "Event \<Rightarrow> after_send \<Rightarrow> listener \<Rightarrow> listener" where
  "emit_event ev k s =
     (case ls_eventChan s of None \<Rightarrow> after k s | Some i \<Rightarrow> s\<lparr>ls_reader := Sending i ev k\<rparr>)"

text \<open>The return of \<open>ReadPacket\<close>.  A connection that was replaced meanwhile has been
  closed, and its reads fail.\<close>

definition closed_conn :: goerr where
  "closed_conn = ExtErr ''use of closed network connection''"

definition read_result :: "world \<Rightarrow> nat \<Rightarrow> listener \<Rightarrow> ((goerr + Packet) \<times> cstate) outcome" where
  "read_result W n s =
     (if n = ls_dialled s then cReadPacket W (ls_client s)
      else Ret (Inl (Wrapf ''read packet length: '' closed_conn), ls_client s))"

definition read_returns :: "world \<Rightarrow> nat \<Rightarrow> listener \<Rightarrow> listener" where
  "read_returns W n s =
     (case read_result W n s of
        Panic m \<Rightarrow> s\<lparr>ls_panic := Some m\<rparr>
      | Ret (Inl e, cs) \<Rightarrow>
          (let s = s\<lparr>ls_client := cs\<rparr> in
           if errors_Is e ErrUnknownPacket then s\<lparr>ls_reader := Looping\<rparr>
           else emit_event (DisconnectEvent (err_Error e)) Exit s)
      | Ret (Inr packet, cs) \<Rightarrow>
          (case handlePacket W packet cs of
             Panic m \<Rightarrow> s\<lparr>ls_panic := Some m\<rparr>
           | Ret (None, cs') \<Rightarrow> s\<lparr>ls_client := cs', ls_reader := Looping\<rparr>
           | Ret (Some (ev, k), cs') \<Rightarrow> emit_event ev k (s\<lparr>ls_client := cs'\<rparr>)))"

text \<open>A send to the \<open>i\<close>-th channel, then \<open>k\<close>; \<open>None\<close> while it has to wait.\<close>

definition send_event :: "nat \<Rightarrow> Event \<Rightarrow> (listener \<Rightarrow> listener) \<Rightarrow> listener \<Rightarrow> listener option" where
  "send_event i ev k s =
     (if ch_closed (ls_chans s ! i) then Some (s\<lparr>ls_panic := Some closed_send_panic\<rparr>)
      else map_option (\<lambda>ch. k (s\<lparr>ls_chans := (ls_chans s)[i := ch], ls_sent := ls_sent s @ [(i, ev)]\<rparr>))
             (chan_send ev (ls_chans s ! i)))"

definition reader_step :: "world \<Rightarrow> listener \<Rightarrow> listener option" where
  "reader_step W s =
     (case ls_reader s of
        Stopped \<Rightarrow> None
      | Looping \<Rightarrow> Some (if ls_cancelled s then after Exit s else s\<lparr>ls_reader := Reading (ls_dialled s)\<rparr>)
      | Reading n \<Rightarrow> Some (read_returns W n s)
      | Sending i ev k \<Rightarrow> send_event i ev (after k) s)"

section \<open>The calls\<close>

text \<open>\<open>JoinAndListen\<close> up to its \<open>Wait\<close>.  A \<open>Join\<close> that fails or panics ends it;
  \<open>None\<close> when \<open>Join\<close> does not return.\<close>

definition close_events :: "listener \<Rightarrow> listener" where
  "close_events s =
     (case ls_eventChan s of
        None \<Rightarrow> s
      | Some i \<Rightarrow> s\<lparr>ls_chans := (ls_chans s)[i := chan_close (ls_chans s ! i)]\<rparr>)"

definition JoinAndListen :: "world \<Rightarrow> int \<Rightarrow> listener \<Rightarrow> listener option" where
  "JoinAndListen W eventCount s =
     (case Join W (ls_client s) of
        None \<Rightarrow> None
      | Some (Panic m) \<Rightarrow> Some (s\<lparr>ls_panic := Some m\<rparr>)
      | Some (Ret (Some e, cs)) \<Rightarrow> Some (s\<lparr>ls_client := cs, ls_dialled := ls_dialled s + 1\<rparr>)
      | Some (Ret (None, cs)) \<Rightarrow>
          (let s = close_events (s\<lparr>ls_client := cs, ls_dialled := ls_dialled s + 1\<rparr>) in
           if eventCount < 0 then Some (s\<lparr>ls_panic := Some makechan_panic\<rparr>)
           else Some (s\<lparr>ls_chans := ls_chans s @ [make_chan (nat eventCount)],
                        ls_eventChan := Some (length (ls_chans s)), ls_main := Join_Wait\<rparr>)))"

text \<open>\<open>Destroy\<close> up to its \<open>Wait\<close>.\<close>

definition Destroy :: "listener \<Rightarrow> listener" where
  "Destroy s = s\<lparr>ls_cancelled := True, ls_main := Destroy_Wait\<rparr>"

text \<open>How a call goes on.\<close>

definition main_step :: "listener \<Rightarrow> listener option" where
  "main_step s =
     (case ls_main s of
        Outside \<Rightarrow> None
      | Join_Wait \<Rightarrow>
          (if ls_wg s = 0
           then Some (s\<lparr>ls_wg := 1, ls_reader := Looping,
                  ls_main := (case ls_eventChan s of
                     Some i \<Rightarrow> Join_Ready i (ReadyEvent (cl_username (snd (ls_client s))))
                   | None \<Rightarrow> Join_Wait)\<rparr>)
           else None)
      | Join_Ready i ev \<Rightarrow> send_event i ev (\<lambda>s. s\<lparr>ls_main := Outside\<rparr>) s
      | Destroy_Wait \<Rightarrow>
          (if ls_wg s = 0
           then Some ((close_events s)\<lparr>ls_eventChan := None, ls_main := Outside,
                  ls_client := (fst (ls_client s), snd (Close (snd (ls_client s))))\<rparr>)
           else None))"

text \<open>The receive of the using program.  From an unbuffered channel it takes the event of a
  read loop that waits to send it.\<close>

definition receive :: "nat \<Rightarrow> listener \<Rightarrow> listener option" where
  "receive i s =
     (if length (ls_chans s) \<le> i then None
      else case chan_recv (ls_chans s ! i) of
        Some (ev, ch) \<Rightarrow> Some (s\<lparr>ls_chans := (ls_chans s)[i := ch], ls_received := ls_received s @ [(i, ev)]\<rparr>)
      | None \<Rightarrow>
          (case ls_reader s of
             Sending j ev k \<Rightarrow>
               (if j = i \<and> ch_cap (ls_chans s ! i) = 0 \<and> \<not> ch_closed (ls_chans s ! i)
                then Some (after k (s\<lparr>ls_sent := ls_sent s @ [(i, ev)], ls_received := ls_received s @ [(i, ev)]\<rparr>))
                else None)
           | _ \<Rightarrow> None))"

text \<open>A call of \<open>Chat\<close>, with what becomes of its error left to its caller.\<close>

definition chat_call :: "world \<Rightarrow> string \<Rightarrow> listener \<Rightarrow> listener" where
  "chat_call W message s =
     (case Chat W message (ls_client s) of
        Panic m \<Rightarrow> s\<lparr>ls_panic := Some m\<rparr>
      | Ret (_, cs) \<Rightarrow> s\<lparr>ls_client := cs\<rparr>)"

lemma chat_call_selectors [simp]:
  "ls_eventChan (chat_call W m s) = ls_eventChan s" "ls_chans (chat_call W m s) = ls_chans s"
  "ls_dialled (chat_call W m s) = ls_dialled s" "ls_main (chat_call W m s) = ls_main s"
  "ls_sent (chat_call W m s) = ls_sent s" "ls_received (chat_call W m s) = ls_received s"
  "ls_reader (chat_call W m s) = ls_reader s" "ls_wg (chat_call W m s) = ls_wg s"
  "ls_cancelled (chat_call W m s) = ls_cancelled s"
  by (simp_all add: chat_call_def split: outcome.split prod.split)

section \<open>The system\<close>

datatype label = Reader | Main | Call_Listen int | Call_Destroy | Call_Chat string | Receive nat

inductive step :: "world \<Rightarrow> listener \<Rightarrow> label \<Rightarrow> listener \<Rightarrow> bool" for W where
  step_reader: "ls_panic s = None \<Longrightarrow> reader_step W s = Some s' \<Longrightarrow> step W s Reader s'"
| step_main: "ls_panic s = None \<Longrightarrow> main_step s = Some s' \<Longrightarrow> step W s Main s'"
| step_listen: "ls_panic s = None \<Longrightarrow> ls_main s = Outside \<Longrightarrow> JoinAndListen W n s = Some s' \<Longrightarrow>
    step W s (Call_Listen n) s'"
| step_destroy: "ls_panic s = None \<Longrightarrow> ls_main s = Outside \<Longrightarrow> s' = Destroy s \<Longrightarrow> step W s Call_Destroy s'"
| step_chat: "ls_panic s = None \<Longrightarrow> s' = chat_call W m s \<Longrightarrow> step W s (Call_Chat m) s'"
| step_receive: "ls_panic s = None \<Longrightarrow> ls_main s = Outside \<Longrightarrow> receive i s = Some s' \<Longrightarrow> step W s (Receive i) s'"

inductive_cases step_cases: "step W s a s'"

inductive reachable :: "world \<Rightarrow> listener \<Rightarrow> listener \<Rightarrow> bool" for W s where
  reachable_refl: "reachable W s s"
| reachable_step: "reachable W s t \<Longrightarrow> step W t a t' \<Longrightarrow> reachable W s t'"

section \<open>The invariant of the system\<close>

definition on_channel :: "nat \<Rightarrow> (nat \<times> Event) list \<Rightarrow> Event list" where
  "on_channel i es = map snd (filter (\<lambda>(j, _). j = i) es)"

lemma on_channel_simps [simp]:
  "on_channel i [] = []"
  "on_channel i (es @ [(j, ev)]) = on_channel i es @ (if j = i then [ev] else [])"
  by (simp_all add: on_channel_def)

text \<open>The wait group counts the one read loop; every channel but the current one is closed;
  buffers keep their bounds; every channel delivers in order.\<close>

definition threads_ok :: "listener \<Rightarrow> bool" where
  "threads_ok s \<longleftrightarrow>
     ls_wg s = (if ls_reader s = Stopped then 0 else 1) \<and>
     (\<forall>i ev k. ls_reader s = Sending i ev k \<longrightarrow> i < length (ls_chans s)) \<and>
     (\<forall>n. ls_reader s = Reading n \<longrightarrow> n \<le> ls_dialled s) \<and>
     (\<forall>i ev. ls_main s = Join_Ready i ev \<longrightarrow> ls_eventChan s = Some i)"

definition channels_ok :: "listener \<Rightarrow> bool" where
  "channels_ok s \<longleftrightarrow>
     (\<forall>i. ls_eventChan s = Some i \<longrightarrow> i < length (ls_chans s)) \<and>
     (\<forall>i < length (ls_chans s). length (ch_buf (ls_chans s ! i)) \<le> ch_cap (ls_chans s ! i) \<and>
        (ls_panic s = None \<longrightarrow> (ch_closed (ls_chans s ! i) \<longleftrightarrow> ls_eventChan s \<noteq> Some i)) \<and>
        events.in_order (on_channel i (ls_sent s)) (on_channel i (ls_received s)) (ls_chans s ! i)) \<and>
     (\<forall>i \<ge> length (ls_chans s). on_channel i (ls_sent s) = [] \<and> on_channel i (ls_received s) = [])"

lemma after_selectors [simp]:
  "ls_client (after k s) = ls_client s" "ls_eventChan (after k s) = ls_eventChan s" "ls_chans (after k s) = ls_chans s"
  "ls_dialled (after k s) = ls_dialled s" "ls_main (after k s) = ls_main s" "ls_panic (after k s) = ls_panic s"
  "ls_sent (after k s) = ls_sent s" "ls_received (after k s) = ls_received s"
  "ls_reader (after k s) = (if k = Exit then Stopped else Looping)"
  "ls_wg (after k s) = (if k = Exit then ls_wg s - 1 else ls_wg s)"
  by (cases k; simp add: after_def)+

lemma emit_event_selectors [simp]:
  "ls_client (emit_event ev k s) = ls_client s" "ls_eventChan (emit_event ev k s) = ls_eventChan s"
  "ls_chans (emit_event ev k s) = ls_chans s" "ls_dialled (emit_event ev k s) = ls_dialled s"
  "ls_main (emit_event ev k s) = ls_main s" "ls_panic (emit_event ev k s) = ls_panic s"
  "ls_sent (emit_event ev k s) = ls_sent s" "ls_received (emit_event ev k s) = ls_received s"
  by (simp_all add: emit_event_def split: option.split)

lemma emit_event_reader:
  "ls_reader (emit_event ev k s) =
     (case ls_eventChan s of Some i \<Rightarrow> Sending i ev k | None \<Rightarrow> if k = Exit then Stopped else Looping)"
  "ls_wg (emit_event ev k s) = (if k = Exit \<and> ls_eventChan s = None then ls_wg s - 1 else ls_wg s)"
  by (auto simp: emit_event_def split: option.split)

text \<open>The return of a read: the channels are as before, and the loop goes on, ends or has an
  event for the current channel.\<close>

lemma read_returns_frame:
  "ls_eventChan (read_returns W n s) = ls_eventChan s" "ls_chans (read_returns W n s) = ls_chans s"
  "ls_dialled (read_returns W n s) = ls_dialled s" "ls_main (read_returns W n s) = ls_main s"
  "ls_sent (read_returns W n s) = ls_sent s" "ls_received (read_returns W n s) = ls_received s"
  by (simp_all add: read_returns_def Let_def split: outcome.split prod.split sum.split option.split)

lemma read_returns_threads:
  assumes "ls_reader s = Reading n" "ls_wg s = 1"
  shows "ls_wg (read_returns W n s) = (if ls_reader (read_returns W n s) = Stopped then 0 else 1) \<and>
     (\<forall>i ev k. ls_reader (read_returns W n s) = Sending i ev k \<longrightarrow> ls_eventChan s = Some i) \<and>
     (\<forall>m. ls_reader (read_returns W n s) = Reading m \<longrightarrow> m = n)"
  using assms
  by (auto simp: read_returns_def Let_def emit_event_reader split: outcome.split prod.split sum.split option.split)

lemma send_event_cases:
  assumes "send_event i ev k s = Some s'"
  obtains (closed) "ch_closed (ls_chans s ! i)" "s' = s\<lparr>ls_panic := Some closed_send_panic\<rparr>"
  | (sent) ch where "\<not> ch_closed (ls_chans s ! i)" "chan_send ev (ls_chans s ! i) = Some ch"
      "s' = k (s\<lparr>ls_chans := (ls_chans s)[i := ch], ls_sent := ls_sent s @ [(i, ev)]\<rparr>)"
  using assms by (auto simp: send_event_def split: if_splits)

lemma channels_ok_send:
  assumes "channels_ok s" "chan_send ev (ls_chans s ! i) = Some ch" "i < length (ls_chans s)"
  shows "channels_ok (s\<lparr>ls_chans := (ls_chans s)[i := ch], ls_sent := ls_sent s @ [(i, ev)]\<rparr>)"
  using assms chan_send_cap [OF assms(2)] events.in_order_enq [OF _ assms(2)]
  by (auto simp: channels_ok_def nth_list_update)

lemma channels_ok_recv:
  assumes "channels_ok s" "chan_recv (ls_chans s ! i) = Some (ev, ch)" "i < length (ls_chans s)"
  shows "channels_ok (s\<lparr>ls_chans := (ls_chans s)[i := ch], ls_received := ls_received s @ [(i, ev)]\<rparr>)"
  using assms chan_recv_cap [OF assms(2)] events.in_order_deq [OF _ assms(2)]
  by (auto simp: channels_ok_def nth_list_update)

lemma channels_ok_cong:
  assumes "channels_ok s" "ls_eventChan s' = ls_eventChan s" "ls_chans s' = ls_chans s" "ls_sent s' = ls_sent s"
    "ls_received s' = ls_received s" "ls_panic s' = None \<Longrightarrow> ls_panic s = None"
  shows "channels_ok s'"
  using assms unfolding channels_ok_def by metis

lemma channels_ok_close:
  assumes "channels_ok s" "i < length (ls_chans s)" "ls_eventChan s = Some i"
  shows "channels_ok (s\<lparr>ls_chans := (ls_chans s)[i := chan_close (ls_chans s ! i)], ls_eventChan := None\<rparr>)"
  using assms by (auto simp: channels_ok_def nth_list_update events.in_order_def)

lemma channels_ok_close_events:
  assumes "channels_ok s"
  shows "channels_ok ((close_events s)\<lparr>ls_eventChan := None\<rparr>)"
proof (cases "ls_eventChan s")
  case None
  then have "(close_events s)\<lparr>ls_eventChan := None\<rparr> = s" by (cases s) (simp add: close_events_def)
  with assms show ?thesis by simp
next
  case (Some i)
  with assms have "i < length (ls_chans s)" by (simp add: channels_ok_def)
  from channels_ok_close [OF assms this Some] Some show ?thesis by (simp add: close_events_def)
qed

lemma channels_ok_make:
  assumes "channels_ok s" "ls_eventChan s = None"
  shows "channels_ok (s\<lparr>ls_chans := ls_chans s @ [make_chan n], ls_eventChan := Some (length (ls_chans s))\<rparr>)"
  using assms by (auto simp: channels_ok_def nth_append events.in_order_def less_Suc_eq)

lemma close_events_selectors [simp]:
  "ls_client (close_events s) = ls_client s" "ls_eventChan (close_events s) = ls_eventChan s"
  "length (ls_chans (close_events s)) = length (ls_chans s)" "ls_dialled (close_events s) = ls_dialled s"
  "ls_main (close_events s) = ls_main s" "ls_panic (close_events s) = ls_panic s"
  "ls_sent (close_events s) = ls_sent s" "ls_received (close_events s) = ls_received s"
  "ls_reader (close_events s) = ls_reader s" "ls_wg (close_events s) = ls_wg s"
  "ls_cancelled (close_events s) = ls_cancelled s"
  by (simp_all add: close_events_def split: option.split)

lemma JoinAndListen_cases:
  assumes "JoinAndListen W n s = Some s'"
  obtains (panic) m where "s' = s\<lparr>ls_panic := Some m\<rparr>"
  | (fails) e cs where "Join W (ls_client s) = Some (Ret (Some e, cs))"
      "s' = s\<lparr>ls_client := cs, ls_dialled := ls_dialled s + 1\<rparr>"
  | (size) cs where "n < 0" "Join W (ls_client s) = Some (Ret (None, cs))"
      "s' = (close_events (s\<lparr>ls_client := cs, ls_dialled := ls_dialled s + 1\<rparr>))\<lparr>ls_panic := Some makechan_panic\<rparr>"
  | (joined) cs t where "0 \<le> n" "Join W (ls_client s) = Some (Ret (None, cs))"
      "t = close_events (s\<lparr>ls_client := cs, ls_dialled := ls_dialled s + 1\<rparr>)"
      "s' = t\<lparr>ls_chans := ls_chans t @ [make_chan (nat n)], ls_eventChan := Some (length (ls_chans t)), ls_main := Join_Wait\<rparr>"
  using assms by (auto simp: JoinAndListen_def Let_def split: option.splits outcome.splits if_splits)

lemma channels_ok_JoinAndListen:
  assumes "channels_ok s" "ls_panic s = None" "JoinAndListen W n s = Some s'"
  shows "channels_ok s'"
  using assms(3)
proof (cases rule: JoinAndListen_cases)
  case (panic m)
  show ?thesis by (rule channels_ok_cong [OF assms(1)]) (simp_all add: panic)
next
  case (fails e cs)
  show ?thesis by (rule channels_ok_cong [OF assms(1)]) (simp_all add: fails)
next
  case (size cs)
  have "channels_ok (s\<lparr>ls_client := cs, ls_dialled := ls_dialled s + 1\<rparr>)"
    by (rule channels_ok_cong [OF assms(1)]) simp_all
  from channels_ok_close_events [OF this]
  show ?thesis using assms(1) by (auto simp: size(3) channels_ok_def)
next
  case (joined cs t)
  have "channels_ok (s\<lparr>ls_client := cs, ls_dialled := ls_dialled s + 1\<rparr>)"
    by (rule channels_ok_cong [OF assms(1)]) simp_all
  from channels_ok_close_events [OF this] have "channels_ok (t\<lparr>ls_eventChan := None\<rparr>)" by (simp only: joined(3))
  from channels_ok_make [OF this, of "nat n"]
  have "channels_ok (t\<lparr>ls_chans := ls_chans t @ [make_chan (nat n)], ls_eventChan := Some (length (ls_chans t))\<rparr>)" by simp
  then show ?thesis by (rule channels_ok_cong) (simp_all add: joined(4))
qed

lemma send_event_ok:
  assumes "channels_ok s" "i < length (ls_chans s)" "send_event i ev k s = Some s'"
    and "\<And>t. ls_eventChan (k t) = ls_eventChan t \<and> ls_chans (k t) = ls_chans t \<and> ls_sent (k t) = ls_sent t \<and>
      ls_received (k t) = ls_received t \<and> ls_panic (k t) = ls_panic t"
  shows "channels_ok s'"
  using assms(3)
proof (cases rule: send_event_cases)
  case closed
  show ?thesis by (rule channels_ok_cong [OF assms(1)]) (simp_all add: closed)
next
  case (sent ch)
  show ?thesis by (rule channels_ok_cong [OF channels_ok_send [OF assms(1) sent(2) assms(2)]]) (simp_all add: sent assms(4))
qed

lemma step_ok:
  assumes "step W s a s'" "threads_ok s" "channels_ok s"
  shows "channels_ok s'"
  using assms(1)
proof (cases rule: step.cases)
  case step_reader
  show ?thesis
  proof (cases "ls_reader s")
    case Looping
    with step_reader show ?thesis
      by (auto simp: reader_step_def intro!: channels_ok_cong [OF assms(3)])
  next
    case (Reading n)
    with step_reader show ?thesis
      by (auto simp: reader_step_def read_returns_frame intro!: channels_ok_cong [OF assms(3)])
  next
    case (Sending i ev k)
    then have "i < length (ls_chans s)" using assms(2) by (simp add: threads_ok_def)
    then show ?thesis using step_reader Sending send_event_ok [OF assms(3)] by (auto simp: reader_step_def)
  qed (use step_reader in \<open>simp add: reader_step_def\<close>)
next
  case step_main
  show ?thesis
  proof (cases "ls_main s")
    case Join_Wait
    with step_main show ?thesis
      by (auto simp: main_step_def split: if_splits intro!: channels_ok_cong [OF assms(3)])
  next
    case (Join_Ready i ev)
    then have "i < length (ls_chans s)" using assms(2,3) by (simp add: threads_ok_def channels_ok_def)
    moreover have "send_event i ev (\<lambda>s. s\<lparr>ls_main := Outside\<rparr>) s = Some s'"
      using step_main Join_Ready by (simp add: main_step_def)
    ultimately show ?thesis using send_event_ok [OF assms(3)] by simp
  next
    case Destroy_Wait
    with step_main show ?thesis
      by (auto simp: main_step_def split: if_splits intro!: channels_ok_cong [OF channels_ok_close_events [OF assms(3)]])
  qed (use step_main in \<open>simp add: main_step_def\<close>)
next
  case (step_listen n)
  then show ?thesis using channels_ok_JoinAndListen [OF assms(3)] by simp
next
  case step_destroy
  then show ?thesis by (auto simp: Destroy_def intro!: channels_ok_cong [OF assms(3)])
next
  case (step_chat m)
  then show ?thesis by (auto intro!: channels_ok_cong [OF assms(3)])
next
  case (step_receive i)
  show ?thesis
  proof (cases "chan_recv (ls_chans s ! i)")
    case None
    then obtain ev k where r: "ls_reader s = Sending i ev k" "i < length (ls_chans s)" "ch_buf (ls_chans s ! i) = []"
        "s' = after k (s\<lparr>ls_sent := ls_sent s @ [(i, ev)], ls_received := ls_received s @ [(i, ev)]\<rparr>)"
      using step_receive
      by (auto simp: receive_def chan_recv_def split: if_splits reader_pc.splits list.splits)
    have "channels_ok (s\<lparr>ls_sent := ls_sent s @ [(i, ev)], ls_received := ls_received s @ [(i, ev)]\<rparr>)"
      using assms(3) r(2,3) by (auto simp: channels_ok_def events.in_order_def)
    then show ?thesis by (rule channels_ok_cong) (simp_all add: r(4))
  next
    case (Some x)
    then show ?thesis using step_receive channels_ok_recv [OF assms(3)]
      by (cases x) (auto simp: receive_def split: if_splits)
  qed
qed

lemma step_threads:
  assumes "step W s a s'" "threads_ok s" "channels_ok s"
  shows "threads_ok s'"
  using assms(1)
proof (cases rule: step.cases)
  case step_reader
  have cur: "\<And>i. ls_eventChan s = Some i \<Longrightarrow> i < length (ls_chans s)" using assms(3) by (simp add: channels_ok_def)
  show ?thesis
  proof (cases "ls_reader s")
    case Looping
    with step_reader assms(2) show ?thesis by (auto simp: reader_step_def threads_ok_def split: if_splits)
  next
    case (Reading n)
    then have "ls_wg s = 1" using assms(2) by (simp add: threads_ok_def)
    from read_returns_threads [OF Reading this, of W] show ?thesis
      using step_reader Reading assms(2) cur by (auto simp: reader_step_def threads_ok_def read_returns_frame)
  next
    case (Sending i ev k)
    then have "send_event i ev (after k) s = Some s'" using step_reader by (simp add: reader_step_def)
    then show ?thesis
      by (cases rule: send_event_cases) (use assms(2) Sending in \<open>auto simp: threads_ok_def\<close>)
  qed (use step_reader in \<open>simp add: reader_step_def\<close>)
next
  case step_main
  show ?thesis
  proof (cases "ls_main s")
    case Join_Wait
    with step_main assms(2) show ?thesis by (auto simp: main_step_def threads_ok_def split: if_splits option.splits)
  next
    case (Join_Ready i ev)
    then have "send_event i ev (\<lambda>s. s\<lparr>ls_main := Outside\<rparr>) s = Some s'" using step_main by (simp add: main_step_def)
    then show ?thesis
      by (cases rule: send_event_cases) (use assms(2) in \<open>auto simp: threads_ok_def\<close>)
  next
    case Destroy_Wait
    with step_main assms(2) show ?thesis by (auto simp: main_step_def threads_ok_def split: if_splits)
  qed (use step_main in \<open>simp add: main_step_def\<close>)
next
  case (step_listen n)
  from step_listen(4) show ?thesis
    by (cases rule: JoinAndListen_cases) (use assms(2) in \<open>auto simp: threads_ok_def\<close>)
next
  case step_destroy
  then show ?thesis using assms(2) by (auto simp: Destroy_def threads_ok_def)
next
  case (step_chat m)
  then show ?thesis using assms(2) by (auto simp: threads_ok_def)
next
  case (step_receive i)
  then show ?thesis using assms(2)
    by (auto simp: receive_def threads_ok_def split: if_splits option.splits reader_pc.splits)
qed

lemma reachable_ok:
  assumes "reachable W (new_listener cs) s"
  shows "threads_ok s \<and> channels_ok s"
  using assms
proof (induction rule: reachable.induct)
  case reachable_refl
  show ?case by (simp add: new_listener_def threads_ok_def channels_ok_def)
next
  case (reachable_step t a t')
  then show ?case using step_ok step_threads by blast
qed

section \<open>One listener at a time\<close>

text \<open>Runs in which \<open>JoinAndListen\<close> is not called while a read loop runs.\<close>

inductive careful :: "world \<Rightarrow> listener \<Rightarrow> listener \<Rightarrow> bool" for W s where
  careful_refl: "careful W s s"
| careful_step: "careful W s t \<Longrightarrow> step W t a t' \<Longrightarrow> (\<And>n. a = Call_Listen n \<Longrightarrow> ls_reader t = Stopped) \<Longrightarrow>
    careful W s t'"

lemma careful_reachable: "careful W s t \<Longrightarrow> reachable W s t"
  by (induction rule: careful.induct) (auto intro: reachable.intros)

definition sends_current :: "listener \<Rightarrow> bool" where
  "sends_current s \<longleftrightarrow> (\<forall>i ev k. ls_reader s = Sending i ev k \<longrightarrow> ls_eventChan s = Some i)"

lemma step_sends_current:
  assumes "step W s a s'" "threads_ok s" "sends_current s" "\<And>n. a = Call_Listen n \<Longrightarrow> ls_reader s = Stopped"
  shows "sends_current s'"
  using assms(1)
proof (cases rule: step.cases)
  case step_reader
  show ?thesis
  proof (cases "ls_reader s")
    case Looping
    with step_reader show ?thesis by (auto simp: reader_step_def sends_current_def split: if_splits)
  next
    case (Reading n)
    then have "ls_wg s = 1" using assms(2) by (simp add: threads_ok_def)
    from read_returns_threads [OF Reading this, of W] show ?thesis
      using step_reader Reading by (auto simp: reader_step_def sends_current_def read_returns_frame)
  next
    case (Sending i ev k)
    then have "send_event i ev (after k) s = Some s'" using step_reader by (simp add: reader_step_def)
    then show ?thesis
      by (cases rule: send_event_cases) (use assms(3) Sending in \<open>auto simp: sends_current_def\<close>)
  qed (use step_reader in \<open>simp add: reader_step_def\<close>)
next
  case step_main
  show ?thesis
  proof (cases "ls_main s")
    case (Join_Ready i ev)
    then have "send_event i ev (\<lambda>s. s\<lparr>ls_main := Outside\<rparr>) s = Some s'" using step_main by (simp add: main_step_def)
    then show ?thesis
      by (cases rule: send_event_cases) (use assms(3) in \<open>auto simp: sends_current_def\<close>)
  qed (use step_main assms(2) in \<open>auto simp: main_step_def sends_current_def threads_ok_def split: if_splits\<close>)
next
  case (step_listen n)
  then have stopped: "ls_reader s = Stopped" using assms(4) by simp
  from step_listen(4) show ?thesis
    by (cases rule: JoinAndListen_cases) (use stopped in \<open>auto simp: sends_current_def\<close>)
next
  case step_destroy
  then show ?thesis using assms(3) by (auto simp: Destroy_def sends_current_def)
next
  case (step_chat m)
  then show ?thesis using assms(3) by (auto simp: sends_current_def)
next
  case (step_receive i)
  then show ?thesis using assms(3)
    by (auto simp: receive_def sends_current_def split: if_splits option.splits reader_pc.splits)
qed

lemma careful_sends_current: "careful W (new_listener cs) s \<Longrightarrow> sends_current s"
proof (induction rule: careful.induct)
  case careful_refl
  show ?case by (simp add: sends_current_def new_listener_def)
next
  case (careful_step t a t')
  have "threads_ok t" using reachable_ok [OF careful_reachable [OF careful_step(1)]] by simp
  then show ?case using step_sends_current careful_step by blast
qed

section \<open>After a cancellation\<close>

lemma cancelled_step:
  assumes "step W s a s'" "ls_cancelled s"
  shows "ls_cancelled s'"
  using assms(1)
proof (cases rule: step.cases)
  case step_reader
  have "ls_cancelled (after k t) = (ls_cancelled t \<or> k = Cancel)" for k t by (cases k) (simp_all add: after_def)
  moreover have "ls_cancelled (emit_event ev k t) = (ls_cancelled t \<or> k = Cancel \<and> ls_eventChan t = None)" for ev k t
    using calculation by (auto simp: emit_event_def split: option.split)
  ultimately show ?thesis using step_reader assms(2)
    by (auto simp: reader_step_def read_returns_def Let_def send_event_def
        split: reader_pc.splits outcome.splits sum.splits prod.splits option.splits if_splits)
next
  case (step_receive i)
  have "ls_cancelled (after k t) = (ls_cancelled t \<or> k = Cancel)" for k t by (cases k) (simp_all add: after_def)
  with step_receive assms(2) show ?thesis
    by (auto simp: receive_def split: reader_pc.splits option.splits if_splits)
next
  case (step_listen n)
  from step_listen(4) show ?thesis by (cases rule: JoinAndListen_cases) (use assms(2) in auto)
qed (use assms(2) in \<open>auto simp: main_step_def send_event_def Destroy_def split: main_pc.splits if_splits\<close>)

text \<open>A cancelled client without a read in progress.\<close>

definition deaf :: "listener \<Rightarrow> bool" where
  "deaf s \<longleftrightarrow> ls_cancelled s \<and> ls_reader s \<in> {Stopped, Looping} \<and>
     (\<forall>i ev. ls_main s = Join_Ready i ev \<longrightarrow> (\<exists>name. ev = ReadyEvent name))"

lemma deaf_step:
  assumes "step W s a s'" "deaf s"
  shows "deaf s' \<and> (\<exists>es. ls_sent s' = ls_sent s @ es \<and> (\<forall>(i, ev) \<in> set es. \<exists>name. ev = ReadyEvent name))"
proof -
  have c: "ls_cancelled s'" using cancelled_step [OF assms(1)] assms(2) by (simp add: deaf_def)
  have same: "ls_sent s' = ls_sent s \<Longrightarrow> ls_reader s' \<in> {Stopped, Looping} \<Longrightarrow>
      (\<forall>i ev. ls_main s' = Join_Ready i ev \<longrightarrow> (\<exists>name. ev = ReadyEvent name)) \<Longrightarrow> ?thesis"
    using c by (simp add: deaf_def)
  show ?thesis
    using assms(1)
  proof (cases rule: step.cases)
    case step_reader
    with assms(2) have "ls_reader s = Looping" by (auto simp: deaf_def reader_step_def)
    with step_reader assms(2) show ?thesis by (intro same) (auto simp: deaf_def reader_step_def)
  next
    case step_main
    show ?thesis
    proof (cases "ls_main s")
      case Join_Wait
      with step_main assms(2) show ?thesis
        by (intro same) (auto simp: deaf_def main_step_def split: if_splits option.splits)
    next
      case (Join_Ready i ev)
      then have "send_event i ev (\<lambda>s. s\<lparr>ls_main := Outside\<rparr>) s = Some s'" using step_main by (simp add: main_step_def)
      then show ?thesis
        by (cases rule: send_event_cases) (use assms(2) Join_Ready in \<open>auto simp: deaf_def\<close>)
    next
      case Destroy_Wait
      with step_main assms(2) show ?thesis by (intro same) (auto simp: deaf_def main_step_def split: if_splits)
    qed (use step_main in \<open>simp add: main_step_def\<close>)
  next
    case (step_listen n)
    from step_listen(4) show ?thesis
      by (cases rule: JoinAndListen_cases) (use assms(2) step_listen in \<open>auto intro!: same simp: deaf_def\<close>)
  next
    case step_destroy
    with assms(2) show ?thesis by (intro same) (auto simp: deaf_def Destroy_def)
  next
    case (step_chat m)
    with assms(2) show ?thesis by (intro same) (auto simp: deaf_def)
  next
    case (step_receive i)
    with assms(2) show ?thesis
      by (intro same) (auto simp: deaf_def receive_def split: if_splits option.splits reader_pc.splits)
  qed
qed

lemma deaf_reachable:
  assumes "reachable W s t" "deaf s"
  shows "deaf t \<and> (\<exists>es. ls_sent t = ls_sent s @ es \<and> (\<forall>(i, ev) \<in> set es. \<exists>name. ev = ReadyEvent name))"
  using assms
proof (induction rule: reachable.induct)
  case (reachable_step t a t')
  then obtain es where es: "deaf t" "ls_sent t = ls_sent s @ es" "\<forall>(i, ev) \<in> set es. \<exists>name. ev = ReadyEvent name"
    by blast
  obtain fs where "deaf t'" "ls_sent t' = ls_sent t @ fs" "\<forall>(i, ev) \<in> set fs. \<exists>name. ev = ReadyEvent name"
    using deaf_step [OF reachable_step(2) es(1)] by blast
  with es show ?case by (intro conjI exI [of _ "es @ fs"]) auto
qed simp

section \<open>Waiting for ever\<close>

lemma stuck_step:
  assumes "step W s a s'" "ls_main s = Join_Ready i ev" "i < length (ls_chans s)"
    and "\<not> ch_closed (ls_chans s ! i)" "ch_cap (ls_chans s ! i) \<le> length (ch_buf (ls_chans s ! i))"
  shows "ls_main s' = Join_Ready i ev \<and> i < length (ls_chans s') \<and> ls_chans s' ! i = ls_chans s ! i"
  using assms(1)
proof (cases rule: step.cases)
  case step_reader
  show ?thesis
  proof (cases "ls_reader s")
    case (Sending j ev' k)
    then have "send_event j ev' (after k) s = Some s'" using step_reader by (simp add: reader_step_def)
    then show ?thesis
    proof (cases rule: send_event_cases)
      case (sent ch)
      then have "j \<noteq> i" using assms(5) by (auto simp: chan_send_def split: if_splits)
      with sent assms show ?thesis by simp
    qed (use assms in simp)
  qed (use step_reader assms in \<open>auto simp: reader_step_def read_returns_frame split: if_splits\<close>)
next
  case step_main
  then show ?thesis using assms(2,4,5) by (auto simp: main_step_def send_event_def chan_send_def)
qed (use assms(2,3) in auto)

lemma stuck_reachable:
  assumes "reachable W s t" "ls_main s = Join_Ready i ev" "i < length (ls_chans s)"
    and "\<not> ch_closed (ls_chans s ! i)" "ch_cap (ls_chans s ! i) \<le> length (ch_buf (ls_chans s ! i))"
  shows "ls_main t = Join_Ready i ev \<and> i < length (ls_chans t) \<and> ls_chans t ! i = ls_chans s ! i"
  using assms
proof (induction rule: reachable.induct)
  case (reachable_step t a t')
  then show ?case using stuck_step [OF reachable_step(2), of i ev] by auto
qed simp

end
