(* ===== verification/Traffic.thy ===== *)
theory Traffic
  imports Listener Conversation
begin

text \<open>
  What goes out on a connection while the client listens: the answers of the read loop and the
  packets of \<open>Chat\<close>, from different goroutines, on one stream.
\<close>

section \<open>Single operations\<close>

lemma rest_of_privateKey: "rest_of cl = rest_of cl' \<Longrightarrow> cl_privateKey cl = cl_privateKey cl'"
  unfolding rest_of_def by (metis Client.ext_inject Client.surjective Client.update_convs(1))

definition chat_packet :: "Client \<Rightarrow> string \<Rightarrow> Packet" where
  "chat_packet cl m = ServerboundChatMessage \<lparr>cm_Message = m, cm_PrivateKey = None, cm_UUID = cl_uniqueId cl\<rparr>"

lemma sendable_chat:
  assumes "0 \<le> v"
  shows "sendable v StatePlay (chat_packet cl m)"
proof -
  have "reliable (ServerboundChatMessage_Encode E \<lparr>cm_Message = m, cm_PrivateKey = None, cm_UUID = u\<rparr> v)" for E u
    unfolding ServerboundChatMessage_Encode_def Let_def signMessage_def by (simp add: reliable_intros)
  then show ?thesis using assms by (simp add: chat_packet_def sendable_def written_names_def reliableD)
qed

lemma conversing_Chat:
  assumes "conversing base StatePlay t inp e out s" "0 \<le> cl_version base" "cl_privateKey base = None"
  shows "\<exists>s'. Chat W m s = Ret (None, s') \<and>
     conversing base StatePlay t inp e (out @ packet_frame (w_env W) (cl_version base) StatePlay t (chat_packet base m)) s'"
proof -
  have key: "cl_privateKey (snd s) = None" "cl_uniqueId (snd s) = cl_uniqueId base"
    using assms(1,3) rest_of_fields(5) [of "snd s" base] rest_of_privateKey [of "snd s" base] by (auto simp: conversing_def)
  obtain s1 where s1: "cWritePacket W (chat_packet base m) s = Ret (None, s1)"
      "conversing base StatePlay t inp e (out @ packet_frame (w_env W) (cl_version base) StatePlay t (chat_packet base m)) s1"
    using conversing_write [OF assms(1) sendable_chat [OF assms(2)], of W] by blast
  have "Chat W m s = Ret (None, s1)"
    using s1(1) key conversing_fields [OF assms(1)] by (auto simp: Chat_def connected_def chat_packet_def)
  with s1(2) show ?thesis by blast
qed

lemma conversing_KeepAlive:
  assumes "conversing base StatePlay t inp e out s" "0 \<le> cl_version base"
  shows "\<exists>s'. handlePacket W (ClientboundKeepAlive n) s = Ret (Some (KeepAliveEvent n, Continue), s') \<and>
     conversing base StatePlay t inp e
       (out @ packet_frame (w_env W) (cl_version base) StatePlay t (ServerboundKeepAlive n)) s'"
proof -
  have "sendable (cl_version base) StatePlay (ServerboundKeepAlive n)"
    using assms(2) by (simp add: sendable_def written_names_def reliableD reliable_intros)
  from conversing_write [OF assms(1) this, of W] obtain s' where "cWritePacket W (ServerboundKeepAlive n) s = Ret (None, s')"
      "conversing base StatePlay t inp e
        (out @ packet_frame (w_env W) (cl_version base) StatePlay t (ServerboundKeepAlive n)) s'"
    by blast
  then show ?thesis by (intro exI [of _ s']) (simp add: handlePacket_def cbind_def cret_def)
qed

text \<open>A read, whatever it returns, takes something off the incoming stream and writes nothing.\<close>

lemma conversing_read_any:
  assumes "conversing base st t inp e out s" "cReadPacket W s = Ret (res, s')"
  shows "\<exists>inp'. conversing base st t inp' e out s'"
proof -
  obtain c c' reg' where c: "cl_Conn (snd s) = Some c" "ReadPacket (w_env W) (fst s) c = Ret (res, reg', c')"
      "s' = (reg', (snd s)\<lparr>cl_Conn := Some c'\<rparr>)" "registry_ok reg'"
    using cReadPacket_result [OF conversing_live [OF assms(1)] assms(2)] by blast
  obtain z where "c' = (set_in (next_stream (nc_in (c_Conn c))) c)\<lparr>c_zlibReader := z\<rparr>"
    using c(2) by (cases rule: ReadPacket_cases [of "w_env W" "fst s" c]) (auto simp: obind_Ret_iff split: prod.splits)
  moreover have "next_stream (nc_in (c_Conn c)) = \<lparr>rd_data = rd_data (next_stream (nc_in (c_Conn c))), rd_end = e\<rparr>"
    using next_stream_end [of "nc_in (c_Conn c)"] assms(1) c(1)
    by (cases "next_stream (nc_in (c_Conn c))") (auto simp: conversing_def)
  ultimately show ?thesis
    using assms(1) c(1,3,4) by (intro exI [of _ "rd_data (next_stream (nc_in (c_Conn c)))"]) (auto simp: conversing_def set_in_def)
qed

section \<open>Runs\<close>

text \<open>A run, with its steps.\<close>

inductive run :: "world \<Rightarrow> listener \<Rightarrow> label list \<Rightarrow> listener \<Rightarrow> bool" for W s where
  run_refl: "run W s [] s"
| run_step: "run W s as t \<Longrightarrow> step W t a t' \<Longrightarrow> run W s (as @ [a]) t'"

lemma run_reachable: "run W s as t \<Longrightarrow> reachable W cs s \<Longrightarrow> reachable W cs t"
  by (induction rule: run.induct) (auto intro: reachable.intros)

text \<open>The messages said in a run; the keep-alives answered and the chat packets among the packets
  sent; the keep-alives announced, and the one the read loop is about to announce.\<close>

definition said :: "label list \<Rightarrow> string list" where
  "said as = concat (map (\<lambda>a. case a of Call_Chat m \<Rightarrow> [m] | _ \<Rightarrow> []) as)"

definition answered :: "Packet list \<Rightarrow> int64 list" where
  "answered ps = concat (map (\<lambda>p. case p of ServerboundKeepAlive i \<Rightarrow> [i] | _ \<Rightarrow> []) ps)"

definition chats :: "Packet list \<Rightarrow> Packet list" where
  "chats ps = concat (map (\<lambda>p. case p of ServerboundChatMessage c \<Rightarrow> [p] | _ \<Rightarrow> []) ps)"

definition keepalive_of :: "Event \<Rightarrow> int64 list" where
  "keepalive_of ev = (case ev of KeepAliveEvent i \<Rightarrow> [i] | _ \<Rightarrow> [])"

definition announced :: "listener \<Rightarrow> int64 list" where
  "announced s = concat (map (\<lambda>(_, ev). keepalive_of ev) (ls_sent s))"

definition unannounced :: "listener \<Rightarrow> int64 list" where
  "unannounced s = (case ls_reader s of Sending j ev k \<Rightarrow> keepalive_of ev | _ \<Rightarrow> [])"

lemma trace_simps [simp]:
  "said [] = []" "said (as @ bs) = said as @ said bs" "said [Call_Chat m] = [m]"
  "said [Reader] = []" "said [Main] = []" "said [Call_Listen n] = []" "said [Call_Destroy] = []" "said [Receive i] = []"
  "answered [] = []" "answered (ps @ qs) = answered ps @ answered qs" "answered [ServerboundKeepAlive k] = [k]"
  "answered [chat_packet cl m] = []" "chats [] = []" "chats (ps @ qs) = chats ps @ chats qs"
  "chats [ServerboundKeepAlive k] = []" "chats [chat_packet cl m] = [chat_packet cl m]"
  "keepalive_of (ReadyEvent n') = []" "keepalive_of (DisconnectEvent r) = []" "keepalive_of (KeepAliveEvent k) = [k]"
  "keepalive_of (ChatMessageEvent a b c) = []"
  by (simp_all add: said_def answered_def chats_def keepalive_of_def chat_packet_def)

lemma sent_packets:
  assumes "\<forall>p \<in> set ps. (\<exists>i. p = ServerboundKeepAlive i) \<or> (\<exists>m. p = chat_packet cl m)" "answered ps = []"
  shows "ps = chats ps"
  using assms by (induction ps) (auto simp: answered_def chats_def chat_packet_def)

lemma ready_event:
  assumes "reachable W (new_listener cs) s" "ls_main s = Join_Ready i ev"
  shows "\<exists>name. ev = ReadyEvent name"
  using assms
proof (induction arbitrary: i ev rule: reachable.induct)
  case reachable_refl
  then show ?case by (simp add: new_listener_def)
next
  case (reachable_step t a t')
  from reachable_step(2) show ?case
  proof (cases rule: step.cases)
    case step_reader
    then have "ls_main t' = ls_main t"
      by (auto simp: reader_step_def read_returns_frame send_event_def split: reader_pc.splits if_splits)
    with reachable_step show ?thesis by simp
  next
    case step_main
    then show ?thesis using reachable_step.prems reachable_step.IH
      by (auto simp: main_step_def send_event_def split: main_pc.splits if_splits option.splits)
  next
    case (step_listen n)
    from step_listen(4) show ?thesis
      by (cases rule: JoinAndListen_cases) (use reachable_step.prems step_listen in auto)
  next
    case (step_receive j)
    then have "ls_main t' = ls_main t" by (auto simp: receive_def split: if_splits option.splits reader_pc.splits)
    with reachable_step show ?thesis by simp
  qed (use reachable_step in \<open>auto simp: Destroy_def\<close>)
qed

section \<open>The outgoing stream\<close>

text \<open>A session: the packets \<open>ps\<close> have been sent since the stream was \<open>out\<close>, among them
  the messages \<open>msgs\<close>, and as many keep-alives as were announced since \<open>ks\<close>.\<close>

definition talks ::
  "world \<Rightarrow> Client \<Rightarrow> int \<Rightarrow> goerr \<Rightarrow> bytes \<Rightarrow> nat \<Rightarrow> int64 list \<Rightarrow> string list \<Rightarrow> listener \<Rightarrow> bool" where
  "talks W base threshold e out c ks msgs s \<longleftrightarrow> ls_eventChan s = Some c \<and>
     (\<exists>ps inp. conversing base StatePlay threshold inp e (out @ frames_for W base StatePlay threshold ps) (ls_client s) \<and>
        (\<forall>p \<in> set ps. (\<exists>i. p = ServerboundKeepAlive i) \<or> (\<exists>m. p = chat_packet base m)) \<and>
        chats ps = map (chat_packet base) msgs \<and> announced s @ unannounced s = ks @ answered ps)"

lemma talks_cong:
  assumes "talks W base t e out c ks msgs s" "ls_client s' = ls_client s" "ls_eventChan s' = ls_eventChan s"
    "announced s' @ unannounced s' = announced s @ unannounced s"
  shows "talks W base t e out c ks msgs s'"
  using assms unfolding talks_def by metis

lemma announced_append [simp]:
  "announced (s\<lparr>ls_sent := ls_sent s @ [(j, ev)]\<rparr>) = announced s @ keepalive_of ev"
  by (simp add: announced_def)

lemma announced_sent: "ls_sent s' = ls_sent s \<Longrightarrow> announced s' = announced s"
  by (simp add: announced_def)

lemma talks_send:
  assumes "talks W base t e out c ks msgs s" "send_event j ev k s = Some s'"
    and "\<And>u. ls_client (k u) = ls_client u \<and> ls_eventChan (k u) = ls_eventChan u \<and> ls_sent (k u) = ls_sent u"
    and "\<And>u. ls_reader u = ls_reader s \<Longrightarrow> keepalive_of ev @ unannounced (k u) = unannounced s"
  shows "talks W base t e out c ks msgs s'"
  using assms(2)
proof (cases rule: send_event_cases)
  case closed
  show ?thesis by (rule talks_cong [OF assms(1)]) (simp_all add: closed announced_def unannounced_def)
next
  case (sent ch)
  let ?u = "s\<lparr>ls_chans := (ls_chans s)[j := ch], ls_sent := ls_sent s @ [(j, ev)]\<rparr>"
  have "announced s' = announced s @ keepalive_of ev" using assms(3) [of ?u] by (simp add: sent announced_def)
  moreover have "keepalive_of ev @ unannounced s' = unannounced s" using assms(4) [of ?u] by (simp add: sent)
  ultimately show ?thesis using assms(3) [of ?u] by (intro talks_cong [OF assms(1)]) (simp_all add: sent)
qed

lemma talks_client:
  assumes "talks W base t e out c ks msgs s"
  obtains ps inp where "conversing base StatePlay t inp e (out @ frames_for W base StatePlay t ps) (ls_client s)"
    "\<forall>p \<in> set ps. (\<exists>i. p = ServerboundKeepAlive i) \<or> (\<exists>m. p = chat_packet base m)"
    "chats ps = map (chat_packet base) msgs" "announced s @ unannounced s = ks @ answered ps" "ls_eventChan s = Some c"
  using assms unfolding talks_def by blast

lemma emit_event_unannounced: "ls_eventChan s = Some c \<Longrightarrow> unannounced (emit_event ev k s) = keepalive_of ev"
  by (simp add: emit_event_def unannounced_def)

lemma unannounced_Looping [simp]: "ls_reader s = Looping \<Longrightarrow> unannounced s = []"
  by (simp add: unannounced_def)

lemma talks_Chat:
  assumes "talks W base t e out c ks msgs s" "0 \<le> cl_version base" "cl_privateKey base = None"
  shows "talks W base t e out c ks (msgs @ [m]) (chat_call W m s)"
proof -
  obtain ps inp where ps: "conversing base StatePlay t inp e (out @ frames_for W base StatePlay t ps) (ls_client s)"
    "\<forall>p \<in> set ps. (\<exists>i. p = ServerboundKeepAlive i) \<or> (\<exists>m. p = chat_packet base m)"
    "chats ps = map (chat_packet base) msgs" "announced s @ unannounced s = ks @ answered ps" "ls_eventChan s = Some c"
    by (rule talks_client [OF assms(1)])
  obtain cs where cs: "Chat W m (ls_client s) = Ret (None, cs)"
      "conversing base StatePlay t inp e (out @ frames_for W base StatePlay t (ps @ [chat_packet base m])) cs"
    using conversing_Chat [OF ps(1) assms(2,3), of W m] by auto
  show ?thesis unfolding talks_def
    using cs ps(2-5)
    by (intro conjI exI [of _ "ps @ [chat_packet base m]"] exI [of _ inp])
      (auto simp: chat_call_def announced_def unannounced_def)
qed

lemma talks_read:
  assumes "talks W base t e out c ks msgs s" "0 \<le> cl_version base" "ls_reader s = Reading n"
  shows "talks W base t e out c ks msgs (read_returns W n s)"
proof -
  obtain ps inp where ps: "conversing base StatePlay t inp e (out @ frames_for W base StatePlay t ps) (ls_client s)"
    "\<forall>p \<in> set ps. (\<exists>i. p = ServerboundKeepAlive i) \<or> (\<exists>m. p = chat_packet base m)"
    "chats ps = map (chat_packet base) msgs" "announced s @ unannounced s = ks @ answered ps" "ls_eventChan s = Some c"
    by (rule talks_client [OF assms(1)])
  have un: "unannounced s = []" using assms(3) by (simp add: unannounced_def)
  have sent: "announced (read_returns W n s) = announced s" by (rule announced_sent) (simp add: read_returns_frame)
  note chan = read_returns_frame(1) [of W n s]
  show ?thesis
  proof (cases "read_result W n s")
    case (Panic m)
    show ?thesis by (rule talks_cong [OF assms(1)]) (simp_all add: read_returns_def Panic announced_def unannounced_def)
  next
    case (Ret x)
    obtain res cs where x: "x = (res, cs)" by (cases x)
    obtain inp' where read: "conversing base StatePlay t inp' e (out @ frames_for W base StatePlay t ps) cs"
    proof (cases "n = ls_dialled s")
      case True
      then show thesis using conversing_read_any [OF ps(1), of W res cs] Ret x that by (auto simp: read_result_def)
    next
      case False
      then show thesis using ps(1) Ret x that by (auto simp: read_result_def)
    qed
    have quiet: ?thesis if "ls_client (read_returns W n s) = cs" "unannounced (read_returns W n s) = []"
      unfolding talks_def using ps(2-5) read that un chan sent by auto
    show ?thesis
    proof (cases res)
      case (Inl err)
      show ?thesis
        by (rule quiet) (use Ret x Inl ps(5) in \<open>auto simp: read_returns_def Let_def emit_event_unannounced\<close>)
    next
      case (Inr p)
      show ?thesis
      proof (cases "\<exists>i. p = ClientboundKeepAlive i")
        case True
        then obtain i where i: "p = ClientboundKeepAlive i" by blast
        obtain cs' where cs': "handlePacket W (ClientboundKeepAlive i) cs = Ret (Some (KeepAliveEvent i, Continue), cs')"
            "conversing base StatePlay t inp' e (out @ frames_for W base StatePlay t (ps @ [ServerboundKeepAlive i])) cs'"
          using conversing_KeepAlive [OF read assms(2), of W i] by auto
        have r: "read_returns W n s = emit_event (KeepAliveEvent i) Continue (s\<lparr>ls_client := cs'\<rparr>)"
          using Ret x Inr i cs'(1) by (simp add: read_returns_def)
        then have "unannounced (read_returns W n s) = [i]" using ps(5) by (simp add: emit_event_unannounced)
        with cs'(2) ps(2-5) un sent r chan show ?thesis unfolding talks_def
          by (intro conjI exI [of _ "ps @ [ServerboundKeepAlive i]"] exI [of _ inp']) auto
      next
        case False
        then have "ls_client (read_returns W n s) = cs \<and> unannounced (read_returns W n s) = []"
          using Ret x Inr ps(5)
          by (cases p) (auto simp: read_returns_def handlePacket_def cret_def emit_event_unannounced)
        then show ?thesis using quiet by blast
      qed
    qed
  qed
qed

lemma unannounced_after: "ls_reader (after k s) \<in> {Stopped, Looping} \<and> unannounced (after k s) = []"
  by (cases k) (simp_all add: after_def unannounced_def)

lemma step_dialled:
  assumes "step W s a s'"
  shows "ls_dialled s \<le> ls_dialled s'"
  using assms
proof (cases rule: step.cases)
  case step_reader
  then show ?thesis
    by (auto simp: reader_step_def read_returns_frame send_event_def split: reader_pc.splits if_splits)
next
  case step_main
  then show ?thesis by (auto simp: main_step_def send_event_def split: main_pc.splits if_splits)
next
  case (step_listen n)
  from step_listen(4) show ?thesis by (cases rule: JoinAndListen_cases) auto
next
  case (step_receive i)
  then show ?thesis by (auto simp: receive_def split: if_splits option.splits reader_pc.splits)
qed (auto simp: Destroy_def)

text \<open>A step that dials no new connection goes on with the session or ends it.\<close>

lemma talks_step:
  assumes "step W s a s'" "ls_dialled s' = ls_dialled s" "talks W base t e out c ks msgs s"
    and "reachable W (new_listener cs) s" "0 \<le> cl_version base" "cl_privateKey base = None"
  shows "cl_Conn (snd (ls_client s')) = None \<or> talks W base t e out c ks (msgs @ said [a]) s'"
  using assms(1)
proof (cases rule: step.cases)
  case step_reader
  have "talks W base t e out c ks msgs s'"
  proof (cases "ls_reader s")
    case Looping
    then have "ls_client s' = ls_client s" "ls_eventChan s' = ls_eventChan s" "ls_sent s' = ls_sent s"
        "unannounced s' = unannounced s"
      using step_reader unannounced_after [of Exit s] by (auto simp: reader_step_def unannounced_def split: if_splits)
    then show ?thesis by (intro talks_cong [OF assms(3)]) (simp_all add: announced_def)
  next
    case (Reading n)
    with step_reader talks_read [OF assms(3,5) Reading] show ?thesis by (simp add: reader_step_def)
  next
    case (Sending i ev k)
    then have "send_event i ev (after k) s = Some s'" using step_reader by (simp add: reader_step_def)
    then show ?thesis
      by (rule talks_send [OF assms(3)])
        (use Sending unannounced_after [of k] in \<open>simp_all add: unannounced_def [of s]\<close>)
  qed (use step_reader in \<open>simp add: reader_step_def\<close>)
  with step_reader show ?thesis by simp
next
  case step_main
  have "cl_Conn (snd (ls_client s')) = None \<or> talks W base t e out c ks msgs s'"
  proof (cases "ls_main s")
    case Join_Wait
    then have "ls_wg s = 0" using step_main by (simp add: main_step_def split: if_splits)
    then have "ls_reader s = Stopped" using reachable_ok [OF assms(4)] by (simp add: threads_ok_def split: if_splits)
    with Join_Wait step_main show ?thesis
      by (intro disjI2 talks_cong [OF assms(3)])
        (auto simp: main_step_def unannounced_def announced_def split: if_splits option.splits)
  next
    case (Join_Ready i ev)
    then obtain name where ev: "ev = ReadyEvent name" using ready_event [OF assms(4)] by blast
    have "send_event i ev (\<lambda>s. s\<lparr>ls_main := Outside\<rparr>) s = Some s'" using step_main Join_Ready by (simp add: main_step_def)
    then have "talks W base t e out c ks msgs s'"
      by (rule talks_send [OF assms(3)]) (simp_all add: ev unannounced_def)
    then show ?thesis by simp
  next
    case Destroy_Wait
    with step_main show ?thesis by (auto simp: main_step_def Close_def split: if_splits option.splits)
  qed (use step_main in \<open>simp add: main_step_def\<close>)
  with step_main show ?thesis by simp
next
  case (step_listen n)
  from step_listen(4) show ?thesis
  proof (cases rule: JoinAndListen_cases)
    case (panic m)
    with assms(3) show ?thesis unfolding step_listen(1)
      by (intro disjI2) (auto intro!: talks_cong [OF assms(3)] simp: announced_def unannounced_def)
  qed (use assms(2) in simp_all)
next
  case step_destroy
  then show ?thesis by (intro disjI2) (auto intro!: talks_cong [OF assms(3)] simp: Destroy_def announced_def unannounced_def)
next
  case (step_chat m)
  with talks_Chat [OF assms(3,5,6), of m] show ?thesis by simp
next
  case (step_receive i)
  have "talks W base t e out c ks msgs s'"
  proof (rule talks_cong [OF assms(3)])
    show "ls_client s' = ls_client s" "ls_eventChan s' = ls_eventChan s"
      using step_receive by (auto simp: receive_def split: if_splits option.splits reader_pc.splits)
    show "announced s' @ unannounced s' = announced s @ unannounced s"
      using step_receive unannounced_after
      by (auto simp: receive_def announced_def unannounced_def [of s] split: if_splits option.splits reader_pc.splits)
        (simp_all add: unannounced_def)
  qed
  with step_receive show ?thesis by simp
qed

lemma closed_step:
  assumes "step W s a s'" "ls_dialled s' = ls_dialled s" "cl_Conn (snd (ls_client s)) = None"
  shows "cl_Conn (snd (ls_client s')) = None"
  using assms(1)
proof (cases rule: step.cases)
  case step_reader
  then show ?thesis using assms(3)
    by (auto simp: reader_step_def read_returns_def read_result_def cReadPacket_def handlePacket_def send_event_def Let_def
        split: reader_pc.splits if_splits outcome.splits sum.splits prod.splits)
next
  case step_main
  then show ?thesis using assms(3)
    by (auto simp: main_step_def send_event_def Close_def split: main_pc.splits if_splits option.splits)
next
  case (step_listen n)
  from step_listen(4) show ?thesis by (cases rule: JoinAndListen_cases) (use assms(2,3) in simp_all)
next
  case (step_chat m)
  then show ?thesis using assms(3) by (simp add: chat_call_def Chat_def connected_def cret_def)
next
  case (step_receive i)
  then show ?thesis using assms(3) by (auto simp: receive_def split: if_splits option.splits reader_pc.splits)
qed (use assms(3) in \<open>auto simp: Destroy_def\<close>)

lemma run_talks:
  assumes "run W s as s'" "talks W base t e out c ks msgs s" "reachable W (new_listener cs) s"
    and "0 \<le> cl_version base" "cl_privateKey base = None"
  shows "ls_dialled s \<le> ls_dialled s' \<and> (ls_dialled s' = ls_dialled s \<longrightarrow>
     cl_Conn (snd (ls_client s')) = None \<or> talks W base t e out c ks (msgs @ said as) s')"
  using assms(1)
proof (induction rule: run.induct)
  case (run_step as u a u')
  have le: "ls_dialled u \<le> ls_dialled u'" using step_dialled [OF run_step(2)] .
  have r: "reachable W (new_listener cs) u" using run_reachable [OF run_step(1) assms(3)] .
  show ?case
  proof (cases "ls_dialled u' = ls_dialled s")
    case True
    then have d: "ls_dialled u' = ls_dialled u" "ls_dialled u = ls_dialled s" using le run_step.IH by auto
    have "cl_Conn (snd (ls_client u)) = None \<or> talks W base t e out c ks (msgs @ said as) u"
      using run_step.IH d(2) by simp
    then have "cl_Conn (snd (ls_client u')) = None \<or> talks W base t e out c ks ((msgs @ said as) @ said [a]) u'"
    proof
      assume "cl_Conn (snd (ls_client u)) = None"
      with closed_step [OF run_step(2) d(1)] show ?thesis by simp
    next
      assume "talks W base t e out c ks (msgs @ said as) u"
      from talks_step [OF run_step(2) d(1) this r assms(4,5)] show ?thesis .
    qed
    with d show ?thesis by simp
  next
    case False
    with le run_step.IH show ?thesis by auto
  qed
qed (use assms(2) in simp)

end
