(* ===== verification/Listener_Props.thy ===== *)
theory Listener_Props
  imports Traffic Client_Props
begin

text \<open>
  The properties of the listener.
\<close>

section \<open>Events and channels\<close>



text \<open>C29. As long as \<open>JoinAndListen\<close> is not called while a read loop runs, no thread is
  ever about to send on a closed channel: \<open>Destroy\<close> closes the channel only after the read
  loop has ended.\<close>

theorem no_closed_send:
  assumes "careful W (new_listener cs) s" "ls_panic s = None"
  shows "(\<forall>i ev k. ls_reader s = Sending i ev k \<longrightarrow> i < length (ls_chans s) \<and> \<not> ch_closed (ls_chans s ! i)) \<and>
     (\<forall>i ev. ls_main s = Join_Ready i ev \<longrightarrow> i < length (ls_chans s) \<and> \<not> ch_closed (ls_chans s ! i))"
  using reachable_ok [OF careful_reachable [OF assms(1)]] careful_sends_current [OF assms(1)] assms(2)
  unfolding threads_ok_def channels_ok_def sends_current_def by blast

text \<open>A client that has just joined, on the stream of the sample server.\<close>

definition sample_listener :: listener where
  "sample_listener = new_listener (protocolRegistry, sample_client)"

abbreviation sample_server :: world where
  "sample_server \<equiv> sample_world (concat sample_frames @ [7])"

lemma sample_Join':
  "\<exists>cs out. Join sample_server (protocolRegistry, sample_client) = Some (Ret (None, cs)) \<and>
     conversing sample_client StatePlay 256 [7] EOF out cs"
proof -
  have threshold: "threshold_set (w_env sample_server) (cl_version sample_client) (sample_frames ! 0) 256"
    using sample_delivers(1) by (auto simp: threshold_set_def sample_frames_def)
  show ?thesis
    using Join_script [where W = sample_server and cl = sample_client and reg = protocolRegistry and a = sample_addr and
        nc = "dialled (concat sample_frames @ [7])" and compression = "sample_frames ! 0" and success = "sample_frames ! 1" and
        config = "sample_frames ! 2 @ sample_frames ! 3" and rest = "[7]" and e = EOF and t = 256 and
        p = "\<lparr>lk_Username = ''A'', lk_UUID = replicate 16 1\<rparr>" and ps = "[ClientboundSelectKnownPacks []]" and
        bss = "[sample_frames ! 2]" and fin = "sample_frames ! 3", OF registry_ok_init _ _ _ _ _ _ _ threshold]
      sample_delivers stored_zlib_lawful
    by (auto simp: sample_frames_def config_going_def answerable_def)
qed

lemma sample_Join: "\<exists>cs. Join sample_server (protocolRegistry, sample_client) = Some (Ret (None, cs))"
  using sample_Join' by blast

text \<open>The sample client after \<open>JoinAndListen\<close> with a given event count, at the send of
  its ready event.\<close>

lemma sample_listening':
  assumes "0 \<le> n" "Join sample_server (protocolRegistry, sample_client) = Some (Ret (None, cs))"
  shows "\<exists>s. careful sample_server sample_listener s \<and> ls_panic s = None \<and> ls_chans s = [make_chan (nat n)] \<and>
     ls_eventChan s = Some 0 \<and> ls_reader s = Looping \<and> \<not> ls_cancelled s \<and> ls_dialled s = 1 \<and> ls_client s = cs \<and>
     ls_received s = [] \<and> ls_main s = Join_Ready 0 (ReadyEvent (cl_username (snd cs)))"
proof -
  note cs = assms(2)
  let ?s1 = "sample_listener\<lparr>ls_client := cs, ls_dialled := 1, ls_chans := [make_chan (nat n)], ls_eventChan := Some 0,
      ls_main := Join_Wait\<rparr>"
  let ?s2 = "?s1\<lparr>ls_wg := 1, ls_reader := Looping, ls_main := Join_Ready 0 (ReadyEvent (cl_username (snd cs)))\<rparr>"
  have "JoinAndListen sample_server n sample_listener = Some ?s1"
    using assms by (simp add: JoinAndListen_def sample_listener_def new_listener_def close_events_def Let_def)
  then have 1: "step sample_server sample_listener (Call_Listen n) ?s1"
    by (intro step_listen) (simp_all add: sample_listener_def new_listener_def)
  have 2: "step sample_server ?s1 Main ?s2"
    by (intro step_main) (simp_all add: main_step_def sample_listener_def new_listener_def)
  have "careful sample_server sample_listener ?s1"
    by (rule careful_step [OF careful_refl 1]) (simp add: sample_listener_def new_listener_def)
  then have "careful sample_server sample_listener ?s2" by (rule careful_step [OF _ 2]) simp
  then show ?thesis by (intro exI [of _ ?s2]) (simp add: sample_listener_def new_listener_def)
qed

lemma sample_listening:
  assumes "0 \<le> n"
  shows "\<exists>s cs. careful sample_server sample_listener s \<and> ls_panic s = None \<and> ls_chans s = [make_chan (nat n)] \<and>
     ls_eventChan s = Some 0 \<and> ls_reader s = Looping \<and> \<not> ls_cancelled s \<and> ls_dialled s = 1 \<and> ls_client s = cs \<and>
     ls_received s = [] \<and> ls_main s = Join_Ready 0 (ReadyEvent (cl_username (snd cs)))"
  using sample_listening' [OF assms] sample_Join by metis

lemma no_closed_send_witness:
  "\<exists>s ev. careful sample_server sample_listener s \<and> ls_main s = Join_Ready 0 ev \<and>
     0 < length (ls_chans s) \<and> \<not> ch_closed (ls_chans s ! 0)"
proof -
  obtain s ev where "careful sample_server sample_listener s" "ls_panic s = None" "ls_main s = Join_Ready 0 ev"
    using sample_listening [of 0] by auto
  with no_closed_send [of sample_server "(protocolRegistry, sample_client)" s] show ?thesis
    unfolding sample_listener_def by blast
qed

text \<open>C31. Called while a read loop waits to send an event, \<open>JoinAndListen\<close> kills the
  process: it closes the channel of the read loop, whose send panics.\<close>

theorem second_listen_panics:
  assumes "ls_panic s = None" "ls_main s = Outside" "ls_eventChan s = Some i" "i < length (ls_chans s)"
    and "ls_reader s = Sending i ev k" "Join W (ls_client s) = Some (Ret (None, cs))" "0 \<le> n"
  shows "\<exists>s1 s2. step W s (Call_Listen n) s1 \<and> step W s1 Reader s2 \<and> ls_panic s2 = Some closed_send_panic"
proof -
  let ?t = "close_events (s\<lparr>ls_client := cs, ls_dialled := ls_dialled s + 1\<rparr>)"
  let ?s1 = "?t\<lparr>ls_chans := ls_chans ?t @ [make_chan (nat n)], ls_eventChan := Some (length (ls_chans ?t)), ls_main := Join_Wait\<rparr>"
  have "JoinAndListen W n s = Some ?s1" using assms(6,7) by (simp add: JoinAndListen_def Let_def)
  then have 1: "step W s (Call_Listen n) ?s1" using assms(1,2) by (intro step_listen)
  have "ch_closed (ls_chans ?s1 ! i)" using assms(3,4) by (simp add: close_events_def nth_append)
  then have "reader_step W ?s1 = Some (?s1\<lparr>ls_panic := Some closed_send_panic\<rparr>)"
    using assms(5) by (simp add: reader_step_def send_event_def)
  then have 2: "step W ?s1 Reader (?s1\<lparr>ls_panic := Some closed_send_panic\<rparr>)"
    using assms(1) by (intro step_reader) simp_all
  show ?thesis by (intro exI conjI, rule 1, rule 2) simp
qed

lemma second_listen_panics_witness:
  "\<exists>s1 s2. step sample_server
     (sample_listener\<lparr>ls_chans := [make_chan 0], ls_eventChan := Some 0, ls_wg := 1, ls_reader := Sending 0 (KeepAliveEvent 5) Continue\<rparr>)
     (Call_Listen 1) s1 \<and> step sample_server s1 Reader s2 \<and> ls_panic s2 = Some closed_send_panic"
proof -
  obtain cs where "Join sample_server (protocolRegistry, sample_client) = Some (Ret (None, cs))" using sample_Join by blast
  then show ?thesis by (intro second_listen_panics [where i = 0]) (simp_all add: sample_listener_def new_listener_def)
qed

section \<open>Listening again\<close>





section \<open>Destroy\<close>





section \<open>The packets of the read loop\<close>

lemma packetConstructors_no_chat:
  "list_all (\<lambda>(n, p). reflect_TypeOf p \<noteq> ''*protocol.ClientboundChatMessage'') packetConstructors"
  by code_simp

lemma NewPacket_constructed: "NewPacket reg v st d i = (Inr p, reg') \<Longrightarrow> \<exists>n. (n, p) \<in> set packetConstructors"
  by (auto simp: NewPacket_def split: prod.splits option.splits dest!: map_of_SomeD)

lemma ReadPacket_no_chat:
  assumes "ReadPacket E reg c = Ret (Inr p, reg', c')"
  shows "reflect_TypeOf p \<noteq> ''*protocol.ClientboundChatMessage''"
  using assms
proof (cases rule: ReadPacket_cases [of E reg c])
  case (known i q r body m z)
  then have q: "reflect_TypeOf q \<noteq> ''*protocol.ClientboundChatMessage''"
    using packetConstructors_no_chat by (auto simp: list_all_iff dest!: NewPacket_constructed)
  with assms known show ?thesis by (auto simp: obind_Ret_iff split: option.splits dest!: Decode_type)
qed auto

definition no_chat :: "Event \<Rightarrow> bool" where
  "no_chat ev \<longleftrightarrow> (\<forall>m c f. ev \<noteq> ChatMessageEvent m c f)"

lemma no_chat_simps [simp]: "no_chat (ReadyEvent n)" "no_chat (DisconnectEvent m)" "no_chat (KeepAliveEvent i)"
  by (simp_all add: no_chat_def)

definition quiet_chat :: "listener \<Rightarrow> bool" where
  "quiet_chat s \<longleftrightarrow> (\<forall>(i, ev) \<in> set (ls_sent s). no_chat ev) \<and>
     (\<forall>i ev k. ls_reader s = Sending i ev k \<longrightarrow> no_chat ev) \<and> (\<forall>i ev. ls_main s = Join_Ready i ev \<longrightarrow> no_chat ev)"

lemma handlePacket_no_chat:
  assumes "handlePacket W p st = Ret (Some (ev, k), st')" "reflect_TypeOf p \<noteq> ''*protocol.ClientboundChatMessage''"
  shows "no_chat ev"
  using assms
  by (cases p) (auto simp: handlePacket_def cret_def cbind_def obind_Ret_iff no_chat_def)

lemma read_returns_no_chat:
  assumes "quiet_chat s" "ls_reader s = Reading n"
  shows "quiet_chat (read_returns W n s)"
proof -
  have "no_chat ev" if "read_result W n s = Ret (Inr p, cs)" "handlePacket W p cs = Ret (Some (ev, k), cs')" for p cs ev k cs'
  proof (rule handlePacket_no_chat [OF that(2)])
    show "reflect_TypeOf p \<noteq> ''*protocol.ClientboundChatMessage''"
      using that(1) ReadPacket_no_chat
      by (fastforce simp: read_result_def cReadPacket_def obind_Ret_iff split: if_splits option.splits)
  qed
  moreover have "no_chat (DisconnectEvent m)" for m by (simp add: no_chat_def)
  ultimately show ?thesis using assms
    by (auto simp: read_returns_def quiet_chat_def Let_def emit_event_reader
        split: outcome.splits prod.splits sum.splits option.splits)
qed

lemma step_no_chat:
  assumes "step W s a s'" "quiet_chat s"
  shows "quiet_chat s'"
  using assms(1)
proof (cases rule: step.cases)
  case step_reader
  show ?thesis
  proof (cases "ls_reader s")
    case (Reading n)
    then show ?thesis using step_reader read_returns_no_chat [OF assms(2) Reading, of W] by (simp add: reader_step_def)
  next
    case (Sending i ev k)
    then have "send_event i ev (after k) s = Some s'" using step_reader by (simp add: reader_step_def)
    then show ?thesis
      by (cases rule: send_event_cases) (use assms(2) Sending in \<open>auto simp: quiet_chat_def\<close>)
  qed (use step_reader assms(2) in \<open>auto simp: reader_step_def quiet_chat_def split: if_splits\<close>)
next
  case step_main
  show ?thesis
  proof (cases "ls_main s")
    case (Join_Ready i ev)
    then have "send_event i ev (\<lambda>s. s\<lparr>ls_main := Outside\<rparr>) s = Some s'" using step_main by (simp add: main_step_def)
    then show ?thesis
      by (cases rule: send_event_cases) (use assms(2) Join_Ready in \<open>auto simp: quiet_chat_def\<close>)
  qed (use step_main assms(2) in \<open>auto simp: main_step_def quiet_chat_def split: if_splits option.splits\<close>)
next
  case (step_listen n)
  from step_listen(4) show ?thesis
    by (cases rule: JoinAndListen_cases) (use assms(2) in \<open>auto simp: quiet_chat_def\<close>)
next
  case step_destroy
  then show ?thesis using assms(2) by (auto simp: Destroy_def quiet_chat_def)
next
  case (step_chat m)
  then show ?thesis using assms(2) by (auto simp: quiet_chat_def)
next
  case (step_receive i)
  then show ?thesis using assms(2)
    by (auto simp: receive_def quiet_chat_def split: if_splits option.splits reader_pc.splits)
qed

lemma reachable_quiet_chat: "reachable W (new_listener cs) s \<Longrightarrow> quiet_chat s"
proof (induction rule: reachable.induct)
  case reachable_refl
  show ?case by (simp add: quiet_chat_def new_listener_def)
qed (rule step_no_chat)

text \<open>C36. No chat message is ever delivered: the packet behind it has no constructor.  The read
  loop takes the chat packets of the server for those of a client, up to 1.18.2, or drops them
  as unknown.\<close>

theorem no_chat_events:
  assumes "reachable W (new_listener cs) s"
  shows "\<forall>(i, ev) \<in> set (ls_sent s). \<forall>m c f. ev \<noteq> ChatMessageEvent m c f"
  using reachable_quiet_chat [OF assms] by (simp add: quiet_chat_def no_chat_def)

lemma no_chat_events_witness:
  "\<exists>s ev. reachable sample_server sample_listener s \<and> ls_main s = Join_Ready 0 ev \<and>
     (\<forall>(i, ev) \<in> set (ls_sent s). \<forall>m c f. ev \<noteq> ChatMessageEvent m c f)"
proof -
  obtain s ev where s: "careful sample_server sample_listener s" "ls_main s = Join_Ready 0 ev"
    using sample_listening [of 1] by auto
  note r = careful_reachable [OF s(1)]
  from no_chat_events [OF r [unfolded sample_listener_def]] r s(2) show ?thesis by blast
qed

text \<open>The read loop answers a keep-alive with its own id, at the width the version uses,
  and then announces it.\<close>

theorem keepalive_answered:
  assumes "conversing base StatePlay t inp e out s" "0 \<le> cl_version base"
  shows "\<exists>s'. handlePacket W (ClientboundKeepAlive n) s = Ret (Some (KeepAliveEvent n, Continue), s') \<and>
     conversing base StatePlay t inp e
       (out @ packet_frame (w_env W) (cl_version base) StatePlay t (ServerboundKeepAlive n)) s'"
  using assms by (rule conversing_KeepAlive)

section \<open>The outgoing stream\<close>

text \<open>C30. However the goroutines interleave, what a listening client writes on its connection is a
  sequence of whole frames, each an answer to a keep-alive or a chat packet.  The chat packets are
  those of the calls of \<open>Chat\<close>, in their order, and the keep-alives announced by events,
  with the one about to be announced, are exactly those answered.\<close>

theorem outgoing_stream:
  assumes "reachable W (new_listener cs) s" "run W s as s'"
    and "ls_dialled s' = ls_dialled s" "cl_Conn (snd (ls_client s')) \<noteq> None"
    and "conversing base StatePlay t inp e out (ls_client s)" "0 \<le> cl_version base" "cl_privateKey base = None"
    and "ls_eventChan s = Some c" "unannounced s = []"
  shows "\<exists>ps inp'. conversing base StatePlay t inp' e (out @ frames_for W base StatePlay t ps) (ls_client s') \<and>
     (\<forall>p \<in> set ps. (\<exists>i. p = ServerboundKeepAlive i) \<or> (\<exists>m. p = chat_packet base m)) \<and>
     chats ps = map (chat_packet base) (said as) \<and> announced s' @ unannounced s' = announced s @ answered ps"
proof -
  have "talks W base t e out c (announced s) [] s" unfolding talks_def
    using assms(5,8,9) by (intro conjI exI [of _ "[]"] exI [of _ inp]) simp_all
  from run_talks [OF assms(2) this assms(1,6,7)] assms(3,4)
  have "talks W base t e out c (announced s) (said as) s'" by simp
  then show ?thesis unfolding talks_def by blast
qed

lemma outgoing_stream_witness:
  "\<exists>s s' out inp'. run sample_server s [Call_Chat ''hello'', Reader] s' \<and> ls_reader s' = Reading 1 \<and>
     conversing sample_client StatePlay 256 inp' EOF
       (out @ frames_for sample_server sample_client StatePlay 256 [chat_packet sample_client ''hello'']) (ls_client s')"
proof -
  obtain cs out where cs: "Join sample_server (protocolRegistry, sample_client) = Some (Ret (None, cs))"
      "conversing sample_client StatePlay 256 [7] EOF out cs"
    using sample_Join' by blast
  obtain s where s: "careful sample_server sample_listener s" "ls_panic s = None" "ls_eventChan s = Some 0"
      "ls_reader s = Looping" "\<not> ls_cancelled s" "ls_dialled s = 1" "ls_client s = cs"
    using sample_listening' [OF _ cs(1), of 1] by auto
  have key: "0 \<le> cl_version sample_client" "cl_privateKey sample_client = None"
    by (simp_all add: sample_client_def default_client_def)
  let ?s1 = "chat_call sample_server ''hello'' s"
  let ?s2 = "?s1\<lparr>ls_reader := Reading 1\<rparr>"
  obtain cs1 where cs1: "Chat sample_server ''hello'' cs = Ret (None, cs1)"
      "conversing sample_client StatePlay 256 [7] EOF
        (out @ packet_frame (w_env sample_server) (cl_version sample_client) StatePlay 256 (chat_packet sample_client ''hello'')) cs1"
    using conversing_Chat [OF cs(2) key] by blast
  have s1: "?s1 = s\<lparr>ls_client := cs1\<rparr>" using cs1(1) s(7) by (simp add: chat_call_def)
  have 1: "step sample_server s (Call_Chat ''hello'') ?s1" using s(2) by (intro step_chat) simp_all
  have 2: "step sample_server ?s1 Reader ?s2"
    using s by (intro step_reader) (simp_all add: s1 reader_step_def)
  have run: "run sample_server s [Call_Chat ''hello'', Reader] ?s2"
    using run_step [OF run_step [OF run_refl 1] 2] by simp
  have conn: "cl_Conn (snd (ls_client ?s2)) \<noteq> None" using conversing_fields [OF cs1(2)] by (simp add: s1)
  have before: "conversing sample_client StatePlay 256 [7] EOF out (ls_client s)" using cs(2) s(7) by simp
  have same: "ls_dialled ?s2 = ls_dialled s" "unannounced s = []" using s(4) by simp_all
  have said: "said [Call_Chat ''hello'', Reader] = [''hello'']" by (simp add: said_def)
  obtain ps inp' where ps:
      "conversing sample_client StatePlay 256 inp' EOF (out @ frames_for sample_server sample_client StatePlay 256 ps) (ls_client ?s2)"
      "\<forall>p \<in> set ps. (\<exists>i. p = ServerboundKeepAlive i) \<or> (\<exists>m. p = chat_packet sample_client m)"
      "chats ps = [chat_packet sample_client ''hello'']" "announced ?s2 @ unannounced ?s2 = announced s @ answered ps"
    using outgoing_stream [OF careful_reachable [OF s(1), unfolded sample_listener_def] run same(1) conn before key s(3) same(2)]
    unfolding said list.map by (elim exE conjE)
  have "announced ?s2 @ unannounced ?s2 = announced s" by (simp add: s1 announced_def unannounced_def)
  with ps(4) have "answered ps = []" by simp
  then have "ps = [chat_packet sample_client ''hello'']" using sent_packets [OF ps(2)] ps(3) by simp
  with run ps(1) show ?thesis by (intro exI [of _ s] exI [of _ ?s2] exI [of _ out] exI [of _ inp']) simp
qed

end
