(* ===== verification/Generator.thy ===== *)
theory Generator
  imports Component Registry "HOL-Library.Multiset" "HOL-Library.AList"
begin

text \<open>
  \<open>generator/main.go\<close>: how the tables of \<open>generated_registry.go\<close> are made from the
  packet descriptions of the \<open>minecraft-data\<close> project.

  The data files are not part of the repository; their contents, as \<open>encoding/json\<close>
  delivers them, are arguments, and so are \<open>cases.Title\<close> and \<open>semver\<close>.  Go visits a
  map in an arbitrary order, anew each time: the orders are an argument of the operations that
  range over a map.  What the templates make of the result is in \<open>Templates\<close>; writing the
  files is left out.
\<close>

section \<open>Names\<close>

definition goNameToMcNames :: "(string \<times> string list) list" where
  "goNameToMcNames =
     [(''ServerboundHandshake'', [''set_protocol'']),
      (''ClientboundStatusResponse'', [''server_info'']),
      (''ClientboundPong'', [''ping'']),
      (''ServerboundStatusRequest'', [''ping_start'']),
      (''ServerboundPing'', [''ping'']),
      (''ServerboundLoginStart'', [''login_start'']),
      (''ClientboundLoginSuccess'', [''success'']),
      (''ClientboundSetCompression'', [''compress'']),
      (''ServerboundLoginAcknowledged'', [''login_acknowledged'']),
      (''ClientboundKeepAlive'', [''keep_alive'']),
      (''ServerboundKeepAlive'', [''keep_alive'']),
      (''ServerboundChatMessage'', [''chat'', ''chat_message'', ''player_chat_message'']),
      (''ServerboundClientSettings'', [''settings'', ''client_information'']),
      (''ServerboundCustomPayload'', [''custom_payload'']),
      (''ClientboundCustomPayload'', [''custom_payload'']),
      (''ClientboundDisconnect'', [''kick_disconnect'', ''disconnect'']),
      (''ServerboundFinishConfiguration'', [''finish_configuration'']),
      (''ClientboundFinishConfiguration'', [''finish_configuration'']),
      (''ServerboundConfigKeepAlive'', [''keep_alive'']),
      (''ClientboundConfigKeepAlive'', [''keep_alive'']),
      (''ServerboundSelectKnownPacks'', [''select_known_packs'']),
      (''ClientboundSelectKnownPacks'', [''select_known_packs'']),
      (''ClientboundCookieRequest'', [''cookie_request'']),
      (''ServerboundCookieResponse'', [''cookie_response'']),
      (''ClientboundConfigPing'', [''ping'']),
      (''ServerboundConfigPong'', [''pong'']),
      (''ClientboundJoinGame'', [''login'']),
      (''ClientboundFeatureFlags'', [''feature_flags'']),
      (''ClientboundUpdateTags'', [''update_tags'']),
      (''ClientboundRegistryData'', [''registry_data''])]"

fun contains :: "string list \<Rightarrow> string \<Rightarrow> bool" where
  "contains [] item = False"
| "contains (s # names) item = (if s = item then True else contains names item)"

lemma contains_iff [simp]: "contains names item \<longleftrightarrow> item \<in> set names"
  by (induction names) auto

definition resolveAmbiguousNames :: "string \<Rightarrow> string \<Rightarrow> string \<Rightarrow> string" where
  "resolveAmbiguousNames goName stateName dirName =
     (if goName = ''ClientboundDisconnect'' then
        (if stateName = ''login'' then ''ClientboundDisconnect'' else ''ClientboundDisconnect'')
      else if goName \<in> {''ServerboundCustomPayload'', ''ClientboundCustomPayload''} then
        (if dirName = ''serverbound'' then ''ServerboundCustomPayload'' else ''ClientboundCustomPayload'')
      else if goName \<in> {''ServerboundSelectKnownPacks'', ''ClientboundSelectKnownPacks''} then
        (if dirName = ''serverbound'' then ''ServerboundSelectKnownPacks'' else ''ClientboundSelectKnownPacks'')
      else if goName \<in> {''ServerboundFinishConfiguration'', ''ClientboundFinishConfiguration''} then
        (if stateName \<noteq> ''configuration'' then ''''
         else if dirName = ''serverbound'' then ''ServerboundFinishConfiguration''
         else ''ClientboundFinishConfiguration'')
      else if goName \<in> {''ClientboundKeepAlive'', ''ServerboundKeepAlive'', ''ServerboundConfigKeepAlive'',
                        ''ClientboundConfigKeepAlive''} then
        (if dirName = ''serverbound'' then
           (if stateName = ''configuration'' then ''ServerboundConfigKeepAlive'' else ''ServerboundKeepAlive'')
         else if stateName = ''configuration'' then ''ClientboundConfigKeepAlive''
         else ''ClientboundKeepAlive'')
      else if goName \<in> {''ClientboundPong'', ''ServerboundPing'', ''ClientboundConfigPing'', ''ServerboundConfigPong''} then
        (if dirName = ''clientbound'' then
           (if stateName = ''configuration'' then ''ClientboundConfigPing'' else ''ClientboundPong'')
         else if stateName = ''status'' then ''ServerboundPing''
         else if stateName = ''configuration'' then ''ServerboundConfigPong''
         else '''')
      else goName)"

section \<open>Orders of iteration\<close>

record orders =
  ord_names :: "string \<Rightarrow> (string \<times> string list) list"
    \<comment> \<open>\<open>goNameToMcNames\<close>, as visited for a packet name\<close>
  ord_ids :: "(string \<times> int32) list \<Rightarrow> (string \<times> int32) list"
  ord_json :: "(string \<times> json) list \<Rightarrow> (string \<times> json) list"

definition orders_ok :: "orders \<Rightarrow> bool" where
  "orders_ok ord \<longleftrightarrow> (\<forall>mc. mset (ord_names ord mc) = mset goNameToMcNames) \<and>
     (\<forall>ids. mset (ord_ids ord ids) = mset ids) \<and> (\<forall>obj. mset (ord_json ord obj) = mset obj)"

section \<open>Packet ids\<close>

text \<open>\<open>strconv.ParseInt(s, 16, 32)\<close> without its error: 0 for what is no number, the
  nearest bound for what is out of range.\<close>

definition hex_val :: "char \<Rightarrow> nat option" where
  "hex_val c =
     (let n = of_char c :: nat in
      if 48 \<le> n \<and> n \<le> 57 then Some (n - 48)
      else if 97 \<le> n \<and> n \<le> 102 then Some (n - 87)
      else if 65 \<le> n \<and> n \<le> 70 then Some (n - 55)
      else None)"

fun hex_uint32 :: "nat \<Rightarrow> string \<Rightarrow> nat option" where
  "hex_uint32 acc [] = Some acc"
| "hex_uint32 acc (c # s) =
     (case hex_val c of
        None \<Rightarrow> None
      | Some d \<Rightarrow> if acc * 16 + d \<ge> 2 ^ 32 then Some (2 ^ 32 - 1) else hex_uint32 (acc * 16 + d) s)"

definition ParseInt_16_32 :: "string \<Rightarrow> int" where
  "ParseInt_16_32 s =
     (let (neg, body) =
        (case s of c # t \<Rightarrow> if c = CHR ''-'' then (True, t) else if c = CHR ''+'' then (False, t) else (False, s)
         | [] \<Rightarrow> (False, s)) in
      if body = [] then 0
      else case hex_uint32 0 body of
        None \<Rightarrow> 0
      | Some n \<Rightarrow>
          if \<not> neg \<and> n \<ge> 2 ^ 31 then 2 ^ 31 - 1
          else if neg \<and> n > 2 ^ 31 then - (2 ^ 31)
          else if neg then - int n else int n)"

definition strings_TrimPrefix :: "string \<Rightarrow> string \<Rightarrow> string" where
  "strings_TrimPrefix s pre = (if take (length pre) s = pre then drop (length pre) s else s)"

text \<open>An object is a map without duplicate keys.  The result stands for a map, too: later
  insertions replace earlier ones.\<close>

fun add_mappings :: "(string \<times> json) list \<Rightarrow> (string \<times> int32) list \<Rightarrow> (string \<times> int32) list" where
  "add_mappings [] idMap = idMap"
| "add_mappings ((idHex, name) # ms) idMap =
     add_mappings ms
       (case name of
          JStr nameStr \<Rightarrow> AList.update nameStr (word_of_int (ParseInt_16_32 (strings_TrimPrefix idHex ''0x''))) idMap
        | _ \<Rightarrow> idMap)"

definition field_mappings :: "json \<Rightarrow> (string \<times> json) list option" where
  "field_mappings field =
     (case field of
        JObj fieldMap \<Rightarrow>
          if map_of fieldMap ''name'' \<noteq> Some (JStr ''name'') then None
          else (case map_of fieldMap ''type'' of
            Some (JArr typeArr) \<Rightarrow>
              if length typeArr < 2 \<or> typeArr ! 0 \<noteq> JStr ''mapper'' then None
              else (case typeArr ! 1 of
                JObj meta \<Rightarrow> (case map_of meta ''mappings'' of Some (JObj mappings) \<Rightarrow> Some mappings | _ \<Rightarrow> None)
              | _ \<Rightarrow> None)
          | _ \<Rightarrow> None)
      | _ \<Rightarrow> None)"

fun first_mappings :: "json list \<Rightarrow> (string \<times> json) list option" where
  "first_mappings [] = None"
| "first_mappings (fld # flds) =
     (case field_mappings fld of Some mappings \<Rightarrow> Some mappings | None \<Rightarrow> first_mappings flds)"

text \<open>A nil map is \<open>None\<close>.\<close>

definition preParsePacketIDs :: "orders \<Rightarrow> (string \<times> json) list option \<Rightarrow> (string \<times> int32) list" where
  "preParsePacketIDs ord typeMap =
     (case typeMap of
        None \<Rightarrow> []
      | Some types \<Rightarrow>
          (case map_of types ''packet'' of
             Some (JArr packetContainer) \<Rightarrow>
               if length packetContainer < 2 then []
               else (case packetContainer ! 1 of
                 JArr flds \<Rightarrow>
                   (case first_mappings flds of
                      Some mappings \<Rightarrow> add_mappings (ord_json ord mappings) []
                    | None \<Rightarrow> [])
               | _ \<Rightarrow> [])
           | _ \<Rightarrow> []))"

section \<open>The tables of a version\<close>

type_synonym 'a tables = "(string \<times> (string \<times> 'a list) list) list"

record versionInfo =
  vi_VersionStr :: string
  vi_EnumName :: string
  vi_ProtocolVersion :: int32
  vi_PacketIDs :: "(string \<times> int32) tables"
  vi_PacketNames :: "(int32 \<times> string) tables"

record mcState =
  ToServer :: "(string \<times> json) list option"
  ToClient :: "(string \<times> json) list option"

text \<open>The maps are association lists that \<open>AList.update\<close> writes to; reading a nil map
  finds nothing (\<open>map_at\<close>).\<close>

definition put_packet :: "string \<Rightarrow> string \<Rightarrow> string \<Rightarrow> int32 \<Rightarrow> versionInfo \<Rightarrow> versionInfo" where
  "put_packet st dir name i vi =
     (let ids = vi_PacketIDs vi; names = vi_PacketNames vi;
          (ids, names) = (if map_of ids st = None
            then (AList.update st [] ids, AList.update st [] names) else (ids, names));
          (ids, names) = (if map_of (map_at ids st) dir = None
            then (AList.update st (AList.update dir [] (map_at ids st)) ids,
                  AList.update st (AList.update dir [] (map_at names st)) names)
            else (ids, names)) in
      vi\<lparr>vi_PacketIDs :=
           AList.update st (AList.update dir (AList.update name i (map_at (map_at ids st) dir)) (map_at ids st)) ids,
         vi_PacketNames :=
           AList.update st (AList.update dir (AList.update i name (map_at (map_at names st) dir)) (map_at names st)) names\<rparr>)"

text \<open>The inner loop of \<open>processDirection\<close>.\<close>

fun final_name :: "(string \<times> string list) list \<Rightarrow> string \<Rightarrow> string \<Rightarrow> string \<Rightarrow> string option" where
  "final_name [] mcPacketName stateName dirName = None"
| "final_name ((goName, mcNames) # table) mcPacketName stateName dirName =
     (if contains mcNames mcPacketName then
        (let finalGoName = resolveAmbiguousNames goName stateName dirName in
         if finalGoName = '''' then final_name table mcPacketName stateName dirName
         else Some finalGoName)
      else final_name table mcPacketName stateName dirName)"

definition processDirection ::
  "(string \<Rightarrow> string) \<Rightarrow> orders \<Rightarrow> string \<Rightarrow> string \<Rightarrow> (string \<times> int32) list \<Rightarrow> versionInfo \<Rightarrow> versionInfo" where
  "processDirection title ord stateName dirName idMap vi =
     (if idMap = [] then vi
      else
        let stateEnum = ''State'' @ title stateName; dirEnum = ''Direction'' @ title dirName in
        fold (\<lambda>(mcPacketName, i) vi.
            case final_name (ord_names ord mcPacketName) mcPacketName stateName dirName of
              Some finalGoName \<Rightarrow> put_packet stateEnum dirEnum finalGoName i vi
            | None \<Rightarrow> vi) (ord_ids ord idMap) vi)"

definition processState ::
  "(string \<Rightarrow> string) \<Rightarrow> orders \<Rightarrow> string \<Rightarrow> mcState \<Rightarrow> versionInfo \<Rightarrow> versionInfo" where
  "processState title ord stateName stateData vi =
     processDirection title ord stateName ''clientbound'' (preParsePacketIDs ord (ToClient stateData))
    (processDirection title ord stateName ''serverbound'' (preParsePacketIDs ord (ToServer stateData)) vi)"

definition processVersion ::
  "(string \<Rightarrow> string) \<Rightarrow> orders \<Rightarrow> string \<Rightarrow> int32 \<Rightarrow> (string \<rightharpoonup> mcState) \<Rightarrow> versionInfo" where
  "processVersion title ord versionStr protoNum states =
     fold (\<lambda>stateName vi. case states stateName of Some d \<Rightarrow> processState title ord stateName d vi | None \<Rightarrow> vi)
       [''handshaking'', ''status'', ''login'', ''configuration'', ''play'']
       \<lparr>vi_VersionStr = versionStr,
        vi_EnumName = CHR ''V'' # map (\<lambda>c. if c = CHR ''.'' then CHR ''_'' else c) versionStr,
        vi_ProtocolVersion = protoNum, vi_PacketIDs = [], vi_PacketNames = []\<rparr>"

section \<open>Versions\<close>

definition is_digit :: "char \<Rightarrow> bool" where
  "is_digit c \<longleftrightarrow> digit_val c \<noteq> None"

text \<open>\<open>^\d+\.\d+(\.\d+)?$\<close> and \<open>^\d{2}w\d{2}[a-z]$\<close>\<close>

definition releaseVersionRegex :: "string \<Rightarrow> bool" where
  "releaseVersionRegex s \<longleftrightarrow>
     (let parts = strings_Split (CHR ''.'') s in
      (length parts = 2 \<or> length parts = 3) \<and> list_all (\<lambda>p. p \<noteq> [] \<and> list_all is_digit p) parts)"

definition snapshotVersionRegex :: "string \<Rightarrow> bool" where
  "snapshotVersionRegex s \<longleftrightarrow>
     (case s of
        [a, b, w, c, d, l] \<Rightarrow> is_digit a \<and> is_digit b \<and> w = CHR ''w'' \<and> is_digit c \<and> is_digit d \<and>
          97 \<le> (of_char l :: nat) \<and> (of_char l :: nat) \<le> 122
      | _ \<Rightarrow> False)"

fun protocol_versions ::
  "(string \<times> int32) list \<Rightarrow> (string \<times> int32) list \<times> string \<times> int32 \<Rightarrow> (string \<times> int32) list \<times> string \<times> int32" where
  "protocol_versions [] acc = acc"
| "protocol_versions ((v, n) # vs) (nums, latest, latestProto) =
     protocol_versions vs
       (let nums = AList.update v n nums in
        if snapshotVersionRegex v \<and> latestProto <s n then (nums, v, n) else (nums, latest, latestProto))"

text \<open>\<open>loadProtocolVersions\<close> on the contents of \<open>protocolVersions.json\<close>.\<close>

definition loadProtocolVersions :: "(string \<times> int32) list \<Rightarrow> (string \<times> int32) list \<times> string" where
  "loadProtocolVersions versionList =
     (case protocol_versions versionList ([], '''', 0) of (nums, latest, _) \<Rightarrow> (nums, latest))"

text \<open>The entries of the map in the order in which they are visited.\<close>

fun prefix_match :: "string \<Rightarrow> (string \<times> int32) list \<Rightarrow> int32" where
  "prefix_match versionStr [] = 0"
| "prefix_match versionStr ((v, p) # entries) = (if prefix versionStr v then p else prefix_match versionStr entries)"

definition findBestProtoNum :: "string \<Rightarrow> (string \<times> int32) list \<Rightarrow> int32" where
  "findBestProtoNum versionStr entries =
     (case map_of entries versionStr of Some p \<Rightarrow> p | None \<Rightarrow> prefix_match versionStr entries)"

text \<open>A directory entry: its name, whether it is a directory, and its \<open>protocol.json\<close> as
  read and decoded, if both succeed.\<close>

fun loadAndParseProtocols ::
  "(string \<Rightarrow> string) \<Rightarrow> orders \<Rightarrow> (string \<times> bool \<times> (string \<rightharpoonup> mcState) option) list \<Rightarrow> (string \<times> int32) list \<Rightarrow>
     string \<Rightarrow> versionInfo list" where
  "loadAndParseProtocols title ord [] nums latestSnapshot = []"
| "loadAndParseProtocols title ord ((versionStr, isDir, contents) # dirs) nums latestSnapshot =
     (let others = loadAndParseProtocols title ord dirs nums latestSnapshot in
      if \<not> isDir then others
      else if \<not> releaseVersionRegex versionStr \<and> versionStr \<noteq> latestSnapshot then others
      else case contents of
        None \<Rightarrow> others
      | Some states \<Rightarrow>
          (let protoNum = findBestProtoNum versionStr (ord_ids ord nums) in
           if protoNum = 0 then others
           else processVersion title ord versionStr protoNum states # others))"

text \<open>The comparison by which \<open>main\<close> sorts; \<open>semver\<close> parses a version.\<close>

definition version_less ::
  "(string \<Rightarrow> 'v option) \<Rightarrow> ('v \<Rightarrow> 'v \<Rightarrow> bool) \<Rightarrow> versionInfo \<Rightarrow> versionInfo \<Rightarrow> bool" where
  "version_less semver LessThan a b =
     (case (semver (vi_VersionStr a), semver (vi_VersionStr b)) of
        (Some v1, Some v2) \<Rightarrow> LessThan v1 v2
      | (Some _, None) \<Rightarrow> True
      | (None, Some _) \<Rightarrow> False
      | (None, None) \<Rightarrow> vi_ProtocolVersion a <s vi_ProtocolVersion b)"

text \<open>\<open>main\<close> up to the templates: the versions in order, with the enum names of the last and
  the first.  \<open>sort_Slice\<close> is \<open>sort.Slice\<close> with a comparison, which may leave equal
  versions in any order.\<close>

record templateData =
  td_Versions :: "versionInfo list"
  td_LatestVersionEnum :: string
  td_FirstVersionEnum :: string

definition generator_main ::
  "(string \<Rightarrow> string) \<Rightarrow> orders \<Rightarrow> (string \<Rightarrow> 'v option) \<Rightarrow> ('v \<Rightarrow> 'v \<Rightarrow> bool) \<Rightarrow>
     ((versionInfo \<Rightarrow> versionInfo \<Rightarrow> bool) \<Rightarrow> versionInfo list \<Rightarrow> versionInfo list) \<Rightarrow>
     (string \<times> bool \<times> (string \<rightharpoonup> mcState) option) list \<Rightarrow> (string \<times> int32) list \<Rightarrow> string + templateData" where
  "generator_main title ord semver LessThan sort_Slice dirs versionList =
     (let (versionToProtoNum, latestSnapshot) = loadProtocolVersions versionList;
          parsedVersions = loadAndParseProtocols title ord dirs versionToProtoNum latestSnapshot in
      if parsedVersions = [] then Inl ''FATAL: No protocol versions were successfully parsed''
      else
        let parsedVersions = sort_Slice (version_less semver LessThan) parsedVersions in
        Inr \<lparr>td_Versions = parsedVersions, td_LatestVersionEnum = vi_EnumName (last parsedVersions),
             td_FirstVersionEnum = vi_EnumName (hd parsedVersions)\<rparr>)"

end
