(* ===== verification/Templates.thy ===== *)
theory Templates
  imports Generator "HOL-Library.Char_ord" "HOL-Library.List_Lexorder"
begin

text \<open>
  The two templates of \<open>generator/main.go\<close>, as what the files they render declare: the
  constants and tables of \<open>generated_versions.go\<close>, and the definitions that
  \<open>generated_registry.go\<close> registers.  \<open>text/template\<close> visits the entries of a
  map in the order of its keys, so that a map literal lists them sorted.  Names that the
  templates write as identifiers must be declared, once: otherwise the file does not compile,
  and the result is \<open>None\<close>.
\<close>

section \<open>Map literals\<close>

definition in_order :: "('k \<Rightarrow> 'o::linorder) \<Rightarrow> ('k \<times> 'v) list \<Rightarrow> ('k \<times> 'v) list" where
  "in_order key m = sort_key (\<lambda>e. key (fst e)) m"

text \<open>A literal whose keys are identifiers of constants.\<close>

fun literal :: "(string \<rightharpoonup> 'c) \<Rightarrow> ('v \<Rightarrow> 'w option) \<Rightarrow> (string \<times> 'v) list \<Rightarrow> ('c \<times> 'w) list option" where
  "literal const value [] = Some []"
| "literal const value ((ident, v) # entries) =
     (case (const ident, value v, literal const value entries) of
        (Some c, Some w, Some m) \<Rightarrow> Some ((c, w) # m)
      | _ \<Rightarrow> None)"

section \<open>The registry\<close>

text \<open>The constants of \<open>protocol/types.go\<close>.\<close>

definition State_constants :: "(string \<times> State) list" where
  "State_constants = [(''StateHandshaking'', StateHandshaking), (''StateStatus'', StateStatus),
     (''StateLogin'', StateLogin), (''StatePlay'', StatePlay), (''StateConfiguration'', StateConfiguration)]"

definition Direction_constants :: "(string \<times> Direction) list" where
  "Direction_constants = [(''DirectionServerbound'', DirectionServerbound), (''DirectionClientbound'', DirectionClientbound)]"

definition tables_literal ::
  "('a list \<Rightarrow> 'a list) \<Rightarrow> 'a tables \<Rightarrow> (State \<times> (Direction \<times> 'a list) list) list option" where
  "tables_literal packets tables =
     literal (map_of State_constants)
       (\<lambda>directions. literal (map_of Direction_constants) (\<lambda>ps. Some (packets ps)) (in_order id directions))
       (in_order id tables)"

definition registry_definition :: "versionInfo \<Rightarrow> Definition option" where
  "registry_definition vi =
     (case (tables_literal (in_order id) (vi_PacketIDs vi), tables_literal (in_order sint) (vi_PacketNames vi)) of
        (Some ids, Some names) \<Rightarrow>
          Some \<lparr>ProtocolVersion = vi_ProtocolVersion vi, PacketNames = names, PacketIDs = ids\<rparr>
      | _ \<Rightarrow> None)"

text \<open>The assignments to \<open>protocolRegistry\<close>, in order; \<open>consts\<close> are the version
  constants of the package.\<close>

fun registry_file :: "(string \<rightharpoonup> Version) \<Rightarrow> versionInfo list \<Rightarrow> (Version \<times> Definition) list option" where
  "registry_file consts [] = Some []"
| "registry_file consts (vi # vis) =
     (case (consts (vi_EnumName vi), registry_definition vi, registry_file consts vis) of
        (Some v, Some def, Some registry) \<Rightarrow> Some ((v, def) # registry)
      | _ \<Rightarrow> None)"

section \<open>The versions\<close>

text \<open>\<open>iota\<close> numbers the constants from 0.\<close>

definition version_constants :: "templateData \<Rightarrow> (string \<times> Version) list" where
  "version_constants td = zip (map vi_EnumName (td_Versions td)) (map int [0..<length (td_Versions td)])"

record versions_go =
  go_First :: Version
  go_Latest :: Version
  go_stringToVersion :: "(string \<times> Version) list"

definition versions_file :: "templateData \<Rightarrow> versions_go option" where
  "versions_file td =
     (let consts = version_constants td in
      if \<not> distinct (map fst consts) then None
      else case (map_of consts (td_FirstVersionEnum td), map_of consts (td_LatestVersionEnum td),
          those (map (\<lambda>vi. map_option (Pair (vi_VersionStr vi)) (map_of consts (vi_EnumName vi))) (td_Versions td))) of
        (Some first, Some latest, Some versions) \<Rightarrow>
          Some \<lparr>go_First = first, go_Latest = latest, go_stringToVersion = versions\<rparr>
      | _ \<Rightarrow> None)"

text \<open>The two files \<open>main\<close> generates.\<close>

definition generated_files :: "templateData \<Rightarrow> (versions_go \<times> (Version \<times> Definition) list) option" where
  "generated_files td =
     (case (versions_file td, registry_file (map_of (version_constants td)) (td_Versions td)) of
        (Some versions, Some registry) \<Rightarrow> Some (versions, registry)
      | _ \<Rightarrow> None)"

end
