(* ===== verification/Generator_Props.thy ===== *)
theory Generator_Props
  imports Generator Registry_Facts
begin

text \<open>
  What holds of the generator: the names and tables it makes of the descriptions, the versions
  it finds and their protocol numbers, and what it reads from the JSON data.
\<close>

section \<open>The name of a packet\<close>

text \<open>Go names between which \<open>resolveAmbiguousNames\<close> does not distinguish have one
  representative, and the entries of the table that share a packet name have the same.\<close>

definition representative :: "string \<Rightarrow> string" where
  "representative g =
     (if g = ''ServerboundCustomPayload'' then ''ClientboundCustomPayload''
      else if g = ''ServerboundSelectKnownPacks'' then ''ClientboundSelectKnownPacks''
      else if g = ''ServerboundFinishConfiguration'' then ''ClientboundFinishConfiguration''
      else if g = ''ServerboundKeepAlive'' then ''ClientboundKeepAlive''
      else if g = ''ServerboundConfigKeepAlive'' then ''ClientboundKeepAlive''
      else if g = ''ClientboundConfigKeepAlive'' then ''ClientboundKeepAlive''
      else if g = ''ServerboundPing'' then ''ClientboundPong''
      else if g = ''ClientboundConfigPing'' then ''ClientboundPong''
      else if g = ''ServerboundConfigPong'' then ''ClientboundPong''
      else g)"

lemma resolve_representative: "resolveAmbiguousNames (representative g) s d = resolveAmbiguousNames g s d"
  by (simp add: representative_def resolveAmbiguousNames_def)

definition packet_names :: "(string \<times> string) list" where
  "packet_names = concat (map (\<lambda>(g, mcs). map (\<lambda>mc. (mc, representative g)) mcs) goNameToMcNames)"

lemma packet_names_unique: "list_all (\<lambda>(mc, r). map_of packet_names mc = Some r) packet_names"
  by code_simp

definition packet_name :: "string \<Rightarrow> string \<Rightarrow> string \<Rightarrow> string option" where
  "packet_name mc s d =
     (case map_of packet_names mc of
        None \<Rightarrow> None
      | Some r \<Rightarrow> (let n = resolveAmbiguousNames r s d in if n = '''' then None else Some n))"

lemma packet_names_entry:
  assumes "(g, mcs) \<in> set goNameToMcNames" "mc \<in> set mcs"
  shows "map_of packet_names mc = Some (representative g)"
proof -
  have "(mc, representative g) \<in> set packet_names" using assms by (force simp: packet_names_def)
  with packet_names_unique show ?thesis by (auto simp: list_all_iff)
qed

lemma final_name_subset:
  assumes "set table \<subseteq> set goNameToMcNames"
  shows "final_name table mc s d = (if \<exists>(g, mcs) \<in> set table. mc \<in> set mcs then packet_name mc s d else None)"
  using assms
proof (induction table)
  case (Cons e table)
  obtain g mcs where e: "e = (g, mcs)" by (cases e)
  show ?case
  proof (cases "mc \<in> set mcs")
    case True
    then have "packet_name mc s d =
        (if resolveAmbiguousNames g s d = '''' then None else Some (resolveAmbiguousNames g s d))"
      using packet_names_entry [of g mcs mc] Cons.prems e by (simp add: packet_name_def resolve_representative Let_def)
    with True Cons e show ?thesis by (simp add: Let_def)
  next
    case False
    with Cons e show ?thesis by simp
  qed
qed simp

lemma final_name_order:
  assumes "mset table = mset goNameToMcNames"
  shows "final_name table mc s d = packet_name mc s d"
proof -
  have s: "set table = set goNameToMcNames" using assms by (metis set_mset_mset)
  have "\<exists>(g, mcs) \<in> set goNameToMcNames. mc \<in> set mcs" if "packet_name mc s d \<noteq> None"
    using that by (fastforce simp: packet_name_def packet_names_def split: option.splits dest!: map_of_SomeD)
  then show ?thesis using final_name_subset [of table mc s d] s by force
qed

text \<open>The name a packet gets does not depend on the order in which Go visits the table
  of names, although several entries may match.\<close>

theorem final_name_order_independent:
  assumes "mset table = mset goNameToMcNames"
  shows "final_name table mc s d = final_name goNameToMcNames mc s d"
  using final_name_order [OF assms] final_name_order [OF refl] by simp

lemma final_name_order_independent_witness:
  "final_name (rev goNameToMcNames) ''ping'' ''configuration'' ''clientbound'' =
     final_name goNameToMcNames ''ping'' ''configuration'' ''clientbound''"
  by (rule final_name_order_independent) simp

section \<open>The tables\<close>

definition ids_at :: "versionInfo \<Rightarrow> string \<Rightarrow> string \<Rightarrow> string \<rightharpoonup> int32" where
  "ids_at vi S D = map_of (map_at (map_at (vi_PacketIDs vi) S) D)"

definition names_at :: "versionInfo \<Rightarrow> string \<Rightarrow> string \<Rightarrow> int32 \<rightharpoonup> string" where
  "names_at vi S D = map_of (map_at (map_at (vi_PacketNames vi) S) D)"

text \<open>A direction that has no entries yet.\<close>

definition vi_fresh :: "string \<Rightarrow> string \<Rightarrow> versionInfo \<Rightarrow> bool" where
  "vi_fresh S D vi \<longleftrightarrow> map_of (map_at (vi_PacketIDs vi) S) D = None"

lemma map_at_simps [simp]: "map_at (AList.update k x m) l = (if k = l then x else map_at m l)" "map_at [] k = []"
    "map_at ((k, x) # m) l = (if k = l then x else map_at m l)"
  by (simp_all add: map_at_def update_conv')

lemma map_at_None: "map_of m k = None \<Longrightarrow> map_at m k = []"
  by (simp add: map_at_def)

lemma put_packet_at:
  "ids_at (put_packet S D n i vi) S D = (if vi_fresh S D vi then [n \<mapsto> i] else (ids_at vi S D)(n \<mapsto> i))"
  "names_at (put_packet S D n i vi) S D = (if vi_fresh S D vi then [i \<mapsto> n] else (names_at vi S D)(i \<mapsto> n))"
  "\<not> vi_fresh S D (put_packet S D n i vi)"
  by (auto simp: put_packet_def ids_at_def names_at_def vi_fresh_def Let_def map_at_None update_conv' split: option.splits)

text \<open>The names and ids a direction gets.\<close>

definition resolved :: "string \<Rightarrow> string \<Rightarrow> (string \<times> int32) list \<Rightarrow> (string \<times> int32) list" where
  "resolved s d idMap = List.map_filter (\<lambda>(mc, i). map_option (\<lambda>n. (n, i)) (packet_name mc s d)) idMap"

lemma resolved_simps [simp]:
  "resolved s d [] = []"
  "resolved s d ((mc, i) # idMap) =
     (case packet_name mc s d of Some n \<Rightarrow> (n, i) # resolved s d idMap | None \<Rightarrow> resolved s d idMap)"
  by (simp_all add: resolved_def map_filter_simps split: option.split)

lemma mset_resolved: "mset xs = mset ys \<Longrightarrow> mset (resolved s d xs) = mset (resolved s d ys)"
  unfolding resolved_def List.map_filter_def by simp

lemma fold_resolved:
  assumes "\<forall>mc. mset (names mc) = mset goNameToMcNames"
  shows "fold (\<lambda>(mc, i) vi. case final_name (names mc) mc s d of Some n \<Rightarrow> put_packet S D n i vi | None \<Rightarrow> vi) xs vi =
     fold (\<lambda>(n, i). put_packet S D n i) (resolved s d xs) vi"
proof (induction xs arbitrary: vi)
  case (Cons x xs)
  obtain mc i where "x = (mc, i)" by (cases x)
  with Cons show ?case using final_name_order [of "names mc" mc s d] assms by (cases "packet_name mc s d") simp_all
qed simp

lemma fold_put_packet:
  assumes "vi_fresh S D vi" "names_at vi S D = Map.empty" "distinct (map fst ps)" "distinct (map snd ps)"
  shows "ids_at (fold (\<lambda>(n, i). put_packet S D n i) ps vi) S D = map_of ps \<and>
     names_at (fold (\<lambda>(n, i). put_packet S D n i) ps vi) S D = map_of (map prod.swap ps) \<and>
     (ps \<noteq> [] \<longrightarrow> \<not> vi_fresh S D (fold (\<lambda>(n, i). put_packet S D n i) ps vi))"
  using assms(3,4)
proof (induction ps rule: rev_induct)
  case Nil
  then show ?case using assms(1,2) by (simp add: ids_at_def vi_fresh_def map_at_None)
next
  case (snoc p ps)
  obtain n i where p: "p = (n, i)" by (cases p)
  have fresh: "n \<notin> fst ` set ps" "i \<notin> snd ` set ps" using snoc.prems p by auto
  have "map_of ps n = None" using fresh(1) by (simp add: map_of_eq_None_iff)
  moreover have "map_of (map prod.swap ps) i = None" using fresh(2) by (force simp: map_of_eq_None_iff)
  ultimately have m: "map_of (ps @ [p]) = (map_of ps)(n \<mapsto> i)" "map_of (map prod.swap (ps @ [p])) = (map_of (map prod.swap ps))(i \<mapsto> n)"
    using p by (auto simp: fun_eq_iff map_add_def split: option.split)
  show ?case
  proof (cases "ps = []")
    case True
    then show ?thesis using p assms(1) by (simp add: put_packet_at)
  next
    case False
    then show ?thesis using snoc p m by (simp add: put_packet_at del: map_of_append)
  qed
qed

lemma processDirection_run:
  assumes "orders_ok ord" "S = ''State'' @ title s" "D = ''Direction'' @ title d"
  shows "processDirection title ord s d idMap vi =
     fold (\<lambda>(n, i). put_packet S D n i) (resolved s d (ord_ids ord idMap)) vi"
proof -
  have "mset (ord_ids ord idMap) = mset idMap" using assms(1) by (simp add: orders_ok_def)
  then have "idMap = [] \<longleftrightarrow> ord_ids ord idMap = []" by (metis mset_zero_iff)
  then show ?thesis
    using assms fold_resolved [where names = "ord_names ord" and s = s and d = d and S = S and D = D and xs = "ord_ids ord idMap" and vi = vi]
    by (auto simp: processDirection_def orders_ok_def Let_def)
qed

text \<open>\<open>processDirection\<close> fills the two tables of a direction with exactly the resolved
  names, each the inverse of the other, and independently of all orders of iteration, as long
  as no two packets resolve to one name and no two have one id.\<close>

theorem processDirection_tables:
  assumes "orders_ok ord" "S = ''State'' @ title s" "D = ''Direction'' @ title d"
    and "vi_fresh S D vi" "names_at vi S D = Map.empty"
    and "distinct (map fst (resolved s d idMap))" "distinct (map snd (resolved s d idMap))"
  shows "ids_at (processDirection title ord s d idMap vi) S D = map_of (resolved s d idMap) \<and>
     names_at (processDirection title ord s d idMap vi) S D = map_of (map prod.swap (resolved s d idMap)) \<and>
     (\<forall>n i. ids_at (processDirection title ord s d idMap vi) S D n = Some i \<longleftrightarrow>
        names_at (processDirection title ord s d idMap vi) S D i = Some n)"
proof -
  let ?ps = "resolved s d (ord_ids ord idMap)" and ?qs = "resolved s d idMap"
  have m: "mset (ord_ids ord idMap) = mset idMap" using assms(1) by (simp add: orders_ok_def)
  have mr: "mset ?ps = mset ?qs" by (rule mset_resolved [OF m])
  have mf: "mset (map fst ?ps) = mset (map fst ?qs)" "mset (map snd ?ps) = mset (map snd ?qs)"
    using mr by simp_all
  have dist: "distinct (map fst ?ps)" "distinct (map snd ?ps)"
    using mset_eq_imp_distinct_iff [OF mf(1)] mset_eq_imp_distinct_iff [OF mf(2)] assms(6,7) by simp_all
  have set: "set ?ps = set ?qs" by (rule mset_eq_setD [OF mr])
  note run = processDirection_run [of ord S title s D d idMap vi, OF assms(1-3)]
  have swap: "map fst (map prod.swap xs) = map snd xs" for xs :: "(string \<times> int32) list" by simp
  have maps: "map_of ?ps = map_of ?qs" "map_of (map prod.swap ?ps) = map_of (map prod.swap ?qs)"
    using set dist assms(6,7) by (simp_all add: map_of_inject_set swap del: map_map)
  have ids: "ids_at (processDirection title ord s d idMap vi) S D = map_of ?qs"
      "names_at (processDirection title ord s d idMap vi) S D = map_of (map prod.swap ?qs)"
    using fold_put_packet [OF assms(4,5) dist] maps by (simp_all add: run)
  have "map_of ?qs n = Some i \<longleftrightarrow> map_of (map prod.swap ?qs) i = Some n" for n i
  proof -
    have d: "distinct (map fst (map prod.swap ?qs))" using assms(7) by (simp only: swap)
    show ?thesis unfolding map_of_eq_Some_iff [OF assms(6)] map_of_eq_Some_iff [OF d] by force
  qed
  with ids show ?thesis by simp
qed

definition first_order :: orders where
  "first_order = \<lparr>ord_names = (\<lambda>_. goNameToMcNames), ord_ids = id, ord_json = id\<rparr>"

definition last_order :: orders where
  "last_order = \<lparr>ord_names = (\<lambda>_. rev goNameToMcNames), ord_ids = rev, ord_json = rev\<rparr>"

lemma orders_ok_samples [simp]: "orders_ok first_order" "orders_ok last_order"
  by (simp_all add: orders_ok_def first_order_def last_order_def)

definition empty_version :: versionInfo where
  "empty_version = \<lparr>vi_VersionStr = ''1.21.4'', vi_EnumName = ''V1_21_4'', vi_ProtocolVersion = 769,
     vi_PacketIDs = [], vi_PacketNames = []\<rparr>"

lemma empty_version_fresh [simp]: "vi_fresh S D empty_version" "names_at empty_version S D = Map.empty"
  by (simp_all add: empty_version_def vi_fresh_def names_at_def)

lemma processDirection_tables_witness:
  "ids_at (processDirection id last_order ''status'' ''serverbound'' [(''ping'', 1), (''ping_start'', 0)] empty_version)
     ''Statestatus'' ''Directionserverbound'' ''ServerboundPing'' = Some 1 \<and>
   names_at (processDirection id last_order ''status'' ''serverbound'' [(''ping'', 1), (''ping_start'', 0)] empty_version)
     ''Statestatus'' ''Directionserverbound'' 1 = Some ''ServerboundPing''"
proof -
  have "(''ServerboundPing'', [''ping'']) \<in> set goNameToMcNames" "(''ServerboundStatusRequest'', [''ping_start'']) \<in> set goNameToMcNames"
    by (simp_all add: goNameToMcNames_def)
  then have "packet_name ''ping'' ''status'' ''serverbound'' = Some ''ServerboundPing''"
      "packet_name ''ping_start'' ''status'' ''serverbound'' = Some ''ServerboundStatusRequest''"
    using packet_names_entry [of "''ServerboundPing''" "[''ping'']" "''ping''"]
      packet_names_entry [of "''ServerboundStatusRequest''" "[''ping_start'']" "''ping_start''"]
    by (simp_all add: packet_name_def representative_def resolveAmbiguousNames_def)
  then have r: "resolved ''status'' ''serverbound'' [(''ping'', 1), (''ping_start'', 0)] =
      [(''ServerboundPing'', 1), (''ServerboundStatusRequest'', 0)]" by simp
  show ?thesis
    using processDirection_tables [of last_order "''Statestatus''" id "''status''" "''Directionserverbound''" "''serverbound''"
        empty_version "[(''ping'', 1), (''ping_start'', 0)]"]
    unfolding r by simp
qed

section \<open>The tables in the repository\<close>

text \<open>The names \<open>processVersion\<close> gives to the states, and the directions'.\<close>

definition state_names :: "(State \<times> string) list" where
  "state_names = [(StateHandshaking, ''handshaking''), (StateStatus, ''status''), (StateLogin, ''login''),
     (StateConfiguration, ''configuration''), (StatePlay, ''play'')]"

definition direction_name :: "Direction \<Rightarrow> string" where
  "direction_name d = (if d = DirectionServerbound then ''serverbound'' else ''clientbound'')"

lemma places_resolved:
  "list_all (\<lambda>d. list_all (\<lambda>(n, ss). list_all (\<lambda>s.
     resolveAmbiguousNames n (the (map_of state_names s)) (direction_name d) = n) ss) (places d)) [True, False]"
  by (simp add: places_def clientbound_places_def serverbound_places_def state_names_def direction_name_def
      resolveAmbiguousNames_def)

lemma places_in_table: "list_all (\<lambda>d. list_all (\<lambda>(n, ss). n \<in> fst ` set goNameToMcNames) (places d)) [True, False]"
  by (simp add: places_def clientbound_places_def serverbound_places_def goNameToMcNames_def)

lemma table_names_nonempty: "list_all (\<lambda>(g, mcs). g \<noteq> '''' \<and> mcs \<noteq> []) goNameToMcNames"
  by (simp add: goNameToMcNames_def)

text \<open>A name \<open>minecraft-data\<close> has for a packet.\<close>

definition mc_name :: "string \<Rightarrow> string" where
  "mc_name n = hd (the (map_of goNameToMcNames n))"

lemma mc_name_resolves:
  assumes "(n, ss) \<in> set (places d)" "s \<in> set ss"
  shows "packet_name (mc_name n) (the (map_of state_names s)) (direction_name d) = Some n"
proof -
  have "resolveAmbiguousNames n (the (map_of state_names s)) (direction_name d) = n"
    using places_resolved assms by (cases d) (auto simp: list_all_iff)
  moreover have "n \<in> fst ` set goNameToMcNames"
    using places_in_table assms(1) by (cases d) (fastforce simp: list_all_iff)+
  then obtain mcs where mcs: "map_of goNameToMcNames n = Some mcs"
    by (metis map_of_eq_None_iff option.exhaust)
  moreover have "n \<noteq> ''''" "mcs \<noteq> []"
    using table_names_nonempty map_of_SomeD [OF mcs] by (auto simp: list_all_iff)
  ultimately show ?thesis
    using packet_names_entry [OF map_of_SomeD [OF mcs], of "hd mcs"]
    by (simp add: mc_name_def packet_name_def resolve_representative)
qed

text \<open>Every packet name in the generated tables of the repository is one the generator
  gives to some packet of that state and direction.\<close>

theorem generated_names:
  assumes "(v, D) \<in> set initialRegistry" "lookup_name D s d i = Some n"
  shows "\<exists>mc. final_name goNameToMcNames mc (the (map_of state_names s)) (direction_name d) = Some n"
proof -
  have D: "D \<in> Definitions" using assms(1) by (force simp: Definitions_def)
  obtain ss where ss: "map_of (places d) n = Some ss" "s \<in> set ss" using name_place [OF D assms(2)] by blast
  then have "packet_name (mc_name n) (the (map_of state_names s)) (direction_name d) = Some n"
    by (intro mc_name_resolves map_of_SomeD)
  then show ?thesis using final_name_order [OF refl] by metis
qed

section \<open>Versions\<close>

lemma prefix_match_range:
  "prefix_match v entries \<in> insert 0 {p. \<exists>w. (w, p) \<in> set entries \<and> prefix v w}"
  by (induction v entries rule: prefix_match.induct) auto

lemma prefix_match_first: "(w, p) \<in> set entries \<Longrightarrow> prefix v w \<Longrightarrow> \<exists>es. mset es = mset entries \<and> prefix_match v es = p"
proof -
  assume a: "(w, p) \<in> set entries" "prefix v w"
  then obtain xs ys where "entries = xs @ (w, p) # ys" by (metis split_list)
  then show ?thesis using a(2) by (intro exI [of _ "(w, p) # xs @ ys"]) simp
qed

lemma prefix_match_hit: "(w, p) \<in> set entries \<Longrightarrow> prefix v w \<Longrightarrow> \<exists>w' p'. (w', p') \<in> set entries \<and> prefix v w' \<and> prefix_match v entries = p'"
  by (induction v entries rule: prefix_match.induct) auto

text \<open>The protocol number of a version is the one listed for it; without one, it is that
  of some version of which the name is a prefix, and which one depends on the order of
  iteration unless all of them have the same number.\<close>

theorem findBestProtoNum_order:
  assumes "distinct (map fst entries)"
  shows "(\<forall>es. mset es = mset entries \<longrightarrow> findBestProtoNum v es = findBestProtoNum v entries) \<longleftrightarrow>
     (v \<in> fst ` set entries \<or> (\<forall>w p w' p'. (w, p) \<in> set entries \<longrightarrow> prefix v w \<longrightarrow> (w', p') \<in> set entries \<longrightarrow>
        prefix v w' \<longrightarrow> p = p'))"
proof -
  have same: "map_of es v = map_of entries v" if "mset es = mset entries" for es
  proof -
    have "set es = set entries" "distinct (map fst es)"
      using mset_eq_setD [OF that] that assms mset_eq_imp_distinct_iff [of "map fst es" "map fst entries"] by simp_all
    then show ?thesis using assms map_of_inject_set by metis
  qed
  show ?thesis
  proof (cases "v \<in> fst ` set entries")
    case True
    then obtain p where p: "map_of entries v = Some p" by (cases "map_of entries v") (auto simp: map_of_eq_None_iff)
    have "findBestProtoNum v es = p" if "mset es = mset entries" for es
      using same [OF that] p by (simp add: findBestProtoNum_def)
    then show ?thesis using True by simp
  next
    case False
    then have "map_of entries v = None" by (simp add: map_of_eq_None_iff)
    then have f: "findBestProtoNum v es = prefix_match v es" if "mset es = mset entries" for es
      using same [OF that] by (simp add: findBestProtoNum_def)
    have "(\<forall>es. mset es = mset entries \<longrightarrow> prefix_match v es = prefix_match v entries) \<longleftrightarrow>
        (\<forall>w p w' p'. (w, p) \<in> set entries \<longrightarrow> prefix v w \<longrightarrow> (w', p') \<in> set entries \<longrightarrow> prefix v w' \<longrightarrow> p = p')"
    proof (intro iffI allI impI)
      fix w p w' p'
      assume "\<forall>es. mset es = mset entries \<longrightarrow> prefix_match v es = prefix_match v entries"
        and "(w, p) \<in> set entries" "prefix v w" "(w', p') \<in> set entries" "prefix v w'"
      then show "p = p'" using prefix_match_first by metis
    next
      fix es
      assume one: "\<forall>w p w' p'. (w, p) \<in> set entries \<longrightarrow> prefix v w \<longrightarrow> (w', p') \<in> set entries \<longrightarrow> prefix v w' \<longrightarrow> p = p'"
        and es: "mset es = mset entries"
      have set: "set es = set entries" using es by (rule mset_eq_setD)
      show "prefix_match v es = prefix_match v entries"
      proof (cases "\<exists>w p. (w, p) \<in> set entries \<and> prefix v w")
        case True
        then show ?thesis using one prefix_match_hit [of _ _ es v] prefix_match_hit [of _ _ entries v] set by metis
      next
        case False
        then show ?thesis using prefix_match_range [of v es] prefix_match_range [of v entries] set by auto
      qed
    qed
    with f False show ?thesis by simp
  qed
qed

lemma findBestProtoNum_order_witness:
  "\<not> (\<forall>es. mset es = mset [(''1.10'', 210), (''1.12'', 335)] \<longrightarrow>
     findBestProtoNum ''1.1'' es = findBestProtoNum ''1.1'' [(''1.10'', 210), (''1.12'', 335)])"
proof -
  have d: "distinct (map fst [(''1.10'', 210 :: int32), (''1.12'', 335)])" by simp
  show ?thesis unfolding findBestProtoNum_order [OF d] by (auto simp: prefix_def)
qed

text \<open>The loop of \<open>loadProtocolVersions\<close>: the last number of each version, and the first of the
  newest snapshots so far.\<close>

lemma protocol_versions_result:
  assumes "protocol_versions vs (nums, latest, n0) = (nums', latest', n')"
  shows "map_of nums' = map_of nums ++ map_of (rev vs) \<and>
     sint n0 \<le> sint n' \<and> (\<forall>(v, m) \<in> set vs. snapshotVersionRegex v \<longrightarrow> sint m \<le> sint n') \<and>
     ((latest', n') = (latest, n0) \<or> (latest', n') \<in> set vs \<and> snapshotVersionRegex latest' \<and> sint n0 < sint n')"
  using assms
proof (induction vs arbitrary: nums latest n0)
  case Nil
  then show ?case by simp
next
  case (Cons x vs)
  obtain v n where x: "x = (v, n)" by (cases x)
  show ?case
  proof (cases "snapshotVersionRegex v \<and> n0 <s n")
    case True
    then have r: "protocol_versions vs (AList.update v n nums, v, n) = (nums', latest', n')"
      using Cons.prems x by (simp add: Let_def)
    have "sint n0 < sint n" using True by (simp add: word_sless_alt)
    with Cons.IH [OF r] x True show ?thesis by (auto simp: update_conv' map_add_def fun_eq_iff split: option.splits)
  next
    case False
    then have r: "protocol_versions vs (AList.update v n nums, latest, n0) = (nums', latest', n')"
      using Cons.prems x by (auto simp: Let_def)
    have "snapshotVersionRegex v \<longrightarrow> sint n \<le> sint n0" using False by (auto simp: word_sless_alt)
    with Cons.IH [OF r] x show ?thesis by (auto simp: update_conv' map_add_def fun_eq_iff split: option.splits)
  qed
qed

text \<open>\<open>loadProtocolVersions\<close> keeps the last number listed for each version, and finds
  the newest snapshot: the one with the greatest positive protocol number, or none.\<close>

theorem loadProtocolVersions_newest:
  assumes "loadProtocolVersions vs = (nums, latest)"
  shows "map_of nums = map_of (rev vs) \<and>
     (if latest = '''' then \<forall>(v, m) \<in> set vs. snapshotVersionRegex v \<longrightarrow> sint m \<le> 0
      else \<exists>n. (latest, n) \<in> set vs \<and> snapshotVersionRegex latest \<and> 0 < sint n \<and>
        (\<forall>(v, m) \<in> set vs. snapshotVersionRegex v \<longrightarrow> sint m \<le> sint n))"
proof -
  obtain n' where r: "protocol_versions vs ([], '''', 0) = (nums, latest, n')"
    using assms by (auto simp: loadProtocolVersions_def split: prod.splits)
  have "\<not> snapshotVersionRegex ''''" by (simp add: snapshotVersionRegex_def)
  with protocol_versions_result [OF r] show ?thesis by (auto split: if_splits)
qed

lemma loadProtocolVersions_newest_witness:
  "snd (loadProtocolVersions [(''24w14a'', 1073742008), (''1.21.4'', 769), (''23w31a'', 1073741968)]) = ''24w14a'' \<and>
   map_of (fst (loadProtocolVersions [(''24w14a'', 1073742008), (''1.21.4'', 769), (''23w31a'', 1073741968)])) =
     map_of (rev [(''24w14a'', 1073742008), (''1.21.4'', 769), (''23w31a'', 1073741968)])"
proof -
  let ?vs = "[(''24w14a'', 1073742008), (''1.21.4'', 769), (''23w31a'', 1073741968)]"
  have latest: "snd (loadProtocolVersions ?vs) = ''24w14a''" by code_simp
  have "loadProtocolVersions ?vs = (fst (loadProtocolVersions ?vs), snd (loadProtocolVersions ?vs))" by simp
  from loadProtocolVersions_newest [OF this] latest show ?thesis by simp
qed

section \<open>Packet descriptions\<close>

lemma hex_uint32_digits:
  assumes "list_all2 (\<lambda>c d. hex_val c = Some d) s ds" "foldl (\<lambda>acc d. acc * 16 + d) acc ds < 2 ^ 32"
  shows "hex_uint32 acc s = Some (foldl (\<lambda>acc d. acc * 16 + d) acc ds)"
  using assms
proof (induction s ds arbitrary: acc rule: list_all2_induct)
  case (Cons c s d ds)
  have grows: "a \<le> foldl (\<lambda>acc d. acc * 16 + d) a ds" for a :: nat
  proof (induction ds arbitrary: a)
    case (Cons d ds)
    show ?case using Cons.IH [of "a * 16 + d"] by simp
  qed simp
  have "acc * 16 + d < 2 ^ 32" using Cons.prems grows [of "acc * 16 + d"] by simp
  with Cons show ?case by simp
qed simp

lemma ParseInt_hex:
  assumes "list_all2 (\<lambda>c d. hex_val c = Some d) s ds" "s \<noteq> []" "foldl (\<lambda>acc d. acc * 16 + d) 0 ds < 2 ^ 31"
  shows "ParseInt_16_32 s = int (foldl (\<lambda>acc d. acc * 16 + d) 0 ds)"
proof -
  have small: "foldl (\<lambda>acc d. acc * 16 + d) 0 ds < 2 ^ 32" using assms(3) by simp
  obtain c t where s: "s = c # t" using assms(2) by (cases s) auto
  then have "hex_val c \<noteq> None" using assms(1) by (auto simp: list_all2_Cons1)
  then have "c \<noteq> CHR ''-''" "c \<noteq> CHR ''+''" by (auto simp: hex_val_def)
  then show ?thesis using hex_uint32_digits [OF assms(1) small] assms(3) s by (simp add: ParseInt_16_32_def Let_def)
qed

lemma add_mappings_map:
  "map_of (add_mappings (map (\<lambda>(k, n). (''0x'' @ k, JStr n)) ms) idMap) =
     map_of idMap ++ map_of (rev (map (\<lambda>(k, n). (n, word_of_int (ParseInt_16_32 k))) ms))"
proof (induction ms arbitrary: idMap)
  case (Cons m ms)
  obtain k n where "m = (k, n)" by (cases m)
  with Cons show ?case
    by (auto simp: strings_TrimPrefix_def update_conv' map_add_def fun_eq_iff split: option.splits)
qed simp

lemma preParsePacketIDs_order:
  assumes "orders_ok ord" "list_all (\<lambda>f. field_mappings f = None) before"
    and "map_of types ''packet'' = Some (JArr (c # JArr (before @ field # others) # rest))"
    and "field_mappings field = Some (map (\<lambda>(k, n). (''0x'' @ k, JStr n)) ms)"
  shows "\<exists>ns. mset ns = mset ms \<and>
     preParsePacketIDs ord (Some types) = add_mappings (map (\<lambda>(k, n). (''0x'' @ k, JStr n)) ns) []"
proof -
  let ?f = "\<lambda>(k, n). (''0x'' @ k, JStr n)"
  have first: "first_mappings (before @ field # others) = Some (map ?f ms)"
    using assms(2,4) by (induction before) auto
  have m: "mset (ord_json ord (map ?f ms)) = mset (map ?f ms)" using assms(1) by (simp add: orders_ok_def)
  have inj: "inj ?f" by (auto simp: inj_def)
  have "set (ord_json ord (map ?f ms)) \<subseteq> range ?f" using mset_eq_setD [OF m] by auto
  then have "\<exists>ns. ord_json ord (map ?f ms) = map ?f ns" unfolding ex_map_conv by blast
  then obtain ns where ns: "ord_json ord (map ?f ms) = map ?f ns" by blast
  with m have "image_mset ?f (mset ns) = image_mset ?f (mset ms)" by simp
  then have "mset ns = mset ms" by (rule injD [OF multiset.inj_map [OF inj]])
  then show ?thesis using assms(3) first ns by (intro exI [of _ ns]) (simp add: preParsePacketIDs_def)
qed

text \<open>C39. From a packet description as \<open>minecraft-data\<close> writes it, a container whose
  field \<open>name\<close> maps hexadecimal ids to names, \<open>preParsePacketIDs\<close> reads for every
  name its id; fields before it are skipped, and the order of iteration does not matter.\<close>

theorem preParsePacketIDs_reads:
  assumes "orders_ok ord" "distinct (map snd ms)" "list_all (\<lambda>f. field_mappings f = None) before"
    and "map_of types ''packet'' = Some (JArr (c # JArr (before @ field # others) # rest))"
    and "field_mappings field = Some (map (\<lambda>(k, n). (''0x'' @ k, JStr n)) ms)"
    and "(k, n) \<in> set ms" "list_all2 (\<lambda>c d. hex_val c = Some d) k ds" "k \<noteq> []"
    and "foldl (\<lambda>acc d. acc * 16 + d) 0 ds < 2 ^ 31"
  shows "map_of (preParsePacketIDs ord (Some types)) n = Some (word_of_nat (foldl (\<lambda>acc d. acc * 16 + d) 0 ds))"
proof -
  obtain ns where ns: "mset ns = mset ms" and
    ids: "preParsePacketIDs ord (Some types) = add_mappings (map (\<lambda>(k, n). (''0x'' @ k, JStr n)) ns) []"
    using preParsePacketIDs_order [OF assms(1,3-5)] by blast
  have d: "distinct (map snd ns)" "set ns = set ms"
    using assms(2) mset_eq_setD [OF ns] mset_eq_imp_distinct_iff [of "map snd ns" "map snd ms"] ns by simp_all
  let ?g = "\<lambda>(k, n). (n, word_of_int (ParseInt_16_32 k) :: int32)"
  have g: "map fst (map ?g ns) = map snd ns" by auto
  have "map_of (preParsePacketIDs ord (Some types)) = map_of (rev (map ?g ns))"
    unfolding ids
    using add_mappings_map [of ns "[]"] by simp
  moreover have "(n, word_of_int (ParseInt_16_32 k)) \<in> set (rev (map ?g ns))" using assms(6) d(2) by force
  moreover have "distinct (map fst (rev (map ?g ns)))" using d(1) g by (metis distinct_rev rev_map)
  ultimately show ?thesis using ParseInt_hex [OF assms(7-9)] by simp
qed

definition sample_mappings :: "(string \<times> string) list" where
  "sample_mappings = [(''00'', ''keep_alive''), (''1f'', ''login'')]"

definition sample_field :: json where
  "sample_field = JObj [(''name'', JStr ''name''),
     (''type'', JArr [JStr ''mapper'', JObj [(''type'', JStr ''varint''),
        (''mappings'', JObj (map (\<lambda>(k, n). (''0x'' @ k, JStr n)) sample_mappings))]])]"

lemma preParsePacketIDs_reads_witness:
  "map_of (preParsePacketIDs last_order (Some [(''packet'', JArr [JStr ''container'', JArr [JNull, sample_field]])])) ''login'' =
     Some 31"
proof -
  have f: "field_mappings sample_field = Some (map (\<lambda>(k, n). (''0x'' @ k, JStr n)) sample_mappings)"
    by (simp add: field_mappings_def sample_field_def)
  have "list_all2 (\<lambda>c d. hex_val c = Some d) ''1f'' [1, 15]" by (simp add: hex_val_def)
  from preParsePacketIDs_reads [where ms = sample_mappings and before = "[JNull]" and others = "[]" and rest = "[]" and
      n = "''login''", OF orders_ok_samples(2) _ _ _ f _ this]
  show ?thesis by (simp add: sample_mappings_def field_mappings_def)
qed

lemma generated_names_witness:
  "\<exists>mc. final_name goNameToMcNames mc ''play'' ''clientbound'' = Some ''ClientboundJoinGame''"
proof -
  have "(V1_8, def_V1_8) \<in> set initialRegistry" by (simp add: initialRegistry_def)
  moreover have "lookup_name def_V1_8 StatePlay DirectionClientbound 1 = Some ''ClientboundJoinGame''" by code_simp
  ultimately have "\<exists>mc. final_name goNameToMcNames mc (the (map_of state_names StatePlay)) (direction_name DirectionClientbound) =
      Some ''ClientboundJoinGame''"
    by (rule generated_names)
  then show ?thesis by (simp add: state_names_def direction_name_def)
qed

section \<open>Sorting and loading\<close>

text \<open>The comparison \<open>main\<close> sorts by is a strict weak order whenever the one of
  \<open>semver\<close> is, so that the sorted list, and with it the version constants, make sense:
  releases come first.\<close>

theorem version_less_weak_order:
  assumes "\<And>x. \<not> LessThan x x" "\<And>x y z. LessThan x y \<Longrightarrow> LessThan y z \<Longrightarrow> LessThan x z"
    and "\<And>x y z. LessThan x z \<Longrightarrow> LessThan x y \<or> LessThan y z"
  shows "\<not> version_less semver LessThan a a \<and>
     (version_less semver LessThan a b \<longrightarrow> version_less semver LessThan b c \<longrightarrow> version_less semver LessThan a c) \<and>
     (version_less semver LessThan a c \<longrightarrow> version_less semver LessThan a b \<or> version_less semver LessThan b c) \<and>
     (version_less semver LessThan a b \<longrightarrow> semver (vi_VersionStr b) \<noteq> None \<longrightarrow> semver (vi_VersionStr a) \<noteq> None)"
  using assms by (auto simp: version_less_def word_sless_alt split: option.splits)

lemma version_less_weak_order_witness:
  "let semver = (\<lambda>s. if s = [] then None else Some (length s)); v = \<lambda>s. empty_version\<lparr>vi_VersionStr := s\<rparr> in
     version_less semver (<) (v ''1.8'') (v []) \<and> \<not> version_less semver (<) (v []) (v ''1.8'') \<and>
     \<not> version_less semver (<) (v []) (v [])"
proof -
  have "x < y \<or> y < z" if "x < z" for x y z :: nat using that by linarith
  note o = version_less_weak_order [of "(<) :: nat \<Rightarrow> nat \<Rightarrow> bool", OF less_irrefl less_trans this]
  show ?thesis unfolding Let_def
    by (intro conjI) (simp_all add: o version_less_def empty_version_def)
qed

lemma loadAndParseProtocols_origin:
  "vi \<in> set (loadAndParseProtocols title ord dirs nums latest) \<Longrightarrow>
   \<exists>v n states. (v, True, Some states) \<in> set dirs \<and> (releaseVersionRegex v \<or> v = latest) \<and> n \<noteq> 0 \<and>
     vi = processVersion title ord v n states"
proof (induction dirs)
  case (Cons dir dirs)
  obtain v isDir contents where dir: "dir = (v, isDir, contents)" by (cases dir)
  show ?case
  proof (cases "vi \<in> set (loadAndParseProtocols title ord dirs nums latest)")
    case True
    with Cons.IH show ?thesis by (meson list.set_intros(2))
  next
    case False
    with Cons.prems show ?thesis unfolding dir
      by (auto simp: Let_def split: if_splits option.splits)
  qed
qed simp

text \<open>Filling the tables leaves names and number of a version alone.\<close>

definition numbers :: "versionInfo \<Rightarrow> string \<times> string \<times> int32" where
  "numbers vi = (vi_VersionStr vi, vi_EnumName vi, vi_ProtocolVersion vi)"

lemma put_packet_numbers [simp]: "numbers (put_packet S D n i vi) = numbers vi"
  by (simp add: numbers_def put_packet_def Let_def split: prod.split)

lemma fold_put_numbers:
  "numbers (fold (\<lambda>(mc, i) vi. case f mc of Some n \<Rightarrow> put_packet S D n i vi | None \<Rightarrow> vi) xs vi) = numbers vi"
  by (induction xs arbitrary: vi) (auto split: option.split)

lemma processVersion_numbers:
  "vi_VersionStr (processVersion title ord v n states) = v"
  "vi_EnumName (processVersion title ord v n states) = CHR ''V'' # map (\<lambda>c. if c = CHR ''.'' then CHR ''_'' else c) v"
  "vi_ProtocolVersion (processVersion title ord v n states) = n"
proof -
  have "numbers (processDirection title ord s d ids vi) = numbers vi" for s d ids vi
    by (simp add: processDirection_def Let_def fold_put_numbers)
  then have "numbers (processVersion title ord v n states) =
      (v, CHR ''V'' # map (\<lambda>c. if c = CHR ''.'' then CHR ''_'' else c) v, n)"
    by (simp add: processVersion_def processState_def numbers_def split: option.split)
  then show "vi_VersionStr (processVersion title ord v n states) = v"
      "vi_EnumName (processVersion title ord v n states) = CHR ''V'' # map (\<lambda>c. if c = CHR ''.'' then CHR ''_'' else c) v"
      "vi_ProtocolVersion (processVersion title ord v n states) = n"
    by (simp_all add: numbers_def)
qed

text \<open>What is generated comes from a directory with a release's name or that of the newest
  snapshot, and never has the protocol number 0.\<close>

theorem loadAndParseProtocols_sound:
  assumes "vi \<in> set (loadAndParseProtocols title ord dirs nums latest)"
  shows "\<exists>states. (vi_VersionStr vi, True, Some states) \<in> set dirs \<and>
     (releaseVersionRegex (vi_VersionStr vi) \<or> vi_VersionStr vi = latest) \<and>
     vi_ProtocolVersion vi \<noteq> 0 \<and> vi = processVersion title ord (vi_VersionStr vi) (vi_ProtocolVersion vi) states"
  using loadAndParseProtocols_origin [OF assms] by (auto simp: processVersion_numbers)

lemma loadAndParseProtocols_sound_witness:
  "\<exists>vi. vi \<in> set (loadAndParseProtocols id first_order [(''1.8'', True, Some Map.empty), (''pre'', True, None)] [(''1.8'', 47)] '''') \<and>
     vi_ProtocolVersion vi \<noteq> 0"
proof -
  let ?vi = "processVersion id first_order ''1.8'' 47 Map.empty"
  have "findBestProtoNum ''1.8'' [(''1.8'', 47)] = 47" "releaseVersionRegex ''1.8''" "\<not> releaseVersionRegex ''pre''"
    by code_simp+
  then have "?vi \<in> set (loadAndParseProtocols id first_order [(''1.8'', True, Some Map.empty), (''pre'', True, None)] [(''1.8'', 47)] '''')"
    by (simp add: first_order_def Let_def)
  with loadAndParseProtocols_sound [OF this] show ?thesis by blast
qed

text \<open>The versions generated are sorted, whatever algorithm sorts them: no version is less than one
  before it, so that the numbers \<open>iota\<close> gives them, and \<open>First\<close> and \<open>Latest\<close>,
  follow the order of the releases; and none is lost or made up.\<close>

theorem generator_main_sorted:
  assumes "generator_main title ord semver LessThan sort_Slice dirs vs = Inr td"
    and "\<And>less xs. mset (sort_Slice less xs) = mset xs"
    and "\<And>xs. sorted_wrt (\<lambda>a b. \<not> version_less semver LessThan b a) (sort_Slice (version_less semver LessThan) xs)"
  shows "mset (td_Versions td) = mset (loadAndParseProtocols title ord dirs (fst (loadProtocolVersions vs)) (snd (loadProtocolVersions vs))) \<and>
     (\<exists>first latest. first \<in> set (td_Versions td) \<and> latest \<in> set (td_Versions td) \<and>
        td_FirstVersionEnum td = vi_EnumName first \<and> td_LatestVersionEnum td = vi_EnumName latest \<and>
        (\<forall>vi \<in> set (td_Versions td). vi = first \<or> \<not> version_less semver LessThan vi first) \<and>
        (\<forall>vi \<in> set (td_Versions td). vi = latest \<or> \<not> version_less semver LessThan latest vi))"
proof -
  let ?parsed = "loadAndParseProtocols title ord dirs (fst (loadProtocolVersions vs)) (snd (loadProtocolVersions vs))"
  define xs where "xs = sort_Slice (version_less semver LessThan) ?parsed"
  have td: "?parsed \<noteq> []" "td = \<lparr>td_Versions = xs, td_LatestVersionEnum = vi_EnumName (last xs),
      td_FirstVersionEnum = vi_EnumName (hd xs)\<rparr>"
    using assms(1) by (auto simp: generator_main_def xs_def Let_def split: prod.splits if_splits)
  have m: "mset xs = mset ?parsed" and sorted: "sorted_wrt (\<lambda>a b. \<not> version_less semver LessThan b a) xs"
    unfolding xs_def by (rule assms(2), rule assms(3))
  have "xs \<noteq> []" using td(1) m by (metis mset_zero_iff)
  then obtain a ys b zs where xs: "xs = a # ys" "xs = zs @ [b]" by (metis list.exhaust rev_exhaust)
  have first: "\<forall>vi \<in> set xs. vi = a \<or> \<not> version_less semver LessThan vi a" using sorted unfolding xs(1) by simp
  have latest: "\<forall>vi \<in> set xs. vi = b \<or> \<not> version_less semver LessThan b vi"
    using sorted unfolding xs(2) by (simp add: sorted_wrt_append)
  have "a \<in> set xs" "hd xs = a" unfolding xs(1) by simp_all
  moreover have "b \<in> set xs" "last xs = b" unfolding xs(2) by simp_all
  ultimately have "td_FirstVersionEnum td = vi_EnumName a" "td_LatestVersionEnum td = vi_EnumName b" "td_Versions td = xs"
      "a \<in> set xs" "b \<in> set xs"
    by (simp_all add: td(2))
  with m first latest show ?thesis by (intro conjI exI [of _ a] exI [of _ b]) simp_all
qed

end
