(* ===== verification/Generated.thy ===== *)
theory Generated
  imports Templates Generator_Props
begin

text \<open>
  From the tables the generator fills to the tables of the generated file: sorted association
  lists, the invariant of the tables under insertion, and what the map literals of the
  templates look up.
\<close>

section \<open>Sorted association lists\<close>

definition ordered :: "('k \<Rightarrow> 'o::linorder) \<Rightarrow> ('k \<times> 'v) list \<Rightarrow> bool" where
  "ordered key m \<longleftrightarrow> sorted_wrt (<) (map (\<lambda>e. key (fst e)) m)"

lemma ordered_code: "ordered key m \<longleftrightarrow> successively (<) (map (\<lambda>e. key (fst e)) m)"
  unfolding ordered_def by (rule successively_conv_sorted_wrt [symmetric]) (auto simp: transp_def)

lemma ordered_distinct: "ordered key m \<Longrightarrow> distinct (map fst m)"
  unfolding ordered_def strict_sorted_iff by (auto simp: distinct_map inj_on_def)

lemma ordered_unique:
  assumes "ordered key m" "ordered key m'" "map_of m = map_of m'"
  shows "m = m'"
proof -
  let ?k = "\<lambda>e. key (fst e)"
  have "set m = set m'"
    using assms ordered_distinct map_of_inject_set by metis
  moreover have "inj_on ?k (set m)" "sorted (map ?k m)" "distinct (map ?k m)" "sorted (map ?k m')" "distinct (map ?k m')"
    using assms(1,2) by (auto simp: ordered_def strict_sorted_iff distinct_map)
  ultimately show ?thesis using map_sorted_distinct_set_unique [of ?k m m'] by (metis Un_absorb)
qed

lemma set_in_order [simp]: "set (in_order key m) = set m"
  by (simp add: in_order_def)

lemma in_order_nonempty [simp]: "in_order key m = [] \<longleftrightarrow> m = []"
  by (metis set_in_order set_empty)

lemma in_order_ordered:
  assumes "distinct (map fst m)" "inj key"
  shows "ordered key (in_order key m)"
proof -
  have "distinct (map (\<lambda>e. key (fst e)) m)"
    using assms by (force simp: distinct_map inj_on_def)
  moreover have "mset (map (\<lambda>e. key (fst e)) (in_order key m)) = mset (map (\<lambda>e. key (fst e)) m)"
    by (simp add: in_order_def)
  ultimately have "distinct (map (\<lambda>e. key (fst e)) (in_order key m))"
    using mset_eq_imp_distinct_iff by blast
  then show ?thesis by (simp add: ordered_def strict_sorted_iff in_order_def)
qed

lemma map_of_in_order [simp]:
  assumes "distinct (map fst m)"
  shows "map_of (in_order key m) = map_of m"
proof -
  have "mset (map fst (in_order key m)) = mset (map fst m)" by (simp add: in_order_def)
  then have "distinct (map fst (in_order key m))" using assms mset_eq_imp_distinct_iff by blast
  then show ?thesis using assms by (simp add: map_of_inject_set)
qed

lemma in_order_same: "ordered key m \<Longrightarrow> in_order key m = m"
  by (simp add: in_order_def ordered_def strict_sorted_iff sorted_sort_id sort_key_id_if_sorted)

section \<open>Nested tables\<close>

definition entry_at :: "('k \<times> 'v) tables \<Rightarrow> string \<Rightarrow> string \<Rightarrow> 'k \<rightharpoonup> 'v" where
  "entry_at m S D = map_of (map_at (map_at m S) D)"

text \<open>No key twice on any level, and no empty table.\<close>

definition tables_wf :: "('k \<times> 'v) tables \<Rightarrow> bool" where
  "tables_wf m \<longleftrightarrow> distinct (map fst m) \<and> (\<forall>(S, ds) \<in> set m. ds \<noteq> [] \<and> distinct (map fst ds) \<and>
     (\<forall>(D, ps) \<in> set ds. ps \<noteq> [] \<and> distinct (map fst ps)))"

definition put_entry :: "string \<Rightarrow> string \<Rightarrow> 'k \<Rightarrow> 'v \<Rightarrow> ('k \<times> 'v) tables \<Rightarrow> ('k \<times> 'v) tables" where
  "put_entry S D k x m =
     AList.update S (AList.update D (AList.update k x (map_at (map_at m S) D)) (map_at m S)) m"

lemma entry_at_put [simp]:
  "entry_at (put_entry S D k x m) S' D' = (if S' = S \<and> D' = D then (entry_at m S D)(k \<mapsto> x) else entry_at m S' D')"
  by (auto simp: entry_at_def put_entry_def update_conv')

lemma set_update_cases: "e \<in> set (AList.update k x m) \<Longrightarrow> e = (k, x) \<or> e \<in> set m"
  by (induction m) (auto split: if_splits)

lemma map_at_cases: "map_at m k = [] \<or> (k, map_at m k) \<in> set m"
  by (auto simp: map_at_def split: option.split dest: map_of_SomeD)

lemma tables_wf_dirs: "tables_wf m \<Longrightarrow> distinct (map fst (map_at m S)) \<and> (\<forall>(D, ps) \<in> set (map_at m S). ps \<noteq> [] \<and> distinct (map fst ps))"
  using map_at_cases [of m S] by (auto simp: tables_wf_def)

lemma tables_wf_entries: "tables_wf m \<Longrightarrow> distinct (map fst (map_at (map_at m S) D))"
  using tables_wf_dirs [of m S] map_at_cases [of "map_at m S" D] by auto

lemma tables_wf_put [simp]:
  assumes "tables_wf m"
  shows "tables_wf (put_entry S D k x m)"
proof -
  let ?ps = "AList.update k x (map_at (map_at m S) D)" and ?ds = "map_at m S"
  have ps: "?ps \<noteq> []" "distinct (map fst ?ps)"
    using tables_wf_entries [OF assms] by (simp_all add: distinct_update)
  have ds: "AList.update D ?ps ?ds \<noteq> []" "distinct (map fst (AList.update D ?ps ?ds))"
      "\<forall>(D', ps) \<in> set (AList.update D ?ps ?ds). ps \<noteq> [] \<and> distinct (map fst ps)"
    using tables_wf_dirs [OF assms, of S] ps by (auto simp: distinct_update dest!: set_update_cases)
  have "distinct (map fst (put_entry S D k x m))" using assms by (simp add: put_entry_def tables_wf_def distinct_update)
  moreover have "case e of (S', ds) \<Rightarrow> ds \<noteq> [] \<and> distinct (map fst ds) \<and> (\<forall>(D, ps) \<in> set ds. ps \<noteq> [] \<and> distinct (map fst ps))"
    if "e \<in> set (put_entry S D k x m)" for e
    using set_update_cases [OF that [unfolded put_entry_def]] assms ds by (auto simp: tables_wf_def)
  ultimately show ?thesis unfolding tables_wf_def by blast
qed

text \<open>The two tables of a version have the same states and directions.\<close>

definition has_place :: "('k \<times> 'v) tables \<Rightarrow> string \<Rightarrow> string \<Rightarrow> bool" where
  "has_place m S D \<longleftrightarrow> map_of (map_at m S) D \<noteq> None"

lemma has_place_put [simp]: "has_place (put_entry S D k x m) S' D' \<longleftrightarrow> S' = S \<and> D' = D \<or> has_place m S' D'"
  by (auto simp: has_place_def put_entry_def update_conv')

definition vi_wf :: "versionInfo \<Rightarrow> bool" where
  "vi_wf vi \<longleftrightarrow> tables_wf (vi_PacketIDs vi) \<and> tables_wf (vi_PacketNames vi) \<and>
     (\<forall>S D. has_place (vi_PacketIDs vi) S D \<longleftrightarrow> has_place (vi_PacketNames vi) S D)"

lemma no_place: "tables_wf m \<Longrightarrow> map_of m S = None \<longleftrightarrow> (\<forall>D. \<not> has_place m S D)"
proof (cases "map_of m S")
  case (Some ds)
  assume "tables_wf m"
  then have "ds \<noteq> []" using map_of_SomeD [OF Some] by (auto simp: tables_wf_def)
  then have "map_of ds (fst (hd ds)) \<noteq> None" by (cases ds) auto
  then show ?thesis using Some by (auto simp: has_place_def map_at_def)
qed (simp add: has_place_def map_at_def)

lemma put_packet_entries:
  assumes "vi_wf vi"
  shows "put_packet S D n i vi =
     vi\<lparr>vi_PacketIDs := put_entry S D n i (vi_PacketIDs vi), vi_PacketNames := put_entry S D i n (vi_PacketNames vi)\<rparr>"
proof -
  have "map_of (vi_PacketIDs vi) S = None \<longleftrightarrow> map_of (vi_PacketNames vi) S = None"
    using assms no_place unfolding vi_wf_def by metis
  moreover have "map_of (map_at (vi_PacketIDs vi) S) D = None \<longleftrightarrow> map_of (map_at (vi_PacketNames vi) S) D = None"
    using assms unfolding vi_wf_def has_place_def by metis
  ultimately show ?thesis
    by (auto simp: put_packet_def put_entry_def Let_def map_at_None)
qed

lemma put_packet_wf [simp]: "vi_wf vi \<Longrightarrow> vi_wf (put_packet S D n i vi)"
  by (simp add: put_packet_entries) (auto simp: vi_wf_def)

lemma names_ids_at: "ids_at vi = entry_at (vi_PacketIDs vi)" "names_at vi = entry_at (vi_PacketNames vi)"
  by (simp_all add: fun_eq_iff ids_at_def names_at_def entry_at_def)

section \<open>The tables of a version\<close>

lemma put_packets_effect:
  assumes "vi_wf vi"
  shows "vi_wf (fold (\<lambda>(n, i). put_packet S D n i) ps vi) \<and>
     ids_at (fold (\<lambda>(n, i). put_packet S D n i) ps vi) S' D' =
       (if S' = S \<and> D' = D then ids_at vi S D ++ map_of (rev ps) else ids_at vi S' D') \<and>
     names_at (fold (\<lambda>(n, i). put_packet S D n i) ps vi) S' D' =
       (if S' = S \<and> D' = D then names_at vi S D ++ map_of (rev (map prod.swap ps)) else names_at vi S' D')"
  using assms
proof (induction ps arbitrary: vi)
  case (Cons p ps)
  obtain n i where p: "p = (n, i)" by (cases p)
  show ?case using Cons.IH [OF put_packet_wf [OF Cons.prems, of S D n i]] p
    by (simp add: put_packet_entries [OF Cons.prems] names_ids_at)
qed simp

text \<open>What \<open>cases.Title\<close> makes of the names of the states and directions.\<close>

definition title_ok :: "(string \<Rightarrow> string) \<Rightarrow> bool" where
  "title_ok title \<longleftrightarrow> list_all (\<lambda>(s, t). title s = t)
     [(''handshaking'', ''Handshaking''), (''status'', ''Status''), (''login'', ''Login''),
      (''configuration'', ''Configuration''), (''play'', ''Play''),
      (''serverbound'', ''Serverbound''), (''clientbound'', ''Clientbound'')]"

text \<open>The names and ids the description of a version gives to the packets of a direction.\<close>

definition described_ids ::
  "orders \<Rightarrow> (string \<rightharpoonup> mcState) \<Rightarrow> string \<Rightarrow> Direction \<Rightarrow> (string \<times> int32) list" where
  "described_ids ord states s d =
     (case states s of
        Some st \<Rightarrow> resolved s (direction_name d) (preParsePacketIDs ord (if d then ToServer st else ToClient st))
      | None \<Rightarrow> [])"

definition run_ids ::
  "orders \<Rightarrow> (string \<rightharpoonup> mcState) \<Rightarrow> string \<Rightarrow> Direction \<Rightarrow> (string \<times> int32) list" where
  "run_ids ord states s d =
     (case states s of
        Some st \<Rightarrow> resolved s (direction_name d)
          (ord_ids ord (preParsePacketIDs ord (if d then ToServer st else ToClient st)))
      | None \<Rightarrow> [])"

lemma run_ids_order: "orders_ok ord \<Longrightarrow> mset (run_ids ord states s d) = mset (described_ids ord states s d)"
  by (auto simp: run_ids_def described_ids_def orders_ok_def intro: mset_resolved split: option.split)

definition version_step :: "(string \<Rightarrow> string) \<Rightarrow> orders \<Rightarrow> (string \<rightharpoonup> mcState) \<Rightarrow> string \<Rightarrow> versionInfo \<Rightarrow> versionInfo" where
  "version_step title ord states s vi =
     (case states s of Some d \<Rightarrow> processState title ord s d vi | None \<Rightarrow> vi)"

lemma version_step_runs:
  assumes "orders_ok ord" "title_ok title"
  shows "version_step title ord states s vi =
     fold (\<lambda>(n, i). put_packet (''State'' @ title s) ''DirectionClientbound'' n i) (run_ids ord states s False)
    (fold (\<lambda>(n, i). put_packet (''State'' @ title s) ''DirectionServerbound'' n i) (run_ids ord states s True) vi)"
  using assms(2)
  by (simp add: version_step_def processState_def processDirection_run [OF assms(1) refl refl] run_ids_def title_ok_def
      direction_name_def split: option.split)

lemma version_step_effect:
  assumes "orders_ok ord" "title_ok title" "vi_wf vi"
  shows "vi_wf (version_step title ord states s vi)"
    and "ids_at (version_step title ord states s vi) S D =
      (if S \<noteq> ''State'' @ title s then ids_at vi S D
       else if D = ''DirectionServerbound'' then ids_at vi S D ++ map_of (rev (run_ids ord states s True))
       else if D = ''DirectionClientbound'' then ids_at vi S D ++ map_of (rev (run_ids ord states s False))
       else ids_at vi S D)"
    and "names_at (version_step title ord states s vi) S D =
      (if S \<noteq> ''State'' @ title s then names_at vi S D
       else if D = ''DirectionServerbound'' then names_at vi S D ++ map_of (rev (map prod.swap (run_ids ord states s True)))
       else if D = ''DirectionClientbound'' then names_at vi S D ++ map_of (rev (map prod.swap (run_ids ord states s False)))
       else names_at vi S D)"
  using assms(3) by (auto simp: version_step_runs [OF assms(1,2)] put_packets_effect)

lemma processVersion_steps:
  "processVersion title ord v n states =
     version_step title ord states ''play'' (version_step title ord states ''configuration''
       (version_step title ord states ''login'' (version_step title ord states ''status''
         (version_step title ord states ''handshaking''
           \<lparr>vi_VersionStr = v, vi_EnumName = CHR ''V'' # map (\<lambda>c. if c = CHR ''.'' then CHR ''_'' else c) v,
            vi_ProtocolVersion = n, vi_PacketIDs = [], vi_PacketNames = []\<rparr>))))"
  by (simp add: processVersion_def version_step_def)

text \<open>The tables, place by place, in terms of the constants of the package.\<close>

definition described_at :: "(string \<Rightarrow> Direction \<Rightarrow> ('k \<times> 'v) list) \<Rightarrow> string \<Rightarrow> string \<Rightarrow> 'k \<rightharpoonup> 'v" where
  "described_at entries S D =
     (case (map_of State_constants S, map_of Direction_constants D) of
        (Some s, Some d) \<Rightarrow> map_of (rev (entries (the (map_of state_names s)) d))
      | _ \<Rightarrow> Map.empty)"

lemma processVersion_at:
  assumes "orders_ok ord" "title_ok title"
  shows "vi_wf (processVersion title ord v n states)"
    and "ids_at (processVersion title ord v n states) S D = described_at (run_ids ord states) S D"
    and "names_at (processVersion title ord v n states) S D =
           described_at (\<lambda>s d. map prod.swap (run_ids ord states s d)) S D"
proof -
  note effect = version_step_effect [OF assms]
  have "vi_wf \<lparr>vi_VersionStr = v, vi_EnumName = e, vi_ProtocolVersion = n, vi_PacketIDs = [], vi_PacketNames = []\<rparr>" for e
    by (simp add: vi_wf_def tables_wf_def has_place_def)
  note effect = effect this
  have start: "ids_at \<lparr>vi_VersionStr = v, vi_EnumName = e, vi_ProtocolVersion = n, vi_PacketIDs = [], vi_PacketNames = []\<rparr> S D = Map.empty"
      "names_at \<lparr>vi_VersionStr = v, vi_EnumName = e, vi_ProtocolVersion = n, vi_PacketIDs = [], vi_PacketNames = []\<rparr> S D = Map.empty" for e and S D :: string
    by (simp_all add: ids_at_def names_at_def)
  have title: "''State'' @ title ''handshaking'' = ''StateHandshaking''" "''State'' @ title ''status'' = ''StateStatus''"
      "''State'' @ title ''login'' = ''StateLogin''" "''State'' @ title ''play'' = ''StatePlay''"
      "''State'' @ title ''configuration'' = ''StateConfiguration''"
    using assms(2) by (simp_all add: title_ok_def)
  show "vi_wf (processVersion title ord v n states)" unfolding processVersion_steps by (simp add: effect)
  show "ids_at (processVersion title ord v n states) S D = described_at (run_ids ord states) S D"
    unfolding processVersion_steps
    by (simp add: effect title described_at_def State_constants_def Direction_constants_def state_names_def
        start del: append.simps)
  show "names_at (processVersion title ord v n states) S D =
           described_at (\<lambda>s d. map prod.swap (run_ids ord states s d)) S D"
    unfolding processVersion_steps
    by (simp add: effect title described_at_def State_constants_def Direction_constants_def state_names_def
        start del: append.simps)
qed

section \<open>Map literals\<close>

lemma literal_Some:
  assumes "\<And>k v. (k, v) \<in> set m \<Longrightarrow> const k \<noteq> None \<and> value v \<noteq> None"
  shows "\<exists>m'. literal const value m = Some m'"
  using assms
proof (induction m)
  case (Cons e m)
  obtain k v where e: "e = (k, v)" by (cases e)
  obtain m' where "literal const value m = Some m'" using Cons by force
  moreover obtain c w where "const k = Some c" "value v = Some w" using Cons.prems [of k v] e by auto
  ultimately show ?case by (simp add: e)
qed simp

lemma literal_at:
  assumes "literal const value m = Some m'" "inj_on const (dom const)"
  shows "const k = Some c \<Longrightarrow> map_of m' c = Option.bind (map_of m k) value"
    and "\<forall>k. const k \<noteq> Some c \<Longrightarrow> map_of m' c = None"
  using assms(1)
proof (induction m arbitrary: m')
  case (Cons e m)
  { case 1
    obtain l v c' w m2 where e: "e = (l, v)" "const l = Some c'" "value v = Some w"
      and m2: "literal const value m = Some m2" "m' = (c', w) # m2"
      using 1(2) by (cases e) (auto split: option.splits)
    have "c' = c \<longleftrightarrow> l = k" using inj_onD [OF assms(2), of l k] 1(1) e(2) by (auto simp: domI)
    then show ?case using Cons(1) [OF 1(1) m2(1)] e m2(2) by (cases "l = k") simp_all }
  { case 2 with Cons show ?case by (cases e) (auto split: option.splits) }
qed simp_all

lemma constants_inject:
  "inj_on (map_of State_constants) (dom (map_of State_constants))"
  "inj_on (map_of Direction_constants) (dom (map_of Direction_constants))"
  by (auto simp: inj_on_def State_constants_def Direction_constants_def split: if_splits)

lemma in_order_at [simp]: "distinct (map fst m) \<Longrightarrow> map_at (in_order key m) k = map_at m k"
  by (simp add: map_at_def)

text \<open>A literal of well-formed tables whose places all have constants compiles, and finds under
  the constants what the tables have under the names.\<close>

definition literal_of :: "('k \<times> 'v) tables \<Rightarrow> (State \<times> (Direction \<times> ('k \<times> 'v) list) list) list \<Rightarrow> bool" where
  "literal_of m m' \<longleftrightarrow>
     (\<forall>S D s d. map_of State_constants S = Some s \<longrightarrow> map_of Direction_constants D = Some d \<longrightarrow>
        map_of (map_at (map_at m' s) d) = entry_at m S D) \<and>
     (\<forall>s. s \<notin> ran (map_of State_constants) \<longrightarrow> map_at m' s = [])"

lemma tables_literal_at:
  assumes wf: "tables_wf m"
    and known: "\<And>S D. entry_at m S D \<noteq> Map.empty \<Longrightarrow> map_of State_constants S \<noteq> None \<and> map_of Direction_constants D \<noteq> None"
  shows "\<exists>m'. tables_literal (in_order key) m = Some m' \<and> literal_of m m'"
proof -
  let ?dirs = "\<lambda>ds. literal (map_of Direction_constants) (\<lambda>ps. Some (in_order key ps)) (in_order id ds)"
  have dist: "distinct (map fst m)" using wf by (simp add: tables_wf_def)
  have place: "map_of State_constants S \<noteq> None \<and> map_of Direction_constants D \<noteq> None"
    if "(S, ds) \<in> set m" "(D, ps) \<in> set ds" for S ds D ps
  proof -
    have "distinct (map fst ds)" "ps \<noteq> []" using wf that unfolding tables_wf_def by blast+
    then have "map_of (map_at (map_at m S) D) = map_of ps"
      using that dist by (simp add: map_at_def)
    moreover have "map_of ps \<noteq> Map.empty" using \<open>ps \<noteq> []\<close> by (cases ps) auto
    ultimately show ?thesis using known unfolding entry_at_def by metis
  qed
  have dirs: "\<exists>ds'. ?dirs ds = Some ds'" if "(S, ds) \<in> set m" for S ds
    using place [OF that] by (intro literal_Some) simp
  have "map_of State_constants S \<noteq> None" if e: "(S, ds) \<in> set m" for S ds
  proof -
    have "ds \<noteq> []" using wf e unfolding tables_wf_def by blast
    then obtain D ps ds' where "ds = (D, ps) # ds'" by (cases ds) auto
    then show ?thesis using place [OF e, of D ps] by simp
  qed
  with dirs have "\<exists>m'. literal (map_of State_constants) ?dirs (in_order id m) = Some m'"
    by (intro literal_Some) (metis option.discI set_in_order)
  then obtain m' where m': "tables_literal (in_order key) m = Some m'" by (auto simp: tables_literal_def)
  note state = literal_at [OF m' [unfolded tables_literal_def] constants_inject(1)]
  have "map_of (map_at (map_at m' s) d) = entry_at m S D"
    if s: "map_of State_constants S = Some s" and d: "map_of Direction_constants D = Some d" for S D s d
  proof (cases "map_of m S")
    case None
    then have "map_at m' s = []" using state(1) [OF s] dist by (simp add: map_at_def)
    then show ?thesis using None by (simp add: entry_at_def map_at_None)
  next
    case (Some ds)
    then have mem: "(S, ds) \<in> set m" by (rule map_of_SomeD)
    then obtain ds' where ds': "?dirs ds = Some ds'" using dirs by blast
    have "map_of m' s = Some ds'" using state(1) [OF s] dist Some ds' by simp
    then have m's: "map_at m' s = ds'" "map_at m S = ds" using Some by (simp_all add: map_at_def)
    have dd: "distinct (map fst ds)" using wf mem unfolding tables_wf_def by blast
    have "map_of ds' d = map_option (in_order key) (map_of ds D)"
      using literal_at(1) [OF ds' constants_inject(2) d] dd by (cases "map_of ds D") simp_all
    then have "map_at ds' d = in_order key (map_at ds D)" by (cases "map_of ds D") (simp_all add: map_at_def in_order_def)
    then show ?thesis using m's tables_wf_entries [OF wf, of S D] by (simp add: entry_at_def)
  qed
  moreover have "map_at m' s = []" if "s \<notin> ran (map_of State_constants)" for s
    using state(2) [of s] that by (simp add: map_at_def ran_def)
  ultimately show ?thesis using m' unfolding literal_of_def by blast
qed

lemma described_at_known:
  "described_at f S D \<noteq> Map.empty \<Longrightarrow> map_of State_constants S \<noteq> None \<and> map_of Direction_constants D \<noteq> None"
  by (auto simp: described_at_def split: option.splits)

lemma state_constants_names: "ran (map_of State_constants) = fst ` set state_names"
  by (auto simp: State_constants_def state_names_def)

lemma place_constants:
  assumes "(s, name) \<in> set state_names"
  shows "\<exists>S D. map_of State_constants S = Some s \<and> map_of Direction_constants D = Some d \<and> map_of state_names s = Some name"
proof -
  have "s \<in> ran (map_of State_constants)" using assms state_constants_names by force
  moreover have "d \<in> ran (map_of Direction_constants)" by (cases d) (auto simp: Direction_constants_def)
  moreover have "map_of state_names s = Some name" using assms by (auto simp: state_names_def)
  ultimately show ?thesis by (auto simp: ran_def)
qed

text \<open>The form of a literal: places in the order of the names of their constants, and the
  packets of each in the order of their keys.\<close>

definition State_name :: "State \<Rightarrow> string" where
  "State_name s = the (map_of (map prod.swap State_constants) s)"

definition Direction_name :: "Direction \<Rightarrow> string" where
  "Direction_name d = the (map_of (map prod.swap Direction_constants) d)"

definition literal_form :: "('k \<Rightarrow> 'o::linorder) \<Rightarrow> (State \<times> (Direction \<times> ('k \<times> 'v) list) list) list \<Rightarrow> bool" where
  "literal_form key m \<longleftrightarrow> ordered State_name m \<and> (\<forall>(s, ds) \<in> set m. ds \<noteq> [] \<and> ordered Direction_name ds \<and>
     (\<forall>(d, ps) \<in> set ds. ps \<noteq> [] \<and> ordered key ps))"

lemma literal_shape:
  "literal const value m = Some m' \<Longrightarrow> list_all2 (\<lambda>(k, v) (c, w). const k = Some c \<and> value v = Some w) m m'"
  by (induction m arbitrary: m') (auto split: option.splits)

lemma literal_ordered:
  assumes "literal const value m = Some m'" "ordered id m" "\<And>k c. const k = Some c \<Longrightarrow> name c = k"
  shows "ordered name m'"
proof -
  have "list_all2 (\<lambda>(k, v) (c, w). const k = Some c \<and> value v = Some w) m m'" by (rule literal_shape [OF assms(1)])
  then have "map (\<lambda>e. name (fst e)) m' = map (\<lambda>e. id (fst e)) m"
    by (induction rule: list_all2_induct) (auto simp: assms(3))
  then show ?thesis using assms(2) by (simp add: ordered_def)
qed

lemma literal_entry:
  assumes "literal const value m = Some m'" "(c, w) \<in> set m'"
  obtains k v where "(k, v) \<in> set m" "value v = Some w"
  using literal_shape [OF assms(1)] assms(2) by (fastforce simp: list_all2_conv_all_nth in_set_conv_nth)

lemma tables_literal_form:
  assumes wf: "tables_wf m" and m': "tables_literal (in_order key) m = Some m'" and "inj key"
  shows "literal_form key m'"
proof -
  let ?dirs = "\<lambda>ds. literal (map_of Direction_constants) (\<lambda>ps. Some (in_order key ps)) (in_order id ds)"
  have names: "map_of State_constants k = Some c \<Longrightarrow> State_name c = k"
      "map_of Direction_constants k = Some d \<Longrightarrow> Direction_name d = k" for k c d
    by (auto simp: State_name_def Direction_name_def State_constants_def Direction_constants_def split: if_splits)
  note lit = m' [unfolded tables_literal_def]
  have "ordered id (in_order id m)" using wf by (intro in_order_ordered) (simp_all add: tables_wf_def)
  then have "ordered State_name m'" using names(1) by (rule literal_ordered [OF lit])
  moreover have "ds' \<noteq> [] \<and> ordered Direction_name ds' \<and> (\<forall>(d, ps) \<in> set ds'. ps \<noteq> [] \<and> ordered key ps)"
    if e: "(s, ds') \<in> set m'" for s ds'
  proof -
    obtain S ds where ds: "(S, ds) \<in> set m" "?dirs ds = Some ds'" by (rule literal_entry [OF lit e]) simp
    have w: "ds \<noteq> []" "distinct (map fst ds)" "\<forall>(D, ps) \<in> set ds. ps \<noteq> [] \<and> distinct (map fst ps)"
      using wf ds(1) unfolding tables_wf_def by blast+
    have "ordered Direction_name ds'"
      using in_order_ordered [OF w(2) inj_on_id] names(2) by (rule literal_ordered [OF ds(2)])
    moreover have "ds' \<noteq> []" using literal_shape [OF ds(2)] w(1) by auto
    moreover have "ps' \<noteq> [] \<and> ordered key ps'" if e: "(d, ps') \<in> set ds'" for d ps'
    proof -
      obtain D ps where "(D, ps) \<in> set ds" "ps' = in_order key ps" by (rule literal_entry [OF ds(2) e]) simp
      then show ?thesis using w(3) in_order_ordered [OF _ \<open>inj key\<close>, of ps] by auto
    qed
    ultimately show ?thesis by blast
  qed
  ultimately show ?thesis unfolding literal_form_def by blast
qed

text \<open>A literal in this form is determined by what is found in it.\<close>

lemma ordered_unique_at:
  fixes m m' :: "('k \<times> 'x list) list"
  assumes "ordered key m" "ordered key m'" "\<forall>(k, xs) \<in> set m \<union> set m'. xs \<noteq> []" "\<And>k. map_at m k = map_at m' k"
  shows "m = m'"
proof -
  have "map_of n k = (if map_at n k = [] then None else Some (map_at n k))" if "\<forall>(k, xs) \<in> set n. xs \<noteq> []" for n :: "('k \<times> 'x list) list" and k
    using that by (auto simp: map_at_def split: option.split dest: map_of_SomeD)
  from this [of m] this [of m'] have "map_of m k = map_of m' k" for k using assms(3,4) by (simp add: ball_Un)
  then show ?thesis using ordered_unique [OF assms(1,2)] by blast
qed

lemma literal_form_at:
  "literal_form key m \<Longrightarrow> ordered Direction_name (map_at m s) \<and> (\<forall>(d, ps) \<in> set (map_at m s). ps \<noteq> [] \<and> ordered key ps)"
  using map_at_cases [of m s] by (auto simp: literal_form_def ordered_def)

lemma literal_form_unique:
  assumes "literal_form key m" "literal_form key m'"
    and "\<And>s d. map_of (map_at (map_at m s) d) = map_of (map_at (map_at m' s) d)"
  shows "m = m'"
proof (rule ordered_unique_at)
  show "ordered State_name m" "ordered State_name m'" "\<forall>(s, ds) \<in> set m \<union> set m'. ds \<noteq> []"
    using assms(1,2) by (auto simp: literal_form_def)
  show "map_at m s = map_at m' s" for s
  proof (rule ordered_unique_at)
    note at = literal_form_at [OF assms(1), of s] literal_form_at [OF assms(2), of s]
    then show "ordered Direction_name (map_at m s)" "ordered Direction_name (map_at m' s)"
        "\<forall>(d, ps) \<in> set (map_at m s) \<union> set (map_at m' s). ps \<noteq> []" by auto
    show "map_at (map_at m s) d = map_at (map_at m' s) d" for d
    proof (rule ordered_unique)
      have "ordered key []" by (simp add: ordered_def)
      then show "ordered key (map_at (map_at m s) d)" "ordered key (map_at (map_at m' s) d)"
        using at map_at_cases [of "map_at m s" d] map_at_cases [of "map_at m' s" d] by auto
    qed (rule assms(3))
  qed
qed

section \<open>A generated definition\<close>

definition describes_uniquely :: "orders \<Rightarrow> (string \<rightharpoonup> mcState) \<Rightarrow> bool" where
  "describes_uniquely ord states \<longleftrightarrow>
     (\<forall>(s, name) \<in> set state_names. \<forall>d. distinct (map fst (described_ids ord states name d)) \<and>
        distinct (map snd (described_ids ord states name d)))"

lemma run_ids_tables:
  assumes "orders_ok ord" "describes_uniquely ord states" "(s, name) \<in> set state_names"
  shows "map_of (rev (run_ids ord states name d)) = map_of (described_ids ord states name d)"
    and "map_of (rev (map prod.swap (run_ids ord states name d))) = map_of (map prod.swap (described_ids ord states name d))"
proof -
  let ?r = "run_ids ord states name d" and ?e = "described_ids ord states name d"
  have m: "mset ?r = mset ?e" by (rule run_ids_order [OF assms(1)])
  have dist: "distinct (map fst ?e)" "distinct (map snd ?e)"
    using assms(2,3) by (auto simp: describes_uniquely_def)
  have "mset (map fst ?r) = mset (map fst ?e)" "mset (map snd ?r) = mset (map snd ?e)" using m by simp_all
  then have "distinct (map fst ?r)" "distinct (map snd ?r)"
    using dist mset_eq_imp_distinct_iff by blast+
  moreover have "map fst (map prod.swap xs) = map snd xs" for xs :: "(string \<times> int32) list" by simp
  ultimately show "map_of (rev ?r) = map_of ?e" "map_of (rev (map prod.swap ?r)) = map_of (map prod.swap ?e)"
    using dist mset_eq_setD [OF m] by (simp_all add: map_of_inject_set rev_map [symmetric] del: map_map)
qed

lemma version_definition:
  assumes "orders_ok ord" "title_ok title"
  shows "\<exists>D. registry_definition (processVersion title ord v n states) = Some D \<and> ProtocolVersion D = n \<and>
     (\<forall>s d name. (s, name) \<in> set state_names \<longrightarrow>
        lookup_id D s d = map_of (rev (run_ids ord states name d)) \<and>
        lookup_name D s d = map_of (rev (map prod.swap (run_ids ord states name d)))) \<and>
     (\<forall>s d. s \<notin> fst ` set state_names \<longrightarrow> lookup_id D s d = Map.empty \<and> lookup_name D s d = Map.empty) \<and>
     literal_form id (PacketIDs D) \<and> literal_form sint (PacketNames D)"
proof -
  let ?vi = "processVersion title ord v n states"
  note at = processVersion_at [OF assms, of v n states]
  have wf: "tables_wf (vi_PacketIDs ?vi)" "tables_wf (vi_PacketNames ?vi)" using at(1) by (simp_all add: vi_wf_def)
  have ids: "entry_at (vi_PacketIDs ?vi) S D = described_at (run_ids ord states) S D" for S D
    using at(2) by (simp add: names_ids_at)
  have names: "entry_at (vi_PacketNames ?vi) S D = described_at (\<lambda>s d. map prod.swap (run_ids ord states s d)) S D" for S D
    using at(3) by (simp add: names_ids_at)
  obtain ids' where ids': "tables_literal (in_order id) (vi_PacketIDs ?vi) = Some ids'" "literal_of (vi_PacketIDs ?vi) ids'"
    using tables_literal_at [OF wf(1)] described_at_known unfolding ids by blast
  obtain names' where names': "tables_literal (in_order sint) (vi_PacketNames ?vi) = Some names'" "literal_of (vi_PacketNames ?vi) names'"
    using tables_literal_at [OF wf(2)] described_at_known unfolding names by blast
  let ?D = "\<lparr>ProtocolVersion = vi_ProtocolVersion ?vi, PacketNames = names', PacketIDs = ids'\<rparr>"
  have "registry_definition ?vi = Some ?D" using ids'(1) names'(1) by (simp add: registry_definition_def)
  moreover have "literal_form id ids'" "literal_form sint names'"
    using tables_literal_form [OF wf(1) ids'(1)] tables_literal_form [OF wf(2) names'(1)] inj_signed by simp_all
  moreover have "vi_ProtocolVersion ?vi = n" by (simp add: processVersion_numbers)
  moreover have "lookup_id ?D s d = map_of (rev (run_ids ord states name d)) \<and>
      lookup_name ?D s d = map_of (rev (map prod.swap (run_ids ord states name d)))"
    if "(s, name) \<in> set state_names" for s name d
    using place_constants [OF that, of d] ids'(2) names'(2)
    by (auto simp: literal_of_def lookup_id_def lookup_name_def ids names described_at_def)
  moreover have "lookup_id ?D s d = Map.empty \<and> lookup_name ?D s d = Map.empty" if "s \<notin> fst ` set state_names" for s d
    using that ids'(2) names'(2) state_constants_names
    by (simp add: literal_of_def lookup_id_def lookup_name_def fun_eq_iff)
  ultimately show ?thesis by (intro exI [of _ ?D]) simp
qed

end
