(* ===== verification/Recovered.thy ===== *)
theory Recovered
  imports Generated Version_Facts
begin

text \<open>
  Descriptions in the form of the files of \<open>minecraft-data\<close> that are recovered from the
  tables of \<open>generated_registry.go\<close>: the generator reads the tables back from them, and
  the template writes them out as they are in the repository.
\<close>

section \<open>Descriptions\<close>

text \<open>A description of the packets in the tables of a definition, in the form of the files of
  \<open>minecraft-data\<close>: for every state and direction a mapping from hexadecimal ids to names.\<close>

definition hex_digit :: "nat \<Rightarrow> char" where
  "hex_digit d = ''0123456789abcdef'' ! d"

fun hex_string :: "nat \<Rightarrow> string" where
  "hex_string n = (if n < 16 then [hex_digit n] else hex_string (n div 16) @ [hex_digit (n mod 16)])"

declare hex_string.simps [simp del]

lemma hex_digit_val: "list_all (\<lambda>d. hex_val (hex_digit d) = Some d) [0..<16]"
  by code_simp

lemma hex_string_digits:
  "\<exists>ds. list_all2 (\<lambda>c d. hex_val c = Some d) (hex_string n) ds \<and> foldl (\<lambda>acc d. acc * 16 + d) 0 ds = n"
proof (induction n rule: hex_string.induct)
  case (1 n)
  have val: "hex_val (hex_digit d) = Some d" if "d < 16" for d
    using hex_digit_val that by (simp add: list_all_iff del: upt_rec_numeral)
  show ?case
  proof (cases "n < 16")
    case True
    then show ?thesis using val by (intro exI [of _ "[n]"]) (simp add: hex_string.simps [of n])
  next
    case False
    with 1 obtain ds where "list_all2 (\<lambda>c d. hex_val c = Some d) (hex_string (n div 16)) ds"
        "foldl (\<lambda>acc d. acc * 16 + d) 0 ds = n div 16" by blast
    then show ?thesis using False val [of "n mod 16"]
      by (intro exI [of _ "ds @ [n mod 16]"]) (simp add: hex_string.simps [of n] list_all2_appendI)
  qed
qed

lemma hex_string_read: "n < 2 ^ 31 \<Longrightarrow> ParseInt_16_32 (hex_string n) = int n"
proof -
  assume n: "n < 2 ^ 31"
  obtain ds where ds: "list_all2 (\<lambda>c d. hex_val c = Some d) (hex_string n) ds" "foldl (\<lambda>acc d. acc * 16 + d) 0 ds = n"
    using hex_string_digits by blast
  have "hex_string n \<noteq> []" by (simp add: hex_string.simps [of n])
  from ParseInt_hex [OF ds(1) this] show ?thesis using n ds(2) by simp
qed

definition described_packets :: "(string \<times> int32) list \<Rightarrow> (string \<times> string) list" where
  "described_packets ps = map (\<lambda>(n, i). (hex_string (unat i), mc_name n)) ps"

definition description :: "(string \<times> int32) list \<Rightarrow> (string \<times> json) list" where
  "description ps =
     [(''packet'', JArr [JStr ''container'', JArr [JObj
        [(''name'', JStr ''name''),
         (''type'', JArr [JStr ''mapper'', JObj
           [(''type'', JStr ''varint''),
            (''mappings'', JObj (map (\<lambda>(k, n). (''0x'' @ k, JStr n)) (described_packets ps)))]])]]])]"

lemma add_mappings_distinct: "distinct (map fst al) \<Longrightarrow> distinct (map fst (add_mappings ms al))"
  by (induction ms al rule: add_mappings.induct) (auto simp: distinct_update split: json.split)

lemma distinct_map_fst: "distinct (map fst xs) \<Longrightarrow> distinct xs"
  by (simp add: distinct_map)

text \<open>What the generator reads from it: the ids under the names of \<open>minecraft-data\<close>, which
  resolve to the names of the tables.\<close>

lemma description_read:
  assumes "orders_ok ord" "distinct (map (\<lambda>(n, i). mc_name n) ps)" "\<forall>(n, i) \<in> set ps. unat i < 2 ^ 31"
  shows "mset (preParsePacketIDs ord (Some (description ps))) = mset (map (\<lambda>(n, i). (mc_name n, i)) ps)"
proof -
  obtain ns where ns: "mset ns = mset (described_packets ps)" and
    ids: "preParsePacketIDs ord (Some (description ps)) = add_mappings (map (\<lambda>(k, n). (''0x'' @ k, JStr n)) ns) []"
    using preParsePacketIDs_order [of ord "[]" "description ps" "JStr ''container''" _ "[]" "[]" "described_packets ps"] assms(1)
    by (force simp: description_def field_mappings_def)
  let ?g = "\<lambda>(k, n). (n, word_of_int (ParseInt_16_32 k) :: int32)" and ?qs = "map (\<lambda>(n, i). (mc_name n, i)) ps"
  have "map ?g (described_packets ps) = ?qs"
    using assms(3) by (auto simp: described_packets_def hex_string_read)
  moreover have "mset (map ?g ns) = mset (map ?g (described_packets ps))" using ns by simp
  ultimately have m: "mset (rev (map ?g ns)) = mset ?qs" by simp
  have "map fst ?qs = map (\<lambda>(n, i). mc_name n) ps" by auto
  then have d: "distinct (map fst ?qs)" using assms(2) by (simp only:)
  moreover have "mset (map fst (rev (map ?g ns))) = mset (map fst ?qs)"
    using arg_cong [OF m, of "image_mset fst"] by (simp only: mset_map)
  ultimately have d': "distinct (map fst (rev (map ?g ns)))" using mset_eq_imp_distinct_iff by blast
  have "map_of (add_mappings (map (\<lambda>(k, n). (''0x'' @ k, JStr n)) ns) []) = map_of (rev (map ?g ns))"
    using add_mappings_map [of ns "[]"] by simp
  also have "\<dots> = map_of ?qs" using d d' mset_eq_setD [OF m] by (simp add: map_of_inject_set)
  finally have s: "set (add_mappings (map (\<lambda>(k, n). (''0x'' @ k, JStr n)) ns) []) = set ?qs"
    using map_of_inject_set [OF add_mappings_distinct d] by simp
  have "distinct (map fst (add_mappings (map (\<lambda>(k, n). (''0x'' @ k, JStr n)) ns) []))"
    by (rule add_mappings_distinct) simp
  from set_eq_iff_mset_eq_distinct [OF distinct_map_fst [OF this] distinct_map_fst [OF d]] s show ?thesis
    unfolding ids by blast
qed

definition recovered_state :: "Definition \<Rightarrow> State \<Rightarrow> mcState" where
  "recovered_state D s =
     \<lparr>ToServer = Some (description (map_at (map_at (PacketIDs D) s) DirectionServerbound)),
      ToClient = Some (description (map_at (map_at (PacketIDs D) s) DirectionClientbound))\<rparr>"

definition recovered_states :: "Definition \<Rightarrow> string \<rightharpoonup> mcState" where
  "recovered_states D name = map_option (recovered_state D) (map_of (map prod.swap state_names) name)"

text \<open>What the tables of the repository have in common: the form of a literal, the five states,
  small ids and a protocol number.\<close>

definition literal_form_code :: "('k \<Rightarrow> 'o::linorder) \<Rightarrow> (State \<times> (Direction \<times> ('k \<times> 'v) list) list) list \<Rightarrow> bool" where
  "literal_form_code key m \<longleftrightarrow> successively (<) (map (\<lambda>e. State_name (fst e)) m) \<and>
     list_all (\<lambda>(s, ds). ds \<noteq> [] \<and> successively (<) (map (\<lambda>e. Direction_name (fst e)) ds) \<and>
       list_all (\<lambda>(d, ps). ps \<noteq> [] \<and> successively (<) (map (\<lambda>e. key (fst e)) ps)) ds) m"

lemma literal_form_code: "literal_form_code key m \<longleftrightarrow> literal_form key m"
  unfolding literal_form_code_def literal_form_def ordered_code list_all_iff ..

definition generated_form :: "Definition \<Rightarrow> bool" where
  "generated_form D \<longleftrightarrow> literal_form_code id (PacketIDs D) \<and> literal_form_code sint (PacketNames D) \<and>
     list_all (\<lambda>(s, ds). s \<in> fst ` set state_names \<and> list_all (\<lambda>(d, ps). list_all (\<lambda>(n, i). uint i < 2 ^ 31) ps) ds)
       (PacketIDs D) \<and> ProtocolVersion D \<noteq> 0"

lemma generated_form_1:
  "list_all (\<lambda>(v, D). generated_form D) [
    (V1_7, def_V1_7), (V1_8, def_V1_8), (V1_9, def_V1_9), (V1_9_2, def_V1_9_2),
    (V1_9_4, def_V1_9_4), (V1_10, def_V1_10), (V1_11, def_V1_11), (V1_12, def_V1_12),
    (V1_12_1, def_V1_12_1), (V1_12_2, def_V1_12_2), (V1_13, def_V1_13), (V1_13_1, def_V1_13_1),
    (V1_13_2, def_V1_13_2), (V1_14, def_V1_14)]"
  by code_simp

lemma generated_form_2:
  "list_all (\<lambda>(v, D). generated_form D) [
    (V1_14_1, def_V1_14_1), (V1_14_3, def_V1_14_3), (V1_14_4, def_V1_14_4), (V1_15, def_V1_15),
    (V1_15_1, def_V1_15_1), (V1_15_2, def_V1_15_2),
    (V1_16, def_V1_16), (V1_16_1, def_V1_16_1), (V1_16_2, def_V1_16_2), (V1_17, def_V1_17),
    (V1_17_1, def_V1_17_1), (V1_18, def_V1_18), (V1_18_2, def_V1_18_2)]"
  by code_simp

lemma generated_form_3:
  "list_all (\<lambda>(v, D). generated_form D) [
    (V1_19, def_V1_19), (V1_19_2, def_V1_19_2), (V1_19_3, def_V1_19_3), (V1_19_4, def_V1_19_4),
    (V1_20, def_V1_20), (V1_20_2, def_V1_20_2), (V1_20_3, def_V1_20_3), (V1_20_5, def_V1_20_5)]"
  by code_simp

lemma generated_form_4:
  "list_all (\<lambda>(v, D). generated_form D) [
    (V1_21_1, def_V1_21_1), (V1_21_3, def_V1_21_3), (V1_21_4, def_V1_21_4), (V1_21_5, def_V1_21_5),
    (V1_21_6, def_V1_21_6), (V1_21_8, def_V1_21_8), (V1_21_9, def_V1_21_9), (V1_21_11, def_V1_21_11)]"
  by code_simp

lemma generated_form_registry: "list_all (\<lambda>(v, D). generated_form D) initialRegistry"
  using generated_form_1 generated_form_2 generated_form_3 generated_form_4
  by (simp only: initialRegistry_def list.pred_inject simp_thms)

lemma generated_form: "D \<in> Definitions \<Longrightarrow> generated_form D"
  using generated_form_registry by (auto simp: Definitions_def list_all_iff)

lemma Definitions_form:
  assumes "D \<in> Definitions"
  shows "literal_form id (PacketIDs D)" "literal_form sint (PacketNames D)"
    and "s \<notin> fst ` set state_names \<Longrightarrow> map_at (PacketIDs D) s = []"
    and "(n, i) \<in> set (map_at (map_at (PacketIDs D) s) d) \<Longrightarrow> unat i < 2 ^ 31"
    and "ProtocolVersion D \<noteq> 0"
proof -
  note form = generated_form [OF assms, unfolded generated_form_def literal_form_code]
  then show "literal_form id (PacketIDs D)" "literal_form sint (PacketNames D)" "ProtocolVersion D \<noteq> 0" by blast+
  show "map_at (PacketIDs D) s = []" if "s \<notin> fst ` set state_names"
    using that form map_at_cases [of "PacketIDs D" s] by (fastforce simp: list_all_iff)
  assume "(n, i) \<in> set (map_at (map_at (PacketIDs D) s) d)"
  then obtain ps where ps: "(d, ps) \<in> set (map_at (PacketIDs D) s)" "(n, i) \<in> set ps" using in_map_at by fast
  then obtain ds where "(s, ds) \<in> set (PacketIDs D)" "(d, ps) \<in> set ds" using in_map_at by fast
  then have "uint i < 2 ^ 31" using form ps(2) by (fastforce simp: list_all_iff)
  then have "int (unat i) < int (2 ^ 31)" by (simp only: of_nat_unat) simp
  then show "unat i < 2 ^ 31" by (simp only: of_nat_less_iff)
qed

section \<open>Reading the descriptions\<close>

text \<open>The packets of a direction of a definition.\<close>

abbreviation packets_at :: "Definition \<Rightarrow> State \<Rightarrow> Direction \<Rightarrow> (string \<times> int32) list" where
  "packets_at D s d \<equiv> map_at (map_at (PacketIDs D) s) d"

lemma lookup_id_packets: "lookup_id D s d = map_of (packets_at D s d)"
  by (simp add: lookup_id_def fun_eq_iff)

lemma packets_at_distinct:
  assumes "D \<in> Definitions"
  shows "distinct (map fst (packets_at D s d))" "distinct (map snd (packets_at D s d))"
proof -
  have "ordered id (packets_at D s d)"
    using literal_form_at [OF Definitions_form(1) [OF assms], of s] map_at_cases [of "map_at (PacketIDs D) s" d]
    by (auto simp: ordered_def)
  then show dist: "distinct (map fst (packets_at D s d))" by (rule ordered_distinct)
  have "n = m \<and> i = j" if "(n, i) \<in> set (packets_at D s d)" "(m, j) \<in> set (packets_at D s d)" "i = j" for n m i j
  proof -
    have "lookup_id D s d n = Some i" "lookup_id D s d m = Some i" using that dist by (simp_all add: lookup_id_def)
    then show ?thesis using tables.id_inject [OF assms] that(3) by blast
  qed
  then have "inj_on snd (set (packets_at D s d))" by (fastforce simp: inj_on_def)
  then show "distinct (map snd (packets_at D s d))" using dist by (simp add: distinct_map)
qed

lemma packets_at_name:
  assumes "D \<in> Definitions" "(s, st) \<in> set state_names" "(n, i) \<in> set (packets_at D s d)"
  shows "packet_name (mc_name n) st (direction_name d) = Some n"
proof -
  have "lookup_id D s d n = Some i"
    using packets_at_distinct(1) [OF assms(1)] assms(3) by (simp add: lookup_id_def)
  then have "lookup_name D s d i = Some n" by (rule tables.name_of_id [OF assms(1)])
  then obtain ss where "map_of (places d) n = Some ss" "s \<in> set ss" using name_place [OF assms(1)] by blast
  moreover have "map_of state_names s = Some st" using place_constants [OF assms(2)] by blast
  ultimately show ?thesis using mc_name_resolves [OF map_of_SomeD] by fastforce
qed

lemma resolved_packets:
  "\<forall>(n, i) \<in> set ps. packet_name (mc_name n) st dir = Some n \<Longrightarrow> resolved st dir (map (\<lambda>(n, i). (mc_name n, i)) ps) = ps"
  by (induction ps) auto

lemma recovered_ids:
  assumes "orders_ok ord" "D \<in> Definitions" "(s, st) \<in> set state_names"
  shows "mset (described_ids ord (recovered_states D) st d) = mset (packets_at D s d)"
proof -
  let ?ps = "packets_at D s d"
  have "map_of (map prod.swap state_names) st = Some s" using assms(3) by (auto simp: state_names_def)
  then have "described_ids ord (recovered_states D) st d =
      resolved st (direction_name d) (preParsePacketIDs ord (Some (description ?ps)))"
    by (simp add: described_ids_def recovered_states_def recovered_state_def)
  moreover have names: "\<forall>(n, i) \<in> set ?ps. packet_name (mc_name n) st (direction_name d) = Some n"
    using packets_at_name [OF assms(2,3)] by blast
  have "p = q" if "p \<in> set ?ps" "q \<in> set ?ps" "mc_name (fst p) = mc_name (fst q)" for p q
  proof -
    have "fst p = fst q" using bspec [OF names that(1)] bspec [OF names that(2)] that(3) by (simp add: case_prod_beta)
    then show ?thesis
      using eq_key_imp_eq_value [OF packets_at_distinct(1) [OF assms(2)], of "fst p" "snd p" s d "snd q"] that(1,2)
      by (cases p, cases q) simp
  qed
  then have "inj_on (\<lambda>(n, i). mc_name n) (set ?ps)" by (simp add: inj_on_def case_prod_beta)
  then have "distinct (map (\<lambda>(n, i). mc_name n) ?ps)"
    using packets_at_distinct(1) [OF assms(2), of s d] by (simp add: distinct_map)
  from description_read [OF assms(1) this]
  have "mset (preParsePacketIDs ord (Some (description ?ps))) = mset (map (\<lambda>(n, i). (mc_name n, i)) ?ps)"
    using Definitions_form(4) [OF assms(2)] by blast
  ultimately show ?thesis
    using mset_resolved [of "preParsePacketIDs ord (Some (description ?ps))"] resolved_packets [OF names] by metis
qed

lemma recovered_unique:
  assumes "orders_ok ord" "D \<in> Definitions"
  shows "describes_uniquely ord (recovered_states D)"
proof -
  have "distinct (map fst (described_ids ord (recovered_states D) st d)) \<and>
      distinct (map snd (described_ids ord (recovered_states D) st d))" if "(s, st) \<in> set state_names" for s st d
  proof -
    have m: "mset (described_ids ord (recovered_states D) st d) = mset (packets_at D s d)"
      by (rule recovered_ids [OF assms that])
    then have "mset (map fst (described_ids ord (recovered_states D) st d)) = mset (map fst (packets_at D s d))"
        "mset (map snd (described_ids ord (recovered_states D) st d)) = mset (map snd (packets_at D s d))" by simp_all
    from mset_eq_imp_distinct_iff [OF this(1)] mset_eq_imp_distinct_iff [OF this(2)]
    show ?thesis using packets_at_distinct [OF assms(2)] by simp
  qed
  then show ?thesis unfolding describes_uniquely_def by blast
qed

text \<open>Tables, description, tables: every definition of the repository comes back.\<close>

lemma definition_regenerated:
  assumes "orders_ok ord" "title_ok title" "D \<in> Definitions"
  shows "registry_definition (processVersion title ord v (ProtocolVersion D) (recovered_states D)) = Some D"
proof -
  obtain D' where D': "registry_definition (processVersion title ord v (ProtocolVersion D) (recovered_states D)) = Some D'"
      "ProtocolVersion D' = ProtocolVersion D" "literal_form id (PacketIDs D')" "literal_form sint (PacketNames D')"
    and at: "\<forall>s d st. (s, st) \<in> set state_names \<longrightarrow>
        lookup_id D' s d = map_of (rev (run_ids ord (recovered_states D) st d)) \<and>
        lookup_name D' s d = map_of (rev (map prod.swap (run_ids ord (recovered_states D) st d)))"
    and off: "\<forall>s d. s \<notin> fst ` set state_names \<longrightarrow> lookup_id D' s d = Map.empty \<and> lookup_name D' s d = Map.empty"
    using version_definition [OF assms(1,2), of v "ProtocolVersion D" "recovered_states D"] by blast
  have same: "lookup_id D' s d = lookup_id D s d \<and> lookup_name D' s d = lookup_name D s d" for s d
  proof (cases "s \<in> fst ` set state_names")
    case True
    then obtain st where st: "(s, st) \<in> set state_names" by auto
    let ?e = "described_ids ord (recovered_states D) st d"
    note dist = packets_at_distinct [OF assms(3), of s d]
    have set: "set ?e = set (packets_at D s d)" by (rule mset_eq_setD [OF recovered_ids [OF assms(1,3) st]])
    have e: "distinct (map fst ?e)" "distinct (map snd ?e)"
      using recovered_unique [OF assms(1,3)] st by (auto simp: describes_uniquely_def)
    have l: "lookup_id D' s d = map_of ?e" "lookup_name D' s d = map_of (map prod.swap ?e)"
      using at st run_ids_tables [OF assms(1) recovered_unique [OF assms(1,3)] st] by simp_all
    have ids: "lookup_id D' s d = lookup_id D s d"
      using set map_of_inject_set [OF e(1) dist(1)] unfolding l by (simp add: lookup_id_packets)
    have "distinct (map fst (map prod.swap ?e))" using e(2) by (simp add: comp_def)
    then have "lookup_name D' s d i = Some n \<longleftrightarrow> lookup_id D' s d n = Some i" for i n
      unfolding l map_of_eq_Some_iff [OF e(1)] by (subst map_of_eq_Some_iff) force+
    then have "lookup_name D' s d i = Some n \<longleftrightarrow> lookup_name D s d i = Some n" for i n
      unfolding ids using tables.id_iff_name [OF assms(3)] by blast
    then have "lookup_name D' s d = lookup_name D s d" by (metis (no_types) ext not_Some_eq)
    with ids show ?thesis by blast
  next
    case False
    then have "lookup_id D s d = Map.empty"
      using Definitions_form(3) [OF assms(3)] by (simp add: lookup_id_def fun_eq_iff)
    moreover from this have "lookup_name D s d i = None" for i
      using tables.id_iff_name [OF assms(3)] by (metis option.exhaust option.discI)
    ultimately show ?thesis using off False by auto
  qed
  have "PacketIDs D' = PacketIDs D"
    by (rule literal_form_unique [OF D'(3) Definitions_form(1) [OF assms(3)]])
      (use same in \<open>simp add: lookup_id_def fun_eq_iff\<close>)
  moreover have "PacketNames D' = PacketNames D"
    by (rule literal_form_unique [OF D'(4) Definitions_form(2) [OF assms(3)]])
      (use same in \<open>simp add: lookup_name_def fun_eq_iff\<close>)
  ultimately show ?thesis using D'(1,2) by simp
qed

section \<open>All versions\<close>

definition recovered_dir :: "Version \<times> Definition \<Rightarrow> string \<times> bool \<times> (string \<rightharpoonup> mcState) option" where
  "recovered_dir e = (Version_String (fst e), True, Some (recovered_states (snd e)))"

definition recovered_version :: "Version \<times> Definition \<Rightarrow> string \<times> int32" where
  "recovered_version e = (Version_String (fst e), ProtocolVersion (snd e))"

definition recovered_info :: "(string \<Rightarrow> string) \<Rightarrow> orders \<Rightarrow> Version \<times> Definition \<Rightarrow> versionInfo" where
  "recovered_info title ord e =
     processVersion title ord (Version_String (fst e)) (ProtocolVersion (snd e)) (recovered_states (snd e))"

lemma registry_strings: "map (\<lambda>e. Version_String (fst e)) initialRegistry = map fst stringToVersion"
proof -
  have "map Version_String (map int [0..<43]) = map fst stringToVersion" by code_simp
  then show ?thesis unfolding registry_complete [symmetric] by (simp add: comp_def)
qed

lemma releases: "list_all releaseVersionRegex (map fst stringToVersion)"
  by code_simp

lemma protocol_versions_distinct:
  "distinct (map fst nums) \<Longrightarrow> distinct (map fst (fst (protocol_versions vs (nums, latest))))"
  by (induction vs "(nums, latest)" arbitrary: nums latest rule: protocol_versions.induct)
    (auto simp: Let_def distinct_update split: prod.splits)

lemma recovered_number:
  assumes "orders_ok ord" "e \<in> set initialRegistry"
  shows "findBestProtoNum (Version_String (fst e)) (ord_ids ord (fst (loadProtocolVersions (map recovered_version initialRegistry)))) =
    ProtocolVersion (snd e)"
proof -
  let ?vs = "map recovered_version initialRegistry"
  obtain nums latest n where r: "protocol_versions ?vs ([], '''', 0) = (nums, latest, n)" by (metis prod_cases3)
  have nums: "fst (loadProtocolVersions ?vs) = nums" using r by (simp add: loadProtocolVersions_def)
  have dist: "distinct (map fst nums)"
    using protocol_versions_distinct [of "[]" ?vs "('''', 0)"] r by simp
  have m: "mset (ord_ids ord nums) = mset nums" using assms(1) by (simp add: orders_ok_def)
  then have "mset (map fst (ord_ids ord nums)) = mset (map fst nums)" by simp
  with dist have "distinct (map fst (ord_ids ord nums))" using mset_eq_imp_distinct_iff by blast
  then have "map_of (ord_ids ord nums) = map_of nums"
    using dist mset_eq_setD [OF m] by (simp add: map_of_inject_set)
  also have "\<dots> = map_of (rev ?vs)" using protocol_versions_result [OF r] by simp
  finally have look: "map_of (ord_ids ord nums) = map_of (rev ?vs)" .
  have "map fst ?vs = map fst stringToVersion"
    using registry_strings by (simp add: recovered_version_def comp_def)
  then have "distinct (map fst (rev ?vs))" using known_strings_distinct by (metis distinct_rev rev_map)
  moreover have "recovered_version e \<in> set (rev ?vs)" using assms(2) by simp
  ultimately have "map_of (rev ?vs) (Version_String (fst e)) = Some (ProtocolVersion (snd e))"
    unfolding recovered_version_def by (simp only: map_of_eq_Some_iff)
  with look show ?thesis unfolding nums findBestProtoNum_def by simp
qed

lemma recovered_parsed:
  assumes "orders_ok ord" "set registry \<subseteq> set initialRegistry"
  shows "loadAndParseProtocols title ord (map recovered_dir registry)
      (fst (loadProtocolVersions (map recovered_version initialRegistry))) latest = map (recovered_info title ord) registry"
  using assms(2)
proof (induction registry)
  case (Cons e registry)
  then have e: "e \<in> set initialRegistry" by simp
  then have "Version_String (fst e) \<in> set (map fst stringToVersion)" unfolding registry_strings [symmetric] by simp
  then have "releaseVersionRegex (Version_String (fst e))" using releases by (auto simp: list_all_iff)
  moreover have "ProtocolVersion (snd e) \<noteq> 0" using Definitions_form(5) e by (simp add: Definitions_def)
  ultimately show ?case using Cons recovered_number [OF assms(1) e]
    by (simp add: recovered_dir_def recovered_info_def Let_def)
qed simp

text \<open>A list that is sorted strictly is the only sorted one with its elements.\<close>

lemma sorted_only:
  assumes "sorted_wrt R ys" "sorted_wrt (\<lambda>a b. \<not> R b a) xs" "mset xs = mset ys"
  shows "xs = ys"
  using assms
proof (induction ys arbitrary: xs)
  case (Cons y ys)
  then obtain x xs' where xs: "xs = x # xs'" by (metis list.exhaust mset.simps(2) mset_zero_iff union_single_eq_member empty_not_add_mset)
  have "x = y"
  proof (rule ccontr)
    assume "x \<noteq> y"
    then have "x \<in> set ys" "y \<in> set xs'" using mset_eq_setD [OF Cons.prems(3)] xs by auto
    then show False using Cons.prems(1,2) xs by auto
  qed
  with Cons xs show ?case by simp
qed simp

text \<open>\<open>semver\<close> compares the known releases number by number.\<close>

definition semver_ok :: "(string \<Rightarrow> 'v option) \<Rightarrow> ('v \<Rightarrow> 'v \<Rightarrow> bool) \<Rightarrow> bool" where
  "semver_ok semver LessThan \<longleftrightarrow>
     (\<forall>(v, _) \<in> set stringToVersion. \<forall>(w, _) \<in> set stringToVersion. \<exists>x y. semver v = Some x \<and> semver w = Some y \<and>
        (LessThan x y \<longleftrightarrow> the (release_of v) < the (release_of w)))"

lemma recovered_sorted:
  assumes "semver_ok semver LessThan"
  shows "sorted_wrt (version_less semver LessThan) (map (recovered_info title ord) initialRegistry)"
proof -
  have "sorted_wrt (\<lambda>v w. the (release_of v) < the (release_of w)) (map fst stringToVersion)"
    using known_releases_sorted by (simp add: sorted_wrt_map case_prod_beta)
  then have "sorted_wrt (\<lambda>e f. the (release_of (Version_String (fst e))) < the (release_of (Version_String (fst f)))) initialRegistry"
    unfolding registry_strings [symmetric] by (simp add: sorted_wrt_map)
  moreover have "version_less semver LessThan (recovered_info title ord e) (recovered_info title ord f)"
    if m: "e \<in> set initialRegistry" "f \<in> set initialRegistry"
      and less: "the (release_of (Version_String (fst e))) < the (release_of (Version_String (fst f)))" for e f
  proof -
    have "Version_String (fst e) \<in> set (map fst stringToVersion)" "Version_String (fst f) \<in> set (map fst stringToVersion)"
      unfolding registry_strings [symmetric] using m by simp_all
    then obtain x y where "semver (Version_String (fst e)) = Some x" "semver (Version_String (fst f)) = Some y" "LessThan x y"
      using assms less unfolding semver_ok_def by fastforce
    then show ?thesis by (simp add: version_less_def recovered_info_def processVersion_numbers)
  qed
  ultimately show ?thesis unfolding sorted_wrt_map by (rule sorted_wrt_mono_rel [rotated])
qed

section \<open>The two files\<close>

text \<open>The constants of distinct names are numbered as the versions are ordered.\<close>

lemma version_constants_at:
  assumes "distinct (map vi_EnumName (td_Versions td))" "i < length (td_Versions td)"
  shows "map_of (version_constants td) (vi_EnumName (td_Versions td ! i)) = Some (int i)"
proof -
  let ?c = "version_constants td"
  have "map fst ?c = map vi_EnumName (td_Versions td)" by (simp add: version_constants_def)
  moreover have "(vi_EnumName (td_Versions td ! i), int i) \<in> set ?c"
    using assms(2) by (auto simp: version_constants_def set_zip intro!: exI [of _ i])
  ultimately show ?thesis using assms(1) by (simp add: map_of_eq_Some_iff)
qed

lemma those_Some: "list_all2 (\<lambda>x y. f x = Some y) xs ys \<Longrightarrow> those (map f xs) = Some ys"
  by (induction rule: list_all2_induct) simp_all

lemma versions_file_numbers:
  assumes "distinct (map vi_EnumName vs)" "vs \<noteq> []"
    and "td = \<lparr>td_Versions = vs, td_LatestVersionEnum = vi_EnumName (last vs), td_FirstVersionEnum = vi_EnumName (hd vs)\<rparr>"
  shows "versions_file td = Some \<lparr>go_First = 0, go_Latest = int (length vs) - 1,
     go_stringToVersion = zip (map vi_VersionStr vs) (map int [0..<length vs])\<rparr>"
proof -
  have td: "td_Versions td = vs" using assms(3) by simp
  have at: "map_of (version_constants td) (vi_EnumName (vs ! i)) = Some (int i)" if "i < length vs" for i
    using version_constants_at [of td i] assms(1) that unfolding td by simp
  have "map fst (version_constants td) = map vi_EnumName vs" by (simp add: version_constants_def td)
  moreover have "those (map (\<lambda>vi. map_option (Pair (vi_VersionStr vi)) (map_of (version_constants td) (vi_EnumName vi))) vs) =
      Some (zip (map vi_VersionStr vs) (map int [0..<length vs]))"
    by (intro those_Some) (auto simp: list_all2_conv_all_nth at)
  moreover have "map_of (version_constants td) (td_FirstVersionEnum td) = Some 0"
    using at [of 0] assms(2,3) by (simp add: hd_conv_nth)
  moreover have "map_of (version_constants td) (td_LatestVersionEnum td) = Some (int (length vs) - 1)"
    using at [of "length vs - 1"] assms(2,3) by (simp add: last_conv_nth of_nat_diff Suc_le_eq)
  ultimately show ?thesis using assms(1) by (simp add: versions_file_def td)
qed

lemma registry_file_entries:
  "list_all2 (\<lambda>vi (v, def). consts (vi_EnumName vi) = Some v \<and> registry_definition vi = Some def) vis registry \<Longrightarrow>
     registry_file consts vis = Some registry"
  by (induction rule: list_all2_induct) auto

lemma enum_names_distinct:
  "distinct (map (\<lambda>s. CHR ''V'' # map (\<lambda>c. if c = CHR ''.'' then CHR ''_'' else c) s) (map fst stringToVersion))"
  by code_simp

text \<open>The files made of the versions recovered from the repository are those of the repository.\<close>

lemma recovered_files:
  assumes "orders_ok ord" "title_ok title"
    and "vs = map (recovered_info title ord) initialRegistry"
    and "td = \<lparr>td_Versions = vs, td_LatestVersionEnum = vi_EnumName (last vs), td_FirstVersionEnum = vi_EnumName (hd vs)\<rparr>"
  shows "generated_files td =
     Some (\<lparr>go_First = First, go_Latest = Latest, go_stringToVersion = stringToVersion\<rparr>, initialRegistry)"
proof -
  have len: "length initialRegistry = 43" using arg_cong [OF registry_complete, of length] by simp
  have strs: "map vi_VersionStr vs = map fst stringToVersion"
    using registry_strings by (simp add: assms(3) recovered_info_def processVersion_numbers comp_def)
  have "map vi_EnumName vs = map (\<lambda>s. CHR ''V'' # map (\<lambda>c. if c = CHR ''.'' then CHR ''_'' else c) s) (map fst stringToVersion)"
    unfolding registry_strings [symmetric] by (simp add: assms(3) recovered_info_def processVersion_numbers)
  with enum_names_distinct have dist: "distinct (map vi_EnumName vs)" by simp
  have ne: "vs \<noteq> []" "length vs = 43" using len assms(3) by auto
  have td: "td_Versions td = vs" using assms(4) by simp
  have "map snd stringToVersion = map int [0..<43]" unfolding known_versions by code_simp
  then have "zip (map vi_VersionStr vs) (map int [0..<length vs]) = stringToVersion"
    unfolding strs ne(2) by (metis zip_map_fst_snd)
  then have "versions_file td = Some \<lparr>go_First = First, go_Latest = Latest, go_stringToVersion = stringToVersion\<rparr>"
    using versions_file_numbers [OF dist ne(1) assms(4)] ne(2) by simp
  moreover have "registry_file (map_of (version_constants td)) vs = Some initialRegistry"
  proof (intro registry_file_entries list_all2_all_nthI)
    fix i assume "i < length vs"
    then have i: "i < length initialRegistry" by (simp add: assms(3))
    obtain v D where e: "initialRegistry ! i = (v, D)" by force
    have "v = map fst initialRegistry ! i" using i e by simp
    then have "v = int i" using i len unfolding registry_complete by simp
    moreover have "D \<in> Definitions" using nth_mem [OF i] e unfolding Definitions_def by force
    moreover have "vs ! i = recovered_info title ord (v, D)" using i e by (simp add: assms(3))
    ultimately show "case initialRegistry ! i of (v, def) \<Rightarrow>
        map_of (version_constants td) (vi_EnumName (vs ! i)) = Some v \<and> registry_definition (vs ! i) = Some def"
      using version_constants_at [of td i] dist i definition_regenerated [OF assms(1,2), of D "Version_String v"] e td
      by (simp add: recovered_info_def assms(3))
  qed (simp add: assms(3))
  ultimately show ?thesis by (simp add: generated_files_def td)
qed

end
