(* ===== verification/Generated_Props.thy ===== *)
theory Generated_Props
  imports Recovered
begin

text \<open>
  The properties of the files the generator writes: what the program looks up in a generated
  definition is what the description of the version says, and the two generated files in the
  repository are those that the generator makes.
\<close>

text \<open>C37. Whatever the descriptions of a version say, as long as no two packets of a direction
  get one name or one id, the definition the generator writes compiles, and
  the program finds in it exactly what they say: under a name its id and under an id its name,
  in the states and directions described and nowhere else, whatever the orders of iteration.\<close>

theorem generated_definition:
  assumes "orders_ok ord" "title_ok title" "describes_uniquely ord states"
  shows "\<exists>def. registry_definition (processVersion title ord v n states) = Some def \<and> ProtocolVersion def = n \<and>
     (\<forall>s d name i. (lookup_id def s d name = Some i \<longleftrightarrow>
          (\<exists>st. (s, st) \<in> set state_names \<and> (name, i) \<in> set (described_ids ord states st d))) \<and>
        (lookup_name def s d i = Some name \<longleftrightarrow> lookup_id def s d name = Some i))"
proof -
  obtain def where def: "registry_definition (processVersion title ord v n states) = Some def" "ProtocolVersion def = n"
    and at: "\<And>s name d. (s, name) \<in> set state_names \<Longrightarrow>
           lookup_id def s d = map_of (rev (run_ids ord states name d)) \<and>
           lookup_name def s d = map_of (rev (map prod.swap (run_ids ord states name d)))"
    and off: "\<And>s d. s \<notin> fst ` set state_names \<Longrightarrow> lookup_id def s d = Map.empty \<and> lookup_name def s d = Map.empty"
    using version_definition [OF assms(1,2), of v n states] by blast
  have "(lookup_id def s d name = Some i \<longleftrightarrow>
          (\<exists>st. (s, st) \<in> set state_names \<and> (name, i) \<in> set (described_ids ord states st d))) \<and>
        (lookup_name def s d i = Some name \<longleftrightarrow> lookup_id def s d name = Some i)" for s d name i
  proof (cases "s \<in> fst ` set state_names")
    case True
    then obtain st where st: "(s, st) \<in> set state_names" by auto
    then have only: "st' = st" if "(s, st') \<in> set state_names" for st' using that by (auto simp: state_names_def)
    let ?e = "described_ids ord states st d"
    have l: "lookup_id def s d = map_of ?e" "lookup_name def s d = map_of (map prod.swap ?e)"
      using at [OF st] run_ids_tables [OF assms(1,3) st] by simp_all
    have "distinct (map fst ?e)" "distinct (map fst (map prod.swap ?e))"
      using assms(3) st by (auto simp: describes_uniquely_def comp_def)
    then have "lookup_id def s d name = Some i \<longleftrightarrow> (name, i) \<in> set ?e" "lookup_name def s d i = Some name \<longleftrightarrow> (name, i) \<in> set ?e"
      unfolding l by (simp_all only: map_of_eq_Some_iff) force
    then show ?thesis using st only by blast
  next
    case False
    then show ?thesis using off by force
  qed
  with def show ?thesis by blast
qed

definition title_word :: "string \<Rightarrow> string" where
  "title_word s =
     (case s of
        [] \<Rightarrow> []
      | c # t \<Rightarrow> (if 97 \<le> (of_char c :: nat) \<and> (of_char c :: nat) \<le> 122 then char_of (of_char c - 32 :: nat) # t else s))"

lemma title_word_ok: "title_ok title_word"
  by code_simp

lemma generated_definition_witness:
  "\<exists>def. registry_definition (processVersion title_word last_order ''1.8'' 47 (recovered_states def_V1_8)) = Some def \<and>
     lookup_id def StatePlay DirectionClientbound ''ClientboundJoinGame'' = Some 1 \<and>
     lookup_name def StatePlay DirectionClientbound 1 = Some ''ClientboundJoinGame''"
proof -
  have "(V1_8, def_V1_8) \<in> set initialRegistry" by (simp add: initialRegistry_def)
  then have D: "def_V1_8 \<in> Definitions" unfolding Definitions_def by force
  have st: "(StatePlay, ''play'') \<in> set state_names" by (simp add: state_names_def)
  have "list_ex (\<lambda>p. p = (''ClientboundJoinGame'', 1)) (packets_at def_V1_8 StatePlay DirectionClientbound)" by code_simp
  then have "(''ClientboundJoinGame'', 1) \<in> set (described_ids last_order (recovered_states def_V1_8) ''play'' DirectionClientbound)"
    using mset_eq_setD [OF recovered_ids [OF orders_ok_samples(2) D st, of DirectionClientbound]] by (simp add: list_ex_iff)
  with st generated_definition [OF orders_ok_samples(2) title_word_ok recovered_unique [OF orders_ok_samples(2) D], of "''1.8''" 47]
  show ?thesis by blast
qed

text \<open>C38. The two generated files in the repository are files the generator makes: from
  descriptions with the packets of their tables, in whatever order the directories come and
  the maps are visited, \<open>main\<close> generates exactly the version constants, the table of version
  strings and the 43 definitions of \<open>generated_versions.go\<close> and
  \<open>generated_registry.go\<close>, entry by entry.\<close>

theorem repository_generated:
  assumes "orders_ok ord" "title_ok title" "semver_ok semver LessThan"
    and "\<And>less xs. mset (sort_Slice less xs) = mset xs"
    and "\<And>xs. sorted_wrt (\<lambda>a b. \<not> version_less semver LessThan b a) (sort_Slice (version_less semver LessThan) xs)"
    and "mset registry = mset initialRegistry"
  shows "\<exists>td. generator_main title ord semver LessThan sort_Slice (map recovered_dir registry)
       (map recovered_version initialRegistry) = Inr td \<and>
     generated_files td =
       Some (\<lparr>go_First = First, go_Latest = Latest, go_stringToVersion = stringToVersion\<rparr>, initialRegistry)"
proof -
  let ?less = "version_less semver LessThan" and ?info = "recovered_info title ord"
  let ?loaded = "loadProtocolVersions (map recovered_version initialRegistry)"
  have "sort_Slice ?less (map ?info registry) = map ?info initialRegistry"
  proof (rule sorted_only)
    show "sorted_wrt ?less (map ?info initialRegistry)" by (rule recovered_sorted [OF assms(3)])
    show "sorted_wrt (\<lambda>a b. \<not> ?less b a) (sort_Slice ?less (map ?info registry))" by (rule assms(5))
    show "mset (sort_Slice ?less (map ?info registry)) = mset (map ?info initialRegistry)"
      using assms(4,6) by simp
  qed
  moreover have "loadAndParseProtocols title ord (map recovered_dir registry) (fst ?loaded) (snd ?loaded) = map ?info registry"
    using recovered_parsed [OF assms(1)] mset_eq_setD [OF assms(6)] by simp
  moreover have "registry \<noteq> []" using assms(6) by (auto simp: initialRegistry_def)
  ultimately show ?thesis
    using recovered_files [OF assms(1,2) refl refl] by (simp add: generator_main_def Let_def case_prod_beta)
qed

text \<open>A sorting function for the witness: releases first.\<close>

definition sort_releases :: "versionInfo list \<Rightarrow> versionInfo list" where
  "sort_releases xs =
     sort_key (\<lambda>vi. the (release_of (vi_VersionStr vi))) (filter (\<lambda>vi. release_of (vi_VersionStr vi) \<noteq> None) xs) @
     sort_key (\<lambda>vi. sint (vi_ProtocolVersion vi)) (filter (\<lambda>vi. release_of (vi_VersionStr vi) = None) xs)"

lemma sort_key_sorted_wrt:
  fixes f :: "'a \<Rightarrow> 'o::linorder"
  assumes "\<And>a b. a \<in> set xs \<Longrightarrow> b \<in> set xs \<Longrightarrow> f a \<le> f b \<Longrightarrow> R a b"
  shows "sorted_wrt R (sort_key f xs)"
proof -
  have "sorted_wrt (\<lambda>a b. f a \<le> f b) (sort_key f xs)" using sorted_sort_key [of f xs] by (simp add: sorted_wrt_map)
  then show ?thesis by (rule sorted_wrt_mono_rel [rotated]) (use assms in simp)
qed

lemma sort_releases_sorted: "sorted_wrt (\<lambda>a b. \<not> version_less release_of (<) b a) (sort_releases xs)"
  unfolding sort_releases_def sorted_wrt_append
  by (intro conjI sort_key_sorted_wrt ballI) (auto simp: version_less_def word_sless_alt not_less)

lemma repository_generated_witness:
  "\<exists>td. generator_main title_word last_order release_of (<) (\<lambda>_. sort_releases) (map recovered_dir (rev initialRegistry))
       (map recovered_version initialRegistry) = Inr td \<and>
     generated_files td =
       Some (\<lparr>go_First = First, go_Latest = Latest, go_stringToVersion = stringToVersion\<rparr>, initialRegistry)"
proof (rule repository_generated [OF orders_ok_samples(2) title_word_ok])
  have "release_of (fst e) = Some (the (release_of (fst e)))" if "e \<in> set stringToVersion" for e
    using known_releases that by (auto simp: list_all_iff split: option.splits)
  then show "semver_ok release_of (<)" unfolding semver_ok_def case_prod_beta by blast
  show "mset (sort_releases xs) = mset xs" for xs by (simp add: sort_releases_def)
qed (simp_all add: sort_releases_sorted)

end
