(* ===== verification/Command.thy ===== *)
theory Command
  imports Listener
begin

text \<open>
  \<open>cmd/main.go\<close>: the command line client.  Flags, signals and the terminal are inputs:
  the values of the three flags, the lines of the standard input, and the sequence of what the
  event loop's \<open>select\<close> chooses.  Lines that go to the log or the terminal are the output;
  \<open>log.Fatalf\<close> ends the process at once.
\<close>

section \<open>Logging in\<close>

datatype command = Fatal string | Crashed string | Running listener

definition command_version :: "(string \<times> Version) list \<Rightarrow> string \<Rightarrow> string + Version" where
  "command_version entries versionStr =
     (let (mcVersion, ok) = VersionFromString entries versionStr in
      if \<not> ok \<and> versionStr \<noteq> ''latest'' then Inl (''Unknown Minecraft version: '' @ versionStr)
      else Inr (if versionStr = ''latest'' then Latest else mcVersion))"

text \<open>\<open>NewClient\<close> never reports an error.\<close>

definition command_client :: "world \<Rightarrow> string \<Rightarrow> string \<Rightarrow> Version \<Rightarrow> Client" where
  "command_client W serverHost username mcVersion =
     NewClient [WithAddr W serverHost, WithVersion mcVersion, WithUsername username]"

text \<open>\<open>JoinAndListen\<close> with a buffer of 100 events; \<open>None\<close> when \<open>Join\<close> does not
  return.\<close>

definition command_listen :: "world \<Rightarrow> cstate \<Rightarrow> command option" where
  "command_listen W s =
     (case Join W s of
        None \<Rightarrow> None
      | Some (Panic m) \<Rightarrow> Some (Crashed m)
      | Some (Ret (Some e, _)) \<Rightarrow> Some (Fatal (''Failed to login: '' @ err_Error e))
      | Some (Ret (None, _)) \<Rightarrow> map_option Running (JoinAndListen W 100 (new_listener s)))"

definition command_login :: "world \<Rightarrow> cstate \<Rightarrow> command option" where
  "command_login W s =
     (case Connect W s of
        Panic m \<Rightarrow> Some (Crashed m)
      | Ret (Some e, _) \<Rightarrow> Some (Fatal (''Failed to connect to server: '' @ err_Error e))
      | Ret (None, s') \<Rightarrow> command_listen W s')"

definition command_start ::
  "world \<Rightarrow> (string \<times> Version) list \<Rightarrow> registry \<Rightarrow> string \<Rightarrow> string \<Rightarrow> string \<Rightarrow> command option" where
  "command_start W entries reg serverHost username versionStr =
     (case command_version entries versionStr of
        Inl m \<Rightarrow> Some (Fatal m)
      | Inr mcVersion \<Rightarrow> command_login W (reg, command_client W serverHost username mcVersion))"

section \<open>The console\<close>

text \<open>The goroutine that sends the lines typed.  A failure is logged and the next line is
  taken.\<close>

fun console :: "world \<Rightarrow> string list \<Rightarrow> cstate \<Rightarrow> (string list \<times> cstate) outcome" where
  "console W [] s = Ret ([], s)"
| "console W (line # lines) s =
     (if line = [] then console W lines s
      else obind (Chat W line s) (\<lambda>(err, s').
           obind (console W lines s') (\<lambda>(log, s'').
             Ret ((case err of Some e \<Rightarrow> [''Failed to send chat message: '' @ err_Error e] | None \<Rightarrow> []) @ log, s''))))"

section \<open>The event loop\<close>

text \<open>What a \<open>select\<close> chooses: an event, the closed channel, or the end of the context.\<close>

datatype choice = Received Event | Channel_Closed | Context_Done

text \<open>The output for one choice, and whether the loop is left.\<close>

fun command_event :: "choice \<Rightarrow> string option \<times> bool" where
  "command_event (Received (ReadyEvent name)) = (Some ''Client is ready!'', False)"
| "command_event (Received (DisconnectEvent reason)) = (Some (''Disconnected: '' @ reason), True)"
| "command_event (Received (ChatMessageEvent m c sender)) = (Some (''[Chat] '' @ m), False)"
| "command_event (Received (KeepAliveEvent i)) = (None, False)"
| "command_event Channel_Closed = (Some ''Event channel closed. Exiting.'', True)"
| "command_event Context_Done = (Some ''Context done. Exiting.'', True)"

text \<open>The output of the loop, and whether it has been left.\<close>

fun command_loop :: "choice list \<Rightarrow> string list \<times> bool" where
  "command_loop [] = ([], False)"
| "command_loop (ch # chs) =
     (let (line, done) = command_event ch;
          now = (case line of Some l \<Rightarrow> [l] | None \<Rightarrow> []) in
      if done then (now, True)
      else let (log, left) = command_loop chs in (now @ log, left))"

end
