(* ===== verification/Command_Props.thy ===== *)
theory Command_Props
  imports Command Listener_Props
begin

text \<open>
  The properties of the command line client, over those of the client and its listener.
\<close>

section \<open>Logging in\<close>






section \<open>The console\<close>

text \<open>On a connection in the play state whose writes succeed, the console sends every line
  that is not empty as one chat packet, in the order typed, and logs nothing.\<close>

theorem console_sends:
  assumes "conversing base StatePlay t inp e out s" "0 \<le> cl_version base" "cl_privateKey base = None"
  shows "\<exists>s'. console W lines s = Ret ([], s') \<and>
     conversing base StatePlay t inp e
       (out @ frames_for W base StatePlay t (map (chat_packet base) (filter (\<lambda>l. l \<noteq> []) lines))) s'"
  using assms(1)
proof (induction lines arbitrary: s out)
  case (Cons line lines)
  show ?case
  proof (cases "line = []")
    case False
    obtain s1 where s1: "Chat W line s = Ret (None, s1)"
        "conversing base StatePlay t inp e (out @ packet_frame (w_env W) (cl_version base) StatePlay t (chat_packet base line)) s1"
      using conversing_Chat [OF Cons.prems assms(2,3)] by blast
    with Cons.IH [OF s1(2)] False show ?thesis by auto
  qed (use Cons in simp)
qed simp

lemma console_sends_witness:
  "\<exists>s s'. console sample_server [''hello'', [], ''world''] s = Ret ([], s') \<and>
     conversing sample_client StatePlay 256 [7] EOF
       (frames_for sample_server sample_client StatePlay 256
          [chat_packet sample_client ''hello'', chat_packet sample_client ''world'']) s'"
proof -
  let ?c = "\<lparr>c_Conn = dialled [7], c_version = V1_21_4, c_state = StatePlay, c_compressionThreshold = 256, c_zlibReader = False\<rparr>"
  let ?s = "(protocolRegistry, sample_client\<lparr>cl_Conn := Some ?c\<rparr>)"
  have "conversing sample_client StatePlay 256 [7] EOF [] ?s"
    by (simp add: conversing_def rest_of_def) (simp add: dialled_def new_buffer_def)
  moreover have "cl_privateKey sample_client = None" by (simp add: sample_client_def default_client_def)
  ultimately obtain s' where "console sample_server [''hello'', [], ''world''] ?s = Ret ([], s')"
      "conversing sample_client StatePlay 256 [7] EOF ([] @ frames_for sample_server sample_client StatePlay 256
        (map (chat_packet sample_client) (filter (\<lambda>l. l \<noteq> []) [''hello'', [], ''world'']))) s'"
    using console_sends [of sample_client 256 "[7]" EOF "[]" ?s sample_server "[''hello'', [], ''world'']"] by auto
  moreover have "filter (\<lambda>l. l \<noteq> []) [''hello'', [], ''world''] = [''hello'', ''world'']" by simp
  ultimately show ?thesis by (intro exI [of _ ?s] exI [of _ s'] conjI) (simp_all only: list.map append_Nil)
qed

section \<open>The event loop\<close>

lemma received_prefix:
  assumes "reachable W (new_listener cs) s"
  shows "prefix (on_channel i (ls_received s)) (on_channel i (ls_sent s))"
proof (cases "i < length (ls_chans s)")
  case True
  with reachable_ok [OF assms] show ?thesis by (auto simp: channels_ok_def dest: events.in_order_prefix)
qed (use reachable_ok [OF assms] in \<open>auto simp: channels_ok_def\<close>)

lemma command_loop_output:
  "l \<in> set (fst (command_loop chs)) \<Longrightarrow> \<exists>ch \<in> set chs. fst (command_event ch) = Some l"
  by (induction chs) (auto simp: Let_def split: prod.splits if_splits option.splits)

text \<open>The command never prints a chat message, whatever the server sends: its event loop
  prints one for a chat event only, and none ever reaches it.\<close>

theorem command_prints_no_chat:
  assumes "reachable W (new_listener cs) s"
    and "\<forall>ev. Received ev \<in> set chs \<longrightarrow> (0, ev) \<in> set (ls_received s)"
  shows "\<forall>l \<in> set (fst (command_loop chs)). \<not> prefix ''[Chat] '' l"
proof
  fix l assume "l \<in> set (fst (command_loop chs))"
  then obtain ch where ch: "ch \<in> set chs" "fst (command_event ch) = Some l" using command_loop_output by blast
  have "no_chat ev" if "ch = Received ev" for ev
  proof -
    have "ev \<in> set (on_channel 0 (ls_received s))" using assms(2) ch(1) that by (force simp: on_channel_def)
    then have "ev \<in> set (on_channel 0 (ls_sent s))"
      using received_prefix [OF assms(1)] set_mono_prefix by blast
    then show ?thesis using reachable_quiet_chat [OF assms(1)] by (auto simp: on_channel_def quiet_chat_def)
  qed
  with ch(2) show "\<not> prefix ''[Chat] '' l"
    by (cases ch rule: command_event.cases) (auto simp: no_chat_def)
qed

lemma command_prints_no_chat_witness:
  "\<exists>s ev. reachable sample_server sample_listener s \<and> ls_received s = [(0, ReadyEvent ev)] \<and>
     (\<forall>l \<in> set (fst (command_loop [Received (ReadyEvent ev), Channel_Closed])). \<not> prefix ''[Chat] '' l)"
proof -
  obtain s name where s: "careful sample_server sample_listener s" "ls_panic s = None" "ls_chans s = [make_chan 1]"
      "ls_main s = Join_Ready 0 (ReadyEvent name)" "ls_received s = []"
    using sample_listening [of 1] by auto
  obtain s1 where s1: "main_step s = Some s1" "ls_panic s1 = None" "ls_main s1 = Outside" "ls_received s1 = []"
      "ls_chans s1 = [(make_chan 1)\<lparr>ch_buf := [ReadyEvent name]\<rparr>]"
    using s by (auto simp: main_step_def send_event_def chan_send_def)
  obtain s2 where s2: "receive 0 s1 = Some s2" "ls_received s2 = [(0, ReadyEvent name)]"
    using s1 by (auto simp: receive_def chan_recv_def)
  have "reachable sample_server sample_listener s2"
    by (rule reachable_step [OF reachable_step [OF careful_reachable [OF s(1)] step_main [OF s(2) s1(1)]]
        step_receive [OF s1(2,3) s2(1)]])
  then show ?thesis
    using command_prints_no_chat [of sample_server "(protocolRegistry, sample_client)" s2
        "[Received (ReadyEvent name), Channel_Closed]"] s2(2) unfolding sample_listener_def by auto
qed

end
