(* ===== verification/Spec2Isabelle.thy ===== *)
theory Spec2Isabelle
  imports Packet_Props Component_Props Registry_Props Conn_Props Client_Props Rejection Listener_Props Generated_Props Command_Props
begin

text \<open>
  A model of \<open>gophermc\<close>, a Minecraft client library in Go, and what makes it correct.

  \<^bold>\<open>The program.\<close>  \<open>protocol\<close> speaks the wire protocol of 43 versions of the game: primitive
  encodings (\<open>protocol.go\<close>), packets (\<open>packets.go\<close>), tables from packet ids to packets and
  back, per version, connection state and direction (\<open>registry.go\<close>, \<open>constructors.go\<close>,
  \<open>generated_registry.go\<close>, \<open>generated_versions.go\<close>), and connections that frame and
  compress packets (\<open>conn.go\<close>).  \<open>client.go\<close>, with \<open>options.go\<close> and
  \<open>events.go\<close>, is the client: it connects, asks for the status, logs in, goes through the
  configuration phase, chats, and listens in a goroutine that answers keep-alives and delivers
  events.  \<open>component\<close> decodes chat components.  \<open>generator/main.go\<close> makes the tables from
  the data of another project, and \<open>cmd/main.go\<close> is a small command over the client.

  \<^bold>\<open>The theories\<close>, in the order of their dependence:

  \<^item> \<open>Prelude\<close>, \<open>GoIO\<close>: machine words, strings as bytes, panics (\<open>outcome\<close>), errors,
    readers and writers that can fail, and the sequencing of writes with checked and unchecked
    errors (\<open>wtry\<close>, \<open>wign\<close>).  The locale \<open>codec\<close> is the contract of an encoding that reads
    back.
  \<^item> \<open>Wire\<close>: \<open>protocol.go\<close>, each function as written, and its arithmetic specification.
    Every pair of a write and a read is an interpretation of \<open>codec\<close>.
  \<^item> \<open>Protocol\<close>, \<open>Offline\<close>, \<open>Sha\<close>: \<open>types.go\<close> with \<open>OfflineUUID\<close> over SHA-1;
    SHA-256 for signed chat.
  \<^item> \<open>Versions\<close>, \<open>Registry_Old\<close>, \<open>Registry_Data\<close>: the generated tables, literally.
  \<^item> \<open>Component\<close>, \<open>Component_Props\<close>: chat components; decoding what was encoded, and the
    text of a decoded document.
  \<^item> \<open>Packets\<close>, \<open>Packet_Facts\<close>, \<open>Packet_Props\<close>: every packet struct with \<open>Encode\<close> and
    \<open>Decode\<close>, the layouts by version, and round trips (locale \<open>struct_codec\<close>).
  \<^item> \<open>Registry\<close>, \<open>Registry_Facts\<close>, \<open>Version_Facts\<close>, \<open>Registry_Props\<close>: lookups with the
    cache that \<open>GetDefinition\<close> fills (a state passed along), the contract of the tables
    (locale \<open>packet_tables\<close>, discharged by evaluating all 43 definitions), and the parser of
    version strings.
  \<^item> \<open>Conn\<close>, \<open>Conn_Facts\<close>, \<open>Conn_Props\<close>: \<open>ReadPacket\<close> and \<open>WritePacket\<close>, the frames
    they read and write, resynchronisation after errors, and where they panic.
  \<^item> \<open>Client\<close>, \<open>Client_Facts\<close>, \<open>Client_Trace\<close>, \<open>Conversation\<close>, \<open>Client_Props\<close>,
    \<open>Rejection\<close>: the
    client's operations as commands on registry and client.  \<open>Client_Facts\<close> shows what one
    read or write does and that the loops end; \<open>Client_Trace\<close> sees a run as packets received
    and sent; \<open>Conversation\<close> runs the operations against a scripted server, and \<open>Rejection\<close> against
    one that refuses.
  \<^item> \<open>Listener\<close>, \<open>Traffic\<close>, \<open>Listener_Props\<close>: \<open>readLoop\<close>, \<open>JoinAndListen\<close>, \<open>Destroy\<close>
    and the event channels as a transition system of threads (\<open>step\<close>, \<open>reachable\<close>), with
    channels as a queue (locale \<open>event_queue\<close>), invariants by rule induction, and the
    schedules that block or panic.  \<open>Traffic\<close> follows the outgoing stream along a run.
  \<^item> \<open>Generator\<close>, \<open>Generator_Props\<close>: how tables and versions are made from the JSON data,
    independently of the order in which Go visits maps.
  \<^item> \<open>Templates\<close>, \<open>Generated\<close>, \<open>Recovered\<close>, \<open>Generated_Props\<close>: what the two templates make of
    the tables, as the declarations of the generated files.  \<open>Generated\<close> follows insertions and
    map literals (nested association lists, sorted where a template ranges over a map);
    \<open>Recovered\<close> describes the tables of the repository in the form of the data files and
    generates them anew.
  \<^item> \<open>Command\<close>, \<open>Command_Props\<close>: the command line client over all of this.

  \<^bold>\<open>Correspondence.\<close>  A definition has the name of the Go function or type it models (a method
  \<open>T.m\<close> is \<open>T_m\<close> where the bare name would clash), and follows it statement by statement.  A
  Go struct is a record, an interface with known implementations (\<open>Packet\<close>) a datatype.
  \<open>(T, error)\<close> is a pair where callers use both results and a sum otherwise; a panic is
  \<open>Panic\<close> with its message; a nil pointer is \<open>None\<close>.  Package and receiver state is passed and
  returned.  Loops that the stream can keep going for ever are \<open>partial_function (option)\<close>
  (\<open>loop\<close>), and that they return whenever the stream ends is proved (\<open>Join_result\<close>); all
  other recursion terminates, \<open>ReadVarInt\<close> after at most five bytes as in the source.  Integers keep
  their width (\<open>int32\<close>, \<open>uint16\<close>, ...) except \<open>State\<close>, \<open>Version\<close> and Go's
  \<open>int\<close> (64 bits; nothing here comes near).  An iteration over a Go map takes the entries in an
  order that is an argument.

  \<^bold>\<open>Parameters.\<close>  Code outside the repository is an argument of the definitions: zlib, RSA signing,
  \<open>uuid.Parse\<close>, the clock and the random salt (\<open>env\<close>); the dialler, name resolution and the
  time a ping takes (\<open>world\<close>); title-casing, \<open>semver\<close>, sorting and the data files of the
  generator.  The only law assumed of any of them in the theorems about connections is that
  zlib decompresses what it compressed (\<open>zlib_lawful\<close>); \<open>stored_zlib\<close> is an instance.  The
  generator's theorems assume that the orders of iteration are permutations (\<open>orders_ok\<close>), that
  \<open>cases.Title\<close> capitalises the names of states and directions (\<open>title_ok\<close>), and, where the
  order of the releases matters, that \<open>semver\<close> compares them number by number (\<open>semver_ok\<close>) and
  \<open>sort.Slice\<close> returns a sorted permutation.

  \<^bold>\<open>Bounds.\<close>  There is no fuel.  A frame is written with a signed 32-bit length: theorems that read a
  frame back ask for payloads below \<open>2 ^ 31\<close> bytes (\<open>frame_sized\<close>).  Strings and byte slices
  that are read back are below the two megabytes the source allows (\<open>sized\<close>).

  \<^bold>\<open>Not modelled.\<close>  Running out of memory; contexts and deadlines except as the cancellation of the read loop; the mutexes of a
  connection, since one packet is one step here; interleavings of \<open>Join\<close> with an older read
  loop or with \<open>Chat\<close>; debug output and logs other than those of the
  command; the layout of the generated text and the file access of the generator.
\<close>

end
